(* ===== verification/Prelude.thy ===== *)
theory Prelude
  imports Main "HOL-Library.Word"
begin

text \<open>
  Shared vocabulary of the development.

  \<^item> Effects. A Rust function that may return \<^verbatim>\<open>Err\<close>, panic or fail to return is a
    state transformer \<open>prog\<close> whose result is an \<open>outcome\<close>. \<open>match_result\<close> is a \<^verbatim>\<open>match\<close> on a
    \<^verbatim>\<open>Result\<close>, \<open>and_then\<close> is the \<^verbatim>\<open>?\<close> operator, \<open>map_err\<close> is \<^verbatim>\<open>Result::map_err\<close>.
    A panic and a loop that ran out of fuel pass through every \<^verbatim>\<open>match\<close>.
  \<^item> Strings and byte buffers. \<open>string\<close> is a list of 8-bit characters, so it stands both for
    \<^verbatim>\<open>&str\<close> (UTF-8 bytes) and for \<^verbatim>\<open>[u8]\<close>; a \<^verbatim>\<open>CStr\<close> is its content without the NUL.
  \<^item> Proof support: \<open>preserves\<close> (an invariant survives every outcome) and
    \<open>returns_with\<close> (what holds when the result is \<^verbatim>\<open>Ok\<close>), with one rule per
    combinator in the collections \<open>preserves_intros\<close> and \<open>prog_simps\<close>.
\<close>

named_theorems preserves_intros \<open>an invariant is preserved by a combinator\<close>
named_theorems prog_simps \<open>unfolding of the program combinators\<close>

section \<open>Outcomes and programs\<close>

datatype ('a, 'e) outcome = Ok 'a | Err 'e | Panic string | Diverges

type_synonym ('s, 'a, 'e) prog = "'s \<Rightarrow> ('a, 'e) outcome \<times> 's"

definition ok :: "'a \<Rightarrow> ('s, 'a, 'e) prog" where
  [prog_simps]: "ok x = (\<lambda>s. (Ok x, s))"

definition fail :: "'e \<Rightarrow> ('s, 'a, 'e) prog" where
  [prog_simps]: "fail e = (\<lambda>s. (Err e, s))"

definition panic :: "string \<Rightarrow> ('s, 'a, 'e) prog" where
  [prog_simps]: "panic msg = (\<lambda>s. (Panic msg, s))"

definition diverge :: "('s, 'a, 'e) prog" where
  [prog_simps]: "diverge = (\<lambda>s. (Diverges, s))"

definition of_outcome :: "('a, 'e) outcome \<Rightarrow> ('s, 'a, 'e) prog" where
  [prog_simps]: "of_outcome r = (\<lambda>s. (r, s))"

definition gets :: "('s \<Rightarrow> 'a) \<Rightarrow> ('s, 'a, 'e) prog" where
  [prog_simps]: "gets f = (\<lambda>s. (Ok (f s), s))"

definition modify :: "('s \<Rightarrow> 's) \<Rightarrow> ('s, unit, 'e) prog" where
  [prog_simps]: "modify f = (\<lambda>s. (Ok (), f s))"

definition match_result ::
  "('s, 'a, 'e) prog \<Rightarrow> ('a \<Rightarrow> ('s, 'b, 'f) prog) \<Rightarrow> ('e \<Rightarrow> ('s, 'b, 'f) prog) \<Rightarrow> ('s, 'b, 'f) prog"
where
  "match_result m f g = (\<lambda>s. case m s of (r, s') \<Rightarrow>
     (case r of Ok x \<Rightarrow> f x s' | Err e \<Rightarrow> g e s' | Panic p \<Rightarrow> (Panic p, s') | Diverges \<Rightarrow> (Diverges, s')))"

definition and_then ::
  "('s, 'a, 'e) prog \<Rightarrow> ('a \<Rightarrow> ('s, 'b, 'e) prog) \<Rightarrow> ('s, 'b, 'e) prog"
where
  "and_then m f = match_result m f fail"

definition map_err :: "('e \<Rightarrow> 'f) \<Rightarrow> ('s, 'a, 'e) prog \<Rightarrow> ('s, 'a, 'f) prog" where
  "map_err g m = match_result m ok (\<lambda>e. fail (g e))"

text \<open>\<^verbatim>\<open>Result::expect\<close> and \<^verbatim>\<open>Result::unwrap\<close>: an error becomes a panic.\<close>

definition expect :: "string \<Rightarrow> ('s, 'a, 'e) prog \<Rightarrow> ('s, 'a, 'f) prog" where
  "expect msg m = match_result m ok (\<lambda>_. panic msg)"

definition when_do :: "bool \<Rightarrow> ('s, unit, 'e) prog \<Rightarrow> ('s, unit, 'e) prog" where
  [prog_simps]: "when_do b m = (if b then m else ok ())"

text \<open>\<^verbatim>\<open>Drop\<close> at the end of a scope: the cleanup runs on every way out but divergence.\<close>

definition finally_do :: "('s, 'a, 'e) prog \<Rightarrow> ('s \<Rightarrow> 's) \<Rightarrow> ('s, 'a, 'e) prog" where
  "finally_do m cleanup = (\<lambda>s. case m s of (r, s') \<Rightarrow> (r, if r = Diverges then s' else cleanup s'))"

text \<open>A program over one component of a pair of states.\<close>

definition on_snd :: "('w, 'a, 'e) prog \<Rightarrow> ('x \<times> 'w, 'a, 'e) prog" where
  "on_snd m = (\<lambda>(x, w). case m w of (r, w') \<Rightarrow> (r, (x, w')))"

fun for_each :: "('x \<Rightarrow> ('s, unit, 'e) prog) \<Rightarrow> 'x list \<Rightarrow> ('s, unit, 'e) prog" where
  "for_each f [] = ok ()"
| "for_each f (x # xs) = and_then (f x) (\<lambda>_. for_each f xs)"

subsection \<open>Symbolic execution\<close>

lemma match_result_Ok [prog_simps]: "m s = (Ok x, s') \<Longrightarrow> match_result m f g s = f x s'"
  by (simp add: match_result_def)

lemma match_result_Err [prog_simps]: "m s = (Err e, s') \<Longrightarrow> match_result m f g s = g e s'"
  by (simp add: match_result_def)

lemma match_result_Panic [prog_simps]:
  "m s = (Panic p, s') \<Longrightarrow> match_result m f g s = (Panic p, s')"
  by (simp add: match_result_def)

lemma match_result_Diverges [prog_simps]:
  "m s = (Diverges, s') \<Longrightarrow> match_result m f g s = (Diverges, s')"
  by (simp add: match_result_def)

lemma and_then_Ok [prog_simps]: "m s = (Ok x, s') \<Longrightarrow> and_then m f s = f x s'"
  by (simp add: and_then_def match_result_def)

lemma and_then_Err [prog_simps]: "m s = (Err e, s') \<Longrightarrow> and_then m f s = (Err e, s')"
  by (simp add: and_then_def match_result_def fail_def)

lemma and_then_Panic [prog_simps]: "m s = (Panic p, s') \<Longrightarrow> and_then m f s = (Panic p, s')"
  by (simp add: and_then_def match_result_def)

lemma and_then_Diverges [prog_simps]: "m s = (Diverges, s') \<Longrightarrow> and_then m f s = (Diverges, s')"
  by (simp add: and_then_def match_result_def)

lemma map_err_Ok [prog_simps]: "m s = (Ok x, s') \<Longrightarrow> map_err g m s = (Ok x, s')"
  by (simp add: map_err_def match_result_def ok_def)

lemma map_err_Err [prog_simps]: "m s = (Err e, s') \<Longrightarrow> map_err g m s = (Err (g e), s')"
  by (simp add: map_err_def match_result_def fail_def)

lemma map_err_Panic [prog_simps]: "m s = (Panic p, s') \<Longrightarrow> map_err g m s = (Panic p, s')"
  by (simp add: map_err_def match_result_def)

lemma map_err_Diverges [prog_simps]: "m s = (Diverges, s') \<Longrightarrow> map_err g m s = (Diverges, s')"
  by (simp add: map_err_def match_result_def)

lemma expect_Ok [prog_simps]: "m s = (Ok x, s') \<Longrightarrow> expect msg m s = (Ok x, s')"
  by (simp add: expect_def match_result_def ok_def)

lemma expect_Err [prog_simps]: "m s = (Err e, s') \<Longrightarrow> expect msg m s = (Panic msg, s')"
  by (simp add: expect_def match_result_def panic_def)

text \<open>The laws of the combinators on programs whose result is known.\<close>

lemma match_result_known [simp]:
  "match_result (ok x) f g = f x" "match_result (fail e) f g = g e"
  "match_result (panic p) f g = panic p" "match_result diverge f g = diverge"
  "match_result (of_outcome (Ok x)) f g = f x" "match_result (of_outcome (Err e)) f g = g e"
  "match_result (of_outcome (Panic p)) f g = panic p" "match_result (of_outcome Diverges) f g = diverge"
  by (simp_all add: fun_eq_iff match_result_def prog_simps)

lemma and_then_known [simp]:
  "and_then (ok x) h = h x" "and_then (fail e) h = fail e" "and_then (panic p) h = panic p"
  "and_then diverge h = diverge"
  "and_then (of_outcome (Ok x)) h = h x" "and_then (of_outcome (Err e)) h = fail e"
  "and_then (of_outcome (Panic p)) h = panic p" "and_then (of_outcome Diverges) h = diverge"
  by (simp_all add: and_then_def)

lemma and_then_assoc: "and_then (and_then m f) h = and_then m (\<lambda>x. and_then (f x) h)"
  by (auto simp: fun_eq_iff and_then_def match_result_def fail_def split: prod.splits outcome.splits)

lemma and_then_cong_run:
  "(\<And>x s'. m s = (Ok x, s') \<Longrightarrow> f x s' = f' x s') \<Longrightarrow> and_then m f s = and_then m f' s"
  by (auto simp: and_then_def match_result_def split: prod.splits outcome.splits)

subsection \<open>Inversion: how a program can have returned \<^verbatim>\<open>Ok\<close>\<close>

lemma and_then_eq_Ok_iff:
  "and_then m f s = (Ok y, t) \<longleftrightarrow> (\<exists>x s'. m s = (Ok x, s') \<and> f x s' = (Ok y, t))"
  by (auto simp: and_then_def match_result_def fail_def split: prod.splits outcome.splits)

lemma and_then_OkE:
  assumes "and_then m f s = (Ok y, t)"
  obtains x s' where "m s = (Ok x, s')" and "f x s' = (Ok y, t)"
  using assms by (auto simp: and_then_eq_Ok_iff)

lemma and_then_eq_Err_iff:
  "and_then m f s = (Err e, t) \<longleftrightarrow>
     m s = (Err e, t) \<or> (\<exists>x s'. m s = (Ok x, s') \<and> f x s' = (Err e, t))"
  by (auto simp: and_then_def match_result_def fail_def split: prod.splits outcome.splits)

lemma map_err_eq_Err_iff: "map_err g m s = (Err e, t) \<longleftrightarrow> (\<exists>e'. m s = (Err e', t) \<and> e = g e')"
  by (auto simp: map_err_def match_result_def ok_def fail_def split: prod.splits outcome.splits)

lemma map_err_eq_Ok_iff [simp]: "map_err g m s = (Ok y, t) \<longleftrightarrow> m s = (Ok y, t)"
  by (auto simp: map_err_def match_result_def ok_def fail_def split: prod.splits outcome.splits)

lemma expect_eq_Ok_iff [simp]: "expect msg m s = (Ok y, t) \<longleftrightarrow> m s = (Ok y, t)"
  by (auto simp: expect_def match_result_def ok_def panic_def split: prod.splits outcome.splits)

lemma match_result_eq_Ok_iff:
  "match_result m f g s = (Ok y, t) \<longleftrightarrow>
     (\<exists>x s'. m s = (Ok x, s') \<and> f x s' = (Ok y, t)) \<or> (\<exists>e s'. m s = (Err e, s') \<and> g e s' = (Ok y, t))"
  by (auto simp: match_result_def split: prod.splits outcome.splits)

lemma ok_eq_iff [simp]: "ok x s = (r, t) \<longleftrightarrow> r = Ok x \<and> t = s"
  by (auto simp: ok_def)

lemma fail_eq_iff [simp]: "fail e s = (r, t) \<longleftrightarrow> r = Err e \<and> t = s"
  by (auto simp: fail_def)

lemma panic_eq_iff [simp]: "panic p s = (r, t) \<longleftrightarrow> r = Panic p \<and> t = s"
  by (auto simp: panic_def)

lemma diverge_eq_iff [simp]: "diverge s = (r, t) \<longleftrightarrow> r = Diverges \<and> t = s"
  by (auto simp: diverge_def)

lemma of_outcome_eq_iff [simp]: "of_outcome r s = (r', t) \<longleftrightarrow> r' = r \<and> t = s"
  by (auto simp: of_outcome_def)

lemma gets_eq_iff [simp]: "gets f s = (r, t) \<longleftrightarrow> r = Ok (f s) \<and> t = s"
  by (auto simp: gets_def)

lemma modify_eq_iff [simp]: "modify f s = (r, t) \<longleftrightarrow> r = Ok () \<and> t = f s"
  by (auto simp: modify_def)

lemma on_snd_eq_iff: "on_snd m (x, w) = (r, t) \<longleftrightarrow> (\<exists>w'. m w = (r, w') \<and> t = (x, w'))"
  by (auto simp: on_snd_def split: prod.splits)

lemma finally_do_eq_Ok_iff:
  "finally_do m c s = (Ok y, t) \<longleftrightarrow> (\<exists>s'. m s = (Ok y, s') \<and> t = c s')"
  by (auto simp: finally_do_def split: prod.splits)

subsection \<open>Invariants\<close>

text \<open>
  \<open>preserves I m\<close>: whatever \<open>m\<close> returns, a state satisfying \<open>I\<close> still satisfies it.
  \<open>returns_with P m Q\<close>: from a state satisfying \<open>P\<close>, if \<open>m\<close> returns \<^verbatim>\<open>Ok x\<close> in a
  state \<open>t\<close> then \<open>Q x t\<close>. Totality is stated separately where it matters.
\<close>

definition preserves :: "('s \<Rightarrow> bool) \<Rightarrow> ('s, 'a, 'e) prog \<Rightarrow> bool" where
  "preserves I m \<longleftrightarrow> (\<forall>s. I s \<longrightarrow> I (snd (m s)))"

definition returns_with ::
  "('s \<Rightarrow> bool) \<Rightarrow> ('s, 'a, 'e) prog \<Rightarrow> ('a \<Rightarrow> 's \<Rightarrow> bool) \<Rightarrow> bool"
where
  "returns_with P m Q \<longleftrightarrow> (\<forall>s x t. P s \<longrightarrow> m s = (Ok x, t) \<longrightarrow> Q x t)"

lemma preservesD: "preserves I m \<Longrightarrow> I s \<Longrightarrow> m s = (r, t) \<Longrightarrow> I t"
  by (metis preserves_def snd_conv)

lemma preservesI: "(\<And>s r t. I s \<Longrightarrow> m s = (r, t) \<Longrightarrow> I t) \<Longrightarrow> preserves I m"
  by (metis preserves_def prod.collapse)

lemma preserves_ok [preserves_intros]: "preserves I (ok x)"
  by (simp add: preserves_def ok_def)

lemma preserves_fail [preserves_intros]: "preserves I (fail e)"
  by (simp add: preserves_def fail_def)

lemma preserves_panic [preserves_intros]: "preserves I (panic p)"
  by (simp add: preserves_def panic_def)

lemma preserves_diverge [preserves_intros]: "preserves I diverge"
  by (simp add: preserves_def diverge_def)

lemma preserves_of_outcome [preserves_intros]: "preserves I (of_outcome r)"
  by (simp add: preserves_def of_outcome_def)

lemma preserves_gets [preserves_intros]: "preserves I (gets f)"
  by (simp add: preserves_def gets_def)

lemma preserves_modify: "(\<And>s. I s \<Longrightarrow> I (f s)) \<Longrightarrow> preserves I (modify f)"
  by (simp add: preserves_def modify_def)

lemma preserves_match_result [preserves_intros]:
  assumes m: "preserves I m" and f: "\<And>x. preserves I (f x)" and g: "\<And>e. preserves I (g e)"
  shows "preserves I (match_result m f g)"
proof (rule preservesI)
  fix s r t assume s: "I s" and run: "match_result m f g s = (r, t)"
  obtain r1 s1 where m1: "m s = (r1, s1)" by fastforce
  from m s m1 have s1: "I s1" by (rule preservesD)
  show "I t"
    using run m1 s1 preservesD [OF f s1] preservesD [OF g s1]
    by (cases r1) (auto simp: match_result_def)
qed

lemma preserves_and_then [preserves_intros]:
  "preserves I m \<Longrightarrow> (\<And>x. preserves I (f x)) \<Longrightarrow> preserves I (and_then m f)"
  unfolding and_then_def by (intro preserves_intros)

lemma preserves_map_err [preserves_intros]: "preserves I m \<Longrightarrow> preserves I (map_err g m)"
  unfolding map_err_def by (intro preserves_intros)

lemma preserves_expect [preserves_intros]: "preserves I m \<Longrightarrow> preserves I (expect msg m)"
  unfolding expect_def by (intro preserves_intros)

lemma preserves_when_do [preserves_intros]: "preserves I m \<Longrightarrow> preserves I (when_do b m)"
  by (simp add: when_do_def preserves_ok)

lemma preserves_if [preserves_intros]:
  "preserves I m \<Longrightarrow> preserves I m' \<Longrightarrow> preserves I (if b then m else m')"
  by simp

lemma preserves_finally_do [preserves_intros]:
  assumes "preserves I m" and "\<And>s. I s \<Longrightarrow> I (c s)"
  shows "preserves I (finally_do m c)"
  using assms by (auto simp: preserves_def finally_do_def split: prod.splits)

lemma preserves_for_each [preserves_intros]:
  "(\<And>x. preserves I (f x)) \<Longrightarrow> preserves I (for_each f xs)"
  by (induction xs) (auto intro: preserves_intros)

lemma preserves_case_option:
  "preserves I m \<Longrightarrow> (\<And>x. preserves I (f x)) \<Longrightarrow> preserves I (case v of None \<Rightarrow> m | Some x \<Rightarrow> f x)"
  by (cases v) simp_all

text \<open>What a program that only touches the second component leaves of the first.\<close>

lemma preserves_on_snd: "preserves (\<lambda>s. P (fst s)) (on_snd m)"
  by (rule preservesI) (auto simp: on_snd_def split: prod.splits)

lemma preserves_on_snd_lift:
  "(\<And>x. preserves (\<lambda>w. I (x, w)) m) \<Longrightarrow> preserves I (on_snd m)"
  by (rule preservesI) (auto simp: on_snd_def split: prod.splits dest: preservesD)

lemma returns_withD: "returns_with P m Q \<Longrightarrow> P s \<Longrightarrow> m s = (Ok x, t) \<Longrightarrow> Q x t"
  by (simp add: returns_with_def)

lemma returns_withI: "(\<And>s x t. P s \<Longrightarrow> m s = (Ok x, t) \<Longrightarrow> Q x t) \<Longrightarrow> returns_with P m Q"
  by (simp add: returns_with_def)

lemma returns_with_and_then:
  "returns_with P m R \<Longrightarrow> (\<And>x. returns_with (R x) (f x) Q) \<Longrightarrow> returns_with P (and_then m f) Q"
  by (fastforce simp: returns_with_def and_then_eq_Ok_iff)

section \<open>Results without state\<close>

text \<open>\<^verbatim>\<open>?\<close> on a result that needs no state.\<close>

definition bind_outcome :: "('a, 'e) outcome \<Rightarrow> ('a \<Rightarrow> ('b, 'e) outcome) \<Rightarrow> ('b, 'e) outcome" where
  "bind_outcome r f = (case r of Ok x \<Rightarrow> f x | Err e \<Rightarrow> Err e | Panic p \<Rightarrow> Panic p | Diverges \<Rightarrow> Diverges)"

lemma bind_outcome_simps [simp]:
  "bind_outcome (Ok x) f = f x" "bind_outcome (Err e) f = Err e" "bind_outcome (Panic p) f = Panic p"
  "bind_outcome Diverges f = Diverges"
  by (simp_all add: bind_outcome_def)

lemma bind_outcome_eq_Ok_iff: "bind_outcome r f = Ok y \<longleftrightarrow> (\<exists>x. r = Ok x \<and> f x = Ok y)"
  by (cases r) simp_all

end
