(* ===== verification/Rust_Std.thy ===== *)
theory Rust_Std
  imports Prelude
begin

text \<open>
  The parts of the Rust standard library (and of the \<^verbatim>\<open>arrayvec\<close> and \<^verbatim>\<open>itertools\<close>
  containers) that the sources call, as executable functions: C strings, UTF-8 validation,
  integer parsing and printing, \<^verbatim>\<open>split_once\<close> and its kin, \<^verbatim>\<open>ArrayVec\<close> with its capacity
  panics, and slice binary search. A slice is a list; an index that Rust would check is
  checked here.
\<close>

section \<open>C strings\<close>

abbreviation NUL :: char where "NUL \<equiv> CHR 0x00"

text \<open>\<^verbatim>\<open>CStr::from_bytes_until_nul\<close>: the bytes before the first NUL, if there is one.\<close>

definition cstr_until_nul :: "string \<Rightarrow> string option" where
  "cstr_until_nul bs = (if NUL \<in> set bs then Some (takeWhile (\<lambda>c. c \<noteq> NUL) bs) else None)"

text \<open>\<^verbatim>\<open>CStr::from_bytes_with_nul\<close>: exactly one NUL, and it is the last byte.\<close>

definition cstr_with_nul :: "string \<Rightarrow> string option" where
  "cstr_with_nul bs =
     (if bs \<noteq> [] \<and> last bs = NUL \<and> NUL \<notin> set (butlast bs) then Some (butlast bs) else None)"

text \<open>\<^verbatim>\<open>CString::new\<close> refuses interior NULs.\<close>

definition cstring_new :: "string \<Rightarrow> string option" where
  "cstring_new bs = (if NUL \<in> set bs then None else Some bs)"

text \<open>A zero-initialised buffer of \<open>n\<close> bytes whose first bytes were overwritten by \<open>bs\<close>.\<close>

definition zero_padded :: "nat \<Rightarrow> string \<Rightarrow> string" where
  "zero_padded n bs = take n (bs @ replicate (n - length bs) NUL)"

lemma length_zero_padded [simp]: "length (zero_padded n bs) = n"
  by (simp add: zero_padded_def)

lemma cstr_until_nul_None_iff: "cstr_until_nul bs = None \<longleftrightarrow> NUL \<notin> set bs"
  by (simp add: cstr_until_nul_def)

lemma cstr_until_nul_no_nul: "cstr_until_nul bs = Some s \<Longrightarrow> NUL \<notin> set s"
  by (auto simp: cstr_until_nul_def split: if_splits dest: set_takeWhileD)

lemma cstr_until_nul_zero_padded:
  assumes "NUL \<notin> set bs" and "length bs < n"
  shows "cstr_until_nul (zero_padded n bs) = Some bs"
proof -
  from assms(2) have "zero_padded n bs = bs @ NUL # replicate (n - length bs - 1) NUL"
    by (simp add: zero_padded_def) (metis Suc_diff_1 Suc_diff_Suc diff_Suc_1 replicate_Suc zero_less_diff)
  moreover have "takeWhile (\<lambda>c. c \<noteq> NUL) (bs @ NUL # xs) = bs" for xs
    using assms(1) by (subst takeWhile_append2) auto
  ultimately show ?thesis by (simp add: cstr_until_nul_def)
qed

text \<open>A buffer filled to the brim has no terminator left.\<close>

lemma cstr_until_nul_full:
  assumes "NUL \<notin> set bs" and "n \<le> length bs"
  shows "cstr_until_nul (zero_padded n bs) = None"
  using assms by (auto simp: zero_padded_def cstr_until_nul_def dest: in_set_takeD)

lemma cstr_with_nul_snoc [simp]: "NUL \<notin> set s \<Longrightarrow> cstr_with_nul (s @ [NUL]) = Some s"
  by (simp add: cstr_with_nul_def)

lemma cstr_with_nul_SomeD: "cstr_with_nul bs = Some s \<Longrightarrow> bs = s @ [NUL] \<and> NUL \<notin> set s"
  by (auto simp: cstr_with_nul_def split: if_splits) (metis append_butlast_last_id)

section \<open>UTF-8 validation\<close>

definition utf8_cont :: "char \<Rightarrow> bool" where
  "utf8_cont c \<longleftrightarrow> (of_char c :: nat) div 64 = 2"

fun utf8_valid :: "string \<Rightarrow> bool" where
  "utf8_valid [] = True"
| "utf8_valid (c0 # cs) =
     (let b0 = (of_char c0 :: nat) in
      if b0 < 0x80 then utf8_valid cs
      else if b0 < 0xC2 then False
      else if b0 < 0xE0 then
        (case cs of c1 # cs' \<Rightarrow> utf8_cont c1 \<and> utf8_valid cs' | _ \<Rightarrow> False)
      else if b0 < 0xF0 then
        (case cs of c1 # c2 # cs' \<Rightarrow>
           utf8_cont c1 \<and> utf8_cont c2
           \<and> (b0 = 0xE0 \<longrightarrow> 0xA0 \<le> (of_char c1 :: nat))
           \<and> (b0 = 0xED \<longrightarrow> (of_char c1 :: nat) < 0xA0) \<and> utf8_valid cs' | _ \<Rightarrow> False)
      else if b0 < 0xF5 then
        (case cs of c1 # c2 # c3 # cs' \<Rightarrow>
           utf8_cont c1 \<and> utf8_cont c2 \<and> utf8_cont c3
           \<and> (b0 = 0xF0 \<longrightarrow> 0x90 \<le> (of_char c1 :: nat))
           \<and> (b0 = 0xF4 \<longrightarrow> (of_char c1 :: nat) < 0x90) \<and> utf8_valid cs' | _ \<Rightarrow> False)
      else False)"

definition ascii :: "string \<Rightarrow> bool" where
  "ascii s \<longleftrightarrow> (\<forall>c \<in> set s. (of_char c :: nat) < 0x80)"

lemma utf8_valid_ascii: "ascii s \<Longrightarrow> utf8_valid s"
  by (induction s) (auto simp: ascii_def Let_def)

section \<open>Decimal numbers\<close>

definition is_ascii_digit :: "char \<Rightarrow> bool" where
  "is_ascii_digit c \<longleftrightarrow> 48 \<le> (of_char c :: nat) \<and> (of_char c :: nat) \<le> 57"

definition digit_value :: "char \<Rightarrow> nat" where
  "digit_value c = (of_char c :: nat) - 48"

definition digit_char :: "nat \<Rightarrow> char" where
  "digit_char d = char_of (48 + d)"

fun show_nat :: "nat \<Rightarrow> string" where
  "show_nat n = (if n < 10 then [digit_char n] else show_nat (n div 10) @ [digit_char (n mod 10)])"

declare show_nat.simps [simp del]

definition show_int :: "int \<Rightarrow> string" where
  "show_int i = (if i < 0 then CHR ''-'' # show_nat (nat (- i)) else show_nat (nat i))"

text \<open>Digits accumulated with the overflow check of \<^verbatim>\<open>from_str_radix\<close>.\<close>

fun parse_digits :: "nat \<Rightarrow> nat \<Rightarrow> string \<Rightarrow> nat option" where
  "parse_digits mx acc [] = Some acc"
| "parse_digits mx acc (c # cs) =
     (if is_ascii_digit c \<and> acc * 10 + digit_value c \<le> mx
      then parse_digits mx (acc * 10 + digit_value c) cs else None)"

definition parse_unsigned :: "nat \<Rightarrow> string \<Rightarrow> nat option" where
  "parse_unsigned mx s =
     (let ds = (case s of c # cs \<Rightarrow> if c = CHR ''+'' then cs else s | [] \<Rightarrow> s)
      in if ds = [] then None else parse_digits mx 0 ds)"

definition parse_u32 :: "string \<Rightarrow> nat option" where "parse_u32 = parse_unsigned (2 ^ 32 - 1)"

definition parse_u64 :: "string \<Rightarrow> nat option" where "parse_u64 = parse_unsigned (2 ^ 64 - 1)"

definition parse_i32 :: "string \<Rightarrow> int option" where
  "parse_i32 s =
     (case s of
        c # cs \<Rightarrow>
          if c = CHR ''-'' then
            (if cs = [] then None else map_option (\<lambda>n. - int n) (parse_digits (2 ^ 31) 0 cs))
          else map_option int (parse_unsigned (2 ^ 31 - 1) s)
      | [] \<Rightarrow> None)"

lemma is_ascii_digit_digit_char [simp]: "d < 10 \<Longrightarrow> is_ascii_digit (digit_char d)"
  by (simp add: is_ascii_digit_def digit_char_def)

lemma digit_value_digit_char [simp]: "d < 10 \<Longrightarrow> digit_value (digit_char d) = d"
  by (simp add: digit_value_def digit_char_def)

lemma digit_not_sign: "is_ascii_digit c \<Longrightarrow> c \<noteq> CHR ''+'' \<and> c \<noteq> CHR ''-'' \<and> c \<noteq> CHR '' ''"
  by (auto simp: is_ascii_digit_def)

lemma show_nat_digits: "\<forall>c \<in> set (show_nat n). is_ascii_digit c"
proof (induction n rule: show_nat.induct)
  case (1 n)
  then show ?case by (subst show_nat.simps) auto
qed

lemma show_nat_nonempty [simp]: "show_nat n \<noteq> []"
  by (subst show_nat.simps) simp

lemma parse_digits_append:
  "parse_digits mx acc (xs @ ys) =
     (case parse_digits mx acc xs of None \<Rightarrow> None | Some a \<Rightarrow> parse_digits mx a ys)"
  by (induction xs arbitrary: acc) auto

lemma parse_digits_show_nat: "n \<le> mx \<Longrightarrow> parse_digits mx 0 (show_nat n) = Some n"
proof (induction n rule: show_nat.induct)
  case (1 n)
  show ?case
  proof (cases "n < 10")
    case True
    with "1.prems" show ?thesis by (subst show_nat.simps) simp
  next
    case False
    have "n div 10 \<le> mx" using "1.prems" by linarith
    with "1.IH" False have "parse_digits mx 0 (show_nat (n div 10)) = Some (n div 10)" by simp
    with False "1.prems" show ?thesis
      by (subst show_nat.simps) (simp add: parse_digits_append)
  qed
qed

lemma show_nat_head: "\<exists>c cs. show_nat n = c # cs \<and> is_ascii_digit c"
  using show_nat_digits [of n] by (cases "show_nat n") auto

lemma parse_unsigned_show_nat: "n \<le> mx \<Longrightarrow> parse_unsigned mx (show_nat n) = Some n"
  using show_nat_head [of n] parse_digits_show_nat [of n mx]
  by (auto simp: parse_unsigned_def dest: digit_not_sign)

lemma parse_i32_show_int:
  assumes "- (2 ^ 31) \<le> i" and "i < 2 ^ 31"
  shows "parse_i32 (show_int i) = Some i"
proof (cases "i < 0")
  case True
  with assms have "parse_digits (2 ^ 31) 0 (show_nat (nat (- i))) = Some (nat (- i))"
    by (intro parse_digits_show_nat) simp
  with True show ?thesis by (simp add: parse_i32_def show_int_def)
next
  case False
  obtain c cs where c: "show_nat (nat i) = c # cs" "is_ascii_digit c"
    using show_nat_head by blast
  from False assms have "parse_unsigned (2 ^ 31 - 1) (show_nat (nat i)) = Some (nat i)"
    by (intro parse_unsigned_show_nat) simp
  with c False show ?thesis by (simp add: parse_i32_def show_int_def digit_not_sign)
qed

lemma parse_digits_bound: "parse_digits mx acc s = Some n \<Longrightarrow> acc \<le> mx \<Longrightarrow> n \<le> mx"
  by (induction mx acc s rule: parse_digits.induct) (auto split: if_splits)

lemma parse_unsigned_bound: "parse_unsigned mx s = Some n \<Longrightarrow> n \<le> mx"
  by (auto simp: parse_unsigned_def Let_def split: if_splits intro: parse_digits_bound)

section \<open>Splitting\<close>

text \<open>\<^verbatim>\<open>str::split_once\<close> and \<^verbatim>\<open>str::rsplit_once\<close>: the first and the last occurrence of a pattern.\<close>

fun strip_prefix :: "string \<Rightarrow> string \<Rightarrow> string option" where
  "strip_prefix [] s = Some s"
| "strip_prefix (p # ps) [] = None"
| "strip_prefix (p # ps) (c # cs) = (if p = c then strip_prefix ps cs else None)"

fun split_once :: "string \<Rightarrow> string \<Rightarrow> (string \<times> string) option" where
  "split_once pat s =
     (case strip_prefix pat s of
        Some rest \<Rightarrow> Some ([], rest)
      | None \<Rightarrow> (case s of [] \<Rightarrow> None
          | c # cs \<Rightarrow> map_option (\<lambda>(l, r). (c # l, r)) (split_once pat cs)))"

fun rsplit_once :: "string \<Rightarrow> string \<Rightarrow> (string \<times> string) option" where
  "rsplit_once pat s =
     (case s of
        [] \<Rightarrow> map_option (\<lambda>r. ([], r)) (strip_prefix pat s)
      | c # cs \<Rightarrow>
          (case rsplit_once pat cs of
             Some (l, r) \<Rightarrow> Some (c # l, r)
           | None \<Rightarrow> map_option (\<lambda>r. ([], r)) (strip_prefix pat s)))"

declare split_once.simps [simp del] rsplit_once.simps [simp del]

text \<open>\<^verbatim>\<open>str::split_whitespace\<close> on text whose white space is ASCII.\<close>

definition is_space :: "char \<Rightarrow> bool" where
  "is_space c \<longleftrightarrow> c = CHR '' '' \<or> (9 \<le> (of_char c :: nat) \<and> (of_char c :: nat) \<le> 13)"

fun split_whitespace_acc :: "string \<Rightarrow> string \<Rightarrow> string list" where
  "split_whitespace_acc cur [] = (if cur = [] then [] else [rev cur])"
| "split_whitespace_acc cur (c # cs) =
     (if is_space c then (if cur = [] then split_whitespace_acc [] cs
                          else rev cur # split_whitespace_acc [] cs)
      else split_whitespace_acc (c # cur) cs)"

definition split_whitespace :: "string \<Rightarrow> string list" where
  "split_whitespace = split_whitespace_acc []"

definition starts_with :: "string \<Rightarrow> string \<Rightarrow> bool" where
  "starts_with pat s \<longleftrightarrow> strip_prefix pat s \<noteq> None"

definition contains_str :: "string \<Rightarrow> string \<Rightarrow> bool" where
  "contains_str pat s \<longleftrightarrow> split_once pat s \<noteq> None"

lemma strip_prefix_append [simp]: "strip_prefix p (p @ s) = Some s"
  by (induction p) auto

lemma strip_prefix_SomeD: "strip_prefix p s = Some r \<Longrightarrow> s = p @ r"
  by (induction p s rule: strip_prefix.induct) (auto split: if_splits)

lemma split_once_SomeD: "split_once pat s = Some (l, r) \<Longrightarrow> s = l @ pat @ r"
proof (induction s arbitrary: l)
  case Nil
  then show ?case by (subst (asm) split_once.simps) (auto split: option.splits dest: strip_prefix_SomeD)
next
  case (Cons c s)
  from Cons.prems show ?case
    by (subst (asm) split_once.simps) (auto split: option.splits dest: strip_prefix_SomeD Cons.IH)
qed

lemma rsplit_once_SomeD: "rsplit_once pat s = Some (l, r) \<Longrightarrow> s = l @ pat @ r"
proof (induction s arbitrary: l)
  case Nil
  then show ?case by (subst (asm) rsplit_once.simps) (auto split: option.splits dest: strip_prefix_SomeD)
next
  case (Cons c s)
  from Cons.prems show ?case
    by (subst (asm) rsplit_once.simps) (auto split: option.splits dest: strip_prefix_SomeD Cons.IH)
qed

text \<open>A text whose right part cannot contain the pattern is split exactly there.\<close>

lemma strip_prefix_None_hd: "s = [] \<or> hd s \<noteq> p \<Longrightarrow> strip_prefix (p # ps) s = None"
  by (cases s) auto

lemma rsplit_once_absent: "p \<notin> set s \<Longrightarrow> rsplit_once (p # ps) s = None"
  by (induction s) (subst rsplit_once.simps, auto)+

lemma rsplit_once_last:
  assumes "p \<notin> set ps" and "p \<notin> set r"
  shows "rsplit_once (p # ps) (l @ (p # ps) @ r) = Some (l, r)"
proof (induction l)
  case Nil
  have "rsplit_once (p # ps) (ps @ r) = None"
    using assms by (intro rsplit_once_absent) simp
  then show ?case by (subst rsplit_once.simps) simp
next
  case (Cons c l)
  then show ?case by (subst rsplit_once.simps) simp
qed

lemma split_once_first:
  assumes "p \<notin> set l"
  shows "split_once (p # ps) (l @ (p # ps) @ r) = Some (l, r)"
  using assms
proof (induction l)
  case Nil
  show ?case by (subst split_once.simps) simp
next
  case (Cons c l)
  then show ?case by (subst split_once.simps) simp
qed

text \<open>Words joined by single blanks are recovered.\<close>

fun join_blank :: "string list \<Rightarrow> string" where
  "join_blank [] = []"
| "join_blank [w] = w"
| "join_blank (w # ws) = w @ CHR '' '' # join_blank ws"

lemma split_whitespace_acc_word:
  "\<forall>c \<in> set w. \<not> is_space c \<Longrightarrow> split_whitespace_acc cur (w @ s) = split_whitespace_acc (rev w @ cur) s"
  by (induction w arbitrary: cur) auto

lemma split_whitespace_join:
  assumes "\<forall>w \<in> set ws. w \<noteq> [] \<and> (\<forall>c \<in> set w. \<not> is_space c)"
  shows "split_whitespace (join_blank ws) = ws"
  using assms
proof (induction ws rule: join_blank.induct)
  case (2 w)
  then show ?case
    using split_whitespace_acc_word [of w "[]" "[]"] by (simp add: split_whitespace_def)
next
  case (3 w v ws)
  then show ?case
    by (simp add: split_whitespace_def split_whitespace_acc_word is_space_def)
qed (simp add: split_whitespace_def)

end
