(* ===== verification/Slices.thy ===== *)
theory Slices
  imports Rust_Std
begin

text \<open>
  Fixed-capacity vectors (\<^verbatim>\<open>arrayvec::ArrayVec\<close>) and slice binary search.
  \<open>binary_search_by\<close> follows \<^verbatim>\<open>core::slice\<close>: a probe halves the candidate range until one element
  is left. On a strictly sorted slice it is the specification \<open>rank\<close>: the number of keys
  below the one searched for is both the index of the key when present and the place to
  insert it when absent.
\<close>

section \<open>ArrayVec\<close>

definition insert_at :: "nat \<Rightarrow> 'a \<Rightarrow> 'a list \<Rightarrow> 'a list" where
  "insert_at i x xs = take i xs @ x # drop i xs"

definition remove_at :: "nat \<Rightarrow> 'a list \<Rightarrow> 'a list" where
  "remove_at i xs = take i xs @ drop (Suc i) xs"

text \<open>\<^verbatim>\<open>push\<close>, \<^verbatim>\<open>insert\<close>, \<^verbatim>\<open>remove\<close> and \<^verbatim>\<open>collect\<close> panic where \<^verbatim>\<open>ArrayVec\<close> does.\<close>

definition arrayvec_push :: "nat \<Rightarrow> 'a \<Rightarrow> 'a list \<Rightarrow> ('a list, 'e) outcome" where
  "arrayvec_push cap x xs =
     (if length xs < cap then Ok (xs @ [x]) else Panic ''ArrayVec: capacity exceeded'')"

definition arrayvec_insert :: "nat \<Rightarrow> nat \<Rightarrow> 'a \<Rightarrow> 'a list \<Rightarrow> ('a list, 'e) outcome" where
  "arrayvec_insert cap i x xs =
     (if i \<le> length xs \<and> length xs < cap then Ok (insert_at i x xs)
      else Panic ''ArrayVec: insert out of bounds or capacity exceeded'')"

definition arrayvec_remove :: "nat \<Rightarrow> 'a list \<Rightarrow> ('a list, 'e) outcome" where
  "arrayvec_remove i xs =
     (if i < length xs then Ok (remove_at i xs) else Panic ''ArrayVec: remove out of bounds'')"

definition arrayvec_collect :: "nat \<Rightarrow> 'a list \<Rightarrow> ('a list, 'e) outcome" where
  "arrayvec_collect cap xs =
     (if length xs \<le> cap then Ok xs else Panic ''ArrayVec: capacity exceeded'')"

lemma length_insert_at [simp]: "i \<le> length xs \<Longrightarrow> length (insert_at i x xs) = Suc (length xs)"
  by (simp add: insert_at_def)

lemma length_remove_at [simp]: "i < length xs \<Longrightarrow> length (remove_at i xs) = length xs - 1"
  by (simp add: remove_at_def)

lemma set_insert_at [simp]: "set (insert_at i x xs) = insert x (set xs)"
  by (metis Un_insert_right append_take_drop_id insert_at_def list.simps(15) set_append)

lemma map_insert_at: "map f (insert_at i x xs) = insert_at i (f x) (map f xs)"
  by (simp add: insert_at_def take_map drop_map)

lemma map_remove_at: "map f (remove_at i xs) = remove_at i (map f xs)"
  by (simp add: remove_at_def take_map drop_map)

lemma set_remove_at_subset: "set (remove_at i xs) \<subseteq> set xs"
  by (auto simp: remove_at_def dest: in_set_takeD in_set_dropD)

lemma set_remove_at_distinct:
  assumes "distinct xs" and "i < length xs"
  shows "set (remove_at i xs) = set xs - {xs ! i}"
proof -
  have "xs = take i xs @ xs ! i # drop (Suc i) xs" using assms(2) by (rule id_take_nth_drop)
  with assms(1) have "distinct (take i xs @ xs ! i # drop (Suc i) xs)" by simp
  moreover have "set xs = set (take i xs @ xs ! i # drop (Suc i) xs)"
    using \<open>xs = take i xs @ xs ! i # drop (Suc i) xs\<close> by simp
  ultimately show ?thesis by (auto simp: remove_at_def)
qed

section \<open>Binary search\<close>

datatype ordering = Less | Equal | Greater

definition cmp :: "'a::linorder \<Rightarrow> 'a \<Rightarrow> ordering" where
  "cmp a b = (if a < b then Less else if a = b then Equal else Greater)"

text \<open>The loop of \<^verbatim>\<open>binary_search_by\<close>: \<open>sz\<close> halves, \<open>base\<close> moves right unless the probe is too big.\<close>

function bs_loop :: "('a \<Rightarrow> ordering) \<Rightarrow> 'a list \<Rightarrow> nat \<Rightarrow> nat \<Rightarrow> nat" where
  "bs_loop f xs base sz =
     (if 1 < sz then
        (let half = sz div 2; mid = base + half
         in bs_loop f xs (if f (xs ! mid) = Greater then base else mid) (sz - half))
      else base)"
  by pat_completeness auto
termination
  by (relation "measure (\<lambda>(f, xs, base, sz). sz)") auto

declare bs_loop.simps [simp del]

text \<open>\<^verbatim>\<open>Ok\<close> of an index where the comparison is \<open>Equal\<close>, \<^verbatim>\<open>Err\<close> of the insertion point.\<close>

definition binary_search_by :: "('a \<Rightarrow> ordering) \<Rightarrow> 'a list \<Rightarrow> (nat, nat) outcome" where
  "binary_search_by f xs =
     (if xs = [] then Err 0
      else (let base = bs_loop f xs 0 (length xs) in
            case f (xs ! base) of Equal \<Rightarrow> Ok base | Less \<Rightarrow> Err (base + 1) | Greater \<Rightarrow> Err base))"

definition rank :: "('a \<Rightarrow> 'k::linorder) \<Rightarrow> 'k \<Rightarrow> 'a list \<Rightarrow> nat" where
  "rank key k xs = length (filter (\<lambda>x. key x < k) xs)"

definition strict_by :: "('a \<Rightarrow> 'k::linorder) \<Rightarrow> 'a list \<Rightarrow> bool" where
  "strict_by key xs \<longleftrightarrow> sorted_wrt (<) (map key xs)"

lemma strict_by_nth: "strict_by key xs \<Longrightarrow> i < j \<Longrightarrow> j < length xs \<Longrightarrow> key (xs ! i) < key (xs ! j)"
  by (simp add: strict_by_def sorted_wrt_iff_nth_less)

lemma strict_by_distinct: "strict_by key xs \<Longrightarrow> distinct (map key xs)"
  by (simp add: strict_by_def strict_sorted_iff)

lemma bs_loop_bounds:
  assumes "strict_by key xs" and "0 < sz" and "base + sz \<le> length xs"
    and "base = 0 \<or> key (xs ! base) \<le> k"
    and "\<And>i. base + sz \<le> i \<Longrightarrow> i < length xs \<Longrightarrow> k < key (xs ! i)"
  shows "bs_loop (\<lambda>x. cmp (key x) k) xs base sz < length xs
    \<and> (bs_loop (\<lambda>x. cmp (key x) k) xs base sz = 0
       \<or> key (xs ! bs_loop (\<lambda>x. cmp (key x) k) xs base sz) \<le> k)
    \<and> (\<forall>i. bs_loop (\<lambda>x. cmp (key x) k) xs base sz < i \<longrightarrow> i < length xs \<longrightarrow> k < key (xs ! i))"
  using assms
proof (induction "\<lambda>x. cmp (key x) k" xs base sz rule: bs_loop.induct)
  case (1 xs base sz)
  show ?case
  proof (cases "1 < sz")
    case False
    with "1.prems" have "sz = 1" by simp
    with "1.prems" show ?thesis by (subst (1 2 3 4) bs_loop.simps) auto
  next
    case True
    define half where "half = sz div 2"
    have half: "0 < half" "half < sz" using True by (auto simp: half_def)
    let ?base = "if cmp (key (xs ! (base + half))) k = Greater then base else base + half"
    have above: "k < key (xs ! i)" if "?base + (sz - half) \<le> i" "i < length xs" for i
    proof (cases "cmp (key (xs ! (base + half))) k = Greater")
      case True
      then have mid: "k < key (xs ! (base + half))" by (auto simp: cmp_def split: if_splits)
      from True that half have "base + half \<le> i" unfolding half_def by auto
      then show ?thesis
        using mid strict_by_nth [OF "1.prems"(1), of "base + half" i] that(2)
        by (cases "i = base + half") auto
    next
      case False
      with that half "1.prems"(5) show ?thesis by simp
    qed
    have "?base = 0 \<or> key (xs ! ?base) \<le> k"
      using "1.prems"(4) by (auto simp: cmp_def split: if_splits)
    moreover have "?base + (sz - half) \<le> length xs" using "1.prems"(3) half by auto
    ultimately show ?thesis
      using "1.hyps" [OF True half_def refl] "1.prems"(1) half above True
      by (subst (1 2 3 4) bs_loop.simps) (simp add: half_def [symmetric] Let_def)
  qed
qed

lemma rank_eq:
  assumes "i \<le> length xs" and "\<And>j. j < i \<Longrightarrow> key (xs ! j) < k"
    and "\<And>j. i \<le> j \<Longrightarrow> j < length xs \<Longrightarrow> k \<le> key (xs ! j)"
  shows "rank key k xs = i"
proof -
  have low: "filter (\<lambda>x. key x < k) (take i xs) = take i xs"
    using assms(1,2) by (auto simp: filter_id_conv in_set_conv_nth)
  have high: "filter (\<lambda>x. key x < k) (drop i xs) = []"
  proof -
    have "\<not> key x < k" if "x \<in> set (drop i xs)" for x
    proof -
      from that obtain j where j: "j < length (drop i xs)" "x = drop i xs ! j"
        by (auto simp: in_set_conv_nth)
      with assms(1) assms(3) [of "i + j"] show ?thesis by (simp add: leD)
    qed
    then show ?thesis by (simp add: filter_empty_conv)
  qed
  have "filter (\<lambda>x. key x < k) xs = filter (\<lambda>x. key x < k) (take i xs @ drop i xs)" by simp
  also have "\<dots> = take i xs" by (simp only: filter_append low high append_Nil2)
  finally show ?thesis using assms(1) by (simp add: rank_def)
qed

lemma rank_le_length: "rank key k xs \<le> length xs"
  by (simp add: rank_def)

lemma rank_nth:
  assumes "strict_by key xs" and "i < length xs"
  shows "rank key (key (xs ! i)) xs = i"
proof (rule rank_eq)
  show "i \<le> length xs" using assms(2) by simp
  show "key (xs ! j) < key (xs ! i)" if "j < i" for j
    using strict_by_nth [OF assms(1) that assms(2)] .
  show "key (xs ! i) \<le> key (xs ! j)" if "i \<le> j" "j < length xs" for j
    using strict_by_nth [OF assms(1), of i j] that by (cases "i = j") (auto simp: less_imp_le)
qed

text \<open>The specification: binary search on a strictly sorted slice computes \<open>rank\<close>.\<close>

lemma binary_search_by_rank:
  assumes sorted: "strict_by key xs"
  shows "binary_search_by (\<lambda>x. cmp (key x) k) xs =
    (if k \<in> key ` set xs then Ok (rank key k xs) else Err (rank key k xs))"
proof (cases "xs = []")
  case True
  then show ?thesis by (simp add: binary_search_by_def rank_def)
next
  case False
  define b where "b = bs_loop (\<lambda>x. cmp (key x) k) xs 0 (length xs)"
  have b: "b < length xs" "b = 0 \<or> key (xs ! b) \<le> k"
    "\<And>i. b < i \<Longrightarrow> i < length xs \<Longrightarrow> k < key (xs ! i)"
    using bs_loop_bounds [OF sorted, of "length xs" 0 k] False unfolding b_def by auto
  have below: "key (xs ! j) < key (xs ! b)" if "j < b" for j
    using strict_by_nth [OF sorted that b(1)] .
  have search: "binary_search_by (\<lambda>x. cmp (key x) k) xs =
      (case cmp (key (xs ! b)) k of Equal \<Rightarrow> Ok b | Less \<Rightarrow> Err (b + 1) | Greater \<Rightarrow> Err b)"
    using False unfolding b_def by (simp add: binary_search_by_def Let_def)
  consider (eq) "key (xs ! b) = k" | (less) "key (xs ! b) < k" | (greater) "k < key (xs ! b)"
    by fastforce
  then show ?thesis
  proof cases
    case eq
    then have "k \<in> key ` set xs" using b(1) by auto
    with eq search rank_nth [OF sorted b(1)] show ?thesis by (simp add: cmp_def)
  next
    case less
    have "k < key (xs ! j)" if "b + 1 \<le> j" "j < length xs" for j using b(3) that by simp
    moreover have "key (xs ! j) < k" if "j < b + 1" for j
      using less below [of j] that by (cases "j = b") auto
    moreover have "k \<notin> key ` set xs"
    proof
      assume "k \<in> key ` set xs"
      then obtain j where "j < length xs" "k = key (xs ! j)" by (auto simp: in_set_conv_nth)
      with calculation(1) [of j] calculation(2) [of j] show False by (cases "b + 1 \<le> j") auto
    qed
    moreover have "rank key k xs = b + 1"
      using b(1) calculation(1,2) by (intro rank_eq) (auto intro: less_imp_le)
    ultimately show ?thesis using less search by (auto simp: cmp_def)
  next
    case greater
    with b(2) have b0: "b = 0" by auto
    have above: "k < key (xs ! j)" if "j < length xs" for j
      using greater b(3) [of j] that b0 by (cases j) auto
    have "rank key k xs = 0" by (rule rank_eq) (auto intro: less_imp_le above)
    moreover have "k \<notin> key ` set xs"
    proof
      assume "k \<in> key ` set xs"
      then obtain j where "j < length xs" "k = key (xs ! j)" by (auto simp: in_set_conv_nth)
      with above [of j] show False by simp
    qed
    ultimately show ?thesis using greater search b0 by (auto simp: cmp_def)
  qed
qed

lemma strict_by_insert_at_rank:
  assumes sorted: "strict_by key xs" and new: "key x \<notin> key ` set xs"
  shows "strict_by key (insert_at (rank key (key x) xs) x xs)"
proof -
  let ?r = "rank key (key x) xs"
  have sw: "sorted_wrt (<) (map key xs)" using sorted by (simp add: strict_by_def)
  have "filter (\<lambda>y. key y < key x) xs = takeWhile (\<lambda>y. key y < key x) xs"
    using sw
  proof (induction xs)
    case (Cons a xs)
    show ?case
    proof (cases "key a < key x")
      case True
      with Cons show ?thesis by simp
    next
      case False
      with Cons.prems have "filter (\<lambda>y. key y < key x) xs = []"
        by (auto simp: filter_empty_conv dest: less_trans)
      with False show ?thesis by simp
    qed
  qed simp
  then have r: "?r = length (takeWhile (\<lambda>y. key y < key x) xs)" by (simp add: rank_def)
  have t: "take ?r xs = takeWhile (\<lambda>y. key y < key x) xs" by (simp add: r takeWhile_eq_take [symmetric])
  have d: "drop ?r xs = dropWhile (\<lambda>y. key y < key x) xs" by (simp add: r dropWhile_eq_drop [symmetric])
  have low: "\<forall>y \<in> set (take ?r xs). key y < key x" unfolding t by (auto dest: set_takeWhileD)
  have high: "\<forall>y \<in> set (drop ?r xs). key x < key y"
  proof
    fix y assume y: "y \<in> set (drop ?r xs)"
    then have "y \<in> set xs" by (rule in_set_dropD)
    with new have "key y \<noteq> key x" by (metis image_eqI)
    moreover have "\<not> key y < key x"
      using y sw unfolding d by (induction xs) (auto split: if_splits dest: less_trans)
    ultimately show "key x < key y" by simp
  qed
  have split: "sorted_wrt (<) (map key (take ?r xs @ drop ?r xs))" using sw by simp
  show ?thesis
    using low high split less_trans
    by (auto simp: strict_by_def insert_at_def sorted_wrt_append simp del: append_take_drop_id)
qed

lemma strict_by_remove_at:
  assumes "strict_by key xs"
  shows "strict_by key (remove_at i xs)"
proof (cases "i < length xs")
  case True
  then have "strict_by key (take i xs @ xs ! i # drop (Suc i) xs)"
    using assms id_take_nth_drop [OF True] by simp
  then show ?thesis by (simp add: strict_by_def remove_at_def sorted_wrt_append)
next
  case False
  with assms show ?thesis by (simp add: remove_at_def)
qed

end
