(* ===== verification/Libc_Interface.thy ===== *)
theory Libc_Interface
  imports Slices
begin

text \<open>
  The world outside the sources. Everything the crates reach through \<^verbatim>\<open>libc\<close>, through
  file-system functions of \<^verbatim>\<open>std\<close> and through Android libraries is one function
  \<open>kernel\<close>, a parameter of the model: it takes a call with its arguments and the state of the
  world (any type \<open>'w\<close>) and returns the integer result, the value of \<^verbatim>\<open>errno\<close> when the call
  returns, the data written through out-pointers, and the next world. Nothing is assumed of it
  here; a theorem that relies on documented behaviour of the kernel states it as a hypothesis.

  \<open>loop_fuel\<close> bounds the loops that repeat a call until it answers differently, and
  \<open>debug_assertions\<close> is the build flag of that name.
\<close>

section \<open>Data written through out-pointers\<close>

record stat =
  st_dev :: int
  st_ino :: int
  st_mode :: int

record sockaddr_un =
  sun_family :: int
  sun_path :: string

record siginfo =
  si_signo :: int
  si_code :: int
  si_pid :: int
  si_uid :: int
  si_status :: int

record ucred =
  uc_pid :: int
  uc_uid :: int
  uc_gid :: int

datatype outdata =
    NoOut
  | OutStat stat
  | OutBytes string
  | OutInts "int list"
  | OutSockaddr sockaddr_un nat
  | OutSiginfo siginfo
  | OutUcred ucred
  | OutEvents "(32 word \<times> 64 word) list"

record sysret =
  retval :: int
  errno_after :: int
  outval :: outdata

section \<open>The calls\<close>

datatype fd_call =
    Libc_close int
  | Libc_dup3 int int int
  | Libc_open string int int
  | Libc_fcntl_getfd int
  | Libc_fcntl_getfl int
  | Libc_fcntl_setfd int int
  | Libc_fcntl_setfl int int
  | Libc_fstat int
  | Libc_lseek64 int int int
  | Libc_read int nat
  | Libc_readlink string nat
  | Libc_pipe
  | Libc_unlink string
  | Libc_opendir string
  | Libc_dirfd int
  | Libc_readdir int
  | Libc_closedir int

datatype sock_call =
    Libc_socket int int int
  | Libc_bind int sockaddr_un nat
  | Libc_connect int sockaddr_un nat
  | Libc_listen int int
  | Libc_accept int
  | Libc_getsockopt int int int
  | Libc_getsockname int
  | Libc_getpeername int
  | Libc_recvmsg int nat
  | Libc_sendmsg int string

datatype event_call =
    Libc_epoll_create1 int
  | Libc_epoll_ctl int int int "(32 word \<times> 64 word) option"
  | Libc_epoll_wait int nat int
  | Libc_poll "(int \<times> int) list" int
  | Libc_sigemptyset
  | Libc_sigaddset "int list" int
  | Libc_signalfd int "int list" int
  | Libc_sigprocmask int "int list"

datatype proc_call =
    Libc_fork
  | Libc_clone3 "64 word list" nat
  | Libc_strerror_r int nat
  | Libc_strerrorname_np int
  | Libc_getpid
  | Libc_setpgid int int
  | Libc_waitid int int int
  | Libc_waitpid int int
  | Libc_getpriority int int
  | Libc_setpriority int int int
  | Libc_getrlimit int
  | Libc_setrlimit int int int
  | Libc_mallopt int int
  | Libc_prctl_set_name string
  | Libc_prctl_get_securebits
  | Libc_prctl_set_securebits int
  | Libc_prctl_set_no_new_privs

datatype cred_call =
    Libc_getuid
  | Libc_geteuid
  | Libc_getgid
  | Libc_getegid
  | Libc_getgroups nat
  | Libc_setgroups "int list"
  | Libc_setreuid int int
  | Libc_setregid int int
  | Libc_setresuid int int int
  | Libc_setresgid int int int

text \<open>File-system functions of \<^verbatim>\<open>std\<close> and the environment; a failed \<^verbatim>\<open>io::Result\<close> is \<open>retval = -1\<close>.\<close>

datatype std_call =
    Std_path_exists string
  | Std_path_is_dir string
  | Std_create_dir_all string
  | Std_remove_file string
  | Std_read_file string nat
  | Std_env_var string
  | Std_random_filename nat
  | Std_datagram_unbound
  | Std_datagram_connect int string
  | Std_datagram_send int string
  | Std_datagram_drop int
  | Std_print string
  | Std_read_exact int nat
  | Std_close_file int

text \<open>Android libraries and the dynamic loader.\<close>

datatype ext_call =
    Ext_dlopen string
  | Ext_log_close
  | Ext_log string
  | Ext_fdsan_get_error_level
  | Ext_fdsan_set_error_level int
  | Ext_set_zygote_child
  | Ext_cgroup_create int int
  | Ext_cpusets_enabled
  | Ext_set_cpuset_policy int bool
  | Ext_set_sched_policy int bool
  | Ext_drop_task_profiles_cache
  | Ext_set_app_seccomp_filter
  | Ext_set_app_zygote_seccomp_filter
  | Ext_set_system_seccomp_filter
  | Ext_install_setuidgid_seccomp_filter int int
  | Ext_selinux_setcontext int bool string string int
  | Ext_cap_store_additive int int int
  | Ext_cap_within_bound nat
  | Ext_cap_drop_bound nat
  | Ext_cap_store_overwrite "int option" "int option" "int option"
  | Ext_write_argv0 string nat
  | Ext_cap_load
  | Ext_setprogname
  | Ext_set_application_target_sdk_version int
  | Ext_dlsym int string
  | Ext_entry_function int "string list"
  | Ext_stats_write
  | Ext_cache_debuggable
  | Ext_property_write string string
  | Ext_app_process_init int int
  | Ext_preload_lib string string string int bool string string "string option"
  | Ext_run_native_activity_thread int
  | Ext_reset_stack_guards

datatype syscall =
    FdCall fd_call
  | SockCall sock_call
  | EventCall event_call
  | ProcCall proc_call
  | CredCall cred_call
  | StdCall std_call
  | ExtCall ext_call

section \<open>The environment of a run\<close>

record 'w env =
  kernel :: "syscall \<Rightarrow> 'w \<Rightarrow> sysret \<times> 'w"
  loop_fuel :: nat
  debug_assertions :: bool

definition invoke :: "'w env \<Rightarrow> syscall \<Rightarrow> ('w, sysret, 'e) prog" where
  "invoke E c = (\<lambda>w. case kernel E c w of (r, w') \<Rightarrow> (Ok r, w'))"

lemma invoke_eq_Ok_iff [simp]: "invoke E c w = (r, w') \<longleftrightarrow> (\<exists>x. r = Ok x \<and> kernel E c w = (x, w'))"
  by (auto simp: invoke_def split: prod.splits)

lemma invoke_run [prog_simps]: "kernel E c w = (x, w') \<Longrightarrow> invoke E c w = (Ok x, w')"
  by simp

lemma preserves_invoke:
  "(\<And>w r w'. I w \<Longrightarrow> kernel E c w = (r, w') \<Longrightarrow> I w') \<Longrightarrow> preserves I (invoke E c)"
  by (rule preservesI) auto

text \<open>
  The same environment with every call recorded, oldest first, together with its result:
  theorems about the order of system calls are about runs in \<open>logged E\<close>.
\<close>

definition logged :: "'w env \<Rightarrow> ('w \<times> (syscall \<times> int) list) env" where
  "logged E = \<lparr> kernel = (\<lambda>c (w, log). case kernel E c w of (r, w') \<Rightarrow> (r, (w', log @ [(c, retval r)]))),
                loop_fuel = loop_fuel E, debug_assertions = debug_assertions E \<rparr>"

lemma logged_simps [simp]:
  "loop_fuel (logged E) = loop_fuel E" "debug_assertions (logged E) = debug_assertions E"
  by (simp_all add: logged_def)

lemma kernel_logged:
  "kernel (logged E) c (w, log) =
     (case kernel E c w of (r, w') \<Rightarrow> (r, (w', log @ [(c, retval r)])))"
  by (simp add: logged_def)

section \<open>Constants of the Linux ABI\<close>

abbreviation EPERM :: int where "EPERM \<equiv> 1"
abbreviation EINTR :: int where "EINTR \<equiv> 4"
abbreviation EBADF :: int where "EBADF \<equiv> 9"
abbreviation ECHILD :: int where "ECHILD \<equiv> 10"
abbreviation EAGAIN :: int where "EAGAIN \<equiv> 11"
abbreviation EWOULDBLOCK :: int where "EWOULDBLOCK \<equiv> 11"
abbreviation ENOMEM :: int where "ENOMEM \<equiv> 12"
abbreviation EACCES :: int where "EACCES \<equiv> 13"
abbreviation EINVAL :: int where "EINVAL \<equiv> 22"

abbreviation S_IFMT :: int where "S_IFMT \<equiv> 0xF000"
abbreviation S_IFIFO :: int where "S_IFIFO \<equiv> 0x1000"
abbreviation S_IFCHR :: int where "S_IFCHR \<equiv> 0x2000"
abbreviation S_IFREG :: int where "S_IFREG \<equiv> 0x8000"
abbreviation S_IFSOCK :: int where "S_IFSOCK \<equiv> 0xC000"

abbreviation O_RDONLY :: int where "O_RDONLY \<equiv> 0"
abbreviation O_WRONLY :: int where "O_WRONLY \<equiv> 1"
abbreviation O_RDWR :: int where "O_RDWR \<equiv> 2"
abbreviation O_CREAT :: int where "O_CREAT \<equiv> 0x40"
abbreviation O_NONBLOCK :: int where "O_NONBLOCK \<equiv> 0x800"
abbreviation O_DSYNC :: int where "O_DSYNC \<equiv> 0x1000"
abbreviation O_CLOEXEC :: int where "O_CLOEXEC \<equiv> 0x80000"
abbreviation O_SYNC :: int where "O_SYNC \<equiv> 0x101000"
abbreviation FD_CLOEXEC :: int where "FD_CLOEXEC \<equiv> 1"
abbreviation SEEK_SET :: int where "SEEK_SET \<equiv> 0"
abbreviation SEEK_CUR :: int where "SEEK_CUR \<equiv> 1"

abbreviation AF_UNIX :: int where "AF_UNIX \<equiv> 1"
abbreviation SOCK_SEQPACKET :: int where "SOCK_SEQPACKET \<equiv> 5"
abbreviation SOL_SOCKET :: int where "SOL_SOCKET \<equiv> 1"
abbreviation SO_TYPE :: int where "SO_TYPE \<equiv> 3"
abbreviation SO_PEERCRED :: int where "SO_PEERCRED \<equiv> 17"

abbreviation SIGINT :: int where "SIGINT \<equiv> 2"
abbreviation SIGTRAP :: int where "SIGTRAP \<equiv> 5"
abbreviation SIGTERM :: int where "SIGTERM \<equiv> 15"
abbreviation SIGCHLD :: int where "SIGCHLD \<equiv> 17"
abbreviation SIG_BLOCK :: int where "SIG_BLOCK \<equiv> 0"
abbreviation SIG_UNBLOCK :: int where "SIG_UNBLOCK \<equiv> 1"

abbreviation CLD_EXITED :: int where "CLD_EXITED \<equiv> 1"
abbreviation CLD_KILLED :: int where "CLD_KILLED \<equiv> 2"
abbreviation CLD_DUMPED :: int where "CLD_DUMPED \<equiv> 3"
abbreviation CLD_TRAPPED :: int where "CLD_TRAPPED \<equiv> 4"
abbreviation CLD_STOPPED :: int where "CLD_STOPPED \<equiv> 5"
abbreviation CLD_CONTINUED :: int where "CLD_CONTINUED \<equiv> 6"

abbreviation P_ALL :: int where "P_ALL \<equiv> 0"
abbreviation P_PID :: int where "P_PID \<equiv> 1"
abbreviation P_PGID :: int where "P_PGID \<equiv> 2"
abbreviation P_PIDFD :: int where "P_PIDFD \<equiv> 3"
abbreviation WNOHANG :: int where "WNOHANG \<equiv> 1"
abbreviation WEXITED :: int where "WEXITED \<equiv> 4"

abbreviation EPOLL_CTL_ADD :: int where "EPOLL_CTL_ADD \<equiv> 1"
abbreviation EPOLL_CTL_DEL :: int where "EPOLL_CTL_DEL \<equiv> 2"
abbreviation EPOLLIN :: "32 word" where "EPOLLIN \<equiv> 0x001"
abbreviation EPOLLPRI :: "32 word" where "EPOLLPRI \<equiv> 0x002"
abbreviation EPOLLERR :: "32 word" where "EPOLLERR \<equiv> 0x008"
abbreviation EPOLLHUP :: "32 word" where "EPOLLHUP \<equiv> 0x010"
abbreviation POLLERR :: int where "POLLERR \<equiv> 0x008"
abbreviation POLLNVAL :: int where "POLLNVAL \<equiv> 0x020"

abbreviation PRIO_PROCESS :: int where "PRIO_PROCESS \<equiv> 0"
abbreviation SECBIT_KEEP_CAPS :: int where "SECBIT_KEEP_CAPS \<equiv> 16"
abbreviation M_DECAY_TIME :: int where "M_DECAY_TIME \<equiv> - 100"
abbreviation M_PURGE_ALL :: int where "M_PURGE_ALL \<equiv> - 104"
abbreviation SFD_NONBLOCK :: int where "SFD_NONBLOCK \<equiv> 0x800"

end
