(* ===== verification/Sys_Core.thy ===== *)
theory Sys_Core
  imports Libc_Interface
begin

text \<open>
  The core of \<^verbatim>\<open>zygote-sys/src/lib.rs\<close>: its error type, the functions that turn the integer
  result of a \<^verbatim>\<open>libc\<close> call into a \<^verbatim>\<open>Result\<close>, the \<^verbatim>\<open>retry_eintr!\<close> loop and the two drivers
  that repeat a task until it would block. Loops take fuel; the lemmas say when the fuel is
  enough and that more of it never changes a result.
\<close>

section \<open>Errors\<close>

datatype sys_error =
    InvalidCString
  | InvalidSiginfo int int
  | InvalidSiginfoCode int
  | InvalidWaitStatus int
  | Libc int
  | EpollFailure "32 word" "64 word"
  | OsString string
  | PollFailure int int
  | StringExceedsBufferSize nat nat
  | Utf8
  | ZerocopyCast

definition errno_is :: "int \<Rightarrow> int \<Rightarrow> bool" where
  "errno_is code query_code \<longleftrightarrow> code = query_code"

definition errno_matches :: "int \<Rightarrow> int list \<Rightarrow> bool" where
  "errno_matches code query_codes \<longleftrightarrow> code \<in> set query_codes"

section \<open>Checking results\<close>

definition check_failure :: "sysret \<Rightarrow> (int, sys_error) outcome" where
  "check_failure r = (if retval r = - 1 then Err (Libc (errno_after r)) else Ok (retval r))"

definition check_failure_with_payload :: "sysret \<Rightarrow> (sysret \<Rightarrow> 'p) \<Rightarrow> ('p, sys_error) outcome" where
  "check_failure_with_payload r payload =
     (if retval r = - 1 then Err (Libc (errno_after r)) else Ok (payload r))"

definition check_failure_with_void :: "sysret \<Rightarrow> (unit, sys_error) outcome" where
  "check_failure_with_void r = (if retval r = - 1 then Err (Libc (errno_after r)) else Ok ())"

definition check_failure_with_ptr :: "sysret \<Rightarrow> (int \<Rightarrow> 'u) \<Rightarrow> ('u, sys_error) outcome" where
  "check_failure_with_ptr r constructor =
     (if retval r \<noteq> 0 then Ok (constructor (retval r)) else Err (Libc (errno_after r)))"

definition check_failure_with_mut_ptr :: "sysret \<Rightarrow> (int \<Rightarrow> 'u) \<Rightarrow> ('u, sys_error) outcome" where
  "check_failure_with_mut_ptr r constructor =
     (if retval r \<noteq> 0 then Ok (constructor (retval r)) else Err (Libc (errno_after r)))"

definition check_success :: "sysret \<Rightarrow> (int, sys_error) outcome" where
  "check_success r = (if retval r = 0 then Ok (retval r) else Err (Libc (errno_after r)))"

definition check_success_with_payload :: "sysret \<Rightarrow> (sysret \<Rightarrow> 'p) \<Rightarrow> ('p, sys_error) outcome" where
  "check_success_with_payload r payload =
     (if retval r = 0 then Ok (payload r) else Err (Libc (errno_after r)))"

definition check_success_with_void :: "sysret \<Rightarrow> (unit, sys_error) outcome" where
  "check_success_with_void r = (if retval r = 0 then Ok () else Err (Libc (errno_after r)))"

lemmas check_defs =
  check_failure_def check_failure_with_payload_def check_failure_with_void_def
  check_failure_with_ptr_def check_failure_with_mut_ptr_def
  check_success_def check_success_with_payload_def check_success_with_void_def

text \<open>One call whose raw result is turned into a \<^verbatim>\<open>Result\<close> by one of the checks.\<close>

definition checked_call ::
  "'w env \<Rightarrow> syscall \<Rightarrow> (sysret \<Rightarrow> ('a, sys_error) outcome) \<Rightarrow> ('w, 'a, sys_error) prog"
where
  "checked_call E c check = and_then (invoke E c) (\<lambda>r. of_outcome (check r))"

lemma checked_call_run [prog_simps]: "kernel E c w = (r, w') \<Longrightarrow> checked_call E c check w = (check r, w')"
  by (simp add: checked_call_def prog_simps)

lemma checked_call_eq_iff:
  "checked_call E c check w = (x, w') \<longleftrightarrow> (\<exists>r. kernel E c w = (r, w') \<and> x = check r)"
  by (auto simp: checked_call_def and_then_def match_result_def invoke_def split: prod.splits)

lemma preserves_checked_call:
  "(\<And>w r w'. I w \<Longrightarrow> kernel E c w = (r, w') \<Longrightarrow> I w') \<Longrightarrow> preserves I (checked_call E c check)"
  unfolding checked_call_def by (intro preserves_intros preserves_invoke)

section \<open>\<^verbatim>\<open>retry_eintr!\<close>\<close>

fun retry_eintr :: "nat \<Rightarrow> ('s, 'a, sys_error) prog \<Rightarrow> ('s, 'a, sys_error) prog" where
  "retry_eintr 0 libc_call = diverge"
| "retry_eintr (Suc n) libc_call =
     match_result libc_call ok
       (\<lambda>e. case e of Libc code \<Rightarrow> if errno_is code EINTR then retry_eintr n libc_call else fail e
                    | _ \<Rightarrow> fail e)"

text \<open>Attempts until the first result other than \<^verbatim>\<open>EINTR\<close>: the states the loop runs through.\<close>

fun interrupted :: "('s, 'a, sys_error) prog \<Rightarrow> nat \<Rightarrow> 's \<Rightarrow> 's \<Rightarrow> bool" where
  "interrupted m 0 s t \<longleftrightarrow> s = t"
| "interrupted m (Suc k) s t \<longleftrightarrow> (\<exists>u. m s = (Err (Libc EINTR), u) \<and> interrupted m k u t)"

lemma retry_eintr_result:
  assumes "interrupted m k s t" and "m t = (r, u)" and "r \<noteq> Err (Libc EINTR)" and "k < n"
  shows "retry_eintr n m s = (r, u)"
  using assms
proof (induction k arbitrary: s n)
  case 0
  then obtain n' where "n = Suc n'" by (cases n) auto
  with 0 show ?case
    by (cases r) (auto simp: match_result_def fail_def ok_def errno_is_def split: sys_error.splits)
next
  case (Suc k)
  then obtain u' n' where "n = Suc n'" "m s = (Err (Libc EINTR), u')" "interrupted m k u' t" "k < n'"
    by (cases n) auto
  with Suc.IH [of u' n'] Suc.prems show ?case by (simp add: match_result_def errno_is_def)
qed

lemma retry_eintr_never_EINTR: "retry_eintr n m s = (Err e, t) \<Longrightarrow> e \<noteq> Libc EINTR"
  by (induction n arbitrary: s)
     (auto simp: match_result_def errno_is_def split: prod.splits outcome.splits sys_error.splits if_splits)

lemma retry_eintr_mono:
  "retry_eintr n m s = (r, t) \<Longrightarrow> r \<noteq> Diverges \<Longrightarrow> retry_eintr (Suc n) m s = (r, t)"
proof (induction n arbitrary: s)
  case (Suc n)
  then show ?case
    by (subst retry_eintr.simps(2), subst (asm) retry_eintr.simps(2))
       (auto simp: match_result_def simp del: retry_eintr.simps
          split: prod.splits outcome.splits sys_error.splits if_splits)
qed simp

lemma preserves_retry_eintr [preserves_intros]: "preserves I m \<Longrightarrow> preserves I (retry_eintr n m)"
proof (induction n)
  case (Suc n)
  then show ?case
    by (auto intro!: preserves_intros split: sys_error.split)
qed (simp add: preserves_diverge)

section \<open>Repeating a task until it would block\<close>

datatype 'a loop_control = Continue | Break 'a

datatype 'a loop_exit = Early 'a | WouldBlock

fun exited_early :: "'a loop_exit \<Rightarrow> bool" where
  "exited_early WouldBlock = False"
| "exited_early (Early _) = True"

fun would_block :: "'a loop_exit \<Rightarrow> bool" where
  "would_block WouldBlock = True"
| "would_block (Early _) = False"

definition blocks :: "sys_error \<Rightarrow> bool" where
  "blocks e = (case e of Libc code \<Rightarrow> errno_is code EAGAIN \<or> errno_is code EWOULDBLOCK | _ \<Rightarrow> False)"

fun call_until_would_block ::
  "nat \<Rightarrow> ('s, 't, sys_error) prog \<Rightarrow> ('t \<Rightarrow> ('s, 'u loop_control, sys_error) prog)
    \<Rightarrow> ('s, 'u loop_exit, sys_error) prog"
where
  "call_until_would_block 0 task handler = diverge"
| "call_until_would_block (Suc n) task handler =
     match_result task
       (\<lambda>result. and_then (handler result)
          (\<lambda>c. case c of Continue \<Rightarrow> call_until_would_block n task handler
                       | Break val \<Rightarrow> ok (Early val)))
       (\<lambda>e. if blocks e then ok WouldBlock else fail e)"

fun try_until_would_block ::
  "nat \<Rightarrow> (sys_error \<Rightarrow> 'e) \<Rightarrow> ('s, 't, sys_error) prog \<Rightarrow> ('t \<Rightarrow> ('s, 'u loop_control, 'e) prog)
    \<Rightarrow> ('s, 'u loop_exit, 'e) prog"
where
  "try_until_would_block 0 task_failure task handler = diverge"
| "try_until_would_block (Suc n) task_failure task handler =
     match_result task
       (\<lambda>result. and_then (handler result)
          (\<lambda>c. case c of Continue \<Rightarrow> try_until_would_block n task_failure task handler
                       | Break val \<Rightarrow> ok (Early val)))
       (\<lambda>e. if blocks e then ok WouldBlock else fail (task_failure e))"

lemma preserves_try_until_would_block [preserves_intros]:
  assumes "preserves I task" and "\<And>x. preserves I (handler x)"
  shows "preserves I (try_until_would_block n tf task handler)"
proof (induction n)
  case (Suc n)
  with assms show ?case by (auto intro!: preserves_intros split: loop_control.split)
qed (simp add: preserves_diverge)

text \<open>The driver without handler errors is the other one with the identity as error conversion.\<close>

lemma call_until_would_block_eq:
  "call_until_would_block n task handler = try_until_would_block n (\<lambda>e. e) task handler"
  by (induction n) simp_all

subsection \<open>The drivers end when the source of results runs dry\<close>

text \<open>
  \<open>source task pending\<close>: \<open>pending\<close> is the list of results the task still has to give (the
  messages queued on a socket, the connections in a backlog); an empty queue would block.
  \<open>feed handler xs\<close> is what should happen: the results are handled in order until the first
  \<open>Break\<close> or error.
\<close>

definition source :: "('s, 't, sys_error) prog \<Rightarrow> ('s \<Rightarrow> 't list) \<Rightarrow> ('s \<Rightarrow> 's) \<Rightarrow> bool" where
  "source task pending pop \<longleftrightarrow>
     (\<forall>s. pending s = [] \<longrightarrow> task s = (Err (Libc EAGAIN), s)) \<and>
     (\<forall>s x xs. pending s = x # xs \<longrightarrow> task s = (Ok x, pop s) \<and> pending (pop s) = xs)"

fun feed ::
  "('s \<Rightarrow> 's) \<Rightarrow> ('t \<Rightarrow> ('s, 'u loop_control, 'e) prog) \<Rightarrow> 't list \<Rightarrow> ('s, 'u loop_exit, 'e) prog"
where
  "feed pop handler [] = ok WouldBlock"
| "feed pop handler (x # xs) = (\<lambda>s. and_then (handler x)
     (\<lambda>c. case c of Continue \<Rightarrow> feed pop handler xs | Break val \<Rightarrow> ok (Early val)) (pop s))"

definition keeps :: "('s \<Rightarrow> 'x) \<Rightarrow> ('t \<Rightarrow> ('s, 'u, 'e) prog) \<Rightarrow> bool" where
  "keeps f handler \<longleftrightarrow> (\<forall>x s r t. handler x s = (r, t) \<longrightarrow> f t = f s)"

lemma try_until_would_block_feed:
  assumes src: "source task pending pop" and keep: "keeps pending handler"
  shows "length (pending s) < n \<Longrightarrow>
    try_until_would_block n tf task handler s = feed pop handler (pending s) s"
proof (induction n arbitrary: s)
  case (Suc n)
  show ?case
  proof (cases "pending s")
    case Nil
    with src have "task s = (Err (Libc EAGAIN), s)" by (simp add: source_def)
    with Nil show ?thesis by (simp add: match_result_def blocks_def errno_is_def ok_def)
  next
    case (Cons x xs)
    with src have pop: "task s = (Ok x, pop s)" "pending (pop s) = xs" by (auto simp: source_def)
    obtain r t where h: "handler x (pop s) = (r, t)" by fastforce
    with keep pop have "pending t = xs" by (auto simp: keeps_def)
    with Suc.IH [of t] Suc.prems Cons
    have "try_until_would_block n tf task handler t = feed pop handler xs t" by simp
    then show ?thesis
      by (cases r) (auto simp: Cons pop h match_result_def and_then_def fail_def split: loop_control.split)
  qed
qed simp

lemma feed_not_Diverges:
  assumes "\<And>x s. fst (handler x s) \<noteq> Diverges"
  shows "fst (feed pop handler xs s) \<noteq> Diverges"
proof (induction xs arbitrary: s)
  case (Cons x xs)
  obtain r t where h: "handler x (pop s) = (r, t)" by fastforce
  with assms [of x "pop s"] Cons [of t] show ?case
    by (cases r) (auto simp: and_then_def match_result_def fail_def ok_def split: loop_control.split)
qed (simp add: ok_def)

text \<open>
  C26. The driver \<^verbatim>\<open>try_until_would_block\<close> ends. When the task hands out a finite queue and then
  would block, when no handler disturbs the queue and every handler returns, any fuel above the
  length of the queue is enough, and the outcome is that of feeding the queue to the handler in
  order until the first \<^verbatim>\<open>Break\<close> or error; \<^verbatim>\<open>WouldBlock\<close> therefore means that all of it was
  handled.
\<close>

theorem try_until_would_block_terminates:
  assumes src: "source task pending pop" and keep: "keeps pending handler"
    and total: "\<And>x s. fst (handler x s) \<noteq> Diverges" and fuel: "length (pending s) < n"
  shows "try_until_would_block n tf task handler s = feed pop handler (pending s) s
    \<and> fst (try_until_would_block n tf task handler s) \<noteq> Diverges"
  using try_until_would_block_feed [OF src keep fuel] feed_not_Diverges [of handler, OF total] by simp

definition pop_task :: "(int list, int, sys_error) prog" where
  "pop_task s = (case s of [] \<Rightarrow> (Err (Libc EAGAIN), []) | x # xs \<Rightarrow> (Ok x, xs))"

theorem try_until_would_block_terminates_witness:
  "try_until_would_block 3 (\<lambda>e. e) pop_task (\<lambda>x. if x = 9 then ok (Break x) else ok Continue) [4, 9] = (Ok (Early 9), [])"
proof -
  let ?handler = "\<lambda>x :: int. if x = 9 then ok (Break x) else ok Continue"
  have "source pop_task (\<lambda>s. s) tl" by (simp add: source_def pop_task_def)
  moreover have "keeps (\<lambda>s. s) (?handler :: int \<Rightarrow> (int list, int loop_control, sys_error) prog)"
    by (simp add: keeps_def)
  moreover have "fst ((?handler :: int \<Rightarrow> (int list, int loop_control, sys_error) prog) x s) \<noteq> Diverges" for x s
    by (simp add: ok_def)
  ultimately have "try_until_would_block 3 (\<lambda>e. e) pop_task ?handler [4, 9] = feed tl ?handler [4, 9] [4, 9]"
    using try_until_would_block_terminates [of pop_task "\<lambda>s. s" tl ?handler "[4, 9]" 3 "\<lambda>e. e"] by simp
  then show ?thesis by simp
qed

end
