(* ===== verification/Sys_Calls.thy ===== *)
theory Sys_Calls
  imports Sys_Core
begin

text \<open>
  The wrappers of \<^verbatim>\<open>zygote-sys/src/lib.rs\<close>, one definition per function: which call is made,
  how its result is checked, and which of them retry on \<^verbatim>\<open>EINTR\<close>. Buffers are allocated
  zeroed, so what the call does not write reads as zero.
\<close>

abbreviation BUFFER_SIZE_STRINGS :: nat where "BUFFER_SIZE_STRINGS \<equiv> 512"
abbreviation TASK_COMM_LEN :: nat where "TASK_COMM_LEN \<equiv> 16"
abbreviation SUN_PATH_LEN :: nat where "SUN_PATH_LEN \<equiv> 108"

text \<open>\<^verbatim>\<open>offset_of!(sockaddr_un, sun_path)\<close>, which is also the size of \<^verbatim>\<open>sa_family_t\<close>.\<close>

abbreviation SUN_PATH_OFFSET :: nat where "SUN_PATH_OFFSET \<equiv> 2"

abbreviation SIZE_OF_SOCKADDR_UN :: nat where "SIZE_OF_SOCKADDR_UN \<equiv> SUN_PATH_OFFSET + SUN_PATH_LEN"

section \<open>Reading out-pointers\<close>

definition out_stat :: "outdata \<Rightarrow> stat" where
  "out_stat d = (case d of OutStat st \<Rightarrow> st | _ \<Rightarrow> \<lparr>st_dev = 0, st_ino = 0, st_mode = 0\<rparr>)"

definition out_bytes :: "outdata \<Rightarrow> string" where
  "out_bytes d = (case d of OutBytes bs \<Rightarrow> bs | _ \<Rightarrow> [])"

definition out_ints :: "outdata \<Rightarrow> int list" where
  "out_ints d = (case d of OutInts xs \<Rightarrow> xs | _ \<Rightarrow> [])"

definition nth_int :: "int list \<Rightarrow> nat \<Rightarrow> int" where
  "nth_int xs i = (if i < length xs then xs ! i else 0)"

definition out_sockaddr :: "outdata \<Rightarrow> sockaddr_un \<times> nat" where
  "out_sockaddr d = (case d of OutSockaddr a n \<Rightarrow> (a, n)
     | _ \<Rightarrow> (\<lparr>sun_family = 0, sun_path = zero_padded SUN_PATH_LEN []\<rparr>, SIZE_OF_SOCKADDR_UN))"

definition out_siginfo :: "outdata \<Rightarrow> siginfo" where
  "out_siginfo d = (case d of OutSiginfo si \<Rightarrow> si
     | _ \<Rightarrow> \<lparr>si_signo = 0, si_code = 0, si_pid = 0, si_uid = 0, si_status = 0\<rparr>)"

definition out_ucred :: "outdata \<Rightarrow> ucred" where
  "out_ucred d = (case d of OutUcred c \<Rightarrow> c | _ \<Rightarrow> \<lparr>uc_pid = 0, uc_uid = 0, uc_gid = 0\<rparr>)"

definition out_events :: "outdata \<Rightarrow> (32 word \<times> 64 word) list" where
  "out_events d = (case d of OutEvents es \<Rightarrow> es | _ \<Rightarrow> [])"

lemmas out_simps [simp] =
  out_stat_def out_bytes_def out_ints_def out_sockaddr_def out_siginfo_def out_ucred_def out_events_def

section \<open>Files and descriptors\<close>

definition sys_close :: "'w env \<Rightarrow> int \<Rightarrow> ('w, int, sys_error) prog" where
  "sys_close E fd = retry_eintr (loop_fuel E) (checked_call E (FdCall (Libc_close fd)) check_failure)"

text \<open>
  \<^verbatim>\<open>LibcDir\<close> closes its stream when it is dropped. \<^verbatim>\<open>closedir\<close> takes the value by move, so it
  drops it when it returns: the stream is closed a second time, and that result is ignored.
\<close>

definition libc_dir_drop :: "'w env \<Rightarrow> int \<Rightarrow> 'w \<Rightarrow> 'w" where
  [simp]: "libc_dir_drop E dir w = snd (kernel E (FdCall (Libc_closedir dir)) w)"

definition sys_closedir :: "'w env \<Rightarrow> int \<Rightarrow> ('w, unit, sys_error) prog" where
  "sys_closedir E dir =
     finally_do (checked_call E (FdCall (Libc_closedir dir)) check_failure_with_void) (libc_dir_drop E dir)"

definition sys_dirfd :: "'w env \<Rightarrow> int \<Rightarrow> ('w, int, sys_error) prog" where
  "sys_dirfd E dir = checked_call E (FdCall (Libc_dirfd dir)) check_failure"

definition sys_dup3 :: "'w env \<Rightarrow> int \<Rightarrow> int \<Rightarrow> int \<Rightarrow> ('w, unit, sys_error) prog" where
  "sys_dup3 E old_fd new_fd flags = retry_eintr (loop_fuel E)
     (checked_call E (FdCall (Libc_dup3 old_fd new_fd flags)) check_failure_with_void)"

definition sys_fcntl_getfd :: "'w env \<Rightarrow> int \<Rightarrow> ('w, int, sys_error) prog" where
  "sys_fcntl_getfd E fd = checked_call E (FdCall (Libc_fcntl_getfd fd)) check_failure"

definition sys_fcntl_getfl :: "'w env \<Rightarrow> int \<Rightarrow> ('w, int, sys_error) prog" where
  "sys_fcntl_getfl E fd = checked_call E (FdCall (Libc_fcntl_getfl fd)) check_failure"

definition sys_fcntl_setfd :: "'w env \<Rightarrow> int \<Rightarrow> int \<Rightarrow> ('w, unit, sys_error) prog" where
  "sys_fcntl_setfd E fd flags = checked_call E (FdCall (Libc_fcntl_setfd fd flags)) check_failure_with_void"

definition sys_fcntl_setfl :: "'w env \<Rightarrow> int \<Rightarrow> int \<Rightarrow> ('w, unit, sys_error) prog" where
  "sys_fcntl_setfl E fd flags = checked_call E (FdCall (Libc_fcntl_setfl fd flags)) check_failure_with_void"

definition sys_fstat :: "'w env \<Rightarrow> int \<Rightarrow> ('w, stat, sys_error) prog" where
  "sys_fstat E fd = checked_call E (FdCall (Libc_fstat fd))
     (\<lambda>r. check_failure_with_payload r (\<lambda>r. out_stat (outval r)))"

definition sys_lseek64 :: "'w env \<Rightarrow> int \<Rightarrow> int \<Rightarrow> int \<Rightarrow> ('w, int, sys_error) prog" where
  "sys_lseek64 E fd offset whence = checked_call E (FdCall (Libc_lseek64 fd offset whence)) check_failure"

definition sys_open :: "'w env \<Rightarrow> string \<Rightarrow> int \<Rightarrow> int option \<Rightarrow> ('w, int, sys_error) prog" where
  "sys_open E path flags mode = retry_eintr (loop_fuel E)
     (checked_call E (FdCall (Libc_open path flags (case mode of None \<Rightarrow> 0 | Some m \<Rightarrow> m))) check_failure)"

definition sys_opendir :: "'w env \<Rightarrow> string \<Rightarrow> ('w, int, sys_error) prog" where
  "sys_opendir E path = checked_call E (FdCall (Libc_opendir path))
     (\<lambda>r. check_failure_with_mut_ptr r (\<lambda>dir. dir))"

definition sys_readdir :: "'w env \<Rightarrow> int \<Rightarrow> ('w, string option, 'e) prog" where
  "sys_readdir E dir = and_then (invoke E (FdCall (Libc_readdir dir)))
     (\<lambda>r. ok (case check_failure_with_mut_ptr r (\<lambda>_. out_bytes (outval r)) of
                Ok name \<Rightarrow> Some name | _ \<Rightarrow> None))"

definition sys_pipe :: "'w env \<Rightarrow> ('w, int \<times> int, sys_error) prog" where
  "sys_pipe E = checked_call E (FdCall Libc_pipe)
     (\<lambda>r. check_failure_with_payload r
        (\<lambda>r. (nth_int (out_ints (outval r)) 0, nth_int (out_ints (outval r)) 1)))"

definition sys_unlink :: "'w env \<Rightarrow> string \<Rightarrow> ('w, unit, sys_error) prog" where
  "sys_unlink E path = checked_call E (FdCall (Libc_unlink path)) check_failure_with_void"

definition sys_readlink :: "'w env \<Rightarrow> string \<Rightarrow> ('w, string, sys_error) prog" where
  "sys_readlink E path_name = checked_call E (FdCall (Libc_readlink path_name BUFFER_SIZE_STRINGS))
     (\<lambda>r. check_failure_with_payload r (\<lambda>r. zero_padded BUFFER_SIZE_STRINGS (out_bytes (outval r))))"

text \<open>The number of bytes read, and the value they were read into.\<close>

definition sys_read :: "'w env \<Rightarrow> int \<Rightarrow> nat \<Rightarrow> ('w, int \<times> outdata, sys_error) prog" where
  "sys_read E fd sz = retry_eintr (loop_fuel E)
     (checked_call E (FdCall (Libc_read fd sz))
        (\<lambda>r. check_failure_with_payload r (\<lambda>r. (retval r, outval r))))"

definition sys_read_exact :: "'w env \<Rightarrow> int \<Rightarrow> nat \<Rightarrow> ('w, outdata, sys_error) prog" where
  "sys_read_exact E fd sz = and_then (sys_read E fd sz)
     (\<lambda>(read_len, result). if read_len = int sz then ok result else fail (Libc 0))"

section \<open>Sockets\<close>

definition sys_accept :: "'w env \<Rightarrow> int \<Rightarrow> ('w, int, sys_error) prog" where
  "sys_accept E fd = checked_call E (SockCall (Libc_accept fd)) check_failure"

text \<open>\<^verbatim>\<open>SocketAddr\<close>: the address and the length that goes with it.\<close>

record socket_addr =
  address :: sockaddr_un
  socklen :: nat

definition sys_bind :: "'w env \<Rightarrow> int \<Rightarrow> socket_addr \<Rightarrow> ('w, unit, sys_error) prog" where
  "sys_bind E fd sockaddr =
     checked_call E (SockCall (Libc_bind fd (address sockaddr) (socklen sockaddr))) check_failure_with_void"

definition sys_connect :: "'w env \<Rightarrow> int \<Rightarrow> socket_addr \<Rightarrow> ('w, unit, sys_error) prog" where
  "sys_connect E fd sockaddr =
     checked_call E (SockCall (Libc_connect fd (address sockaddr) (socklen sockaddr))) check_failure_with_void"

definition sys_listen :: "'w env \<Rightarrow> int \<Rightarrow> int \<Rightarrow> ('w, unit, sys_error) prog" where
  "sys_listen E fd backlog = checked_call E (SockCall (Libc_listen fd backlog)) check_failure_with_void"

definition sys_socket :: "'w env \<Rightarrow> int \<Rightarrow> int \<Rightarrow> int \<Rightarrow> ('w, int, sys_error) prog" where
  "sys_socket E domain ty protocol = checked_call E (SockCall (Libc_socket domain ty protocol)) check_failure"

definition sys_getsockopt :: "'w env \<Rightarrow> int \<Rightarrow> int \<Rightarrow> int \<Rightarrow> ('w, outdata, sys_error) prog" where
  "sys_getsockopt E fd level optname = checked_call E (SockCall (Libc_getsockopt fd level optname))
     (\<lambda>r. check_failure_with_payload r outval)"

definition sys_get_socket_type :: "'w env \<Rightarrow> int \<Rightarrow> ('w, int, sys_error) prog" where
  "sys_get_socket_type E fd =
     and_then (sys_getsockopt E fd SOL_SOCKET SO_TYPE) (\<lambda>d. ok (nth_int (out_ints d) 0))"

definition sys_get_socket_creds :: "'w env \<Rightarrow> int \<Rightarrow> ('w, ucred, sys_error) prog" where
  "sys_get_socket_creds E fd =
     and_then (sys_getsockopt E fd SOL_SOCKET SO_PEERCRED) (\<lambda>d. ok (out_ucred d))"

text \<open>
  Both name queries answer \<^verbatim>\<open>None\<close> for an address that is only a family or is not
  \<^verbatim>\<open>AF_UNIX\<close>; otherwise the path length is what the kernel reported less the offset of the
  path. A reported length below that offset is an arithmetic overflow, which panics in debug builds
  and wraps around otherwise.
\<close>

definition socket_name_result :: "'w env \<Rightarrow> sysret \<Rightarrow> ((sockaddr_un \<times> nat) option, sys_error) outcome" where
  "socket_name_result E r =
     (case check_failure r of
        Ok _ \<Rightarrow>
          (let (addr, addr_len) = out_sockaddr (outval r) in
           if debug_assertions E \<and> SIZE_OF_SOCKADDR_UN < addr_len then Panic ''assertion failed: addr_len''
           else if addr_len = SUN_PATH_OFFSET then Ok None
           else if sun_family addr \<noteq> AF_UNIX then Ok None
           else if SUN_PATH_OFFSET \<le> addr_len then Ok (Some (addr, addr_len - SUN_PATH_OFFSET))
           else if debug_assertions E then Panic ''attempt to subtract with overflow''
           else Ok (Some (addr, addr_len + 2 ^ 64 - SUN_PATH_OFFSET)))
      | Err e \<Rightarrow> Err e | Panic p \<Rightarrow> Panic p | Diverges \<Rightarrow> Diverges)"

definition sys_getsockname :: "'w env \<Rightarrow> int \<Rightarrow> ('w, (sockaddr_un \<times> nat) option, sys_error) prog" where
  "sys_getsockname E fd = checked_call E (SockCall (Libc_getsockname fd)) (socket_name_result E)"

definition sys_getpeername :: "'w env \<Rightarrow> int \<Rightarrow> ('w, (sockaddr_un \<times> nat) option, sys_error) prog" where
  "sys_getpeername E fd = checked_call E (SockCall (Libc_getpeername fd)) (socket_name_result E)"

definition sys_recvmsg :: "'w env \<Rightarrow> int \<Rightarrow> nat \<Rightarrow> ('w, int \<times> string, sys_error) prog" where
  "sys_recvmsg E fd buffer_size = retry_eintr (loop_fuel E)
     (checked_call E (SockCall (Libc_recvmsg fd buffer_size))
        (\<lambda>r. check_failure_with_payload r
           (\<lambda>r. (retval r, zero_padded buffer_size (out_bytes (outval r))))))"

definition sys_sendmsg :: "'w env \<Rightarrow> int \<Rightarrow> string \<Rightarrow> ('w, int, sys_error) prog" where
  "sys_sendmsg E socket_fd buffer = retry_eintr (loop_fuel E)
     (checked_call E (SockCall (Libc_sendmsg socket_fd buffer)) check_failure)"

section \<open>Events and signals\<close>

definition sys_epoll_create1 :: "'w env \<Rightarrow> int \<Rightarrow> ('w, int, sys_error) prog" where
  "sys_epoll_create1 E flags = checked_call E (EventCall (Libc_epoll_create1 flags)) check_failure"

definition sys_epoll_ctl ::
  "'w env \<Rightarrow> int \<Rightarrow> int \<Rightarrow> int \<Rightarrow> (32 word \<times> 64 word) option \<Rightarrow> ('w, unit, sys_error) prog"
where
  "sys_epoll_ctl E epfd op fd event =
     checked_call E (EventCall (Libc_epoll_ctl epfd op fd event)) check_failure_with_void"

text \<open>The count and the events the kernel wrote into the buffer of \<open>maxevents\<close> slots.\<close>

definition sys_epoll_wait ::
  "'w env \<Rightarrow> int \<Rightarrow> nat \<Rightarrow> int \<Rightarrow> ('w, int \<times> (32 word \<times> 64 word) list, sys_error) prog"
where
  "sys_epoll_wait E epfd maxevents timeout = retry_eintr (loop_fuel E)
     (checked_call E (EventCall (Libc_epoll_wait epfd maxevents timeout))
        (\<lambda>r. check_failure_with_payload r (\<lambda>r. (retval r, take maxevents (out_events (outval r))))))"

definition epoll_handle_new :: "'w env \<Rightarrow> ('w, int, sys_error) prog" where
  "epoll_handle_new E = sys_epoll_create1 E 0"

definition epoll_handle_add ::
  "'w env \<Rightarrow> int \<Rightarrow> int \<Rightarrow> 32 word \<Rightarrow> 64 word \<Rightarrow> ('w, unit, sys_error) prog"
where
  "epoll_handle_add E epfd fd events data = sys_epoll_ctl E epfd EPOLL_CTL_ADD fd (Some (events, data))"

definition epoll_handle_remove :: "'w env \<Rightarrow> int \<Rightarrow> int \<Rightarrow> ('w, unit, sys_error) prog" where
  "epoll_handle_remove E epfd fd = sys_epoll_ctl E epfd EPOLL_CTL_DEL fd None"

text \<open>
  \<^verbatim>\<open>EpollHandle::wait\<close>; the caller reads the first \<open>n\<close> slots of its buffer, whose unused
  slots hold \<open>blank\<close>. A negative count other than \<open>-1\<close> does not convert to \<^verbatim>\<open>usize\<close>.
\<close>

definition epoll_handle_wait ::
  "'w env \<Rightarrow> int \<Rightarrow> nat \<Rightarrow> 32 word \<times> 64 word \<Rightarrow> int
    \<Rightarrow> ('w, (32 word \<times> 64 word) list, sys_error) prog"
where
  "epoll_handle_wait E epfd maxevents blank timeout =
     and_then (sys_epoll_wait E epfd maxevents timeout)
       (\<lambda>(n, events).
          if n < 0 then panic ''called Result::unwrap() on a TryFromIntError''
          else if int maxevents < n then panic ''range end index out of range''
          else ok (take (nat n) (events @ replicate (maxevents - length events) blank)))"

definition sys_poll ::
  "'w env \<Rightarrow> (int \<times> int) list \<Rightarrow> int \<Rightarrow> ('w, int \<times> int list, sys_error) prog"
where
  "sys_poll E pollfds timeout = checked_call E (EventCall (Libc_poll pollfds timeout))
     (\<lambda>r. check_failure_with_payload r (\<lambda>r. (retval r, out_ints (outval r))))"

definition sys_sigemptyset :: "'w env \<Rightarrow> ('w, int list, sys_error) prog" where
  "sys_sigemptyset E = checked_call E (EventCall Libc_sigemptyset)
     (\<lambda>r. check_failure_with_payload r (\<lambda>r. out_ints (outval r)))"

definition sys_sigaddset :: "'w env \<Rightarrow> int list \<Rightarrow> int \<Rightarrow> ('w, int list, sys_error) prog" where
  "sys_sigaddset E sigset signum = checked_call E (EventCall (Libc_sigaddset sigset signum))
     (\<lambda>r. check_failure_with_payload r (\<lambda>r. out_ints (outval r)))"

fun add_signals :: "'w env \<Rightarrow> int list \<Rightarrow> int list \<Rightarrow> ('w, int list, sys_error) prog" where
  "add_signals E sigset [] = ok sigset"
| "add_signals E sigset (signum # signals) =
     and_then (sys_sigaddset E sigset signum) (\<lambda>sigset'. add_signals E sigset' signals)"

definition build_sigset :: "'w env \<Rightarrow> int list \<Rightarrow> ('w, int list, sys_error) prog" where
  "build_sigset E signals = and_then (sys_sigemptyset E) (\<lambda>sigset. add_signals E sigset signals)"

definition sys_signalfd :: "'w env \<Rightarrow> int \<Rightarrow> int list \<Rightarrow> int \<Rightarrow> ('w, int, sys_error) prog" where
  "sys_signalfd E fd sigset flags = checked_call E (EventCall (Libc_signalfd fd sigset flags)) check_failure"

definition sys_sigprocmask :: "'w env \<Rightarrow> int \<Rightarrow> int list \<Rightarrow> ('w, int list, sys_error) prog" where
  "sys_sigprocmask E how sigset = checked_call E (EventCall (Libc_sigprocmask how sigset))
     (\<lambda>r. check_failure_with_payload r (\<lambda>r. out_ints (outval r)))"

section \<open>Processes\<close>

definition sys_fork :: "'w env \<Rightarrow> ('w, int, sys_error) prog" where
  "sys_fork E = checked_call E (ProcCall Libc_fork) check_failure"

definition sys_getpid :: "'w env \<Rightarrow> ('w, int, 'e) prog" where
  "sys_getpid E = and_then (invoke E (ProcCall Libc_getpid)) (\<lambda>r. ok (retval r))"

definition sys_setpgid :: "'w env \<Rightarrow> int \<Rightarrow> int \<Rightarrow> ('w, unit, sys_error) prog" where
  "sys_setpgid E pid pgid = checked_call E (ProcCall (Libc_setpgid pid pgid)) check_failure_with_void"

text \<open>
  \<^verbatim>\<open>getpriority\<close> can return \<open>-1\<close> as a priority, so \<^verbatim>\<open>errno\<close> (cleared before the call)
  decides; \<open>errno_after\<close> is its value after the call.
\<close>

definition sys_getpriority :: "'w env \<Rightarrow> int \<Rightarrow> int \<Rightarrow> ('w, int, sys_error) prog" where
  "sys_getpriority E whch who = checked_call E (ProcCall (Libc_getpriority whch who))
     (\<lambda>r. if errno_after r = 0 then Ok (retval r) else Err (Libc (errno_after r)))"

definition sys_setpriority :: "'w env \<Rightarrow> int \<Rightarrow> int \<Rightarrow> int \<Rightarrow> ('w, int, sys_error) prog" where
  "sys_setpriority E whch who prio = checked_call E (ProcCall (Libc_setpriority whch who prio)) check_success"

definition sys_getrlimit :: "'w env \<Rightarrow> int \<Rightarrow> ('w, int \<times> int, sys_error) prog" where
  "sys_getrlimit E resource = checked_call E (ProcCall (Libc_getrlimit resource))
     (\<lambda>r. check_failure_with_payload r
        (\<lambda>r. (nth_int (out_ints (outval r)) 0, nth_int (out_ints (outval r)) 1)))"

text \<open>\<^verbatim>\<open>setrlimit\<close> with the soft (current) limit first, as in \<^verbatim>\<open>libc::rlimit\<close>.\<close>

definition sys_setrlimit :: "'w env \<Rightarrow> int \<Rightarrow> int \<Rightarrow> int \<Rightarrow> ('w, unit, sys_error) prog" where
  "sys_setrlimit E resource rlim_cur rlim_max =
     checked_call E (ProcCall (Libc_setrlimit resource rlim_cur rlim_max)) check_failure_with_void"

text \<open>\<^verbatim>\<open>mallopt\<close> returns 1 on success and 0 on error.\<close>

definition sys_mallopt :: "'w env \<Rightarrow> int \<Rightarrow> int \<Rightarrow> ('w, unit, sys_error) prog" where
  "sys_mallopt E cmd arg = checked_call E (ProcCall (Libc_mallopt cmd arg))
     (\<lambda>r. if retval r = 0 then Err (Libc (errno_after r)) else Ok ())"

definition sys_prctl_set_name :: "'w env \<Rightarrow> string \<Rightarrow> ('w, unit, 'e) prog" where
  "sys_prctl_set_name E name =
     (let copy_len = min (length name) (TASK_COMM_LEN - 1)
      in and_then (invoke E (ProcCall (Libc_prctl_set_name (zero_padded TASK_COMM_LEN (take copy_len name)))))
           (\<lambda>_. ok ()))"

definition sys_prctl_get_securebits :: "'w env \<Rightarrow> ('w, int, sys_error) prog" where
  "sys_prctl_get_securebits E = checked_call E (ProcCall Libc_prctl_get_securebits) check_failure"

definition sys_prctl_set_securebits :: "'w env \<Rightarrow> int \<Rightarrow> ('w, unit, sys_error) prog" where
  "sys_prctl_set_securebits E securebits =
     checked_call E (ProcCall (Libc_prctl_set_securebits securebits)) check_failure_with_void"

definition sys_prctl_set_no_new_privs :: "'w env \<Rightarrow> ('w, unit, sys_error) prog" where
  "sys_prctl_set_no_new_privs E =
     checked_call E (ProcCall Libc_prctl_set_no_new_privs) check_failure_with_void"

section \<open>Credentials\<close>

text \<open>\<^verbatim>\<open>-1i32 as uid_t\<close>: the bit pattern that leaves an id unchanged.\<close>

definition ID_UNCHANGED :: int where "ID_UNCHANGED = 2 ^ 32 - 1"

definition sys_getuid :: "'w env \<Rightarrow> ('w, int, 'e) prog" where
  "sys_getuid E = and_then (invoke E (CredCall Libc_getuid)) (\<lambda>r. ok (retval r))"

definition sys_geteuid :: "'w env \<Rightarrow> ('w, int, 'e) prog" where
  "sys_geteuid E = and_then (invoke E (CredCall Libc_geteuid)) (\<lambda>r. ok (retval r))"

definition sys_getgid :: "'w env \<Rightarrow> ('w, int, 'e) prog" where
  "sys_getgid E = and_then (invoke E (CredCall Libc_getgid)) (\<lambda>r. ok (retval r))"

definition sys_getegid :: "'w env \<Rightarrow> ('w, int, 'e) prog" where
  "sys_getegid E = and_then (invoke E (CredCall Libc_getegid)) (\<lambda>r. ok (retval r))"

definition sys_getgroups :: "'w env \<Rightarrow> nat \<Rightarrow> ('w, int list, sys_error) prog" where
  "sys_getgroups E n = checked_call E (CredCall (Libc_getgroups n))
     (\<lambda>r. check_failure_with_payload r
        (\<lambda>r. take (nat (retval r)) (take n (out_ints (outval r) @ replicate n 0))))"

definition sys_setgroups :: "'w env \<Rightarrow> int list \<Rightarrow> ('w, unit, sys_error) prog" where
  "sys_setgroups E groups = checked_call E (CredCall (Libc_setgroups groups)) check_failure_with_void"

definition sys_setreuid :: "'w env \<Rightarrow> int \<Rightarrow> int \<Rightarrow> ('w, unit, sys_error) prog" where
  "sys_setreuid E ruid euid = checked_call E (CredCall (Libc_setreuid ruid euid)) check_failure_with_void"

definition sys_setregid :: "'w env \<Rightarrow> int \<Rightarrow> int \<Rightarrow> ('w, unit, sys_error) prog" where
  "sys_setregid E rgid egid = checked_call E (CredCall (Libc_setregid rgid egid)) check_failure_with_void"

definition sys_setresuid :: "'w env \<Rightarrow> int \<Rightarrow> int \<Rightarrow> int \<Rightarrow> ('w, unit, sys_error) prog" where
  "sys_setresuid E ruid euid suid = checked_call E (CredCall (Libc_setresuid ruid euid suid)) check_failure_with_void"

definition sys_setresgid :: "'w env \<Rightarrow> int \<Rightarrow> int \<Rightarrow> int \<Rightarrow> ('w, unit, sys_error) prog" where
  "sys_setresgid E rgid egid sgid = checked_call E (CredCall (Libc_setresgid rgid egid sgid)) check_failure_with_void"

lemmas sys_retry_defs =
  sys_close_def sys_dup3_def sys_open_def sys_read_def sys_recvmsg_def sys_sendmsg_def sys_epoll_wait_def

end
