(* ===== verification/Sys_Wait.thy ===== *)
theory Sys_Wait
  imports Sys_Calls
begin

unbundle bit_operations_syntax

text \<open>
  Child status: \<^verbatim>\<open>WaitRecord\<close>, the two ways to build one (from a \<^verbatim>\<open>siginfo\<close> and from the raw
  \<^verbatim>\<open>waitpid\<close> status word), the encoder \<^verbatim>\<open>raw_status_from_siginfo\<close> that the server uses to
  report a child's exit, and the \<^verbatim>\<open>waitid\<close>/\<^verbatim>\<open>waitpid\<close> wrappers. The status macros are those of
  the Linux ABI; \<open>i32\<close> truncates to the width of \<^verbatim>\<open>c_int\<close>.
\<close>

definition i32 :: "int \<Rightarrow> int" where "i32 x = signed_take_bit 31 x"

definition WIFEXITED :: "int \<Rightarrow> bool" where "WIFEXITED status \<longleftrightarrow> status AND 0x7f = 0"
definition WEXITSTATUS :: "int \<Rightarrow> int" where "WEXITSTATUS status = drop_bit 8 status AND 0xff"
definition WIFSIGNALED :: "int \<Rightarrow> bool" where
  "WIFSIGNALED status \<longleftrightarrow> 2 \<le> signed_take_bit 7 ((status AND 0x7f) + 1)"
definition WTERMSIG :: "int \<Rightarrow> int" where "WTERMSIG status = status AND 0x7f"
definition WIFSTOPPED :: "int \<Rightarrow> bool" where "WIFSTOPPED status \<longleftrightarrow> status AND 0xff = 0x7f"
definition WSTOPSIG :: "int \<Rightarrow> int" where "WSTOPSIG status = drop_bit 8 status AND 0xff"
definition WIFCONTINUED :: "int \<Rightarrow> bool" where "WIFCONTINUED status \<longleftrightarrow> status = 0xffff"
definition W_EXITCODE :: "int \<Rightarrow> int \<Rightarrow> int" where "W_EXITCODE ret sig = i32 (push_bit 8 ret) OR sig"
definition W_STOPCODE :: "int \<Rightarrow> int" where "W_STOPCODE sig = i32 (push_bit 8 sig) OR 0x7f"

lemmas wait_macros =
  WIFEXITED_def WEXITSTATUS_def WIFSIGNALED_def WTERMSIG_def WIFSTOPPED_def WSTOPSIG_def
  WIFCONTINUED_def W_EXITCODE_def W_STOPCODE_def

section \<open>Wait records\<close>

datatype wait_record =
    Continued
  | Exited int
  | Signaled int
  | Stopped int int  \<comment> \<open>signal, status\<close>

definition try_from_siginfo :: "siginfo \<Rightarrow> (wait_record, sys_error) outcome" where
  "try_from_siginfo si =
     (if si_signo si \<noteq> SIGCHLD then Err (InvalidSiginfo (si_signo si) SIGCHLD)
      else if si_code si = CLD_EXITED then Ok (Exited (si_status si))
      else if si_code si = CLD_KILLED \<or> si_code si = CLD_DUMPED then Ok (Signaled (si_status si))
      else if si_code si = CLD_STOPPED \<or> si_code si = CLD_TRAPPED then
        Ok (Stopped (si_status si AND 0xff) (drop_bit 8 (si_status si)))
      else if si_code si = CLD_CONTINUED then Ok Continued
      else Err (InvalidSiginfoCode (si_code si)))"

definition try_from_status :: "int \<Rightarrow> (wait_record, sys_error) outcome" where
  "try_from_status status =
     (if WIFEXITED status then Ok (Exited (WEXITSTATUS status))
      else if WIFSIGNALED status then Ok (Signaled (WTERMSIG status))
      else if WIFSTOPPED status then Ok (Stopped (WSTOPSIG status) (drop_bit 16 status))
      else if WIFCONTINUED status then Ok Continued
      else Err (InvalidWaitStatus status))"

fun is_ptrace_syscall :: "wait_record \<Rightarrow> bool" where
  "is_ptrace_syscall (Stopped signal _) \<longleftrightarrow> signal = SIGTRAP OR 0x80"
| "is_ptrace_syscall _ \<longleftrightarrow> False"

fun is_ptrace_event :: "wait_record \<Rightarrow> int option" where
  "is_ptrace_event (Stopped signal status) =
     (if signal = SIGTRAP \<and> status \<noteq> 0 then Some status else None)"
| "is_ptrace_event _ = None"

definition raw_status_from_siginfo :: "siginfo \<Rightarrow> (int, sys_error) outcome" where
  "raw_status_from_siginfo si =
     (if si_signo si \<noteq> SIGCHLD then Err (InvalidSiginfo (si_signo si) SIGCHLD)
      else if si_code si = CLD_EXITED then Ok (W_EXITCODE (si_status si) 0)
      else if si_code si = CLD_KILLED then Ok (W_EXITCODE 0 (si_status si AND 0x7f))
      else if si_code si = CLD_DUMPED then Ok (W_EXITCODE 0 ((si_status si AND 0x7f) OR 0x80))
      else if si_code si = CLD_STOPPED \<or> si_code si = CLD_TRAPPED then Ok (W_STOPCODE (si_status si))
      else if si_code si = CLD_CONTINUED then Ok 0xffff
      else Err (InvalidSiginfoCode (si_code si)))"

section \<open>Waiting\<close>

datatype wait_id = All | Pid int | PidFd int | Pgid int

text \<open>\<^verbatim>\<open>as u32\<close> of a signed id.\<close>

fun wait_id_to_args :: "wait_id \<Rightarrow> int \<times> int" where
  "wait_id_to_args All = (P_ALL, 0)"
| "wait_id_to_args (Pid pid) = (P_PID, take_bit 32 pid)"
| "wait_id_to_args (PidFd pid_fd) = (P_PIDFD, take_bit 32 pid_fd)"
| "wait_id_to_args (Pgid pgid) = (P_PGID, take_bit 32 pgid)"

definition sys_waitid :: "'w env \<Rightarrow> wait_id \<Rightarrow> int \<Rightarrow> ('w, siginfo option, sys_error) prog" where
  "sys_waitid E target options =
     (let (id_type, idn) = wait_id_to_args target in
      and_then
        (retry_eintr (loop_fuel E)
           (checked_call E (ProcCall (Libc_waitid id_type idn options))
              (\<lambda>r. check_failure_with_payload r (\<lambda>r. out_siginfo (outval r)))))
        (\<lambda>status. ok (if si_pid status = 0 then None else Some status)))"

definition sys_waitpid ::
  "'w env \<Rightarrow> int option \<Rightarrow> int \<Rightarrow> ('w, (int \<times> wait_record) option, sys_error) prog"
where
  "sys_waitpid E pid options =
     and_then
       (retry_eintr (loop_fuel E)
          (checked_call E (ProcCall (Libc_waitpid (case pid of None \<Rightarrow> - 1 | Some p \<Rightarrow> p) options))
             (\<lambda>r. check_failure_with_payload r (\<lambda>r. (retval r, nth_int (out_ints (outval r)) 0)))))
       (\<lambda>(result, status).
          if result = 0 then ok None
          else and_then (of_outcome (try_from_status status)) (\<lambda>rec. ok (Some (result, rec))))"

section \<open>Arithmetic of status words\<close>

lemma and_0x7f: "(x :: int) AND 0x7f = x mod 128"
  using take_bit_eq_mask [of 7 x] by (simp add: take_bit_eq_mod mask_eq_exp_minus_1)

lemma and_0xff: "(x :: int) AND 0xff = x mod 256"
  using take_bit_eq_mask [of 8 x] by (simp add: take_bit_eq_mod mask_eq_exp_minus_1)

lemma i32_id: "- (2 ^ 31) \<le> x \<Longrightarrow> x < 2 ^ 31 \<Longrightarrow> i32 x = x"
  by (simp add: i32_def signed_take_bit_int_eq_self)

lemma push_or_low:
  assumes "0 \<le> low" and "low < 2 ^ n"
  shows "push_bit n x OR low = x * 2 ^ n + (low :: int)"
proof -
  have "\<not> bit low k" if "n \<le> k" for k
  proof -
    from assms have "take_bit n low = low" by (simp add: take_bit_int_eq_self)
    with that show ?thesis by (metis bit_take_bit_iff linorder_not_less)
  qed
  then have "push_bit n x AND low = 0"
    by (intro bit_eqI) (auto simp: bit_and_iff bit_push_bit_iff)
  then show ?thesis by (simp add: push_bit_eq_mult disjunctive_add_eq_or [symmetric])
qed

lemma i32_push_low:
  assumes "- (2 ^ 23) \<le> x" and "x < 2 ^ 23" and "0 \<le> low" and "low < 256"
  shows "i32 (push_bit 8 x) OR low = x * 256 + low"
proof -
  have "i32 (push_bit 8 x) = push_bit 8 x"
    using assms by (intro i32_id) (auto simp: push_bit_eq_mult)
  with assms show ?thesis using push_or_low [of low 8 x] by simp
qed

lemma or_0x80: "0 \<le> x \<Longrightarrow> x < 128 \<Longrightarrow> x OR 0x80 = (x :: int) + 128"
  using push_or_low [of x 7 1] by (simp add: or.commute push_bit_eq_mult)

lemma signed_byte:
  "0 \<le> x \<Longrightarrow> x < 128 \<Longrightarrow> signed_take_bit 7 ((x :: int) + 1) = (if x = 127 then - 128 else x + 1)"
  by (auto simp: signed_take_bit_int_eq_self)

text \<open>The status macros in plain arithmetic.\<close>

lemma wait_arith:
  "WIFEXITED st \<longleftrightarrow> st mod 128 = 0"
  "WIFSIGNALED st \<longleftrightarrow> 1 \<le> st mod 128 \<and> st mod 128 < 127"
  "WIFSTOPPED st \<longleftrightarrow> st mod 256 = 127"
  "WEXITSTATUS st = st div 256 mod 256" "WSTOPSIG st = st div 256 mod 256"
  "WTERMSIG st = st mod 128"
proof -
  show "WIFSIGNALED st \<longleftrightarrow> 1 \<le> st mod 128 \<and> st mod 128 < 127"
    using signed_byte [of "st mod 128"] pos_mod_bound [of 128 st]
    by (auto simp: WIFSIGNALED_def and_0x7f split: if_splits)
qed (simp_all add: wait_macros and_0x7f and_0xff drop_bit_eq_div)

lemma byte_split:
  fixes x low :: int
  assumes "0 \<le> low" and "low < 256"
  shows "(x * 256 + low) mod 128 = low mod 128" "(x * 256 + low) mod 256 = low"
    "(x * 256 + low) div 256 = x"
proof -
  have "(x * 256 + low) mod 128 = (low + (2 * x) * 128) mod 128" by (simp add: algebra_simps)
  then show "(x * 256 + low) mod 128 = low mod 128" by (simp only: mod_mult_self1)
qed (use assms in simp_all)

section \<open>Round trips\<close>

text \<open>Child events as the kernel reports them.\<close>

definition reportable :: "siginfo \<Rightarrow> bool" where
  "reportable si \<longleftrightarrow> si_signo si = SIGCHLD \<and>
     (si_code si = CLD_EXITED \<and> 0 \<le> si_status si \<and> si_status si < 256
      \<or> (si_code si = CLD_KILLED \<or> si_code si = CLD_DUMPED) \<and> 1 \<le> si_status si \<and> si_status si < 127
      \<or> (si_code si = CLD_STOPPED \<or> si_code si = CLD_TRAPPED)
          \<and> - (2 ^ 23) \<le> si_status si \<and> si_status si < 2 ^ 23
      \<or> si_code si = CLD_CONTINUED)"

lemma try_from_status_exited:
  "0 \<le> x \<Longrightarrow> x < 256 \<Longrightarrow> try_from_status (x * 256) = Ok (Exited x)"
  using byte_split [of 0 x] by (simp add: try_from_status_def wait_arith)

lemma try_from_status_signaled:
  assumes "1 \<le> x" and "x < 127" and "low = x \<or> low = x + 128"
  shows "try_from_status low = Ok (Signaled x)"
  using assms by (auto simp: try_from_status_def wait_arith)

lemma try_from_status_stopped:
  "try_from_status (x * 256 + 127) = Ok (Stopped (x AND 0xff) (drop_bit 8 x))"
  using byte_split [of 127 x] zdiv_zmult2_eq [of 256 "x * 256 + 127" 256]
  by (simp add: try_from_status_def wait_arith and_0xff drop_bit_eq_div)

lemma try_from_status_continued: "try_from_status 0xffff = Ok Continued"
  by (simp add: try_from_status_def wait_arith WIFCONTINUED_def)

text \<open>
  C23. The raw status word that the server computes from a \<^verbatim>\<open>siginfo\<close>
  (\<^verbatim>\<open>raw_status_from_siginfo\<close>) decodes, by the \<^verbatim>\<open>waitpid\<close> decoder \<^verbatim>\<open>try_from_status\<close>, to
  exactly the record that \<^verbatim>\<open>try_from_siginfo\<close> reads off the \<^verbatim>\<open>siginfo\<close> itself, for every
  child event whose status is in the range the kernel reports: an exit code of one byte, a
  terminating signal between 1 and 126, any stop status that fits the shifted word.
\<close>

theorem raw_status_roundtrip:
  assumes "reportable si"
  shows "\<exists>st rec. raw_status_from_siginfo si = Ok st \<and> try_from_status st = Ok rec
           \<and> try_from_siginfo si = Ok rec"
proof -
  let ?x = "si_status si"
  from assms have chld: "si_signo si = SIGCHLD" by (simp add: reportable_def)
  from assms consider
      (exited) "si_code si = CLD_EXITED" "0 \<le> ?x" "?x < 256"
    | (killed) "si_code si = CLD_KILLED" "1 \<le> ?x" "?x < 127"
    | (dumped) "si_code si = CLD_DUMPED" "1 \<le> ?x" "?x < 127"
    | (stopped) "si_code si = CLD_STOPPED \<or> si_code si = CLD_TRAPPED" "- (2 ^ 23) \<le> ?x" "?x < 2 ^ 23"
    | (continued) "si_code si = CLD_CONTINUED"
    by (auto simp: reportable_def)
  then show ?thesis
  proof cases
    case exited
    then show ?thesis
      using chld i32_push_low [of ?x 0]
      by (simp add: raw_status_from_siginfo_def try_from_siginfo_def W_EXITCODE_def try_from_status_exited)
  next
    case killed
    then show ?thesis
      using chld i32_push_low [of 0 ?x]
      by (simp add: raw_status_from_siginfo_def try_from_siginfo_def W_EXITCODE_def and_0x7f
          i32_def try_from_status_signaled)
  next
    case dumped
    then show ?thesis
      using chld i32_push_low [of 0 "?x + 128"]
      by (simp add: raw_status_from_siginfo_def try_from_siginfo_def W_EXITCODE_def and_0x7f
          i32_def or_0x80 try_from_status_signaled)
  next
    case stopped
    then show ?thesis
      using chld i32_push_low [of ?x 127]
      by (auto simp: raw_status_from_siginfo_def try_from_siginfo_def W_STOPCODE_def try_from_status_stopped)
  next
    case continued
    then show ?thesis
      using chld by (simp add: raw_status_from_siginfo_def try_from_siginfo_def try_from_status_continued)
  qed
qed

theorem raw_status_roundtrip_witness:
  "raw_status_from_siginfo \<lparr>si_signo = 17, si_code = 3, si_pid = 7, si_uid = 0, si_status = 11\<rparr> = Ok 139
   \<and> try_from_status 139 = Ok (Signaled 11)"
proof -
  let ?si = "\<lparr>si_signo = 17, si_code = 3, si_pid = 7, si_uid = 0, si_status = 11\<rparr>"
  have "reportable ?si" by (simp add: reportable_def)
  from raw_status_roundtrip [OF this] obtain st rec where
    "raw_status_from_siginfo ?si = Ok st" "try_from_status st = Ok rec" "try_from_siginfo ?si = Ok rec"
    by blast
  moreover have "raw_status_from_siginfo ?si = Ok 139"
    by (simp add: raw_status_from_siginfo_def W_EXITCODE_def i32_def)
  ultimately show ?thesis by (simp add: try_from_siginfo_def)
qed

text \<open>
  Which status words \<^verbatim>\<open>try_from_status\<close> refuses: exactly those with all eight low bits
  set other than the \<^verbatim>\<open>continued\<close> word \<open>0xffff\<close>, and the error carries the status.
\<close>

theorem try_from_status_error:
  "try_from_status st = Err e \<longleftrightarrow> st mod 256 = 255 \<and> st \<noteq> 0xffff \<and> e = InvalidWaitStatus st"
proof -
  define m where "m = st mod 256"
  have m: "0 \<le> m" "m < 256" by (simp_all add: m_def)
  have low: "st mod 128 = m mod 128" using mod_mod_cancel [of 128 256 st] by (simp add: m_def)
  have mod: "m mod 128 = (if m < 128 then m else m - 128)"
  proof (cases "m < 128")
    case False
    have "m mod 128 = (m - 128 + 128) mod 128" by simp
    also have "\<dots> = (m - 128) mod 128" by (rule mod_add_self2)
    also have "\<dots> = m - 128" using False m by (intro mod_pos_pos_trivial) auto
    finally show ?thesis using False by simp
  qed (use m in simp)
  consider "m = 255" | "m mod 128 < 127" | "m = 127"
  proof -
    have "m = 255 \<or> m mod 128 < 127 \<or> m = 127" using mod m by auto
    with that show ?thesis by blast
  qed
  then show ?thesis
  proof cases
    case 1
    then show ?thesis
      by (cases "st = 65535")
         (simp_all add: try_from_status_def wait_arith WIFCONTINUED_def low flip: m_def, auto simp: m_def)
  next
    case 2
    then have "m \<noteq> 255" by auto
    moreover have "m mod 128 = 0 \<or> 1 \<le> m mod 128" using pos_mod_sign [of 128 m] by linarith
    ultimately show ?thesis using 2
      by (auto simp add: try_from_status_def wait_arith low m_def [symmetric])
  next
    case 3
    then show ?thesis by (simp add: try_from_status_def wait_arith low flip: m_def)
  qed
qed

text \<open>A record never claims to be both a system-call stop and an event stop.\<close>

lemma ptrace_kinds_exclusive: "is_ptrace_syscall rec \<Longrightarrow> is_ptrace_event rec = None"
  by (cases rec) (auto simp: or_0x80 or.commute)

lemma is_ptrace_event_of_status:
  "try_from_status st = Ok rec \<Longrightarrow> is_ptrace_event rec = Some ev \<Longrightarrow>
     st mod 65536 = 256 * SIGTRAP + 127 \<and> ev = drop_bit 16 st \<and> ev \<noteq> 0"
proof -
  assume dec: "try_from_status st = Ok rec" and ev: "is_ptrace_event rec = Some ev"
  from ev have rec: "rec = Stopped SIGTRAP ev" "ev \<noteq> 0" by (cases rec; auto split: if_splits)+
  with dec have "st mod 256 = 127" "st div 256 mod 256 = SIGTRAP" "ev = drop_bit 16 st"
    by (auto simp: try_from_status_def wait_arith split: if_splits)
  moreover have "st mod 65536 = 256 * (st div 256 mod 256) + st mod 256"
    using zmod_zmult2_eq [of 256 st 256] by simp
  ultimately show ?thesis using rec by simp
qed

end
