(* ===== verification/Sys_Util.thy ===== *)
theory Sys_Util
  imports Sys_Wait
begin

text \<open>
  The helpers of \<^verbatim>\<open>zygote-sys/src/lib.rs\<close> built on the wrappers: C-string buffers, poll and
  epoll events with their error checks, UNIX socket addresses, the write-permission probe and
  the effective-id guard. The lemmas say what address a name really denotes, when a buffer is a
  C string again and what the guard leaves of the process credentials.
\<close>

section \<open>String buffers\<close>

definition as_cstr :: "string \<Rightarrow> (string, sys_error) outcome" where
  "as_cstr bs = (case cstr_until_nul bs of Some s \<Rightarrow> Ok s | None \<Rightarrow> Err InvalidCString)"

definition build_nul_terminated_string :: "string \<Rightarrow> (string, sys_error) outcome" where
  "build_nul_terminated_string str_in =
     (if BUFFER_SIZE_STRINGS \<le> length str_in
      then Err (StringExceedsBufferSize (length str_in) BUFFER_SIZE_STRINGS)
      else Ok (zero_padded BUFFER_SIZE_STRINGS str_in))"

text \<open>
  A string without NUL bytes that fits the buffer is read back unchanged by
  \<^verbatim>\<open>as_cstr\<close>; one that does not fit is refused with both sizes.
\<close>

theorem build_nul_terminated_string_roundtrip:
  assumes "NUL \<notin> set s"
  shows "(length s < 512 \<and> (\<exists>buf. build_nul_terminated_string s = Ok buf \<and> length buf = 512 \<and> as_cstr buf = Ok s))
    \<or> (512 \<le> length s \<and> build_nul_terminated_string s = Err (StringExceedsBufferSize (length s) 512))"
  using assms by (auto simp: build_nul_terminated_string_def as_cstr_def cstr_until_nul_zero_padded)

theorem build_nul_terminated_string_roundtrip_witness:
  "\<exists>buf. build_nul_terminated_string ''/tmp'' = Ok buf \<and> as_cstr buf = Ok ''/tmp''"
  using build_nul_terminated_string_roundtrip [of "''/tmp''"] by auto

section \<open>Poll and epoll events\<close>

record pollfd =
  poll_fd :: int
  poll_events :: int
  poll_revents :: int

definition pollfd_new :: "int \<Rightarrow> int \<Rightarrow> pollfd" where
  "pollfd_new fd events = \<lparr>poll_fd = fd, poll_events = events, poll_revents = 0\<rparr>"

definition POLL_ERROR_MASK :: int where "POLL_ERROR_MASK = POLLERR OR POLLNVAL"

definition pollfd_check :: "pollfd \<Rightarrow> (pollfd, sys_error) outcome" where
  "pollfd_check p =
     (if poll_revents p AND POLL_ERROR_MASK \<noteq> 0
      then Err (PollFailure (poll_fd p) (poll_revents p AND POLL_ERROR_MASK)) else Ok p)"

definition pollfd_handle_event :: "pollfd \<Rightarrow> int \<Rightarrow> (int \<Rightarrow> 't) \<Rightarrow> 't option" where
  "pollfd_handle_event p event handler =
     (if poll_revents p AND event = event then Some (handler (poll_fd p)) else None)"

type_synonym epoll_event = "32 word \<times> 64 word"

definition EPOLL_ERROR_MASK :: "32 word" where "EPOLL_ERROR_MASK = EPOLLERR OR EPOLLPRI"

text \<open>\<^verbatim>\<open>EpollEventError::new\<close> with its debug assertion.\<close>

definition epoll_event_error :: "'w env \<Rightarrow> 32 word \<Rightarrow> 64 word \<Rightarrow> (sys_error, 'e) outcome" where
  "epoll_event_error E errors data =
     (if debug_assertions E \<and> errors AND EPOLL_ERROR_MASK = 0
      then Panic ''assertion failed: errors & EPOLL_ERROR_MASK != 0''
      else Ok (EpollFailure (errors AND EPOLL_ERROR_MASK) data))"

definition epoll_event_check :: "'w env \<Rightarrow> epoll_event \<Rightarrow> (epoll_event, sys_error) outcome" where
  "epoll_event_check E ev =
     (let error_flags = fst ev AND EPOLL_ERROR_MASK in
      if error_flags \<noteq> 0 then
        (case epoll_event_error E error_flags (snd ev) of
           Ok e \<Rightarrow> Err e | Err e \<Rightarrow> Err e | Panic p \<Rightarrow> Panic p | Diverges \<Rightarrow> Diverges)
      else Ok ev)"

definition epoll_has_event :: "epoll_event \<Rightarrow> 32 word \<Rightarrow> bool" where
  "epoll_has_event ev event \<longleftrightarrow> fst ev AND event = event"

definition epoll_handle_event :: "epoll_event \<Rightarrow> 32 word \<Rightarrow> (64 word \<Rightarrow> 't) \<Rightarrow> 't option" where
  "epoll_handle_event ev event handler =
     (if fst ev AND event = event then Some (handler (snd ev)) else None)"

text \<open>Handlers that may fail: the \<^verbatim>\<open>Err\<close> inside the \<^verbatim>\<open>Option\<close> is the failure of the program.\<close>

definition pollfd_try_handle_event :: "pollfd \<Rightarrow> int \<Rightarrow> (int \<Rightarrow> ('s, 'a, 'e) prog) \<Rightarrow> ('s, 'a option, 'e) prog" where
  "pollfd_try_handle_event p event handler =
     (if poll_revents p AND event = event then and_then (handler (poll_fd p)) (\<lambda>v. ok (Some v)) else ok None)"

definition epoll_try_handle_event ::
  "epoll_event \<Rightarrow> 32 word \<Rightarrow> (64 word \<Rightarrow> ('s, 'a, 'e) prog) \<Rightarrow> ('s, 'a option, 'e) prog"
where
  "epoll_try_handle_event ev event handler =
     (if fst ev AND event = event then and_then (handler (snd ev)) (\<lambda>v. ok (Some v)) else ok None)"

text \<open>The assertion never fires on the only path to it.\<close>

lemma epoll_event_check_eq:
  "epoll_event_check E ev =
     (if fst ev AND EPOLL_ERROR_MASK \<noteq> 0
      then Err (EpollFailure (fst ev AND EPOLL_ERROR_MASK) (snd ev)) else Ok ev)"
  by (simp add: epoll_event_check_def epoll_event_error_def and.assoc Let_def)

lemma epoll_event_check_Ok_iff [simp]:
  "epoll_event_check E ev = Ok ev' \<longleftrightarrow> ev' = ev \<and> fst ev AND EPOLL_ERROR_MASK = 0"
  by (auto simp: epoll_event_check_eq)

lemma pollfd_check_fresh: "pollfd_check (pollfd_new fd events) = Ok (pollfd_new fd events)"
  by (simp add: pollfd_check_def pollfd_new_def)

section \<open>Socket addresses\<close>

definition copied_name :: "string \<Rightarrow> string" where
  "copied_name name = take (min (length name) (SUN_PATH_LEN - 1)) name"

definition abstract_socket_address :: "string \<Rightarrow> int \<Rightarrow> (socket_addr, sys_error) outcome" where
  "abstract_socket_address name family =
     Ok \<lparr>address = \<lparr>sun_family = family, sun_path = zero_padded SUN_PATH_LEN (NUL # copied_name name)\<rparr>,
         socklen = (SUN_PATH_OFFSET + length name + 1) mod 2 ^ 32\<rparr>"

definition bound_socket_address :: "string \<Rightarrow> int \<Rightarrow> (socket_addr, sys_error) outcome" where
  "bound_socket_address path family =
     Ok \<lparr>address = \<lparr>sun_family = family, sun_path = zero_padded SUN_PATH_LEN (copied_name path)\<rparr>,
         socklen = (SUN_PATH_OFFSET + length path) mod 2 ^ 32\<rparr>"

definition create_abstract_socket :: "'w env \<Rightarrow> string \<Rightarrow> int \<Rightarrow> ('w, int, sys_error) prog" where
  "create_abstract_socket E name protocol =
     and_then (sys_socket E AF_UNIX protocol 0) (\<lambda>socket_fd.
     and_then (of_outcome (abstract_socket_address name AF_UNIX)) (\<lambda>socket_addr.
     and_then (sys_bind E socket_fd socket_addr) (\<lambda>_. ok socket_fd)))"

definition create_bound_socket :: "'w env \<Rightarrow> string \<Rightarrow> int \<Rightarrow> ('w, int, sys_error) prog" where
  "create_bound_socket E path protocol =
     and_then (sys_socket E AF_UNIX protocol 0) (\<lambda>socket_fd.
     and_then (of_outcome (bound_socket_address path AF_UNIX)) (\<lambda>socket_addr.
     and_then (sys_bind E socket_fd socket_addr) (\<lambda>_. ok socket_fd)))"

text \<open>
  The name the kernel takes from an address of the given length (\<^verbatim>\<open>man 7 unix\<close>): the bytes
  of the path field that the length covers; a pathname stops at its first NUL.
\<close>

definition covered_path :: "socket_addr \<Rightarrow> string" where
  "covered_path a = take (socklen a - SUN_PATH_OFFSET) (sun_path (address a))"

definition pathname_of :: "socket_addr \<Rightarrow> string" where
  "pathname_of a = takeWhile (\<lambda>c. c \<noteq> NUL) (covered_path a)"

lemma take_zero_padded: "k \<le> length bs \<Longrightarrow> k \<le> n \<Longrightarrow> take k (zero_padded n bs) = take k bs"
  by (simp add: zero_padded_def min_def)

lemma takeWhile_not_NUL: "NUL \<notin> set s \<Longrightarrow> takeWhile (\<lambda>c. c \<noteq> NUL) s = s"
  by (induction s) auto

text \<open>
  Both address builders denote the name they were given as long as it has at most 107
  bytes: the covered bytes are the leading NUL and the name (abstract), or the path itself.
\<close>

theorem socket_address_denotes_name:
  assumes "length name \<le> 107" and "NUL \<notin> set name"
  shows "\<exists>a b. abstract_socket_address name fam = Ok a \<and> covered_path a = NUL # name
      \<and> bound_socket_address name fam = Ok b \<and> pathname_of b = name
      \<and> socklen a \<le> SIZE_OF_SOCKADDR_UN \<and> socklen b < SIZE_OF_SOCKADDR_UN"
proof -
  have "copied_name name = name" using assms(1) by (simp add: copied_name_def)
  then show ?thesis
    using assms
    by (simp add: abstract_socket_address_def bound_socket_address_def covered_path_def
        pathname_of_def take_zero_padded takeWhile_not_NUL)
qed

theorem socket_address_denotes_name_witness:
  "\<exists>a. abstract_socket_address ''zygote'' 1 = Ok a \<and> covered_path a = NUL # ''zygote''"
  using socket_address_denotes_name [of "''zygote''" 1] by auto

text \<open>
  C32. A path of exactly 108 bytes, one more than fits, is not refused: the address still has the
  size of a \<^verbatim>\<open>sockaddr_un\<close>, so the kernel accepts it, but it denotes the path without its last
  byte. From 109 bytes on the length exceeds the structure.
\<close>

theorem bound_socket_address_truncates:
  assumes "NUL \<notin> set path" and "length path < 2 ^ 31"
  shows "\<exists>a. bound_socket_address path fam = Ok a
     \<and> (length path = 108 \<longrightarrow> socklen a = SIZE_OF_SOCKADDR_UN \<and> pathname_of a = butlast path)
     \<and> (108 < length path \<longrightarrow> SIZE_OF_SOCKADDR_UN < socklen a)"
proof -
  have "takeWhile (\<lambda>c. c \<noteq> NUL) (take 108 (zero_padded 108 (take 107 path))) = take 107 path"
    if "length path = 108"
  proof -
    have no_nul: "NUL \<notin> set (take 107 path)" using assms(1) by (auto dest: in_set_takeD)
    have "zero_padded 108 (take 107 path) = take 107 path @ [NUL]"
      using that by (simp add: zero_padded_def)
    with no_nul that show ?thesis by (simp add: takeWhile_append takeWhile_not_NUL)
  qed
  with assms(2) show ?thesis
    by (simp add: bound_socket_address_def copied_name_def pathname_of_def covered_path_def butlast_conv_take)
qed

theorem bound_socket_address_truncates_witness:
  "\<exists>a. bound_socket_address (replicate 108 (CHR ''a'')) 1 = Ok a
     \<and> pathname_of a = replicate 107 (CHR ''a'')"
  using bound_socket_address_truncates [of "replicate 108 (CHR ''a'')" 1]
  by (auto simp: butlast_conv_take)

section \<open>File types and permissions\<close>

definition get_file_type :: "stat \<Rightarrow> int" where
  "get_file_type st = st_mode st AND S_IFMT"

definition path_join :: "string \<Rightarrow> string \<Rightarrow> string" where
  "path_join path name =
     (if path = [] \<or> last path = CHR ''/'' then path @ name else path @ ''/'' @ name)"

definition std_bool :: "'w env \<Rightarrow> std_call \<Rightarrow> ('w, bool, 'e) prog" where
  "std_bool E c = and_then (invoke E (StdCall c)) (\<lambda>r. ok (retval r = 1))"

definition random_filename :: "'w env \<Rightarrow> nat \<Rightarrow> ('w, string, 'e) prog" where
  "random_filename E n = and_then (invoke E (StdCall (Std_random_filename n)))
     (\<lambda>r. ok (zero_padded n (out_bytes (outval r))))"

text \<open>The creation mode is octal 600.\<close>

definition have_write_permissions :: "'w env \<Rightarrow> string \<Rightarrow> ('w, bool, sys_error) prog" where
  "have_write_permissions E path =
     and_then (std_bool E (Std_path_exists path)) (\<lambda>exists.
     and_then (if exists then std_bool E (Std_path_is_dir path) else ok False) (\<lambda>is_dir.
     and_then (if is_dir then and_then (random_filename E 16)
                 (\<lambda>name. if utf8_valid name then ok (path_join path name) else fail Utf8)
               else ok path) (\<lambda>test_path.
     and_then (std_bool E (Std_path_exists test_path)) (\<lambda>preexisting_path.
     and_then (if utf8_valid test_path then of_outcome (build_nul_terminated_string test_path)
               else fail (OsString test_path)) (\<lambda>path_buffer.
     and_then (of_outcome (as_cstr path_buffer)) (\<lambda>c_path.
       match_result (sys_open E c_path (O_CREAT OR O_WRONLY) (Some 0x180))
         (\<lambda>fd. and_then (sys_close E fd) (\<lambda>_.
            and_then (if preexisting_path then ok ()
                      else and_then (of_outcome (as_cstr path_buffer)) (sys_unlink E)) (\<lambda>_.
            ok True)))
         (\<lambda>e. if e = Libc EACCES then ok False else fail e)))))))"

section \<open>Effective ids\<close>

record effective_id_context =
  ctx_ruid :: int
  ctx_rgid :: int
  ctx_euid :: "int option"
  ctx_egid :: "int option"

definition effective_id_enter ::
  "'w env \<Rightarrow> int option \<Rightarrow> int option \<Rightarrow> ('w, effective_id_context, sys_error) prog"
where
  "effective_id_enter E euid egid =
     and_then (case euid of Some u \<Rightarrow> sys_setreuid E ID_UNCHANGED u | None \<Rightarrow> ok ()) (\<lambda>_.
     and_then (case egid of Some g \<Rightarrow> sys_setregid E ID_UNCHANGED g | None \<Rightarrow> ok ()) (\<lambda>_.
     and_then (sys_getuid E) (\<lambda>ruid.
     and_then (sys_getgid E) (\<lambda>rgid.
       ok \<lparr>ctx_ruid = ruid, ctx_rgid = rgid, ctx_euid = euid, ctx_egid = egid\<rparr>))))"

definition effective_id_exit :: "'w env \<Rightarrow> effective_id_context \<Rightarrow> ('w, unit, sys_error) prog" where
  "effective_id_exit E ctx =
     and_then (if ctx_euid ctx \<noteq> None then sys_setreuid E ID_UNCHANGED (ctx_ruid ctx) else ok ()) (\<lambda>_.
     and_then (if ctx_egid ctx \<noteq> None then sys_setregid E ID_UNCHANGED (ctx_rgid ctx) else ok ()) (\<lambda>_.
       ok ()))"

text \<open>\<^verbatim>\<open>Drop\<close>: a failure to restore is a panic, unless the thread is unwinding from one already.\<close>

definition effective_id_drop :: "'w env \<Rightarrow> bool \<Rightarrow> effective_id_context \<Rightarrow> ('w, unit, 'e) prog" where
  "effective_id_drop E panicking ctx =
     match_result (effective_id_exit E ctx) ok
       (\<lambda>_. if \<not> panicking then panic ''Failed to restore effective permissions on drop'' else ok ())"

text \<open>
  What \<^verbatim>\<open>man setreuid\<close>, \<^verbatim>\<open>man getuid\<close> and \<^verbatim>\<open>man credentials\<close> say of the four ids of the caller:
  a successful \<^verbatim>\<open>setreuid(-1, e)\<close> sets the effective user id alone, or leaves it when \<open>e\<close> is
  -1 too, a failed one changes nothing, the queries change nothing, and -1 is the id of no
  process. Other parts of the world are not constrained.
\<close>

record ids =
  real_uid :: int
  eff_uid :: int
  real_gid :: int
  eff_gid :: int

text \<open>The id after it was set to \<open>new\<close>, where -1 leaves it.\<close>

definition id_set :: "int \<Rightarrow> int \<Rightarrow> int" where
  "id_set new old = (if new = ID_UNCHANGED then old else new)"

definition id_calls_documented :: "'w env \<Rightarrow> ('w \<Rightarrow> ids) \<Rightarrow> bool" where
  "id_calls_documented E ids_of \<longleftrightarrow>
     (\<forall>w r w' e. kernel E (CredCall (Libc_setreuid ID_UNCHANGED e)) w = (r, w') \<longrightarrow>
        ids_of w' = (if retval r = - 1 then ids_of w else (ids_of w)\<lparr>eff_uid := id_set e (eff_uid (ids_of w))\<rparr>)) \<and>
     (\<forall>w r w' e. kernel E (CredCall (Libc_setregid ID_UNCHANGED e)) w = (r, w') \<longrightarrow>
        ids_of w' = (if retval r = - 1 then ids_of w else (ids_of w)\<lparr>eff_gid := id_set e (eff_gid (ids_of w))\<rparr>)) \<and>
     (\<forall>w r w'. kernel E (CredCall Libc_getuid) w = (r, w') \<longrightarrow>
        ids_of w' = ids_of w \<and> retval r = real_uid (ids_of w)) \<and>
     (\<forall>w r w'. kernel E (CredCall Libc_getgid) w = (r, w') \<longrightarrow>
        ids_of w' = ids_of w \<and> retval r = real_gid (ids_of w)) \<and>
     (\<forall>w. real_uid (ids_of w) \<noteq> ID_UNCHANGED \<and> real_gid (ids_of w) \<noteq> ID_UNCHANGED)"

lemma id_calls_kernel:
  assumes "id_calls_documented E ids_of"
  shows "kernel E (CredCall (Libc_setreuid ID_UNCHANGED e)) w = (r, w') \<Longrightarrow>
      ids_of w' = (if retval r = - 1 then ids_of w else (ids_of w)\<lparr>eff_uid := id_set e (eff_uid (ids_of w))\<rparr>)"
    and "kernel E (CredCall (Libc_setregid ID_UNCHANGED e)) w = (r, w') \<Longrightarrow>
      ids_of w' = (if retval r = - 1 then ids_of w else (ids_of w)\<lparr>eff_gid := id_set e (eff_gid (ids_of w))\<rparr>)"
  using assms unfolding id_calls_documented_def by blast+

lemma real_ids: "id_calls_documented E ids_of \<Longrightarrow> real_uid (ids_of w) \<noteq> ID_UNCHANGED \<and> real_gid (ids_of w) \<noteq> ID_UNCHANGED"
  by (simp add: id_calls_documented_def)

lemma id_calls:
  assumes doc: "id_calls_documented E ids_of"
  shows setreuid_ids: "sys_setreuid E ID_UNCHANGED e w = (Ok (), w') \<Longrightarrow>
      ids_of w' = (ids_of w)\<lparr>eff_uid := id_set e (eff_uid (ids_of w))\<rparr>"
    and setregid_ids: "sys_setregid E ID_UNCHANGED e w = (Ok (), w') \<Longrightarrow>
      ids_of w' = (ids_of w)\<lparr>eff_gid := id_set e (eff_gid (ids_of w))\<rparr>"
    and getuid_ids: "sys_getuid E w = (Ok u, w') \<Longrightarrow> ids_of w' = ids_of w \<and> u = real_uid (ids_of w)"
    and getgid_ids: "sys_getgid E w = (Ok u, w') \<Longrightarrow> ids_of w' = ids_of w \<and> u = real_gid (ids_of w)"
proof -
  show "sys_setreuid E ID_UNCHANGED e w = (Ok (), w') \<Longrightarrow>
      ids_of w' = (ids_of w)\<lparr>eff_uid := id_set e (eff_uid (ids_of w))\<rparr>"
    and "sys_setregid E ID_UNCHANGED e w = (Ok (), w') \<Longrightarrow>
      ids_of w' = (ids_of w)\<lparr>eff_gid := id_set e (eff_gid (ids_of w))\<rparr>"
    by (auto simp: sys_setreuid_def sys_setregid_def checked_call_eq_iff check_failure_with_void_def
        split: if_splits dest!: id_calls_kernel [OF doc])
  show "sys_getuid E w = (Ok u, w') \<Longrightarrow> ids_of w' = ids_of w \<and> u = real_uid (ids_of w)"
    and "sys_getgid E w = (Ok u, w') \<Longrightarrow> ids_of w' = ids_of w \<and> u = real_gid (ids_of w)"
    using doc by (auto simp: id_calls_documented_def sys_getuid_def sys_getgid_def and_then_eq_Ok_iff)
qed

lemma effective_id_enter_ids:
  assumes doc: "id_calls_documented E ids_of" and run: "effective_id_enter E eu eg w = (Ok ctx, w')"
  shows "ids_of w' = (ids_of w)\<lparr>eff_uid := (case eu of Some u \<Rightarrow> id_set u | None \<Rightarrow> id) (eff_uid (ids_of w)),
                                eff_gid := (case eg of Some g \<Rightarrow> id_set g | None \<Rightarrow> id) (eff_gid (ids_of w))\<rparr>
    \<and> ctx = \<lparr>ctx_ruid = real_uid (ids_of w), ctx_rgid = real_gid (ids_of w), ctx_euid = eu, ctx_egid = eg\<rparr>"
  using run
  by (auto simp: effective_id_enter_def and_then_eq_Ok_iff split: option.splits
      dest!: setreuid_ids [OF doc] setregid_ids [OF doc] getuid_ids [OF doc] getgid_ids [OF doc])

lemma effective_id_exit_ids:
  assumes doc: "id_calls_documented E ids_of" and run: "effective_id_exit E ctx w = (Ok (), w')"
  shows "ids_of w' = (ids_of w)\<lparr>eff_uid := (if ctx_euid ctx \<noteq> None then id_set (ctx_ruid ctx) else id) (eff_uid (ids_of w)),
                                eff_gid := (if ctx_egid ctx \<noteq> None then id_set (ctx_rgid ctx) else id) (eff_gid (ids_of w))\<rparr>"
  using run
  by (auto simp: effective_id_exit_def and_then_eq_Ok_iff split: if_splits
      dest!: setreuid_ids [OF doc] setregid_ids [OF doc])

text \<open>
  C30. The effective-id guard: after a successful \<^verbatim>\<open>enter\<close> and \<^verbatim>\<open>exit\<close>, with any work between
  them that keeps the ids, the effective id of every kind that was switched is the real id (not
  necessarily the effective id held before), the others are untouched; so a process whose
  effective ids were its real ids is back exactly where it was.
\<close>

theorem effective_ids_restored:
  assumes doc: "id_calls_documented E ids_of"
    and enter: "effective_id_enter E eu eg w = (Ok ctx, w1)"
    and work: "ids_of w2 = ids_of w1"
    and exit: "effective_id_exit E ctx w2 = (Ok (), w3)"
  shows "ids_of w3 = (ids_of w)\<lparr>eff_uid := (if eu = None then eff_uid else real_uid) (ids_of w),
                                eff_gid := (if eg = None then eff_gid else real_gid) (ids_of w)\<rparr>
    \<and> (eff_uid (ids_of w) = real_uid (ids_of w) \<and> eff_gid (ids_of w) = real_gid (ids_of w)
        \<longrightarrow> ids_of w3 = ids_of w)"
  using effective_id_enter_ids [OF doc enter] effective_id_exit_ids [OF doc exit] work real_ids [OF doc, of w]
  by (auto simp: id_set_def split: option.splits)

text \<open>
  \<^verbatim>\<open>enter\<close> is not atomic: when the user id was switched and the group id is then refused
  (what Linux does once root was given up), the error leaves the new effective user id in place
  and there is no guard to undo it.
\<close>

theorem effective_id_enter_not_atomic:
  assumes doc: "id_calls_documented E ids_of" and new: "u \<noteq> ID_UNCHANGED"
    and set_uid: "kernel E (CredCall (Libc_setreuid ID_UNCHANGED u)) w = (r, w1)" "retval r \<noteq> - 1"
    and set_gid: "kernel E (CredCall (Libc_setregid ID_UNCHANGED g)) w1 = (r', w2)" "retval r' = - 1"
  shows "effective_id_enter E (Some u) (Some g) w = (Err (Libc (errno_after r')), w2)
    \<and> eff_uid (ids_of w2) = u"
  using assms
  by (simp add: effective_id_enter_def sys_setreuid_def sys_setregid_def prog_simps check_defs
      id_calls_documented_def id_set_def)

text \<open>
  A process table of one process, where only a process with effective user 0 may switch. A stored
  real id of -1 stands for the overflow id, which the queries report instead.
\<close>

definition valid_id :: "int \<Rightarrow> int" where
  "valid_id i = (if i = ID_UNCHANGED then 65534 else i)"

definition ids_view :: "ids \<Rightarrow> ids" where
  "ids_view i = i\<lparr>real_uid := valid_id (real_uid i), real_gid := valid_id (real_gid i)\<rparr>"

definition ids_kernel :: "syscall \<Rightarrow> ids \<Rightarrow> sysret \<times> ids" where
  "ids_kernel c i =
     (let answer = (\<lambda>v. \<lparr>retval = v, errno_after = (if v = - 1 then EPERM else 0), outval = NoOut\<rparr>) in
      case c of
        CredCall (Libc_setreuid _ e) \<Rightarrow>
          if eff_uid i = 0 \<or> e = real_uid i then (answer 0, i\<lparr>eff_uid := id_set e (eff_uid i)\<rparr>) else (answer (- 1), i)
      | CredCall (Libc_setregid _ e) \<Rightarrow>
          if eff_uid i = 0 \<or> e = real_gid i then (answer 0, i\<lparr>eff_gid := id_set e (eff_gid i)\<rparr>) else (answer (- 1), i)
      | CredCall Libc_getuid \<Rightarrow> (answer (valid_id (real_uid i)), i)
      | CredCall Libc_getgid \<Rightarrow> (answer (valid_id (real_gid i)), i)
      | _ \<Rightarrow> (answer 0, i))"

abbreviation ids_env :: "ids env" where
  "ids_env \<equiv> \<lparr>kernel = ids_kernel, loop_fuel = 1, debug_assertions = False\<rparr>"

lemma ids_kernel_documented: "id_calls_documented ids_env ids_view"
proof -
  have valid: "valid_id i \<noteq> ID_UNCHANGED" for i by (simp add: valid_id_def ID_UNCHANGED_def)
  show ?thesis
    by (simp add: id_calls_documented_def ids_kernel_def ids_view_def valid split: if_split) (auto simp: ids_view_def)
qed

theorem effective_ids_restored_witness:
  "let w = \<lparr>real_uid = 0, eff_uid = 0, real_gid = 0, eff_gid = 0\<rparr>;
       w1 = w\<lparr>eff_uid := 1000\<rparr>; ctx = \<lparr>ctx_ruid = 0, ctx_rgid = 0, ctx_euid = Some 1000, ctx_egid = None\<rparr>
   in effective_id_enter ids_env (Some 1000) None w = (Ok ctx, w1) \<and> snd (effective_id_exit ids_env ctx w1) = w"
proof -
  let ?w = "\<lparr>real_uid = 0, eff_uid = 0, real_gid = 0, eff_gid = 0\<rparr>"
  let ?ctx = "\<lparr>ctx_ruid = 0, ctx_rgid = 0, ctx_euid = Some 1000, ctx_egid = None\<rparr>"
  have enter: "effective_id_enter ids_env (Some 1000) None ?w = (Ok ?ctx, ?w\<lparr>eff_uid := 1000\<rparr>)"
    by (simp add: effective_id_enter_def sys_setreuid_def sys_getuid_def sys_getgid_def
        and_then_def match_result_def checked_call_def invoke_def ids_kernel_def check_defs ok_def of_outcome_def
        id_set_def valid_id_def ID_UNCHANGED_def)
  have exit: "effective_id_exit ids_env ?ctx (?w\<lparr>eff_uid := 1000\<rparr>) = (Ok (), ?w)"
    by (simp add: effective_id_exit_def sys_setreuid_def
        and_then_def match_result_def checked_call_def invoke_def ids_kernel_def check_defs ok_def of_outcome_def
        id_set_def ID_UNCHANGED_def)
  from effective_ids_restored [OF ids_kernel_documented enter refl exit] enter exit
  show ?thesis by (simp add: Let_def)
qed

theorem effective_id_enter_not_atomic_witness:
  "let w = \<lparr>real_uid = 0, eff_uid = 0, real_gid = 0, eff_gid = 0\<rparr>
   in effective_id_enter ids_env (Some 1000) (Some 1000) w = (Err (Libc EPERM), w\<lparr>eff_uid := 1000\<rparr>)"
  using effective_id_enter_not_atomic [OF ids_kernel_documented, of 1000
      "\<lparr>real_uid = 0, eff_uid = 0, real_gid = 0, eff_gid = 0\<rparr>"
      "\<lparr>retval = 0, errno_after = 0, outval = NoOut\<rparr>"
      "\<lparr>real_uid = 0, eff_uid = 1000, real_gid = 0, eff_gid = 0\<rparr>" 1000
      "\<lparr>retval = - 1, errno_after = EPERM, outval = NoOut\<rparr>"
      "\<lparr>real_uid = 0, eff_uid = 1000, real_gid = 0, eff_gid = 0\<rparr>"]
  by (simp add: ids_kernel_def ids_view_def id_set_def ID_UNCHANGED_def Let_def)

end
