(* ===== verification/Proc_Fs.thy ===== *)
theory Proc_Fs
  imports Sys_Util
begin

text \<open>
  \<^verbatim>\<open>zygote-sys/src/procfs.rs\<close>: the iterator over \<^verbatim>\<open>/proc/self/fd\<close>, the link information of
  a descriptor, and the parser of \<^verbatim>\<open>/proc/self/stat\<close> behind the single-thread assertions.
  The main result on the parser: whatever bytes the process name holds, blanks and parentheses
  included, the numeric fields are read from the right columns.
\<close>

section \<open>Lossy UTF-8 decoding\<close>

text \<open>
  \<^verbatim>\<open>String::from_utf8_lossy\<close> replaces each maximal ill-formed prefix by U+FFFD.
  \<open>utf8_chunk c0 cs\<close> looks at a non-ASCII lead byte and what follows: how many bytes belong
  to it and whether they form a character.
\<close>

definition second_byte_ok :: "nat \<Rightarrow> nat \<Rightarrow> bool" where
  "second_byte_ok b0 b1 \<longleftrightarrow>
     (if b0 = 0xE0 then 0xA0 \<le> b1 \<and> b1 < 0xC0
      else if b0 = 0xED then 0x80 \<le> b1 \<and> b1 < 0xA0
      else if b0 = 0xF0 then 0x90 \<le> b1 \<and> b1 < 0xC0
      else if b0 = 0xF4 then 0x80 \<le> b1 \<and> b1 < 0x90
      else 0x80 \<le> b1 \<and> b1 < 0xC0)"

fun utf8_tail :: "nat \<Rightarrow> string \<Rightarrow> nat \<times> bool" where
  "utf8_tail 0 cs = (0, True)"
| "utf8_tail (Suc n) [] = (0, False)"
| "utf8_tail (Suc n) (c # cs) =
     (if utf8_cont c then (case utf8_tail n cs of (k, b) \<Rightarrow> (Suc k, b)) else (0, False))"

definition utf8_chunk :: "char \<Rightarrow> string \<Rightarrow> nat \<times> bool" where
  "utf8_chunk c0 cs =
     (let b0 = (of_char c0 :: nat);
          width = (if b0 < 0xC2 then 0 else if b0 < 0xE0 then 1 else if b0 < 0xF0 then 2
                   else if b0 < 0xF5 then 3 else 0)
      in if width = 0 then (0, False)
         else (case cs of [] \<Rightarrow> (0, False)
           | c1 # cs' \<Rightarrow>
               if second_byte_ok b0 (of_char c1) then
                 (case utf8_tail (width - 1) cs' of (k, b) \<Rightarrow> (Suc k, b))
               else (0, False)))"

definition REPLACEMENT :: string where "REPLACEMENT = [CHR 0xEF, CHR 0xBF, CHR 0xBD]"

function from_utf8_lossy :: "string \<Rightarrow> string" where
  "from_utf8_lossy [] = []"
| "from_utf8_lossy (c # cs) =
     (if (of_char c :: nat) < 0x80 then c # from_utf8_lossy cs
      else (case utf8_chunk c cs of (k, valid) \<Rightarrow>
        (if valid then c # take k cs else REPLACEMENT) @ from_utf8_lossy (drop k cs)))"
  by pat_completeness auto
termination
  by (relation "measure length") auto

declare from_utf8_lossy.simps [simp del]

lemma from_utf8_lossy_Nil [simp]: "from_utf8_lossy [] = []"
  by (simp add: from_utf8_lossy.simps)

lemma from_utf8_lossy_ascii_Cons:
  "(of_char c :: nat) < 0x80 \<Longrightarrow> from_utf8_lossy (c # cs) = c # from_utf8_lossy cs"
  by (simp add: from_utf8_lossy.simps)

lemma utf8_tail_append:
  assumes "b = [] \<or> \<not> utf8_cont (hd b)"
  shows "utf8_tail n (a @ b) = utf8_tail n a \<and> fst (utf8_tail n a) \<le> length a"
  using assms
  by (induction n a rule: utf8_tail.induct)
     (cases b; auto split: prod.splits)+

text \<open>An ASCII byte ends every chunk, so decoding splits there.\<close>

lemma ascii_not_cont: "(of_char c :: nat) < 0x80 \<Longrightarrow> \<not> utf8_cont c \<and> \<not> second_byte_ok n (of_char c)"
  by (auto simp: utf8_cont_def second_byte_ok_def)

lemma utf8_chunk_append:
  assumes b: "b = [] \<or> (of_char (hd b) :: nat) < 0x80"
  shows "utf8_chunk c (a @ b) = utf8_chunk c a \<and> fst (utf8_chunk c a) \<le> length a"
proof -
  from b have b': "b = [] \<or> \<not> utf8_cont (hd b)" using ascii_not_cont by blast
  show ?thesis
  proof (cases a)
    case Nil
    with b show ?thesis
      by (cases b) (auto simp: utf8_chunk_def Let_def dest: ascii_not_cont)
  next
    case (Cons c1 a')
    show ?thesis
      using utf8_tail_append [OF b'] by (auto simp: Cons utf8_chunk_def Let_def split: prod.splits)
        (metis fst_conv)+
  qed
qed

lemma from_utf8_lossy_append:
  assumes "b = [] \<or> (of_char (hd b) :: nat) < 0x80"
  shows "from_utf8_lossy (a @ b) = from_utf8_lossy a @ from_utf8_lossy b"
proof (induction a rule: from_utf8_lossy.induct)
  case (2 c cs)
  obtain k v where kv: "utf8_chunk c cs = (k, v)" by fastforce
  with utf8_chunk_append [OF assms, of c cs] have k: "utf8_chunk c (cs @ b) = (k, v)" "k \<le> length cs"
    by auto
  show ?case
    using 2 kv k by (simp add: from_utf8_lossy.simps(2))
qed simp

lemma from_utf8_lossy_ascii: "ascii s \<Longrightarrow> from_utf8_lossy s = s"
  by (induction s) (auto simp: ascii_def from_utf8_lossy_ascii_Cons)

section \<open>Errors\<close>

datatype procfs_error =
    InaccessibleFdDir sys_error
  | InaccessibleProcStat int
  | ProcInvalidCString
  | InvalidProcEntry
  | InvalidProcSymlink sys_error
  | UnexpectedProcStatFormat string
  | ProcUtf8

section \<open>Open descriptors\<close>

definition PROC_SELF_FD_DIR :: string where "PROC_SELF_FD_DIR = ''/proc/self/fd''"

definition get_proc_fd_path :: "int \<Rightarrow> string" where
  "get_proc_fd_path fd = path_join PROC_SELF_FD_DIR (show_int fd)"

definition assert_fd_open :: "'w env \<Rightarrow> int \<Rightarrow> ('w, unit, 'e) prog" where
  "assert_fd_open E fd = and_then (std_bool E (Std_path_exists (get_proc_fd_path fd)))
     (\<lambda>b. if b then ok () else panic ''assertion failed: get_proc_fd_path(fd).exists()'')"

definition assert_fd_closed :: "'w env \<Rightarrow> int \<Rightarrow> ('w, unit, 'e) prog" where
  "assert_fd_closed E fd = and_then (std_bool E (Std_path_exists (get_proc_fd_path fd)))
     (\<lambda>b. if \<not> b then ok () else panic ''assertion failed: !get_proc_fd_path(fd).exists()'')"

record proc_fd_iterator =
  iter_dir :: int
  iter_dir_fd :: int

text \<open>Dropping the iterator drops its directory stream.\<close>

definition proc_fd_drop :: "'w env \<Rightarrow> int \<Rightarrow> 'w \<Rightarrow> 'w" where
  "proc_fd_drop E dir w = libc_dir_drop E dir w"

definition proc_fd_iterator_new :: "'w env \<Rightarrow> ('w, proc_fd_iterator, procfs_error) prog" where
  "proc_fd_iterator_new E =
     and_then (std_bool E (Std_path_exists PROC_SELF_FD_DIR)) (\<lambda>exists.
       if \<not> exists then panic ''assertion failed: Path::new(PROC_SELF_FD_DIR_STR).exists()''
       else
         and_then (map_err InaccessibleFdDir (sys_opendir E PROC_SELF_FD_DIR)) (\<lambda>dir.
           match_result (sys_dirfd E dir)
             (\<lambda>dir_fd. ok \<lparr>iter_dir = dir, iter_dir_fd = dir_fd\<rparr>)
             (\<lambda>e. and_then (modify (proc_fd_drop E dir)) (\<lambda>_. fail (InaccessibleFdDir e)))))"

definition next_fd :: "proc_fd_iterator \<Rightarrow> string \<Rightarrow> (int option, procfs_error) outcome" where
  "next_fd it dir_entry =
     (if dir_entry = [] \<or> \<not> is_ascii_digit (hd dir_entry) then Ok None
      else if \<not> utf8_valid dir_entry then Err ProcUtf8
      else (case parse_i32 dir_entry of
              None \<Rightarrow> Err InvalidProcEntry
            | Some open_fd \<Rightarrow> Ok (if iter_dir_fd it \<noteq> open_fd then Some open_fd else None)))"

text \<open>
  \<^verbatim>\<open>Iterator::next\<close>. An item that is an \<^verbatim>\<open>Err\<close> is the error of the program: every consumer
  returns it at once.
\<close>

fun proc_fd_next :: "nat \<Rightarrow> 'w env \<Rightarrow> proc_fd_iterator \<Rightarrow> ('w, int option, procfs_error) prog" where
  "proc_fd_next 0 E it = diverge"
| "proc_fd_next (Suc n) E it =
     and_then (sys_readdir E (iter_dir it)) (\<lambda>entry.
       case entry of
         None \<Rightarrow> ok None
       | Some name \<Rightarrow>
           and_then (of_outcome (next_fd it name)) (\<lambda>r.
             case r of Some fd \<Rightarrow> ok (Some fd) | None \<Rightarrow> proc_fd_next n E it))"

text \<open>All items of an iterator, in the order it yields them.\<close>

fun proc_fd_list :: "nat \<Rightarrow> 'w env \<Rightarrow> proc_fd_iterator \<Rightarrow> ('w, int list, procfs_error) prog" where
  "proc_fd_list 0 E it = diverge"
| "proc_fd_list (Suc n) E it =
     and_then (proc_fd_next (loop_fuel E) E it) (\<lambda>r.
       case r of
         None \<Rightarrow> ok []
       | Some fd \<Rightarrow> and_then (proc_fd_list n E it) (\<lambda>fds. ok (fd # fds)))"

definition get_proc_fd_link_info :: "'w env \<Rightarrow> int \<Rightarrow> ('w, string, procfs_error) prog" where
  "get_proc_fd_link_info E fd =
     (let path_cstr_buff = PROC_SELF_FD_DIR @ ''/'' @ show_int fd @ [NUL] in
      if BUFFER_SIZE_STRINGS < length path_cstr_buff then panic ''Proc path exceeds buffer size''
      else (case cstr_until_nul path_cstr_buff of
              None \<Rightarrow> fail ProcInvalidCString
            | Some path_cstr \<Rightarrow> map_err InvalidProcSymlink (sys_readlink E path_cstr)))"

section \<open>\<^verbatim>\<open>/proc/self/stat\<close>\<close>

record proc_stat =
  ps_pid :: nat
  ps_pgrp :: nat
  ps_minflt :: nat
  ps_cminflt :: nat
  ps_majflt :: nat
  ps_cmajflt :: nat
  ps_utime :: nat
  ps_stime :: nat
  ps_num_threads :: nat
  ps_vsize :: nat
  ps_rss :: nat

abbreviation PROC_STAT_BUFFER_SIZE :: nat where "PROC_STAT_BUFFER_SIZE \<equiv> 512"
abbreviation PROC_STAT_NUM_ENTRIES :: nat where "PROC_STAT_NUM_ENTRIES \<equiv> 52"

definition field :: "(string \<Rightarrow> nat option) \<Rightarrow> string \<Rightarrow> (nat, procfs_error) outcome" where
  "field parse s = (case parse s of Some n \<Rightarrow> Ok n | None \<Rightarrow> Err (UnexpectedProcStatFormat s))"

definition parse_proc_stat :: "string \<Rightarrow> (proc_stat, procfs_error) outcome" where
  "parse_proc_stat text =
     (case rsplit_once '') '' text of
        None \<Rightarrow> Err (UnexpectedProcStatFormat text)
      | Some (text_left, text_right) \<Rightarrow>
     (case split_once '' ('' text_left of
        None \<Rightarrow> Err (UnexpectedProcStatFormat text)
      | Some (pid_str, _) \<Rightarrow>
      bind_outcome (arrayvec_collect PROC_STAT_NUM_ENTRIES (split_whitespace text_right)) (\<lambda>rest.
      if length rest \<noteq> PROC_STAT_NUM_ENTRIES - 2 then Panic ''assertion `left == right` failed''
      else
      bind_outcome (field parse_u32 pid_str) (\<lambda>pid.
      bind_outcome (field parse_u32 (rest ! 2)) (\<lambda>pgrp.
      bind_outcome (field parse_u64 (rest ! 7)) (\<lambda>minflt.
      bind_outcome (field parse_u64 (rest ! 8)) (\<lambda>cminflt.
      bind_outcome (field parse_u64 (rest ! 9)) (\<lambda>majflt.
      bind_outcome (field parse_u64 (rest ! 10)) (\<lambda>cmajflt.
      bind_outcome (field parse_u64 (rest ! 11)) (\<lambda>utime.
      bind_outcome (field parse_u64 (rest ! 12)) (\<lambda>stime.
      bind_outcome (field parse_u64 (rest ! 17)) (\<lambda>num_threads.
      bind_outcome (field parse_u64 (rest ! 20)) (\<lambda>vsize.
      bind_outcome (field parse_u64 (rest ! 21)) (\<lambda>rss.
        Ok \<lparr>ps_pid = pid, ps_pgrp = pgrp, ps_minflt = minflt, ps_cminflt = cminflt,
            ps_majflt = majflt, ps_cmajflt = cmajflt, ps_utime = utime, ps_stime = stime,
            ps_num_threads = num_threads, ps_vsize = vsize, ps_rss = rss\<rparr>))))))))))))))"

definition proc_stat_get :: "'w env \<Rightarrow> ('w, proc_stat, procfs_error) prog" where
  "proc_stat_get E =
     and_then (invoke E (StdCall (Std_read_file ''/proc/self/stat'' PROC_STAT_BUFFER_SIZE))) (\<lambda>r.
       if retval r = - 1 then fail (InaccessibleProcStat (errno_after r))
       else
         of_outcome (parse_proc_stat (from_utf8_lossy
           (take (nat (retval r)) (zero_padded PROC_STAT_BUFFER_SIZE (out_bytes (outval r)))))))"

definition assert_single_threaded :: "'w env \<Rightarrow> ('w, unit, 'e) prog" where
  "assert_single_threaded E =
     and_then (expect ''called Result::unwrap() on an Err value'' (proc_stat_get E))
       (\<lambda>st. if ps_num_threads st = 1 then ok () else panic ''assertion `left == right` failed'')"

definition debug_assert_single_threaded :: "'w env \<Rightarrow> ('w, unit, 'e) prog" where
  "debug_assert_single_threaded E = when_do (debug_assertions E) (assert_single_threaded E)"

section \<open>The columns are found whatever the process name holds\<close>

lemma from_utf8_lossy_ascii_append: "ascii a \<Longrightarrow> from_utf8_lossy (a @ s) = a @ from_utf8_lossy s"
  by (induction a) (auto simp: ascii_def from_utf8_lossy_ascii_Cons)

lemma ascii_append [simp]: "ascii (a @ b) \<longleftrightarrow> ascii a \<and> ascii b"
  by (auto simp: ascii_def)

lemma ascii_show_nat: "ascii (show_nat n)"
  using show_nat_digits [of n] by (auto simp: ascii_def is_ascii_digit_def)

lemma show_nat_no_blank: "CHR '' '' \<notin> set (show_nat n)"
  using show_nat_digits [of n] by (auto simp: is_ascii_digit_def)

lemma split_whitespace_acc_trailing:
  "is_space c \<Longrightarrow> split_whitespace_acc cur (s @ [c]) = split_whitespace_acc cur s"
  by (induction s arbitrary: cur) auto

definition plain_word :: "string \<Rightarrow> bool" where
  "plain_word w \<longleftrightarrow> w \<noteq> [] \<and> (\<forall>c \<in> set w. (of_char c :: nat) < 0x80 \<and> \<not> is_space c \<and> c \<noteq> CHR '')'')"

lemma join_blank_plain:
  "\<forall>w \<in> set ws. plain_word w \<Longrightarrow> ascii (join_blank ws) \<and> CHR '')'' \<notin> set (join_blank ws)"
  by (induction ws rule: join_blank.induct) (auto simp: plain_word_def ascii_def)

text \<open>A line of \<^verbatim>\<open>/proc/self/stat\<close>: pid, name in parentheses, then the other columns.\<close>

definition stat_line :: "nat \<Rightarrow> string \<Rightarrow> string list \<Rightarrow> string" where
  "stat_line pid comm rest = show_nat pid @ '' ('' @ comm @ '') '' @ join_blank rest @ ''\<newline>''"

lemma parse_stat_line_split:
  assumes plain: "\<forall>w \<in> set rest. plain_word w"
  shows "rsplit_once '') '' (from_utf8_lossy (stat_line pid comm rest)) =
      Some (show_nat pid @ '' ('' @ from_utf8_lossy comm, join_blank rest @ ''\<newline>'')"
    and "split_once '' ('' (show_nat pid @ '' ('' @ x) = Some (show_nat pid, x)"
    and "split_whitespace (join_blank rest @ ''\<newline>'') = rest"
proof -
  have tail: "ascii ('') '' @ join_blank rest @ ''\<newline>'')"
    using join_blank_plain [OF plain] by (simp add: ascii_def)
  have "from_utf8_lossy (stat_line pid comm rest)
      = show_nat pid @ '' ('' @ from_utf8_lossy (comm @ '') '' @ join_blank rest @ ''\<newline>'')"
    using from_utf8_lossy_ascii_append [of "show_nat pid @ '' (''"] ascii_show_nat
    by (simp add: stat_line_def ascii_def)
  also have "from_utf8_lossy (comm @ '') '' @ join_blank rest @ ''\<newline>'')
      = from_utf8_lossy comm @ '') '' @ join_blank rest @ ''\<newline>''"
    using from_utf8_lossy_ascii [OF tail] by (subst from_utf8_lossy_append) auto
  finally have line: "from_utf8_lossy (stat_line pid comm rest)
      = (show_nat pid @ '' ('' @ from_utf8_lossy comm) @ '') '' @ join_blank rest @ ''\<newline>''"
    by simp
  show "rsplit_once '') '' (from_utf8_lossy (stat_line pid comm rest)) =
      Some (show_nat pid @ '' ('' @ from_utf8_lossy comm, join_blank rest @ ''\<newline>'')"
    unfolding line using join_blank_plain [OF plain] by (intro rsplit_once_last) auto
  show "split_once '' ('' (show_nat pid @ '' ('' @ x) = Some (show_nat pid, x)"
    using show_nat_no_blank by (intro split_once_first)
  show "split_whitespace (join_blank rest @ ''\<newline>'') = rest"
    using split_whitespace_join [of rest] plain
    by (simp add: split_whitespace_def split_whitespace_acc_trailing is_space_def plain_word_def)
qed

text \<open>
  C31. \<^verbatim>\<open>ProcStat::get\<close> reads every field from its own column whatever bytes the process name
  between the parentheses is made of, closing parentheses and blanks included: if the file holds
  the line for process \<open>pid\<close> with name \<open>comm\<close> and 50 further plain columns in which the fields
  are printed in decimal, exactly these numbers come back.
\<close>

theorem proc_stat_get_robust:
  assumes read: "kernel E (StdCall (Std_read_file ''/proc/self/stat'' 512)) w
      = (\<lparr>retval = int (length line), errno_after = 0, outval = OutBytes line\<rparr>, w')"
    and line: "line = stat_line pid comm rest" "length line \<le> 512"
    and rest: "length rest = 50" "\<forall>v \<in> set rest. plain_word v"
    and ids: "pid < 2 ^ 32" "rest ! 2 = show_nat pgrp" "pgrp < 2 ^ 32"
    and faults: "rest ! 7 = show_nat minflt" "rest ! 8 = show_nat cminflt" "rest ! 9 = show_nat majflt"
      "rest ! 10 = show_nat cmajflt" "{minflt, cminflt, majflt, cmajflt} \<subseteq> {..< 2 ^ 64}"
    and others: "rest ! 11 = show_nat utime" "rest ! 12 = show_nat stime"
      "rest ! 17 = show_nat num_threads" "rest ! 20 = show_nat vsize" "rest ! 21 = show_nat rss"
      "{utime, stime, num_threads, vsize, rss} \<subseteq> {..< 2 ^ 64}"
  shows "proc_stat_get E w =
    (Ok \<lparr>ps_pid = pid, ps_pgrp = pgrp, ps_minflt = minflt, ps_cminflt = cminflt,
         ps_majflt = majflt, ps_cmajflt = cmajflt, ps_utime = utime, ps_stime = stime,
         ps_num_threads = num_threads, ps_vsize = vsize, ps_rss = rss\<rparr>, w')"
proof -
  have u32: "field parse_u32 (show_nat n) = Ok n" if "n < 2 ^ 32" for n
    using that by (simp add: field_def parse_u32_def parse_unsigned_show_nat)
  have u64: "field parse_u64 (show_nat n) = Ok n" if "n < 2 ^ 64" for n
    using that by (simp add: field_def parse_u64_def parse_unsigned_show_nat)
  have buf: "take (length line) (zero_padded 512 line) = line"
    using line(2) by (simp add: take_zero_padded)
  have "parse_proc_stat (from_utf8_lossy line) =
    Ok \<lparr>ps_pid = pid, ps_pgrp = pgrp, ps_minflt = minflt, ps_cminflt = cminflt,
         ps_majflt = majflt, ps_cmajflt = cmajflt, ps_utime = utime, ps_stime = stime,
         ps_num_threads = num_threads, ps_vsize = vsize, ps_rss = rss\<rparr>"
    using ids faults others rest(1) unfolding line(1)
    by (simp add: parse_proc_stat_def parse_stat_line_split [OF rest(2), simplified] arrayvec_collect_def u32 u64)
  with read show ?thesis
    by (simp add: proc_stat_get_def prog_simps buf)
qed

abbreviation stat_env :: "unit env" where
  "stat_env \<equiv> \<lparr>kernel = (\<lambda>c w. (\<lparr>retval = int (length (stat_line 77 '') (a b'' (replicate 50 ''1''))),
      errno_after = 0, outval = OutBytes (stat_line 77 '') (a b'' (replicate 50 ''1''))\<rparr>, w)),
    loop_fuel = 1, debug_assertions = True\<rparr>"

theorem proc_stat_get_robust_witness:
  "fst (proc_stat_get stat_env ()) =
    Ok \<lparr>ps_pid = 77, ps_pgrp = 1, ps_minflt = 1, ps_cminflt = 1, ps_majflt = 1, ps_cmajflt = 1,
         ps_utime = 1, ps_stime = 1, ps_num_threads = 1, ps_vsize = 1, ps_rss = 1\<rparr>"
proof -
  have one: "show_nat 1 = ''1''" by (subst show_nat.simps) (simp add: digit_char_def char_of_def bit_iff_odd)
  have "show_nat 77 = ''77''" by (subst show_nat.simps, subst show_nat.simps) (simp add: digit_char_def char_of_def bit_iff_odd)
  then have len: "length (stat_line 77 '') (a b'' (replicate 50 ''1'')) \<le> 512"
    by (simp add: stat_line_def numeral_eq_Suc)
  have "proc_stat_get stat_env () =
    (Ok \<lparr>ps_pid = 77, ps_pgrp = 1, ps_minflt = 1, ps_cminflt = 1, ps_majflt = 1, ps_cmajflt = 1,
         ps_utime = 1, ps_stime = 1, ps_num_threads = 1, ps_vsize = 1, ps_rss = 1\<rparr>, ())"
    by (rule proc_stat_get_robust [where rest = "replicate 50 ''1''" and comm = "'') (a b''" and w' = "()"])
       (use len one in \<open>simp_all add: plain_word_def is_space_def\<close>)
  then show ?thesis by simp
qed

section \<open>Iterating over open descriptors\<close>

text \<open>
  Which directory entries \<^verbatim>\<open>ProcFdIterator\<close> yields: an entry that is the decimal name of
  descriptor \<open>fd\<close> yields exactly \<open>fd\<close>, unless it is the iterator's own directory
  descriptor; entries that do not start with a digit, such as the two dot entries, are skipped.
\<close>

theorem next_fd_decodes:
  "(0 \<le> fd \<and> fd < 2 ^ 31 \<longrightarrow>
      next_fd it (show_int fd) = Ok (if fd = iter_dir_fd it then None else Some fd))
   \<and> (name = [] \<or> \<not> is_ascii_digit (hd name) \<longrightarrow> next_fd it name = Ok None)"
proof (intro conjI impI)
  assume fd: "0 \<le> fd \<and> fd < 2 ^ 31"
  then have dec: "show_int fd = show_nat (nat fd)" by (simp add: show_int_def)
  have digit: "is_ascii_digit (hd (show_int fd))"
    using show_nat_head [of "nat fd"] dec by auto
  have "utf8_valid (show_int fd)" unfolding dec by (intro utf8_valid_ascii ascii_show_nat)
  with fd digit parse_i32_show_int [of fd] dec
  show "next_fd it (show_int fd) = Ok (if fd = iter_dir_fd it then None else Some fd)"
    by (simp add: next_fd_def)
qed (auto simp: next_fd_def)

theorem next_fd_decodes_witness: "next_fd \<lparr>iter_dir = 9, iter_dir_fd = 3\<rparr> ''..'' = Ok None"
  using next_fd_decodes [of 0 "\<lparr>iter_dir = 9, iter_dir_fd = 3\<rparr>" "''..''"]
  by (simp add: is_ascii_digit_def)

end
