(* ===== verification/Species_Policy.thy ===== *)
theory Species_Policy
  imports Proc_Fs
begin

text \<open>
  The part of \<^verbatim>\<open>zygote/src/species.rs\<close> and \<^verbatim>\<open>zygote/src/species/\<close> that the descriptor
  registry consults: the species tags, their allow lists and the actions attached to them.
  A species is a static value without state, so it is its tag, and a trait method is a
  function of the tag. \<open>allow_policy\<close> is the contract between a species and the registry:
  something is allowed exactly when it has an action of its own.
\<close>

section \<open>Actions\<close>

datatype action = Close | CloseUnlessSpawnSubspecies | DupeNull | Ignore | Reopen

datatype fork_type = Application | Subspecies

section \<open>Species\<close>

datatype species_tag = AndroidNative | LibApp | Mock

fun species_name :: "species_tag \<Rightarrow> string" where
  "species_name AndroidNative = ''android-native-app''"
| "species_name LibApp = ''lib-app''"
| "species_name Mock = ''mock''"

text \<open>\<^verbatim>\<open>SpeciesRef::from_str\<close>; the list of configured species depends on the build features.\<close>

fun species_from_str :: "species_tag list \<Rightarrow> string \<Rightarrow> (species_tag, string) outcome" where
  "species_from_str [] s = Err (''No species defined with name '' @ s)"
| "species_from_str (species # rest) s =
     (if species_name species = s then Ok species else species_from_str rest s)"

definition path_is_absolute :: "string \<Rightarrow> bool" where
  "path_is_absolute path_str \<longleftrightarrow> starts_with ''/'' path_str \<and> \<not> contains_str ''/../'' path_str"

fun get_socket_env_var_prefix :: "species_tag \<Rightarrow> string" where
  "get_socket_env_var_prefix AndroidNative = ''ANDROID_SOCKET_''"
| "get_socket_env_var_prefix _ = ''ZYGOTE_SOCKET_''"

text \<open>An unset or non-Unicode variable is no value.\<close>

definition get_socket_env_var :: "'w env \<Rightarrow> species_tag \<Rightarrow> string \<Rightarrow> ('w, string option, 'e) prog" where
  "get_socket_env_var E species name =
     and_then (invoke E (StdCall (Std_env_var (get_socket_env_var_prefix species @ name))))
       (\<lambda>r. ok (if retval r = - 1 \<or> \<not> utf8_valid (out_bytes (outval r)) then None
                else Some (out_bytes (outval r))))"

section \<open>Allow lists\<close>

record allow_list_entry =
  entry_data :: string
  entry_action :: action

definition list_allows :: "allow_list_entry list \<Rightarrow> string \<Rightarrow> bool" where
  "list_allows entries path = list_ex (\<lambda>entry. entry_data entry = path) entries"

definition list_action :: "allow_list_entry list \<Rightarrow> string \<Rightarrow> action option" where
  "list_action entries path = map_option entry_action (List.find (\<lambda>entry. entry_data entry = path) entries)"

definition UNSOLICITED_ZYGOTE_SOCKET_PATH :: string where
  "UNSOLICITED_ZYGOTE_SOCKET_PATH = ''/data/system/unsolzygotesocket''"

definition ANDROID_ALLOWED_SOCKET_PATHS :: "allow_list_entry list" where
  "ANDROID_ALLOWED_SOCKET_PATHS =
     [\<lparr>entry_data = ''/dev/socket/logdw'', entry_action = Ignore\<rparr>,
      \<lparr>entry_data = UNSOLICITED_ZYGOTE_SOCKET_PATH, entry_action = Close\<rparr>,
      \<lparr>entry_data = ''/dev/socket/statsdw'', entry_action = Ignore\<rparr>]"

definition ANDROID_ALLOWED_FILE_PATHS :: "allow_list_entry list" where
  "ANDROID_ALLOWED_FILE_PATHS =
     [\<lparr>entry_data = ''/dev/pmsg0'', entry_action = Ignore\<rparr>,
      \<lparr>entry_data = ''/sys/kernel/debug/tracing/trace_marker'', entry_action = Ignore\<rparr>,
      \<lparr>entry_data = ''/sys/kernel/tracing/trace_marker'', entry_action = Ignore\<rparr>]"

definition MOCK_FILE_PATH_1 :: string where "MOCK_FILE_PATH_1 = ''/tmp/mock_file_1''"
definition SOCKET_NAME_1 :: string where "SOCKET_NAME_1 = ''test_socket_abstract_1''"
definition SOCKET_PATH_1 :: string where "SOCKET_PATH_1 = ''/tmp/test_socket_bound_1''"

definition MOCK_ALLOWED_FILE_PATHS :: "allow_list_entry list" where
  "MOCK_ALLOWED_FILE_PATHS = [\<lparr>entry_data = MOCK_FILE_PATH_1, entry_action = Ignore\<rparr>]"

definition MOCK_ALLOWED_SOCKET_NAMES :: "allow_list_entry list" where
  "MOCK_ALLOWED_SOCKET_NAMES = [\<lparr>entry_data = SOCKET_NAME_1, entry_action = Ignore\<rparr>]"

definition MOCK_ALLOWED_SOCKET_PATHS :: "allow_list_entry list" where
  "MOCK_ALLOWED_SOCKET_PATHS = [\<lparr>entry_data = SOCKET_PATH_1, entry_action = Ignore\<rparr>]"

text \<open>
  The answers of the test species (\<^verbatim>\<open>mock.rs\<close>) and of the library species (\<^verbatim>\<open>lib_app.rs\<close>), which
  allows nothing beyond what the registry allows by itself; those of the Android species are
  clauses of the dispatch below.
\<close>

definition lib_app_bound_abstract_socket_is_allowed :: "string \<Rightarrow> bool" where
  [simp]: "lib_app_bound_abstract_socket_is_allowed name = False"

definition lib_app_bound_socket_path_is_allowed :: "string \<Rightarrow> bool" where
  [simp]: "lib_app_bound_socket_path_is_allowed path = False"

definition lib_app_peer_socket_path_is_allowed :: "string \<Rightarrow> bool" where
  [simp]: "lib_app_peer_socket_path_is_allowed path = False"

definition lib_app_file_is_allowed :: "string \<Rightarrow> bool" where
  [simp]: "lib_app_file_is_allowed path = False"

definition lib_app_get_peer_socket_action :: "string \<Rightarrow> action option" where
  [simp]: "lib_app_get_peer_socket_action path = None"

definition lib_app_get_file_action :: "string \<Rightarrow> action option" where
  [simp]: "lib_app_get_file_action path = None"

definition mock_bound_abstract_socket_is_allowed :: "string \<Rightarrow> bool" where
  [simp]: "mock_bound_abstract_socket_is_allowed name = list_allows MOCK_ALLOWED_SOCKET_NAMES name"

definition mock_bound_socket_path_is_allowed :: "string \<Rightarrow> bool" where
  [simp]: "mock_bound_socket_path_is_allowed path = list_allows MOCK_ALLOWED_SOCKET_PATHS path"

definition mock_peer_socket_path_is_allowed :: "string \<Rightarrow> bool" where
  [simp]: "mock_peer_socket_path_is_allowed path = list_allows MOCK_ALLOWED_SOCKET_PATHS path"

definition mock_file_is_allowed :: "string \<Rightarrow> bool" where
  [simp]: "mock_file_is_allowed path = list_allows MOCK_ALLOWED_FILE_PATHS path"

definition mock_get_peer_socket_action :: "string \<Rightarrow> action option" where
  [simp]: "mock_get_peer_socket_action path = list_action MOCK_ALLOWED_SOCKET_PATHS path"

definition mock_get_file_action :: "string \<Rightarrow> action option" where
  [simp]: "mock_get_file_action path = list_action MOCK_ALLOWED_FILE_PATHS path"

fun species_bound_abstract_socket_is_allowed :: "species_tag \<Rightarrow> string \<Rightarrow> bool" where
  "species_bound_abstract_socket_is_allowed AndroidNative name = False"
| "species_bound_abstract_socket_is_allowed LibApp name = lib_app_bound_abstract_socket_is_allowed name"
| "species_bound_abstract_socket_is_allowed Mock name = mock_bound_abstract_socket_is_allowed name"

fun species_bound_socket_path_is_allowed :: "species_tag \<Rightarrow> string \<Rightarrow> bool" where
  "species_bound_socket_path_is_allowed AndroidNative path = False"
| "species_bound_socket_path_is_allowed LibApp path = lib_app_bound_socket_path_is_allowed path"
| "species_bound_socket_path_is_allowed Mock path = mock_bound_socket_path_is_allowed path"

fun species_peer_socket_path_is_allowed :: "species_tag \<Rightarrow> string \<Rightarrow> bool" where
  "species_peer_socket_path_is_allowed AndroidNative path = list_allows ANDROID_ALLOWED_SOCKET_PATHS path"
| "species_peer_socket_path_is_allowed LibApp path = lib_app_peer_socket_path_is_allowed path"
| "species_peer_socket_path_is_allowed Mock path = mock_peer_socket_path_is_allowed path"

fun species_file_is_allowed :: "species_tag \<Rightarrow> string \<Rightarrow> bool" where
  "species_file_is_allowed AndroidNative path = list_allows ANDROID_ALLOWED_FILE_PATHS path"
| "species_file_is_allowed LibApp path = lib_app_file_is_allowed path"
| "species_file_is_allowed Mock path = mock_file_is_allowed path"

fun species_get_peer_socket_action :: "species_tag \<Rightarrow> string \<Rightarrow> action option" where
  "species_get_peer_socket_action AndroidNative path = list_action ANDROID_ALLOWED_SOCKET_PATHS path"
| "species_get_peer_socket_action LibApp path = lib_app_get_peer_socket_action path"
| "species_get_peer_socket_action Mock path = mock_get_peer_socket_action path"

fun species_get_file_action :: "species_tag \<Rightarrow> string \<Rightarrow> action option" where
  "species_get_file_action AndroidNative path = list_action ANDROID_ALLOWED_FILE_PATHS path"
| "species_get_file_action LibApp path = lib_app_get_file_action path"
| "species_get_file_action Mock path = mock_get_file_action path"

text \<open>Only the Android species has library state to drop, the sockets of the logger.\<close>

definition log_close :: "'w env \<Rightarrow> ('w, unit, 'e) prog" where
  [simp]: "log_close E = and_then (invoke E (ExtCall Ext_log_close)) (\<lambda>_. ok ())"

text \<open>
  The log macros are left out of the model, but for the one whose effect on descriptors the source
  relies on: it opens the sockets of the logger again.
\<close>

definition log_info :: "'w env \<Rightarrow> string \<Rightarrow> ('w, unit, 'e) prog" where
  "log_info E message = and_then (invoke E (ExtCall (Ext_log message))) (\<lambda>_. ok ())"

definition lib_app_sync_fd_state :: "'w env \<Rightarrow> ('w, unit, 'e) prog" where
  [simp]: "lib_app_sync_fd_state E = ok ()"

definition mock_sync_fd_state :: "'w env \<Rightarrow> ('w, unit, 'e) prog" where
  [simp]: "mock_sync_fd_state E = ok ()"

fun species_sync_fd_state :: "'w env \<Rightarrow> species_tag \<Rightarrow> ('w, unit, 'e) prog" where
  "species_sync_fd_state E AndroidNative = log_close E"
| "species_sync_fd_state E LibApp = lib_app_sync_fd_state E"
| "species_sync_fd_state E Mock = mock_sync_fd_state E"

section \<open>The contract of a species with the registry\<close>

text \<open>
  \<open>effective\<close> is what the registry computes: the action of the species, or its own
  default where the species has none.
\<close>

definition effective :: "(string \<Rightarrow> action option) \<Rightarrow> action \<Rightarrow> string \<Rightarrow> action" where
  "effective action_for dflt path = (case action_for path of Some a \<Rightarrow> a | None \<Rightarrow> dflt)"

locale allow_policy =
  fixes allowed :: "string \<Rightarrow> bool"
    and action_for :: "string \<Rightarrow> action option"
  assumes allowed_iff: "allowed path \<longleftrightarrow> action_for path \<noteq> None"
begin

lemma default_unused: "allowed path \<Longrightarrow> effective action_for dflt path = the (action_for path)"
  by (auto simp: allowed_iff effective_def)

lemma default_used: "\<not> allowed path \<Longrightarrow> effective action_for dflt path = dflt"
  by (simp add: allowed_iff effective_def)

lemma effective_in_range: "effective action_for dflt path \<in> insert dflt (ran action_for)"
  by (auto simp: effective_def ran_def split: option.splits)

end

lemma list_allows_iff: "list_allows entries path \<longleftrightarrow> list_action entries path \<noteq> None"
  by (auto simp: list_allows_def list_action_def list_ex_iff find_None_iff)

interpretation species_files: allow_policy "species_file_is_allowed species" "species_get_file_action species"
  for species
  by unfold_locales (cases species; simp add: list_allows_iff)

interpretation species_peers:
  allow_policy "species_peer_socket_path_is_allowed species" "species_get_peer_socket_action species"
  for species
  by unfold_locales (cases species; simp add: list_allows_iff)

lemma list_action_in: "list_action entries path = Some a \<Longrightarrow> a \<in> entry_action ` set entries"
  by (auto simp: list_action_def find_Some_iff)

lemma species_file_actions: "species_get_file_action species path = Some a \<Longrightarrow> a = Ignore"
  by (cases species)
     (auto dest!: list_action_in simp: ANDROID_ALLOWED_FILE_PATHS_def MOCK_ALLOWED_FILE_PATHS_def)

lemma species_peer_actions: "species_get_peer_socket_action species path = Some a \<Longrightarrow> a \<in> {Ignore, Close}"
  by (cases species)
     (auto dest!: list_action_in simp: ANDROID_ALLOWED_SOCKET_PATHS_def MOCK_ALLOWED_SOCKET_PATHS_def)

text \<open>A species is found by its own name in every list that has it.\<close>

lemma species_name_inj: "species_name a = species_name b \<longleftrightarrow> a = b"
  by (cases a; cases b) simp_all

lemma species_from_str_name: "species \<in> set configured \<Longrightarrow> species_from_str configured (species_name species) = Ok species"
  by (induction configured) (auto simp: species_name_inj)

text \<open>
  Species and the registry agree on policy: for every species and path, a file or a peer
  socket the species allows has an action of its own, so the registry default is never used for
  it; no such action is \<^verbatim>\<open>Reopen\<close>, so nothing a species allows is ever reopened by path, and
  bound sockets of either kind are allowed by no species but the mock one.
\<close>

theorem species_policy_consistent:
  "(species_file_is_allowed species path \<longrightarrow>
      effective (species_get_file_action species) Reopen path = Ignore)
   \<and> (species_peer_socket_path_is_allowed species path \<longrightarrow>
      effective (species_get_peer_socket_action species) DupeNull path \<in> {Ignore, Close})
   \<and> (species \<noteq> Mock \<longrightarrow> \<not> species_bound_abstract_socket_is_allowed species path
      \<and> \<not> species_bound_socket_path_is_allowed species path)"
proof (intro conjI impI)
  assume "species_file_is_allowed species path"
  then show "effective (species_get_file_action species) Reopen path = Ignore"
    using species_files.default_unused species_files.allowed_iff species_file_actions
    by (metis option.collapse)
next
  assume "species_peer_socket_path_is_allowed species path"
  then show "effective (species_get_peer_socket_action species) DupeNull path \<in> {Ignore, Close}"
    using species_peers.default_unused species_peers.allowed_iff species_peer_actions
    by (metis option.collapse)
qed (cases species; simp)+

theorem species_policy_consistent_witness:
  "effective (species_get_file_action AndroidNative) Reopen ''/dev/pmsg0'' = Ignore"
  using species_policy_consistent [of AndroidNative "''/dev/pmsg0''"]
  by (simp add: ANDROID_ALLOWED_FILE_PATHS_def list_allows_def)

end
