(* ===== verification/Fd_Info.thy ===== *)
theory Fd_Info
  imports Species_Policy
begin

unbundle bit_operations_syntax

text \<open>
  What \<^verbatim>\<open>zygote/src/file_descriptors.rs\<close> records of an open descriptor:
  \<^verbatim>\<open>FileDescriptorInfo::try_from\<close> with its file and socket cases. The queries it makes are
  named, and \<open>reads\<close> says that a program depends on the world only through them; the
  socket lemmas connect the recorded address to the address builders of the sys crate.
\<close>

section \<open>Recorded information\<close>

datatype socket_address = Path string | Abstract string

fun socket_address_to_string :: "socket_address \<Rightarrow> string" where
  "socket_address_to_string (Path path) = path"
| "socket_address_to_string (Abstract name) = CHR ''@'' # name"

datatype fd_info_error =
    DescriptorFlagsFailure sys_error
  | InfoInvalidCString
  | InvalidSocketType int
  | NameBufferTooSmall nat nat
  | PeerNameFailure int sys_error
  | InfoProcFsError procfs_error
  | StatFailure int sys_error
  | StatusFlagsFailure sys_error
  | UnsupportedFileType int int
  | InfoUtf8

text \<open>\<^verbatim>\<open>File\<close>: device, inode, path buffer, descriptor flags, open flags, fcntl flags, offset.\<close>

datatype fd_info =
    BoundSocket socket_address
  | ConnectedSocket socket_address
  | EPollFd
  | Fifo
  | File (file_dev: int) (file_inode: int) (file_path: string) (file_fd_flags: int)
      (file_flags_open: int) (file_flags_fcntl: int) (file_offset: int)
  | SignalFd

fun is_file :: "fd_info \<Rightarrow> bool" where
  "is_file (File _ _ _ _ _ _ _) = True"
| "is_file _ = False"

fun type_str :: "fd_info \<Rightarrow> string" where
  "type_str (BoundSocket _) = ''Bound Socket''"
| "type_str (ConnectedSocket _) = ''Connected Socket''"
| "type_str EPollFd = ''EPollFD''"
| "type_str Fifo = ''FIFO''"
| "type_str (File _ _ _ _ _ _ _) = ''File''"
| "type_str SignalFd = ''SignalFD''"

section \<open>Gathering it\<close>

definition PROC_METADATA_EPOLLFD :: string where "PROC_METADATA_EPOLLFD = ''anon_inode:[eventpoll]''"
definition PROC_METADATA_SIGNALFD :: string where "PROC_METADATA_SIGNALFD = ''anon_inode:[signalfd]''"

definition FS_FLAGS_OPEN_BITMASK :: int where
  "FS_FLAGS_OPEN_BITMASK = O_RDONLY OR O_WRONLY OR O_RDWR OR O_DSYNC OR O_SYNC"

definition get_file_info :: "'w env \<Rightarrow> int \<Rightarrow> stat \<Rightarrow> ('w, fd_info, fd_info_error) prog" where
  "get_file_info E fd st =
     and_then (map_err InfoProcFsError (get_proc_fd_link_info E fd)) (\<lambda>link_path.
     and_then (map_err DescriptorFlagsFailure (sys_fcntl_getfd E fd)) (\<lambda>fd_flags.
     and_then (map_err StatusFlagsFailure (sys_fcntl_getfl E fd)) (\<lambda>fs_flags.
     and_then (match_result (sys_lseek64 E fd 0 SEEK_CUR) ok (\<lambda>_. ok 0)) (\<lambda>offset.
       ok (File (st_dev st) (st_ino st) link_path fd_flags (fs_flags AND FS_FLAGS_OPEN_BITMASK)
             (fs_flags AND NOT FS_FLAGS_OPEN_BITMASK) offset)))))"

text \<open>\<^verbatim>\<open>ArrayString::from\<close> fails on a string longer than its capacity.\<close>

definition name_buffer :: "string \<Rightarrow> nat \<Rightarrow> (string, fd_info_error) outcome" where
  "name_buffer s name_size =
     (if length s \<le> BUFFER_SIZE_STRINGS then Ok s
      else Err (NameBufferTooSmall BUFFER_SIZE_STRINGS name_size))"

definition get_socket_address :: "string \<Rightarrow> (socket_address, fd_info_error) outcome" where
  "get_socket_address sun_bytes =
     (case sun_bytes of
        c # text \<Rightarrow>
          if c = NUL then
            (if utf8_valid text
             then bind_outcome (name_buffer text (length text)) (\<lambda>name. Ok (Abstract name))
             else Err InfoUtf8)
          else
            (case cstr_with_nul sun_bytes of
               None \<Rightarrow> Err InfoInvalidCString
             | Some s \<Rightarrow>
                 if utf8_valid s
                 then bind_outcome (name_buffer s (length sun_bytes)) (\<lambda>path. Ok (Path path))
                 else Err InfoUtf8)
      | [] \<Rightarrow> Err InfoInvalidCString)"

text \<open>\<^verbatim>\<open>&addr.sun_path.as_bytes()[..path_len]\<close>\<close>

definition socket_address_of ::
  "sockaddr_un \<times> nat \<Rightarrow> ('w, socket_address, fd_info_error) prog"
where
  "socket_address_of a =
     (case a of (addr, path_len) \<Rightarrow>
        if length (sun_path addr) < path_len then panic ''range end index out of range for slice''
        else of_outcome (get_socket_address (take path_len (sun_path addr))))"

definition get_socket_info :: "'w env \<Rightarrow> int \<Rightarrow> ('w, fd_info, fd_info_error) prog" where
  "get_socket_info E fd =
     and_then (map_err (PeerNameFailure fd) (sys_getsockname E fd)) (\<lambda>name.
       case name of
         Some a \<Rightarrow> and_then (socket_address_of a) (\<lambda>address. ok (BoundSocket address))
       | None \<Rightarrow>
           and_then (map_err (PeerNameFailure fd) (sys_getpeername E fd)) (\<lambda>peer.
             case peer of
               None \<Rightarrow> fail (InvalidSocketType fd)
             | Some a \<Rightarrow> and_then (socket_address_of a) (\<lambda>address. ok (ConnectedSocket address))))"

definition fd_info_try_from :: "'w env \<Rightarrow> int \<Rightarrow> ('w, fd_info, fd_info_error) prog" where
  "fd_info_try_from E fd =
     and_then (map_err (StatFailure fd) (sys_fstat E fd)) (\<lambda>st.
       let file_type = get_file_type st in
       if file_type = S_IFIFO then ok Fifo
       else if file_type = S_IFCHR \<or> file_type = S_IFREG then get_file_info E fd st
       else if file_type = S_IFSOCK then get_socket_info E fd
       else
         and_then (map_err InfoProcFsError (get_proc_fd_link_info E fd)) (\<lambda>buffer.
           case as_cstr buffer of
             Ok metadata \<Rightarrow>
               if metadata = PROC_METADATA_SIGNALFD then ok SignalFd
               else if metadata = PROC_METADATA_EPOLLFD then ok EPollFd
               else fail (UnsupportedFileType fd file_type)
           | _ \<Rightarrow> fail InfoInvalidCString))"

section \<open>The queries behind it\<close>

text \<open>
  The calls \<^verbatim>\<open>try_from\<close> makes. \<open>queries_pure\<close> is what their manual pages say: they report
  on the descriptor table and change nothing (\<^verbatim>\<open>lseek\<close> by zero from the current position
  included).
\<close>

fun info_query :: "syscall \<Rightarrow> bool" where
  "info_query (FdCall (Libc_fstat _)) = True"
| "info_query (FdCall (Libc_readlink _ _)) = True"
| "info_query (FdCall (Libc_fcntl_getfd _)) = True"
| "info_query (FdCall (Libc_fcntl_getfl _)) = True"
| "info_query (FdCall (Libc_lseek64 _ offset whence)) = (offset = 0 \<and> whence = SEEK_CUR)"
| "info_query (SockCall (Libc_getsockname _)) = True"
| "info_query (SockCall (Libc_getpeername _)) = True"
| "info_query _ = False"

definition queries_pure :: "'w env \<Rightarrow> bool" where
  "queries_pure E \<longleftrightarrow> (\<forall>c w. info_query c \<longrightarrow> snd (kernel E c w) = w)"

text \<open>
  Two worlds that answer every query alike, the position of the descriptor \<open>d\<close> apart: while a
  directory is read the position of its own descriptor moves.
\<close>

definition same_answers :: "'w env \<Rightarrow> int \<Rightarrow> 'w \<Rightarrow> 'w \<Rightarrow> bool" where
  "same_answers E d w w' \<longleftrightarrow>
     (\<forall>c. info_query c \<longrightarrow> c \<noteq> FdCall (Libc_lseek64 d 0 SEEK_CUR) \<longrightarrow>
        fst (kernel E c w) = fst (kernel E c w'))"

text \<open>
  A program that only reads: its result depends on the answers alone, not on the position of \<open>d\<close>,
  and it changes nothing.
\<close>

named_theorems reads_intros \<open>a program depends on the world only through the queries\<close>

definition reads :: "'w env \<Rightarrow> int \<Rightarrow> ('w, 'a, 'e) prog \<Rightarrow> bool" where
  "reads E d m \<longleftrightarrow> (\<forall>w. snd (m w) = w) \<and> (\<forall>w w'. same_answers E d w w' \<longrightarrow> fst (m w) = fst (m w'))"

lemma readsD: "reads E d m \<Longrightarrow> m w = (fst (m w), w)"
  by (metis prod.collapse reads_def)

lemma readsI:
  "(\<And>w. snd (m w) = w) \<Longrightarrow> (\<And>w w'. same_answers E d w w' \<Longrightarrow> fst (m w) = fst (m w')) \<Longrightarrow> reads E d m"
  by (simp add: reads_def)

lemma reads_simple [reads_intros]:
  "reads E d (ok x)" "reads E d (fail e)" "reads E d (panic p)" "reads E d (of_outcome r)"
  by (simp_all add: reads_def prog_simps)

lemma reads_match_result [reads_intros]:
  assumes m: "reads E d m" and f: "\<And>x. reads E d (f x)" and g: "\<And>e. reads E d (g e)"
  shows "reads E d (match_result m f g)"
proof (rule readsI)
  have run: "match_result m f g w = (case fst (m w) of Ok x \<Rightarrow> f x w | Err e \<Rightarrow> g e w
      | Panic p \<Rightarrow> (Panic p, w) | Diverges \<Rightarrow> (Diverges, w))" for w
    unfolding match_result_def by (subst readsD [OF m]) simp
  show "snd (match_result m f g w) = w" for w
    using f g by (cases "fst (m w)") (simp_all add: run reads_def)
  show "fst (match_result m f g w) = fst (match_result m f g w')" if "same_answers E d w w'" for w w'
  proof -
    from m that have "fst (m w) = fst (m w')" by (simp add: reads_def)
    with f g that show ?thesis by (cases "fst (m w')") (auto simp: run reads_def)
  qed
qed

lemma reads_and_then [reads_intros]:
  "reads E d m \<Longrightarrow> (\<And>x. reads E d (f x)) \<Longrightarrow> reads E d (and_then m f)"
  unfolding and_then_def by (intro reads_intros)

lemma reads_map_err [reads_intros]: "reads E d m \<Longrightarrow> reads E d (map_err h m)"
  unfolding map_err_def by (intro reads_intros)

lemma reads_checked_call:
  assumes "queries_pure E" and "info_query c" and "c \<noteq> FdCall (Libc_lseek64 d 0 SEEK_CUR)"
  shows "reads E d (checked_call E c check)"
proof -
  have "checked_call E c check w = (check (fst (kernel E c w)), snd (kernel E c w))" for w
    by (cases "kernel E c w") (simp add: prog_simps)
  with assms show ?thesis by (simp add: reads_def queries_pure_def same_answers_def)
qed

lemma reads_get_proc_fd_link_info [reads_intros]:
  "queries_pure E \<Longrightarrow> reads E d (get_proc_fd_link_info E fd)"
  by (auto simp: get_proc_fd_link_info_def Let_def sys_readlink_def
      intro!: reads_intros reads_checked_call split: option.splits)

lemma reads_socket_address_of [reads_intros]: "reads E d (socket_address_of a)"
  by (auto simp: socket_address_of_def intro!: reads_intros split: prod.splits)

lemma reads_get_socket_info [reads_intros]: "queries_pure E \<Longrightarrow> reads E d (get_socket_info E fd)"
  unfolding get_socket_info_def sys_getsockname_def sys_getpeername_def
  by (intro reads_intros reads_checked_call)
     (auto intro!: reads_intros reads_checked_call split: option.splits)

lemma reads_get_file_info [reads_intros]: "queries_pure E \<Longrightarrow> fd \<noteq> d \<Longrightarrow> reads E d (get_file_info E fd st)"
  unfolding get_file_info_def sys_fcntl_getfd_def sys_fcntl_getfl_def sys_lseek64_def
  by (intro reads_intros reads_checked_call) simp_all

lemma reads_fd_info_try_from [reads_intros]:
  assumes "queries_pure E" and "fd \<noteq> d"
  shows "reads E d (fd_info_try_from E fd)"
  unfolding fd_info_try_from_def sys_fstat_def Let_def
  by (intro reads_intros reads_checked_call assms)
     (auto intro!: reads_intros assms split: outcome.split)

text \<open>The information of a descriptor in a world, as a function.\<close>

definition info_at :: "'w env \<Rightarrow> int \<Rightarrow> 'w \<Rightarrow> (fd_info, fd_info_error) outcome" where
  "info_at E fd w = fst (fd_info_try_from E fd w)"

lemma fd_info_try_from_run: "queries_pure E \<Longrightarrow> fd_info_try_from E fd w = (info_at E fd w, w)"
  unfolding info_at_def by (rule readsD [of E "fd + 1"]) (rule reads_fd_info_try_from, simp_all)

lemma info_at_cong: "queries_pure E \<Longrightarrow> same_answers E d w w' \<Longrightarrow> fd \<noteq> d \<Longrightarrow>
    info_at E fd w = info_at E fd w'"
  using reads_fd_info_try_from unfolding info_at_def reads_def by blast

section \<open>What is recorded\<close>

text \<open>
  The status flags of a file are recorded without loss: the part passed to \<^verbatim>\<open>open\<close> and the
  part set by \<^verbatim>\<open>fcntl\<close> afterwards are disjoint and together are the flags \<^verbatim>\<open>F_GETFL\<close> returned.
\<close>

theorem file_info_flags_partition:
  assumes "get_file_info E fd st w = (Ok info, w')"
  shows "\<exists>fs_flags w1 w2. sys_fcntl_getfl E fd w1 = (Ok fs_flags, w2) \<and> is_file info
    \<and> file_flags_open info OR file_flags_fcntl info = fs_flags
    \<and> file_flags_open info AND file_flags_fcntl info = 0
    \<and> file_dev info = st_dev st \<and> file_inode info = st_ino st"
proof -
  from assms obtain flags w1 w2 p d off where
    "sys_fcntl_getfl E fd w1 = (Ok flags, w2)"
    "info = File (st_dev st) (st_ino st) p d (flags AND FS_FLAGS_OPEN_BITMASK)
       (flags AND NOT FS_FLAGS_OPEN_BITMASK) off"
    by (auto simp: get_file_info_def and_then_eq_Ok_iff match_result_eq_Ok_iff)
  moreover have "(flags AND m) OR (flags AND NOT m) = flags" for m :: int
    by (rule bit_eqI) (auto simp: bit_or_iff bit_and_iff bit_not_iff)
  moreover have "(flags AND m) AND (flags AND NOT m) = 0" for m :: int
    by (rule bit_eqI) (auto simp: bit_and_iff bit_not_iff)
  ultimately show ?thesis by fastforce
qed

text \<open>A kernel with one regular file, open for reading and writing in append mode.\<close>

definition one_file_kernel :: "syscall \<Rightarrow> unit \<Rightarrow> sysret \<times> unit" where
  "one_file_kernel c w =
     (let answer = (\<lambda>v out. (\<lparr>retval = v, errno_after = 0, outval = out\<rparr>, w)) in
      case c of
        FdCall (Libc_fstat _) \<Rightarrow> answer 0 (OutStat \<lparr>st_dev = 1, st_ino = 42, st_mode = S_IFREG\<rparr>)
      | FdCall (Libc_readlink _ _) \<Rightarrow> answer 6 (OutBytes ''/tmp/f'')
      | FdCall (Libc_fcntl_getfl _) \<Rightarrow> answer 0x402 NoOut
      | _ \<Rightarrow> answer 0 NoOut)"

theorem file_info_flags_partition_witness:
  "file_flags_open (File 1 42 (zero_padded 512 ''/tmp/f'') 0 2 0x400 0)
     OR file_flags_fcntl (File 1 42 (zero_padded 512 ''/tmp/f'') 0 2 0x400 0) = 0x402"
proof -
  let ?E = "\<lparr>kernel = one_file_kernel, loop_fuel = 1, debug_assertions = False\<rparr>"
  have nat7: "show_int 7 = ''7''"
    by (simp add: show_int_def) (subst show_nat.simps, simp add: digit_char_def char_of_def bit_iff_odd)
  have run: "get_file_info ?E 7 \<lparr>st_dev = 1, st_ino = 42, st_mode = S_IFREG\<rparr> ()
      = (Ok (File 1 42 (zero_padded 512 ''/tmp/f'') 0 2 0x400 0), ())"
    by (simp add: get_file_info_def get_proc_fd_link_info_def PROC_SELF_FD_DIR_def nat7 cstr_until_nul_def
        sys_readlink_def sys_fcntl_getfd_def sys_fcntl_getfl_def sys_lseek64_def
        and_then_def match_result_def map_err_def checked_call_def invoke_def one_file_kernel_def
        check_defs ok_def of_outcome_def FS_FLAGS_OPEN_BITMASK_def)
  from file_info_flags_partition [OF run] obtain flags w1 w2 where
    flags: "sys_fcntl_getfl ?E 7 w1 = (Ok flags, w2)"
    "file_flags_open (File 1 42 (zero_padded 512 ''/tmp/f'') 0 2 0x400 0)
      OR file_flags_fcntl (File 1 42 (zero_padded 512 ''/tmp/f'') 0 2 0x400 0) = flags"
    by blast
  from flags(1) have "flags = 0x402"
    by (simp add: sys_fcntl_getfl_def checked_call_eq_iff one_file_kernel_def check_failure_def)
  with flags(2) show ?thesis by simp
qed

text \<open>
  C29. Addresses survive the kernel: the address a server socket was bound to is what the registry
  records of it. For an abstract name the bytes covered by the length are decoded to that name,
  embedded NULs included; for a path, the terminated form that \<^verbatim>\<open>getsockname\<close> returns is.
\<close>

theorem socket_address_recorded:
  assumes "utf8_valid name" and "length name \<le> 107"
  shows "(\<exists>a. abstract_socket_address name AF_UNIX = Ok a
          \<and> get_socket_address (covered_path a) = Ok (Abstract name))
    \<and> (NUL \<notin> set name \<and> name \<noteq> [] \<longrightarrow>
        (\<exists>b. bound_socket_address name AF_UNIX = Ok b
          \<and> get_socket_address (pathname_of b @ [NUL]) = Ok (Path name)))"
proof (intro conjI impI)
  have copied: "copied_name name = name" using assms(2) by (simp add: copied_name_def)
  with assms have "covered_path \<lparr>address = \<lparr>sun_family = AF_UNIX, sun_path = zero_padded 108 (NUL # name)\<rparr>,
      socklen = 3 + length name\<rparr> = NUL # name"
    by (simp add: covered_path_def take_zero_padded)
  with copied assms show "\<exists>a. abstract_socket_address name AF_UNIX = Ok a
      \<and> get_socket_address (covered_path a) = Ok (Abstract name)"
    by (simp add: abstract_socket_address_def get_socket_address_def name_buffer_def)
  assume name: "NUL \<notin> set name \<and> name \<noteq> []"
  with copied assms(2) have "pathname_of \<lparr>address = \<lparr>sun_family = AF_UNIX, sun_path = zero_padded 108 name\<rparr>,
      socklen = 2 + length name\<rparr> = name"
    by (simp add: pathname_of_def covered_path_def take_zero_padded takeWhile_not_NUL)
  moreover have "get_socket_address (name @ [NUL]) = Ok (Path name)"
  proof -
    from name obtain c cs where "name = c # cs" "c \<noteq> NUL" by (cases name) auto
    with name assms cstr_with_nul_snoc [of name] show ?thesis
      by (simp add: get_socket_address_def name_buffer_def)
  qed
  ultimately show "\<exists>b. bound_socket_address name AF_UNIX = Ok b
      \<and> get_socket_address (pathname_of b @ [NUL]) = Ok (Path name)"
    using copied assms(2) by (simp add: bound_socket_address_def)
qed

theorem socket_address_recorded_witness:
  "\<exists>b. bound_socket_address ''/dev/socket/zygote'' AF_UNIX = Ok b
     \<and> get_socket_address (pathname_of b @ [NUL]) = Ok (Path ''/dev/socket/zygote'')"
proof -
  have "utf8_valid ''/dev/socket/zygote''" by (intro utf8_valid_ascii) (simp add: ascii_def)
  from socket_address_recorded [OF this] show ?thesis by auto
qed

end
