(* ===== verification/Fd_Entry.thy ===== *)
theory Fd_Entry
  imports Fd_Info
begin

unbundle bit_operations_syntax

text \<open>
  One entry of the descriptor registry (\<^verbatim>\<open>zygote/src/file_descriptors.rs\<close>): its action and
  whether it was carried out. \<open>expected_calls\<close> is the specification of an action as a
  sequence of system calls; the main result is that a successful \<^verbatim>\<open>execute\<close> completes exactly
  that sequence, in order and once.
\<close>

section \<open>Completed calls\<close>

text \<open>The calls of a log that did not fail; an interrupted attempt is a failed call.\<close>

definition completed :: "(syscall \<times> int) list \<Rightarrow> (syscall \<times> int) list" where
  "completed log = filter (\<lambda>(c, r). r \<noteq> - 1) log"

lemma completed_append [simp]: "completed (xs @ ys) = completed xs @ completed ys"
  by (simp add: completed_def)

lemma completed_Cons: "completed ((c, r) # log) = (if r = - 1 then completed log else (c, r) # completed log)"
  by (simp add: completed_def)

lemma completed_Nil [simp]: "completed [] = []"
  by (simp add: completed_def)

text \<open>
  A check accepts only results that are not failures, and says \<^verbatim>\<open>errno\<close> otherwise; then a
  call that succeeds, whatever was retried before, is one completed call.
\<close>

definition fails_at_minus_one :: "(sysret \<Rightarrow> ('a, sys_error) outcome) \<Rightarrow> bool" where
  "fails_at_minus_one check \<longleftrightarrow>
     (\<forall>r. retval r = - 1 \<longrightarrow> check r = Err (Libc (errno_after r))) \<and>
     (\<forall>r. retval r \<noteq> - 1 \<longrightarrow> (\<exists>x. check r = Ok x))"

lemma fails_at_minus_one_checks [simp]:
  "fails_at_minus_one check_failure" "fails_at_minus_one check_failure_with_void"
  "fails_at_minus_one (\<lambda>r. check_failure_with_payload r f)"
  by (simp_all add: fails_at_minus_one_def check_defs)

lemma checked_call_logged:
  assumes check: "fails_at_minus_one check"
    and run: "checked_call (logged E) c check (w, log) = (r, (w', log'))"
  shows "(case r of Ok x \<Rightarrow> \<exists>v. check v = Ok x \<and> completed log' = completed log @ [(c, retval v)]
              | Err e \<Rightarrow> completed log' = completed log \<and> (\<exists>code. e = Libc code) | _ \<Rightarrow> False)"
proof -
  from run obtain v where v: "r = check v" "log' = log @ [(c, retval v)]"
    by (auto simp: checked_call_eq_iff kernel_logged split: prod.splits)
  show ?thesis
  proof (cases "retval v = - 1")
    case True
    with check v show ?thesis by (simp add: fails_at_minus_one_def completed_Cons)
  next
    case False
    with check obtain x where "check v = Ok x" by (auto simp: fails_at_minus_one_def)
    with v False show ?thesis by (auto simp: completed_Cons)
  qed
qed

lemma retry_eintr_logged:
  assumes check: "fails_at_minus_one check"
  shows "retry_eintr n (checked_call (logged E) c check) (w, log) = (r, (w', log')) \<Longrightarrow>
    case r of Ok x \<Rightarrow> \<exists>v. check v = Ok x \<and> completed log' = completed log @ [(c, retval v)]
            | Panic _ \<Rightarrow> False | _ \<Rightarrow> completed log' = completed log"
proof (induction n arbitrary: w log)
  case (Suc n)
  obtain r1 w1 log1 where first: "checked_call (logged E) c check (w, log) = (r1, (w1, log1))"
    by (metis prod.exhaust)
  note step = checked_call_logged [OF check first]
  show ?case
  proof (cases r1)
    case (Ok x)
    with Suc.prems first step show ?thesis by (auto simp: match_result_def)
  next
    case (Err e)
    with step obtain code where e: "e = Libc code" "completed log1 = completed log" by auto
    show ?thesis
    proof (cases "code = EINTR")
      case True
      with Suc.prems first Err e have "retry_eintr n (checked_call (logged E) c check) (w1, log1) = (r, (w', log'))"
        by (simp add: match_result_def errno_is_def)
      from Suc.IH [OF this] e(2) show ?thesis by (simp cong: outcome.case_cong)
    next
      case False
      with Suc.prems first Err e show ?thesis by (auto simp: match_result_def errno_is_def)
    qed
  qed (use step in auto)
qed auto

text \<open>What each call of interest adds to the completed calls when it returns \<^verbatim>\<open>Ok\<close>.\<close>

lemma completed_calls:
  shows sys_close_completed: "sys_close (logged E) fd (w, log) = (Ok x, (w', log')) \<Longrightarrow>
      completed log' = completed log @ [(FdCall (Libc_close fd), x)]"
    and sys_open_completed: "sys_open (logged E) p fl m (w, log) = (Ok x, (w', log')) \<Longrightarrow>
      completed log' = completed log @ [(FdCall (Libc_open p fl (case m of None \<Rightarrow> 0 | Some v \<Rightarrow> v)), x)]"
    and sys_dup3_completed: "sys_dup3 (logged E) a b fl (w, log) = (Ok u, (w', log')) \<Longrightarrow>
      \<exists>v. completed log' = completed log @ [(FdCall (Libc_dup3 a b fl), v)]"
    and sys_fcntl_setfd_completed: "sys_fcntl_setfd (logged E) fd fl (w, log) = (Ok u, (w', log')) \<Longrightarrow>
      \<exists>v. completed log' = completed log @ [(FdCall (Libc_fcntl_setfd fd fl), v)]"
    and sys_fcntl_setfl_completed: "sys_fcntl_setfl (logged E) fd fl (w, log) = (Ok u, (w', log')) \<Longrightarrow>
      \<exists>v. completed log' = completed log @ [(FdCall (Libc_fcntl_setfl fd fl), v)]"
    and sys_lseek64_completed: "sys_lseek64 (logged E) fd off wh (w, log) = (Ok x, (w', log')) \<Longrightarrow>
      completed log' = completed log @ [(FdCall (Libc_lseek64 fd off wh), x)]"
  unfolding sys_close_def sys_open_def sys_dup3_def sys_fcntl_setfd_def sys_fcntl_setfl_def sys_lseek64_def
  by (auto dest!: retry_eintr_logged [rotated] checked_call_logged [rotated] simp: check_failure_def
      split: if_splits)

section \<open>Entries\<close>

datatype fd_entry_error =
    CloseFailed int sys_error
  | DupFailed int int string sys_error
  | DupNullFailed int sys_error
  | EntryInvalidCString
  | OpenFailure string sys_error
  | SeekFailure int string int sys_error
  | SetFdFlagsFailure int string int sys_error
  | SetFdStatusFlagsFailure int string int sys_error

record fd_entry =
  fde_fd :: int
  fde_info :: fd_info
  fde_action :: action
  fde_executed :: bool

definition fd_entry_new :: "int \<Rightarrow> fd_info \<Rightarrow> action \<Rightarrow> fd_entry" where
  "fd_entry_new fd info action = \<lparr>fde_fd = fd, fde_info = info, fde_action = action, fde_executed = False\<rparr>"

definition fd_entry_closed :: "fd_entry \<Rightarrow> bool" where
  "fd_entry_closed entry =
     (case fde_action entry of
        Close \<Rightarrow> fde_executed entry
      | CloseUnlessSpawnSubspecies \<Rightarrow> fde_executed entry
      | DupeNull \<Rightarrow> False
      | Ignore \<Rightarrow> False
      | Reopen \<Rightarrow> False)"

definition fd_entry_reopen :: "'w env \<Rightarrow> fd_entry \<Rightarrow> ('w, unit, fd_entry_error) prog" where
  "fd_entry_reopen E entry =
     (case fde_info entry of
        File _ _ path fd_flags fs_flags_open fs_flags_rest offset \<Rightarrow>
          (case as_cstr path of
             Ok path_cstr \<Rightarrow>
               and_then (map_err (OpenFailure path_cstr) (sys_open E path_cstr fs_flags_open None)) (\<lambda>new_fd.
               and_then (map_err (SetFdFlagsFailure new_fd path_cstr fd_flags) (sys_fcntl_setfd E new_fd fd_flags)) (\<lambda>_.
               and_then (map_err (SetFdStatusFlagsFailure new_fd path_cstr fs_flags_rest)
                          (sys_fcntl_setfl E new_fd fs_flags_rest)) (\<lambda>_.
               and_then (map_err (SeekFailure new_fd path_cstr offset) (sys_lseek64 E new_fd offset SEEK_SET)) (\<lambda>_.
               let dup_flags = (if fd_flags AND FD_CLOEXEC = FD_CLOEXEC then O_CLOEXEC else 0) in
               and_then (map_err (DupFailed (fde_fd entry) new_fd path_cstr)
                          (sys_dup3 E new_fd (fde_fd entry) dup_flags)) (\<lambda>_.
               and_then (map_err (CloseFailed (fde_fd entry)) (sys_close E new_fd)) (\<lambda>_. ok ()))))))
           | _ \<Rightarrow> fail EntryInvalidCString)
      | _ \<Rightarrow> panic ''internal error: entered unreachable code'')"

text \<open>
  \<^verbatim>\<open>execute\<close> returns the updated entry with its result; an error leaves the entry as it was.
\<close>

definition fd_entry_execute ::
  "'w env \<Rightarrow> int \<Rightarrow> fork_type \<Rightarrow> fd_entry \<Rightarrow> ('w, fd_entry \<times> bool, fd_entry_error) prog"
where
  "fd_entry_execute E dev_null_fd fork_type entry =
     and_then
       (if fde_executed entry then ok entry
        else (case fde_action entry of
          Close \<Rightarrow>
            and_then (map_err (CloseFailed (fde_fd entry)) (sys_close E (fde_fd entry)))
              (\<lambda>_. ok (entry\<lparr>fde_executed := True\<rparr>))
        | CloseUnlessSpawnSubspecies \<Rightarrow>
            if fork_type = Application then
              and_then (map_err (CloseFailed (fde_fd entry)) (sys_close E (fde_fd entry)))
                (\<lambda>_. ok (entry\<lparr>fde_executed := True\<rparr>))
            else ok entry
        | DupeNull \<Rightarrow>
            and_then (map_err (DupNullFailed (fde_fd entry)) (sys_dup3 E dev_null_fd (fde_fd entry) O_CLOEXEC))
              (\<lambda>_. ok (entry\<lparr>fde_executed := True\<rparr>))
        | Ignore \<Rightarrow> ok entry
        | Reopen \<Rightarrow> and_then (fd_entry_reopen E entry) (\<lambda>_. ok (entry\<lparr>fde_executed := True\<rparr>))))
       (\<lambda>entry'. ok (entry', fde_executed entry'))"

definition fd_entry_override_and_close :: "'w env \<Rightarrow> fd_entry \<Rightarrow> ('w, unit, fd_entry_error) prog" where
  "fd_entry_override_and_close E entry =
     (case fde_action entry of
        Ignore \<Rightarrow> ok ()
      | _ \<Rightarrow> match_result (sys_close E (fde_fd entry)) (\<lambda>_. ok ()) (\<lambda>e. fail (CloseFailed (fde_fd entry) e)))"

section \<open>What an action does\<close>

definition acts :: "fork_type \<Rightarrow> fd_entry \<Rightarrow> bool" where
  "acts fork_type entry \<longleftrightarrow> \<not> fde_executed entry \<and>
     (fde_action entry \<in> {Close, DupeNull, Reopen}
      \<or> fde_action entry = CloseUnlessSpawnSubspecies \<and> fork_type = Application)"

definition reopen_calls :: "int \<Rightarrow> int \<Rightarrow> fd_info \<Rightarrow> syscall list" where
  "reopen_calls fd new_fd info =
     (case info of
        File _ _ path fd_flags fs_flags_open fs_flags_rest offset \<Rightarrow>
          (case cstr_until_nul path of
             None \<Rightarrow> []
           | Some p \<Rightarrow>
               [FdCall (Libc_open p fs_flags_open 0),
                FdCall (Libc_fcntl_setfd new_fd fd_flags),
                FdCall (Libc_fcntl_setfl new_fd fs_flags_rest),
                FdCall (Libc_lseek64 new_fd offset SEEK_SET),
                FdCall (Libc_dup3 new_fd fd (if fd_flags AND FD_CLOEXEC = FD_CLOEXEC then O_CLOEXEC else 0)),
                FdCall (Libc_close new_fd)])
      | _ \<Rightarrow> [])"

definition expected_calls :: "fork_type \<Rightarrow> int \<Rightarrow> int \<Rightarrow> fd_entry \<Rightarrow> syscall list" where
  "expected_calls fork_type dev_null_fd new_fd entry =
     (if \<not> acts fork_type entry then []
      else (case fde_action entry of
          Close \<Rightarrow> [FdCall (Libc_close (fde_fd entry))]
        | CloseUnlessSpawnSubspecies \<Rightarrow> [FdCall (Libc_close (fde_fd entry))]
        | DupeNull \<Rightarrow> [FdCall (Libc_dup3 dev_null_fd (fde_fd entry) O_CLOEXEC)]
        | Ignore \<Rightarrow> []
        | Reopen \<Rightarrow> reopen_calls (fde_fd entry) new_fd (fde_info entry)))"

lemma fd_entry_reopen_completed:
  assumes "fd_entry_reopen (logged E) entry (w, log) = (Ok u, (w', log'))"
  shows "\<exists>new_fd calls. completed log' = completed log @ calls
    \<and> map fst calls = reopen_calls (fde_fd entry) new_fd (fde_info entry)
    \<and> snd (hd calls) = new_fd \<and> calls \<noteq> []"
proof -
  from assms obtain dev ino path fl fo fr off p where
    info: "fde_info entry = File dev ino path fl fo fr off" and p: "as_cstr path = Ok p"
    by (auto simp: fd_entry_reopen_def split: fd_info.splits outcome.splits)
  from p have cstr: "cstr_until_nul path = Some p" by (auto simp: as_cstr_def split: option.splits)
  show ?thesis
    using assms unfolding fd_entry_reopen_def info
    by (auto simp: p cstr Let_def and_then_eq_Ok_iff reopen_calls_def
        dest!: sys_open_completed sys_fcntl_setfd_completed sys_fcntl_setfl_completed
          sys_lseek64_completed sys_dup3_completed sys_close_completed)
qed

lemma fd_entry_execute_trace:
  assumes "fd_entry_execute (logged E) dev_null_fd fork_type entry (w, log) = (Ok (entry', b), (w', log'))"
  shows "\<exists>new_fd calls. completed log' = completed log @ calls
    \<and> map fst calls = expected_calls fork_type dev_null_fd new_fd entry
    \<and> (acts fork_type entry \<and> fde_action entry = Reopen \<longrightarrow> snd (hd calls) = new_fd \<and> calls \<noteq> [])
    \<and> entry' = entry\<lparr>fde_executed := fde_executed entry \<or> acts fork_type entry\<rparr> \<and> b = fde_executed entry'"
proof (cases "acts fork_type entry")
  case False
  with assms show ?thesis
    by (cases "fde_action entry"; cases "fde_executed entry")
       (auto simp: fd_entry_execute_def and_then_eq_Ok_iff acts_def expected_calls_def)
next
  case True
  then have fresh: "\<not> fde_executed entry" by (simp add: acts_def)
  show ?thesis
  proof (cases "fde_action entry")
    case Reopen
    with assms fresh have "fd_entry_reopen (logged E) entry (w, log) = (Ok (), (w', log'))"
      and res: "entry' = entry\<lparr>fde_executed := True\<rparr>" "b"
      by (auto simp: fd_entry_execute_def and_then_eq_Ok_iff)
    from fd_entry_reopen_completed [OF this(1)] obtain new_fd calls where
      "completed log' = completed log @ calls"
      "map fst calls = reopen_calls (fde_fd entry) new_fd (fde_info entry)"
      "snd (hd calls) = new_fd" "calls \<noteq> []" by blast
    with True Reopen res show ?thesis by (auto simp: expected_calls_def)
  qed (use assms True fresh in \<open>auto simp: fd_entry_execute_def and_then_eq_Ok_iff expected_calls_def acts_def
      dest!: sys_close_completed sys_dup3_completed\<close>)
qed

text \<open>
  Executing an entry completes exactly the calls its action stands for, in order: nothing if
  it was executed before or must be left alone (\<^verbatim>\<open>Ignore\<close>, or a descriptor a subspecies keeps),
  one \<^verbatim>\<open>close\<close>, one \<^verbatim>\<open>dup3\<close> of the null device, or the whole reopening sequence on the one
  descriptor that \<^verbatim>\<open>open\<close> returned; and the entry is marked executed exactly when it acted.
\<close>

theorem fd_entry_execute_calls:
  assumes "fd_entry_execute (logged E) dev_null_fd fork_type entry (w, log) = (Ok (entry', b), (w', log'))"
  shows "\<exists>new_fd calls. completed log' = completed log @ calls
    \<and> map fst calls = expected_calls fork_type dev_null_fd new_fd entry
    \<and> (acts fork_type entry \<and> fde_action entry = Reopen \<longrightarrow> snd (hd calls) = new_fd \<and> calls \<noteq> [])
    \<and> entry' = entry\<lparr>fde_executed := fde_executed entry \<or> acts fork_type entry\<rparr> \<and> b = fde_executed entry'"
  using fd_entry_execute_trace [OF assms] .

abbreviation zero_env :: "unit env" where
  "zero_env \<equiv> \<lparr>kernel = (\<lambda>c w. (\<lparr>retval = 0, errno_after = 0, outval = NoOut\<rparr>, w)),
    loop_fuel = 1, debug_assertions = False\<rparr>"

theorem fd_entry_execute_calls_witness:
  "fd_entry_execute (logged zero_env) 9 Application (fd_entry_new 5 Fifo Close) ((), []) =
     (Ok ((fd_entry_new 5 Fifo Close)\<lparr>fde_executed := True\<rparr>, True), ((), [(FdCall (Libc_close 5), 0)]))
   \<and> expected_calls Application 9 0 (fd_entry_new 5 Fifo Close) = [FdCall (Libc_close 5)]"
proof -
  have run: "fd_entry_execute (logged zero_env) 9 Application (fd_entry_new 5 Fifo Close) ((), []) =
     (Ok ((fd_entry_new 5 Fifo Close)\<lparr>fde_executed := True\<rparr>, True), ((), [(FdCall (Libc_close 5), 0)]))"
    by (simp add: fd_entry_execute_def fd_entry_new_def sys_close_def checked_call_def kernel_logged
        and_then_def match_result_def map_err_def invoke_def of_outcome_def check_failure_def ok_def)
  from fd_entry_execute_calls [OF run] run show ?thesis
    by (auto simp: completed_Cons expected_calls_def acts_def fd_entry_new_def)
qed

text \<open>
  An action is carried out at most once: executing again an entry that has acted makes no
  call and changes nothing, whatever the null descriptor and the kind of fork. The result is
  \<^verbatim>\<open>true\<close> again (the documentation of \<^verbatim>\<open>execute\<close> promises \<^verbatim>\<open>false\<close>).
\<close>

theorem fd_entry_execute_again:
  assumes "fd_entry_execute E dev_null_fd fork_type entry w = (Ok (entry', b), w')" and "acts fork_type entry"
  shows "fd_entry_execute E dev_null_fd' fork_type' entry' w' = (Ok (entry', True), w')"
proof -
  from assms have "fde_executed entry'"
    by (cases "fde_action entry") (auto simp: fd_entry_execute_def and_then_eq_Ok_iff acts_def)
  then show ?thesis by (simp add: fd_entry_execute_def prog_simps)
qed

theorem fd_entry_execute_again_witness:
  "fd_entry_execute zero_env 9 Subspecies ((fd_entry_new 5 Fifo DupeNull)\<lparr>fde_executed := True\<rparr>) () =
     (Ok ((fd_entry_new 5 Fifo DupeNull)\<lparr>fde_executed := True\<rparr>, True), ())"
proof (rule fd_entry_execute_again [where fork_type = Application and dev_null_fd = 8 and b = True and w = "()"])
  show "fd_entry_execute zero_env 8 Application (fd_entry_new 5 Fifo DupeNull) () =
      (Ok ((fd_entry_new 5 Fifo DupeNull)\<lparr>fde_executed := True\<rparr>, True), ())"
    by (simp add: fd_entry_execute_def fd_entry_new_def sys_dup3_def checked_call_def
        and_then_def match_result_def map_err_def invoke_def of_outcome_def check_defs ok_def)
qed (simp add: acts_def fd_entry_new_def)

text \<open>Reopening is only defined for files; anything else is a panic in the child.\<close>

lemma fd_entry_execute_reopen_panics:
  "\<not> is_file (fde_info entry) \<Longrightarrow> fde_action entry = Reopen \<Longrightarrow> \<not> fde_executed entry \<Longrightarrow>
     fst (fd_entry_execute E dev_null_fd fork_type entry w) = Panic ''internal error: entered unreachable code''"
  by (cases "fde_info entry")
     (auto simp: fd_entry_execute_def fd_entry_reopen_def and_then_def match_result_def panic_def)

end
