(* ===== verification/Fd_Registry.thy ===== *)
theory Fd_Registry
  imports Fd_Entry
begin

text \<open>
  \<^verbatim>\<open>FileDescriptorRegistry\<close> of \<^verbatim>\<open>zygote/src/file_descriptors.rs\<close>: its state, and every
  operation as a program over the pair of the registry and the world. The entries are kept
  sorted by descriptor; the locale \<open>keyed_table\<close> is the contract of the sorted vector with the
  operations that search it.
\<close>

section \<open>State\<close>

abbreviation REGISTRY_SIZE :: nat where "REGISTRY_SIZE \<equiv> 128"
abbreviation DYNAMIC_ALLOW_LIST_SIZE :: nat where "DYNAMIC_ALLOW_LIST_SIZE \<equiv> 64"

definition DEV_NULL_PATH :: string where "DEV_NULL_PATH = ''/dev/null''"
definition DEV_URANDOM_PATH :: string where "DEV_URANDOM_PATH = ''/dev/urandom''"

definition ALLOWED_FILE_PATHS :: "string list" where "ALLOWED_FILE_PATHS = [DEV_NULL_PATH, DEV_URANDOM_PATH]"
definition ALLOWED_SOCKET_PATHS :: "string list" where "ALLOWED_SOCKET_PATHS = []"
definition ALLOWED_PEER_SOCKET_PATHS :: "string list" where "ALLOWED_PEER_SOCKET_PATHS = []"

record registry =
  reg_species :: species_tag
  reg_data :: "fd_entry list"
  reg_allowed_file_paths :: "string list"
  reg_allowed_socket_names :: "string list"
  reg_allowed_socket_paths :: "string list"
  reg_allowed_peer_socket_paths :: "string list"

datatype audit_error =
    FileDescriptorAbsent int fd_info
  | FileDescriptorInfoFailure fd_info_error
  | FileDescriptorUnexpected int fd_info
  | AuditProcFsError procfs_error
  | RegistryOrderMismatch int int
  | RegistryStateMismatch int fd_info fd_info

datatype fd_registry_error =
    AuditFailure audit_error
  | DevNullFailure sys_error
  | EntryActionFailure fd_entry_error
  | FdInfoFailure fd_info_error
  | InvalidActionForFileType int string action
  | RegInvalidCString
  | RegProcFsError procfs_error
  | ReregisteredFd int
  | UnregisteredBoundSocket int string
  | UnregisteredConnectedSocket int string
  | UnregisteredFifoFd int
  | UnregisteredFile int string
  | UnregisteredSignalFd int
  | UnregisteredFd int
  | RegUtf8

type_synonym ('w, 'a) reg_prog = "(registry \<times> 'w, 'a, fd_registry_error) prog"

definition set_data :: "fd_entry list \<Rightarrow> ('w, unit) reg_prog" where
  "set_data data = modify (\<lambda>(reg, w). (reg\<lparr>reg_data := data\<rparr>, w))"

definition get_data :: "('w, fd_entry list) reg_prog" where
  "get_data = gets (\<lambda>(reg, w). reg_data reg)"

section \<open>Allow lists\<close>

definition allow_file :: "string \<Rightarrow> ('w, unit) reg_prog" where
  "allow_file path = (\<lambda>(reg, w).
     and_then (of_outcome (arrayvec_push DYNAMIC_ALLOW_LIST_SIZE path (reg_allowed_file_paths reg)))
       (\<lambda>paths. modify (\<lambda>(reg, w). (reg\<lparr>reg_allowed_file_paths := paths\<rparr>, w))) (reg, w))"

definition allow_abstract_socket :: "string \<Rightarrow> ('w, unit) reg_prog" where
  "allow_abstract_socket name = (\<lambda>(reg, w).
     and_then (of_outcome (arrayvec_push DYNAMIC_ALLOW_LIST_SIZE name (reg_allowed_socket_names reg)))
       (\<lambda>names. modify (\<lambda>(reg, w). (reg\<lparr>reg_allowed_socket_names := names\<rparr>, w))) (reg, w))"

definition allow_bound_socket :: "string \<Rightarrow> ('w, unit) reg_prog" where
  "allow_bound_socket name = (\<lambda>(reg, w).
     and_then (of_outcome (arrayvec_push DYNAMIC_ALLOW_LIST_SIZE name (reg_allowed_socket_paths reg)))
       (\<lambda>paths. modify (\<lambda>(reg, w). (reg\<lparr>reg_allowed_socket_paths := paths\<rparr>, w))) (reg, w))"

definition bound_abstract_socket_is_allowed :: "registry \<Rightarrow> string \<Rightarrow> bool" where
  "bound_abstract_socket_is_allowed reg name \<longleftrightarrow>
     name \<in> set (reg_allowed_socket_names reg)
     \<or> species_bound_abstract_socket_is_allowed (reg_species reg) name"

definition bound_socket_path_is_allowed :: "registry \<Rightarrow> string \<Rightarrow> bool" where
  "bound_socket_path_is_allowed reg path \<longleftrightarrow>
     path \<in> set ALLOWED_SOCKET_PATHS \<or> path \<in> set (reg_allowed_socket_paths reg)
     \<or> species_bound_socket_path_is_allowed (reg_species reg) path"

definition peer_socket_path_is_allowed :: "registry \<Rightarrow> string \<Rightarrow> bool" where
  "peer_socket_path_is_allowed reg path \<longleftrightarrow>
     path \<in> set ALLOWED_PEER_SOCKET_PATHS \<or> path \<in> set (reg_allowed_peer_socket_paths reg)
     \<or> species_peer_socket_path_is_allowed (reg_species reg) path"

definition file_is_allowed :: "registry \<Rightarrow> string \<Rightarrow> (bool, fd_registry_error) outcome" where
  "file_is_allowed reg path =
     (if \<not> utf8_valid path then Err RegUtf8
      else Ok (path \<in> set ALLOWED_FILE_PATHS \<or> path \<in> set (reg_allowed_file_paths reg)
               \<or> species_file_is_allowed (reg_species reg) path))"

section \<open>Registering\<close>

definition find_fd :: "fd_entry list \<Rightarrow> int \<Rightarrow> (nat, nat) outcome" where
  "find_fd data fd = binary_search_by (\<lambda>entry. cmp (fde_fd entry) fd) data"

definition register :: "'w env \<Rightarrow> int \<Rightarrow> action \<Rightarrow> ('w, unit) reg_prog" where
  "register E fd action =
     and_then (on_snd (debug_assert_single_threaded E)) (\<lambda>_.
     and_then get_data (\<lambda>data.
       match_result (of_outcome (find_fd data fd))
         (\<lambda>entry_index.
            if fd_entry_closed (data ! entry_index) then
              and_then (on_snd (map_err FdInfoFailure (fd_info_try_from E fd))) (\<lambda>info.
                set_data (data[entry_index := fd_entry_new fd info action]))
            else fail (ReregisteredFd fd))
         (\<lambda>insert_index.
            and_then (on_snd (map_err FdInfoFailure (fd_info_try_from E fd))) (\<lambda>info.
              if action = Reopen \<and> \<not> is_file info
              then fail (InvalidActionForFileType fd (type_str info) action)
              else
                and_then (of_outcome (arrayvec_insert REGISTRY_SIZE insert_index (fd_entry_new fd info action) data))
                  set_data))))"

definition registry_remove :: "int \<Rightarrow> ('w, unit) reg_prog" where
  "registry_remove fd =
     and_then get_data (\<lambda>data.
       match_result (of_outcome (find_fd data fd))
         (\<lambda>i. and_then (of_outcome (arrayvec_remove i data)) set_data)
         (\<lambda>_. fail (UnregisteredFd fd)))"

text \<open>The state a program leaves is its result: for constructors that return the registry.\<close>

definition returning_state :: "'x \<Rightarrow> ('x \<times> 'w, unit, 'e) prog \<Rightarrow> ('w, 'x, 'e) prog" where
  "returning_state x m = (\<lambda>w. case m (x, w) of (r, (x', w')) \<Rightarrow>
     (case r of Ok _ \<Rightarrow> Ok x' | Err e \<Rightarrow> Err e | Panic p \<Rightarrow> Panic p | Diverges \<Rightarrow> Diverges, w'))"

definition empty_registry :: "species_tag \<Rightarrow> registry" where
  "empty_registry species =
     \<lparr>reg_species = species, reg_data = [], reg_allowed_file_paths = [], reg_allowed_socket_names = [],
      reg_allowed_socket_paths = [], reg_allowed_peer_socket_paths = []\<rparr>"

definition registry_new :: "'w env \<Rightarrow> species_tag \<Rightarrow> ('w, registry, fd_registry_error) prog" where
  "registry_new E species =
     returning_state (empty_registry species)
       (and_then (register E 0 Ignore) (\<lambda>_.
        and_then (register E 1 Ignore) (\<lambda>_.
                  register E 2 Ignore)))"

definition registry_size :: "registry \<Rightarrow> nat" where "registry_size reg = length (reg_data reg)"

section \<open>Registering what is new\<close>

function is_registered :: "fd_entry list \<Rightarrow> int \<Rightarrow> nat \<Rightarrow> nat \<Rightarrow> bool \<times> nat" where
  "is_registered data fd index_state index_end =
     (if index_state < index_end then
        (case cmp (fde_fd (data ! index_state)) fd of
           Less \<Rightarrow> is_registered data fd (index_state + 1) index_end
         | Equal \<Rightarrow> (True, index_state + 1)
         | Greater \<Rightarrow> (False, index_state))
      else (False, index_state))"
  by pat_completeness auto
termination
  by (relation "measure (\<lambda>(data, fd, i, e). e - i)") auto

declare is_registered.simps [simp del]

text \<open>The action an unregistered descriptor gets, or the reason it must not be open.\<close>

definition default_action :: "registry \<Rightarrow> int \<Rightarrow> fd_info \<Rightarrow> (action, fd_registry_error) outcome" where
  "default_action reg fd info =
     (case info of
        BoundSocket addr \<Rightarrow>
          (case addr of
             Abstract name \<Rightarrow>
               if bound_abstract_socket_is_allowed reg name then Ok DupeNull
               else Err (UnregisteredBoundSocket fd (socket_address_to_string addr))
           | Path path \<Rightarrow>
               if bound_socket_path_is_allowed reg path then Ok DupeNull
               else Err (UnregisteredBoundSocket fd (socket_address_to_string addr)))
      | ConnectedSocket addr \<Rightarrow>
          (case addr of
             Path path \<Rightarrow>
               if peer_socket_path_is_allowed reg path
               then Ok (effective (species_get_peer_socket_action (reg_species reg)) DupeNull path)
               else Err (UnregisteredConnectedSocket fd (socket_address_to_string addr))
           | Abstract _ \<Rightarrow> Err (UnregisteredConnectedSocket fd (socket_address_to_string addr)))
      | EPollFd \<Rightarrow> Err (UnregisteredFd fd)
      | Fifo \<Rightarrow> Err (UnregisteredFifoFd fd)
      | File _ _ path _ _ _ _ \<Rightarrow>
          (case as_cstr path of
             Ok path_cstr \<Rightarrow>
               bind_outcome (file_is_allowed reg path_cstr) (\<lambda>allowed.
                 if allowed then Ok (effective (species_get_file_action (reg_species reg)) Reopen path_cstr)
                 else Err (UnregisteredFile fd path_cstr))
           | _ \<Rightarrow> Err RegInvalidCString)
      | SignalFd \<Rightarrow> Err (UnregisteredSignalFd fd))"

definition register_default :: "'w env \<Rightarrow> int \<Rightarrow> ('w, unit) reg_prog" where
  "register_default E fd =
     and_then (on_snd (map_err FdInfoFailure (fd_info_try_from E fd))) (\<lambda>info.
     and_then (gets fst) (\<lambda>reg.
     and_then (of_outcome (default_action reg fd info)) (\<lambda>action.
     and_then (of_outcome (arrayvec_push REGISTRY_SIZE (fd_entry_new fd info action) (reg_data reg))) set_data)))"

fun register_new_loop ::
  "nat \<Rightarrow> 'w env \<Rightarrow> proc_fd_iterator \<Rightarrow> nat \<Rightarrow> nat \<Rightarrow> ('w, unit) reg_prog"
where
  "register_new_loop 0 E it registry_index num_preexisting_entries = diverge"
| "register_new_loop (Suc n) E it registry_index num_preexisting_entries =
     and_then (on_snd (map_err RegProcFsError (proc_fd_next (loop_fuel E) E it))) (\<lambda>item.
       case item of
         None \<Rightarrow> ok ()
       | Some fd \<Rightarrow>
           and_then get_data (\<lambda>data.
             case is_registered data fd registry_index num_preexisting_entries of
               (registered, registry_index') \<Rightarrow>
                 if registered then register_new_loop n E it registry_index' num_preexisting_entries
                 else and_then (register_default E fd)
                   (\<lambda>_. register_new_loop n E it registry_index' num_preexisting_entries)))"

definition register_new :: "'w env \<Rightarrow> ('w, unit) reg_prog" where
  "register_new E =
     and_then (on_snd (debug_assert_single_threaded E)) (\<lambda>_.
     and_then get_data (\<lambda>data.
       if \<not> sorted (map fde_fd data)
       then panic ''assertion failed: self.data.is_sorted_by_key(|entry| entry.fd)''
       else
         and_then (on_snd (map_err RegProcFsError (proc_fd_iterator_new E))) (\<lambda>it.
         and_then (finally_do (register_new_loop (loop_fuel E) E it 0 (length data))
                     (\<lambda>(reg, w). (reg, proc_fd_drop E (iter_dir it) w))) (\<lambda>_.
         and_then get_data (\<lambda>data'.
           if length data' \<noteq> length data then set_data (sort_key fde_fd data') else ok ())))))"

section \<open>Auditing\<close>

fun audit_loop :: "nat \<Rightarrow> 'w env \<Rightarrow> proc_fd_iterator \<Rightarrow> fd_entry list \<Rightarrow> ('w, unit, audit_error) prog" where
  "audit_loop 0 E it entries = diverge"
| "audit_loop (Suc n) E it entries =
     and_then (map_err AuditProcFsError (proc_fd_next (loop_fuel E) E it)) (\<lambda>item.
       case (entries, item) of
         (entry # rest, Some open_fd) \<Rightarrow>
           if fde_fd entry \<noteq> open_fd then fail (RegistryOrderMismatch (fde_fd entry) open_fd)
           else
             and_then (map_err FileDescriptorInfoFailure (fd_info_try_from E open_fd)) (\<lambda>current_info.
               if fde_info entry \<noteq> current_info
               then fail (RegistryStateMismatch (fde_fd entry) (fde_info entry) current_info)
               else audit_loop n E it rest)
       | (entry # rest, None) \<Rightarrow> fail (FileDescriptorAbsent (fde_fd entry) (fde_info entry))
       | ([], Some open_fd) \<Rightarrow>
           and_then (map_err FileDescriptorInfoFailure (fd_info_try_from E open_fd)) (\<lambda>info.
             fail (FileDescriptorUnexpected open_fd info))
       | ([], None) \<Rightarrow> ok ())"

definition open_entries :: "registry \<Rightarrow> fd_entry list" where
  "open_entries reg = filter (\<lambda>entry. \<not> fd_entry_closed entry) (reg_data reg)"

definition audit :: "'w env \<Rightarrow> registry \<Rightarrow> ('w, unit, audit_error) prog" where
  "audit E reg =
     and_then (debug_assert_single_threaded E) (\<lambda>_.
     and_then (map_err AuditProcFsError (proc_fd_iterator_new E)) (\<lambda>it.
       finally_do (audit_loop (loop_fuel E) E it (open_entries reg)) (proc_fd_drop E (iter_dir it))))"

section \<open>Carrying out the actions\<close>

definition set_entry :: "nat \<Rightarrow> fd_entry \<Rightarrow> ('w, unit) reg_prog" where
  "set_entry i entry = modify (\<lambda>(reg, w). (reg\<lparr>reg_data := (reg_data reg)[i := entry]\<rparr>, w))"

definition execute_entry :: "'w env \<Rightarrow> int \<Rightarrow> fork_type \<Rightarrow> nat \<Rightarrow> ('w, unit) reg_prog" where
  "execute_entry E dev_null_fd fork_type i =
     and_then get_data (\<lambda>data.
     and_then (on_snd (map_err EntryActionFailure (fd_entry_execute E dev_null_fd fork_type (data ! i))))
       (\<lambda>(entry', _). set_entry i entry'))"

definition execute_actions :: "'w env \<Rightarrow> fork_type \<Rightarrow> ('w, unit) reg_prog" where
  "execute_actions E fork_type =
     and_then (on_snd (debug_assert_single_threaded E)) (\<lambda>_.
     and_then (on_snd (map_err DevNullFailure (sys_open E DEV_NULL_PATH (O_RDWR OR O_CLOEXEC) None))) (\<lambda>dev_null_fd.
     and_then get_data (\<lambda>data.
     and_then (for_each (execute_entry E dev_null_fd fork_type) [0..<length data]) (\<lambda>_.
     and_then (gets fst) (\<lambda>reg.
       on_snd (species_sync_fd_state E (reg_species reg)))))))"

definition override_and_close :: "'w env \<Rightarrow> ('w, unit) reg_prog" where
  "override_and_close E =
     and_then (on_snd (debug_assert_single_threaded E)) (\<lambda>_.
     and_then get_data (\<lambda>data.
     and_then (for_each (\<lambda>entry. on_snd (map_err EntryActionFailure (fd_entry_override_and_close E entry))) data) (\<lambda>_.
     and_then (gets fst) (\<lambda>reg.
       on_snd (species_sync_fd_state E (reg_species reg))))))"

definition reset_for_subspecies :: "'w env \<Rightarrow> ('w, unit) reg_prog" where
  "reset_for_subspecies E =
     and_then (execute_actions E Subspecies) (\<lambda>_.
     and_then (on_snd (log_info E ''Resetting FileDescriptorRegistry for subspecies'')) (\<lambda>_.
     and_then (register_new E) (\<lambda>_.
     and_then (gets fst) (\<lambda>reg.
       on_snd (map_err AuditFailure (audit E reg))))))"

section \<open>The sorted vector as a table\<close>

definition table_find :: "fd_entry list \<Rightarrow> int \<Rightarrow> fd_entry option" where
  "table_find data fd = (case find_fd data fd of Ok i \<Rightarrow> Some (data ! i) | _ \<Rightarrow> None)"

definition table_put :: "fd_entry list \<Rightarrow> fd_entry \<Rightarrow> fd_entry list" where
  "table_put data entry =
     (case find_fd data (fde_fd entry) of
        Ok i \<Rightarrow> data[i := entry]
      | Err i \<Rightarrow> insert_at i entry data
      | _ \<Rightarrow> data)"

definition table_del :: "fd_entry list \<Rightarrow> int \<Rightarrow> fd_entry list" where
  "table_del data fd = (case find_fd data fd of Ok i \<Rightarrow> remove_at i data | _ \<Rightarrow> data)"

locale keyed_table =
  fixes inv :: "'t \<Rightarrow> bool"
    and find :: "'t \<Rightarrow> 'k \<Rightarrow> 'e option"
    and put :: "'t \<Rightarrow> 'e \<Rightarrow> 't"
    and del :: "'t \<Rightarrow> 'k \<Rightarrow> 't"
    and key :: "'e \<Rightarrow> 'k"
    and keys :: "'t \<Rightarrow> 'k set"
  assumes find_keys: "inv t \<Longrightarrow> find t k \<noteq> None \<longleftrightarrow> k \<in> keys t"
    and find_put: "inv t \<Longrightarrow> find (put t e) k = (if k = key e then Some e else find t k)"
    and inv_put: "inv t \<Longrightarrow> inv (put t e)"
    and find_del: "inv t \<Longrightarrow> find (del t k) k' = (if k' = k then None else find t k')"
    and inv_del: "inv t \<Longrightarrow> inv (del t k)"
begin

lemma keys_put: "inv t \<Longrightarrow> keys (put t e) = insert (key e) (keys t)"
  by (rule set_eqI) (auto simp: find_keys [symmetric] inv_put find_put split: if_splits)

lemma keys_del: "inv t \<Longrightarrow> keys (del t k) = keys t - {k}"
  by (rule set_eqI) (auto simp: find_keys [symmetric] inv_del find_del split: if_splits)

lemma find_put_same: "inv t \<Longrightarrow> find (put t e) (key e) = Some e"
  by (simp add: find_put)

lemma find_del_put: "inv t \<Longrightarrow> k = key e \<Longrightarrow> find (del (put t e) k) k' = (if k' = k then None else find t k')"
  by (simp add: find_del inv_put find_put)

end

lemma find_fd_rank:
  "strict_by fde_fd data \<Longrightarrow> find_fd data fd =
     (if fd \<in> fde_fd ` set data then Ok (rank fde_fd fd data) else Err (rank fde_fd fd data))"
  by (simp add: find_fd_def binary_search_by_rank)

lemma table_find_iff:
  assumes "strict_by fde_fd data"
  shows "table_find data fd = Some e \<longleftrightarrow> e \<in> set data \<and> fde_fd e = fd"
proof (cases "fd \<in> fde_fd ` set data")
  case True
  then obtain i where i: "i < length data" "fde_fd (data ! i) = fd" by (auto simp: in_set_conv_nth)
  with assms have "find_fd data fd = Ok i" using rank_nth [OF assms i(1)] True by (simp add: find_fd_rank)
  then have find: "table_find data fd = Some (data ! i)" by (simp add: table_find_def)
  have "e = data ! i" if "e \<in> set data" "fde_fd e = fd"
    using that i strict_by_distinct [OF assms] by (auto simp: distinct_map inj_on_def)
  with find i show ?thesis by auto
next
  case False
  with assms show ?thesis by (auto simp: table_find_def find_fd_rank)
qed

lemma strict_by_list_update:
  assumes "strict_by key xs" and "i < length xs" and "key x = key (xs ! i)"
  shows "strict_by key (xs[i := x])"
proof -
  have "map key (xs[i := x]) = map key xs"
    using assms(2,3) by (metis list_update_id map_update)
  with assms(1) show ?thesis by (simp add: strict_by_def)
qed

lemma rank_lt_length:
  assumes "strict_by fde_fd data" and "fd \<in> fde_fd ` set data"
  shows "rank fde_fd fd data < length data \<and> fde_fd (data ! rank fde_fd fd data) = fd"
proof -
  from assms(2) obtain i where "i < length data" "fde_fd (data ! i) = fd" by (auto simp: in_set_conv_nth)
  with rank_nth [OF assms(1), of i] show ?thesis by auto
qed

lemma inv_table_put: "strict_by fde_fd data \<Longrightarrow> strict_by fde_fd (table_put data e)"
  using rank_lt_length [of data "fde_fd e"]
  by (auto simp: table_put_def find_fd_rank strict_by_list_update strict_by_insert_at_rank)

lemma set_table_put:
  assumes "strict_by fde_fd data"
  shows "set (table_put data e) = insert e {x \<in> set data. fde_fd x \<noteq> fde_fd e}"
proof (cases "fde_fd e \<in> fde_fd ` set data")
  case True
  let ?i = "rank fde_fd (fde_fd e) data"
  from rank_lt_length [OF assms True] have i: "?i < length data" "fde_fd (data ! ?i) = fde_fd e" by auto
  from strict_by_distinct [OF assms] have "distinct data" "inj_on fde_fd (set data)" by (simp_all add: distinct_map)
  with i have "{x \<in> set data. fde_fd x \<noteq> fde_fd e} = set data - {data ! ?i}"
    by (auto simp: inj_on_def)
  moreover from i \<open>distinct data\<close> have "set (data[?i := e]) = insert e (set data - {data ! ?i})"
    by (simp add: set_update_distinct)
  ultimately show ?thesis using True assms by (simp add: table_put_def find_fd_rank)
next
  case False
  then have "{x \<in> set data. fde_fd x \<noteq> fde_fd e} = set data" by (auto simp: image_iff)
  with False assms show ?thesis by (simp add: table_put_def find_fd_rank)
qed

lemma set_table_del:
  assumes "strict_by fde_fd data"
  shows "set (table_del data fd) = {x \<in> set data. fde_fd x \<noteq> fd}"
proof (cases "fd \<in> fde_fd ` set data")
  case True
  let ?i = "rank fde_fd fd data"
  from rank_lt_length [OF assms True] have i: "?i < length data" "fde_fd (data ! ?i) = fd" by auto
  from strict_by_distinct [OF assms] have "distinct data" "inj_on fde_fd (set data)" by (simp_all add: distinct_map)
  with i have "{x \<in> set data. fde_fd x \<noteq> fd} = set data - {data ! ?i}"
    by (auto simp: inj_on_def)
  with True assms i \<open>distinct data\<close> show ?thesis
    by (simp add: table_del_def find_fd_rank set_remove_at_distinct)
next
  case False
  then have "{x \<in> set data. fde_fd x \<noteq> fd} = set data" by (auto simp: image_iff)
  with False assms show ?thesis by (simp add: table_del_def find_fd_rank)
qed

lemma inv_table_del: "strict_by fde_fd data \<Longrightarrow> strict_by fde_fd (table_del data fd)"
  by (auto simp: table_del_def find_fd_rank strict_by_remove_at)

interpretation fd_table: keyed_table "strict_by fde_fd" table_find table_put table_del fde_fd "\<lambda>data. fde_fd ` set data"
proof unfold_locales
  fix data :: "fd_entry list" and e fd fd' assume inv: "strict_by fde_fd data"
  show "(table_find data fd \<noteq> None) = (fd \<in> fde_fd ` set data)"
    using table_find_iff [OF inv] by (metis (no_types, lifting) image_iff not_Some_eq)
  have "table_find (table_put data e) fd = Some x \<longleftrightarrow> (if fd = fde_fd e then Some e else table_find data fd) = Some x" for x
    using table_find_iff [OF inv] table_find_iff [OF inv_table_put [OF inv]]
    by (auto simp: set_table_put [OF inv])
  then show "table_find (table_put data e) fd = (if fd = fde_fd e then Some e else table_find data fd)"
    by (metis not_None_eq)
  have "table_find (table_del data fd) fd' = Some x \<longleftrightarrow> (if fd' = fd then None else table_find data fd') = Some x" for x
    using table_find_iff [OF inv] table_find_iff [OF inv_table_del [OF inv]]
    by (auto simp: set_table_del [OF inv])
  then show "table_find (table_del data fd) fd' = (if fd' = fd then None else table_find data fd')"
    by (metis not_None_eq)
qed (simp_all add: inv_table_put inv_table_del)

end
