(* ===== verification/Fd_Audit.thy ===== *)
theory Fd_Audit
  imports Fd_Safety
begin

text \<open>
  The two operations that walk \<^verbatim>\<open>/proc/self/fd\<close> beside the registry. An audit returns \<^verbatim>\<open>Ok\<close>
  exactly when the directory lists the descriptors of the open entries, in order, each with the
  recorded information; \<^verbatim>\<open>register_new\<close> adds exactly the listed descriptors that had no entry,
  each with an action the allow lists justify, and leaves the registry sorted.
\<close>

section \<open>Reading the directory does not disturb what is read\<close>

text \<open>
  The queries change nothing, and reading the directory changes no answer but the position of its
  own descriptor, which the iterator leaves out.
\<close>

definition listing_stable :: "'w env \<Rightarrow> bool" where
  "listing_stable E \<longleftrightarrow> queries_pure E
     \<and> (\<forall>w0 it w1 w. proc_fd_iterator_new E w0 = (Ok it, w1) \<longrightarrow>
          same_answers E (iter_dir_fd it) (snd (kernel E (FdCall (Libc_readdir (iter_dir it))) w)) w)"

text \<open>The directory of descriptors is listed in ascending order.\<close>

definition listing_ascending :: "'w env \<Rightarrow> bool" where
  "listing_ascending E \<longleftrightarrow>
     (\<forall>w0 it w n fds w'. proc_fd_iterator_new E w0 = (Ok it, w) \<longrightarrow>
        proc_fd_list n E it w = (Ok fds, w') \<longrightarrow> sorted_wrt (<) fds)"

lemma same_answers_refl [simp]: "same_answers E d w w"
  by (simp add: same_answers_def)

lemma same_answers_trans: "same_answers E d w1 w2 \<Longrightarrow> same_answers E d w2 w3 \<Longrightarrow> same_answers E d w1 w3"
  by (simp add: same_answers_def)

lemma sys_readdir_same:
  assumes "listing_stable E" and "proc_fd_iterator_new E v = (Ok it, v')"
    and "sys_readdir E (iter_dir it) w = (r, w')"
  shows "same_answers E (iter_dir_fd it) w' w \<and> (\<exists>x. r = Ok x)"
proof -
  from assms(1,2) have "same_answers E (iter_dir_fd it) (snd (kernel E (FdCall (Libc_readdir (iter_dir it))) w)) w"
    unfolding listing_stable_def by blast
  with assms(3) show ?thesis
    by (cases "kernel E (FdCall (Libc_readdir (iter_dir it))) w")
       (auto simp: sys_readdir_def and_then_def match_result_def invoke_def ok_def)
qed

lemma next_fd_not_dir: "next_fd it name = Ok (Some fd) \<Longrightarrow> fd \<noteq> iter_dir_fd it"
  by (auto simp: next_fd_def split: if_splits option.splits)

lemma proc_fd_next_same:
  assumes "listing_stable E" and new: "proc_fd_iterator_new E v = (Ok it, v')"
  shows "proc_fd_next n E it w = (r, w') \<Longrightarrow>
    same_answers E (iter_dir_fd it) w' w \<and> r \<noteq> Ok (Some (iter_dir_fd it))"
proof (induction n arbitrary: w)
  case (Suc n)
  obtain x w1 where dir: "(sys_readdir E (iter_dir it) :: ('a, string option, procfs_error) prog) w = (Ok x, w1)"
    and same: "same_answers E (iter_dir_fd it) w1 w"
    using sys_readdir_same [OF assms] by (metis prod.exhaust)
  show ?case
  proof (cases x)
    case None
    with Suc.prems dir same show ?thesis by (auto simp: and_then_Ok)
  next
    case (Some name)
    with Suc.prems dir have run: "and_then (of_outcome (next_fd it name))
        (\<lambda>r. case r of Some fd \<Rightarrow> ok (Some fd) | None \<Rightarrow> proc_fd_next n E it) w1 = (r, w')"
      by (simp add: and_then_Ok)
    show ?thesis
    proof (cases "next_fd it name = Ok None")
      case True
      with run have "proc_fd_next n E it w1 = (r, w')" by simp
      from Suc.IH [OF this] same show ?thesis by (auto intro: same_answers_trans)
    next
      case False
      with run have "w' = w1 \<and> r \<noteq> Ok (Some (iter_dir_fd it))"
        by (cases "next_fd it name") (auto dest: next_fd_not_dir split: option.splits)
      with same show ?thesis by simp
    qed
  qed
qed (simp add: diverge_def)

lemma proc_fd_list_not_dir:
  assumes "listing_stable E" and "proc_fd_iterator_new E v = (Ok it, v')"
  shows "proc_fd_list n E it w = (Ok fds, w') \<Longrightarrow> iter_dir_fd it \<notin> set fds"
proof (induction n arbitrary: w fds)
  case (Suc n)
  then obtain item w1 where item: "proc_fd_next (loop_fuel E) E it w = (Ok item, w1)"
    by (auto simp: and_then_eq_Ok_iff)
  from proc_fd_next_same [OF assms item] Suc.prems item Suc.IH show ?case
    by (cases item) (auto simp: and_then_eq_Ok_iff)
qed simp

section \<open>Audit\<close>

lemma audit_loop_iff:
  assumes stable: "listing_stable E" and new: "proc_fd_iterator_new E v = (Ok it, v')"
  shows "same_answers E (iter_dir_fd it) w u \<Longrightarrow> audit_loop n E it entries w = (Ok (), w') \<longleftrightarrow>
    (\<exists>fds. proc_fd_list n E it w = (Ok fds, w') \<and> fds = map fde_fd entries
      \<and> (\<forall>entry \<in> set entries. info_at E (fde_fd entry) u = Ok (fde_info entry)))"
proof (induction n arbitrary: entries w)
  case (Suc n)
  obtain item w1 where next_run: "proc_fd_next (loop_fuel E) E it w = (item, w1)" by fastforce
  from proc_fd_next_same [OF stable new next_run] Suc.prems
  have same: "same_answers E (iter_dir_fd it) w1 u" and dir: "item \<noteq> Ok (Some (iter_dir_fd it))"
    by (auto intro: same_answers_trans)
  have pure: "queries_pure E" using stable by (simp add: listing_stable_def)
  have gather: "fd_info_try_from E fd w1 = (info_at E fd u, w1)" if "fd \<noteq> iter_dir_fd it" for fd
    using info_at_cong [OF pure same that] by (simp add: fd_info_try_from_run [OF pure])
  note ih = Suc.IH [OF same]
  show ?case
  proof (cases item)
    case (Ok r)
    show ?thesis
    proof (cases r)
      case None
      with next_run Ok show ?thesis
        by (cases entries) (auto simp: and_then_def match_result_def map_err_def fail_def ok_def)
    next
      case (Some fd)
      with Ok dir have "fd \<noteq> iter_dir_fd it" by simp
      with next_run Ok Some ih gather show ?thesis
        by (cases entries; cases "info_at E fd u")
           (auto simp: and_then_def match_result_def map_err_def fail_def ok_def split: prod.splits outcome.splits)
    qed
  qed (use next_run in \<open>auto simp: and_then_def match_result_def map_err_def fail_def\<close>)
qed simp

lemma audit_effect:
  assumes "listing_stable E"
  shows "audit E reg w = (Ok (), w') \<longleftrightarrow>
    (\<exists>w1 it w2 w3. (debug_assert_single_threaded E :: ('w, unit, audit_error) prog) w = (Ok (), w1)
      \<and> proc_fd_iterator_new E w1 = (Ok it, w2)
      \<and> proc_fd_list (loop_fuel E) E it w2 = (Ok (map fde_fd (open_entries reg)), w3)
      \<and> (\<forall>entry \<in> set (open_entries reg). info_at E (fde_fd entry) w2 = Ok (fde_info entry))
      \<and> w' = proc_fd_drop E (iter_dir it) w3)"
proof -
  have run: "audit E reg w = (Ok (), w') \<longleftrightarrow>
      (\<exists>w1 it w2 w3. (debug_assert_single_threaded E :: ('w, unit, audit_error) prog) w = (Ok (), w1)
        \<and> proc_fd_iterator_new E w1 = (Ok it, w2)
        \<and> audit_loop (loop_fuel E) E it (open_entries reg) w2 = (Ok (), w3)
        \<and> w' = proc_fd_drop E (iter_dir it) w3)"
    by (auto simp: audit_def and_then_eq_Ok_iff finally_do_eq_Ok_iff)
  show ?thesis unfolding run using audit_loop_iff [OF assms _ same_answers_refl] by blast
qed

text \<open>
  C1. What an audit certifies. It returns \<^verbatim>\<open>Ok\<close> exactly when the iterator over
  \<^verbatim>\<open>/proc/self/fd\<close> can be created and lists precisely the descriptors of the entries that are
  not closed, in registry order, and the information gathered for each is the recorded one: no
  descriptor is open without an entry, none is missing, none was reopened as something else.
\<close>

theorem audit_iff:
  assumes "listing_stable E"
  shows "audit E reg w = (Ok (), w') \<longleftrightarrow>
    (\<exists>w1 it w2 w3. (debug_assert_single_threaded E :: ('w, unit, audit_error) prog) w = (Ok (), w1)
      \<and> proc_fd_iterator_new E w1 = (Ok it, w2)
      \<and> proc_fd_list (loop_fuel E) E it w2 = (Ok (map fde_fd (open_entries reg)), w3)
      \<and> (\<forall>entry \<in> set (open_entries reg). info_at E (fde_fd entry) w2 = Ok (fde_info entry))
      \<and> w' = proc_fd_drop E (iter_dir it) w3)"
  using assms by (rule audit_effect)

section \<open>Registering what is new\<close>

lemma is_registered_spec:
  assumes sorted: "strict_by fde_fd data0" and data: "take (length data0) data = data0"
  shows "idx \<le> length data0 \<Longrightarrow> \<forall>i < idx. fde_fd (data0 ! i) < fd \<Longrightarrow>
    is_registered data fd idx (length data0) = (b, idx') \<Longrightarrow>
    (b \<longleftrightarrow> fd \<in> fde_fd ` set data0) \<and> idx' \<le> length data0 \<and> (\<forall>i < idx'. fde_fd (data0 ! i) \<le> fd)"
proof (induction "length data0 - idx" arbitrary: idx)
  case 0
  then have idx: "idx = length data0" by simp
  with 0 have "b = False" "idx' = idx" by (simp_all add: is_registered.simps)
  moreover have "fd \<notin> fde_fd ` set data0"
    using 0 idx by (auto simp: in_set_conv_nth)
  ultimately show ?case using 0 idx by (auto simp: less_imp_le)
next
  case (Suc m)
  then have idx: "idx < length data0" by simp
  have entry: "data ! idx = data0 ! idx" using data idx by (metis nth_take)
  have beyond: "\<forall>i < length data0. idx < i \<longrightarrow> fde_fd (data0 ! idx) < fde_fd (data0 ! i)"
    using strict_by_nth [OF sorted] by blast
  consider "fde_fd (data0 ! idx) < fd" | "fde_fd (data0 ! idx) = fd" | "fd < fde_fd (data0 ! idx)"
    by linarith
  then show ?case
  proof cases
    case 1
    with Suc.prems(3) idx entry have "is_registered data fd (Suc idx) (length data0) = (b, idx')"
      by (subst (asm) is_registered.simps) (simp add: cmp_def)
    moreover have "\<forall>i < Suc idx. fde_fd (data0 ! i) < fd" using Suc.prems(2) 1 by (auto simp: less_Suc_eq)
    moreover have "m = length data0 - Suc idx" using Suc.hyps(2) by simp
    ultimately show ?thesis using Suc.hyps(1) [of "Suc idx"] idx by simp
  next
    case 2
    with Suc.prems(3) idx entry have "b = True" "idx' = Suc idx"
      by (subst (asm) is_registered.simps, simp add: cmp_def)+
    with 2 idx Suc.prems(2) show ?thesis by (auto simp: less_Suc_eq less_imp_le)
  next
    case 3
    with Suc.prems(3) idx entry have b: "b = False" "idx' = idx"
      by (subst (asm) is_registered.simps, simp add: cmp_def)+
    have "fde_fd (data0 ! i) \<noteq> fd" if "i < length data0" for i
      using 3 beyond Suc.prems(2) that by (cases i idx rule: linorder_cases) auto
    then have "fd \<notin> fde_fd ` set data0" by (metis image_iff in_set_conv_nth)
    with b idx Suc.prems(2) show ?thesis by (auto simp: less_imp_le)
  qed
qed

lemma is_registered_bound:
  "index \<le> k \<Longrightarrow> is_registered data fd index k = (b, idx') \<Longrightarrow> idx' \<le> k"
proof (induction data fd index k rule: is_registered.induct)
  case (1 data fd index k)
  then show ?case
    by (auto simp: is_registered.simps [of data fd index k] split: if_splits ordering.splits)
qed

lemma default_action_data [simp]: "default_action (reg\<lparr>reg_data := data\<rparr>) fd info = default_action reg fd info"
proof -
  have "file_is_allowed (reg\<lparr>reg_data := data\<rparr>) = file_is_allowed reg"
    by (simp add: fun_eq_iff file_is_allowed_def)
  then show ?thesis
    by (simp add: default_action_def bound_abstract_socket_is_allowed_def bound_socket_path_is_allowed_def
        peer_socket_path_is_allowed_def cong: fd_info.case_cong socket_address.case_cong outcome.case_cong if_cong)
qed

text \<open>
  What may be open without having been registered, and what is done with it in a child, written
  down from the policy and not from the code that decides it. A species trusts a few files, which
  its children keep, and a few peers, whose connections they keep or close.
\<close>

fun trusted_files :: "species_tag \<Rightarrow> string set" where
  "trusted_files AndroidNative =
     {''/dev/pmsg0'', ''/sys/kernel/debug/tracing/trace_marker'', ''/sys/kernel/tracing/trace_marker''}"
| "trusted_files LibApp = {}"
| "trusted_files Mock = {''/tmp/mock_file_1''}"

fun trusted_peers :: "species_tag \<Rightarrow> (string \<times> action) set" where
  "trusted_peers AndroidNative =
     {(''/dev/socket/logdw'', Ignore), (''/data/system/unsolzygotesocket'', Close), (''/dev/socket/statsdw'', Ignore)}"
| "trusted_peers LibApp = {}"
| "trusted_peers Mock = {(''/tmp/test_socket_bound_1'', Ignore)}"

inductive allowed_as :: "registry \<Rightarrow> fd_info \<Rightarrow> action \<Rightarrow> bool" for reg where
  listed_name: "name \<in> set (reg_allowed_socket_names reg) \<Longrightarrow> allowed_as reg (BoundSocket (Abstract name)) DupeNull"
| test_name: "reg_species reg = Mock \<Longrightarrow> allowed_as reg (BoundSocket (Abstract ''test_socket_abstract_1'')) DupeNull"
| listed_path: "path \<in> set (reg_allowed_socket_paths reg) \<Longrightarrow> allowed_as reg (BoundSocket (Path path)) DupeNull"
| test_path: "reg_species reg = Mock \<Longrightarrow> allowed_as reg (BoundSocket (Path ''/tmp/test_socket_bound_1'')) DupeNull"
| trusted_peer: "(path, a) \<in> trusted_peers (reg_species reg) \<Longrightarrow> allowed_as reg (ConnectedSocket (Path path)) a"
| listed_peer: "path \<in> set (reg_allowed_peer_socket_paths reg) \<Longrightarrow> path \<notin> fst ` trusted_peers (reg_species reg) \<Longrightarrow>
    allowed_as reg (ConnectedSocket (Path path)) DupeNull"
| trusted_file: "is_file info \<Longrightarrow> as_cstr (file_path info) = Ok path \<Longrightarrow>
    utf8_valid path \<Longrightarrow> path \<in> trusted_files (reg_species reg) \<Longrightarrow> allowed_as reg info Ignore"
| listed_file: "is_file info \<Longrightarrow> as_cstr (file_path info) = Ok path \<Longrightarrow>
    utf8_valid path \<Longrightarrow> path \<in> {''/dev/null'', ''/dev/urandom''} \<union> set (reg_allowed_file_paths reg) \<Longrightarrow>
    path \<notin> trusted_files (reg_species reg) \<Longrightarrow> allowed_as reg info Reopen"

inductive_simps allowed_as_simps:
  "allowed_as reg (BoundSocket (Abstract name)) a" "allowed_as reg (BoundSocket (Path path)) a"
  "allowed_as reg (ConnectedSocket (Path path)) a" "allowed_as reg (ConnectedSocket (Abstract name)) a"
  "allowed_as reg EPollFd a" "allowed_as reg Fifo a" "allowed_as reg SignalFd a"
  "allowed_as reg (File d i p fdf fso fsf off) a"

lemmas species_lists =
  list_allows_def list_action_def effective_def ANDROID_ALLOWED_FILE_PATHS_def ANDROID_ALLOWED_SOCKET_PATHS_def
  MOCK_ALLOWED_FILE_PATHS_def MOCK_ALLOWED_SOCKET_PATHS_def MOCK_ALLOWED_SOCKET_NAMES_def
  MOCK_FILE_PATH_1_def SOCKET_NAME_1_def SOCKET_PATH_1_def UNSOLICITED_ZYGOTE_SOCKET_PATH_def

lemma species_files_spec:
  "species_file_is_allowed species path \<longleftrightarrow> path \<in> trusted_files species"
  "effective (species_get_file_action species) Reopen path = (if path \<in> trusted_files species then Ignore else Reopen)"
  by (cases species; auto simp: species_lists)+

lemma species_peers_spec:
  "species_peer_socket_path_is_allowed species path \<longleftrightarrow> path \<in> fst ` trusted_peers species"
  "effective (species_get_peer_socket_action species) DupeNull path = a \<longleftrightarrow>
     (if path \<in> fst ` trusted_peers species then (path, a) \<in> trusted_peers species else a = DupeNull)"
  by (cases species; auto simp: species_lists)+

lemma species_bound_spec:
  "species_bound_abstract_socket_is_allowed species name \<longleftrightarrow> species = Mock \<and> name = ''test_socket_abstract_1''"
  "species_bound_socket_path_is_allowed species path \<longleftrightarrow> species = Mock \<and> path = ''/tmp/test_socket_bound_1''"
  by (cases species; auto simp: species_lists)+

text \<open>The code decides as the policy says, in both directions.\<close>

lemma default_action_iff: "default_action reg fd info = Ok a \<longleftrightarrow> allowed_as reg info a"
proof (cases info)
  case (BoundSocket addr)
  then show ?thesis
    by (cases addr) (auto simp: default_action_def allowed_as_simps bound_abstract_socket_is_allowed_def
        bound_socket_path_is_allowed_def species_bound_spec ALLOWED_SOCKET_PATHS_def)
next
  case (ConnectedSocket addr)
  then show ?thesis
    by (cases addr) (auto simp: default_action_def allowed_as_simps peer_socket_path_is_allowed_def
        species_peers_spec ALLOWED_PEER_SOCKET_PATHS_def image_iff)
next
  case (File d i p fdf fso fsf off)
  then show ?thesis
    by (auto simp: default_action_def allowed_as_simps file_is_allowed_def species_files_spec ALLOWED_FILE_PATHS_def
        DEV_NULL_PATH_def DEV_URANDOM_PATH_def split: outcome.splits)
qed (simp_all add: default_action_def allowed_as_simps)

text \<open>An entry the walk may add: fresh, with the gathered information and an action of the policy.\<close>

definition justified :: "'w env \<Rightarrow> 'w \<Rightarrow> registry \<Rightarrow> fd_entry \<Rightarrow> bool" where
  "justified E w reg entry \<longleftrightarrow>
     info_at E (fde_fd entry) w = Ok (fde_info entry)
     \<and> allowed_as reg (fde_info entry) (fde_action entry) \<and> \<not> fde_executed entry"

lemma allowed_as_data [simp]: "allowed_as (reg\<lparr>reg_data := data\<rparr>) info a \<longleftrightarrow> allowed_as reg info a"
  unfolding default_action_iff [of _ 0, symmetric] by simp

lemma register_default_Ok:
  assumes "queries_pure E" and "register_default E fd (reg, w) = (Ok (), (reg', w'))"
  shows "w' = w \<and> length (reg_data reg) < REGISTRY_SIZE
    \<and> (\<exists>entry. fde_fd entry = fd \<and> justified E w reg entry
        \<and> reg' = reg\<lparr>reg_data := reg_data reg @ [entry]\<rparr>)"
proof -
  from assms(2) fd_info_try_from_run [OF assms(1), of fd w] obtain info action where
    "info_at E fd w = Ok info" "default_action reg fd info = Ok action" "w' = w"
    "length (reg_data reg) < REGISTRY_SIZE"
    "reg' = reg\<lparr>reg_data := reg_data reg @ [fd_entry_new fd info action]\<rparr>"
    by (auto simp: register_default_def and_then_eq_Ok_iff on_snd_eq_iff arrayvec_push_def
        dest!: sym [of "Ok _"] split: if_splits)
  then show ?thesis
    by (intro conjI exI [of _ "fd_entry_new fd info action"]) (simp_all add: justified_def fd_entry_new_def default_action_iff [of _ fd, symmetric])
qed

lemma justified_same:
  assumes "listing_stable E" and "same_answers E d w1 w" and "fde_fd entry \<noteq> d"
  shows "justified E w1 reg entry \<longleftrightarrow> justified E w reg entry"
  using assms info_at_cong [of E d w1 w "fde_fd entry"] by (simp add: justified_def listing_stable_def)

text \<open>The new entries are judged in a world \<open>u\<close> that answers as the worlds of the walk do.\<close>

lemma register_new_loop_Ok:
  assumes stable: "listing_stable E" and created: "proc_fd_iterator_new E v = (Ok it, v')"
    and sorted: "strict_by fde_fd data0"
  shows "register_new_loop n E it idx (length data0) (reg, w) = (Ok (), (reg', w')) \<Longrightarrow>
    same_answers E (iter_dir_fd it) w u \<Longrightarrow> reg_data reg = data0 @ new \<Longrightarrow> idx \<le> length data0 \<Longrightarrow>
    \<exists>fds. proc_fd_list n E it w = (Ok fds, w')
      \<and> (sorted_wrt (<) fds \<longrightarrow> (\<forall>i < idx. \<forall>f \<in> set fds. fde_fd (data0 ! i) < f) \<longrightarrow>
          (\<exists>added. reg' = reg\<lparr>reg_data := data0 @ new @ added\<rparr>
            \<and> (added \<noteq> [] \<longrightarrow> length (reg_data reg') \<le> REGISTRY_SIZE)
            \<and> map fde_fd added = filter (\<lambda>f. f \<notin> fde_fd ` set data0) fds
            \<and> (\<forall>entry \<in> set added. justified E u reg entry)))"
proof (induction n arbitrary: idx reg w new)
  case (Suc n)
  have pure: "queries_pure E" using stable by (simp add: listing_stable_def)
  from Suc.prems(1) obtain item w1 where
    item: "proc_fd_next (loop_fuel E) E it w = (Ok item, w1)"
    and rest: "(case item of None \<Rightarrow> ok () | Some fd \<Rightarrow>
        and_then get_data (\<lambda>data. case is_registered data fd idx (length data0) of
          (registered, idx') \<Rightarrow>
            if registered then register_new_loop n E it idx' (length data0)
            else and_then (register_default E fd) (\<lambda>_. register_new_loop n E it idx' (length data0))))
        (reg, w1) = (Ok (), (reg', w'))"
    by (auto simp: and_then_eq_Ok_iff on_snd_eq_iff)
  from proc_fd_next_same [OF stable created item] Suc.prems(2)
  have same: "same_answers E (iter_dir_fd it) w1 u" and not_dir: "item \<noteq> Some (iter_dir_fd it)"
    by (auto intro: same_answers_trans)
  show ?case
  proof (cases item)
    case None
    with rest item Suc.prems(3) show ?thesis by (auto simp: and_then_Ok intro!: exI [of _ "[]"])
  next
    case (Some fd)
    obtain b idx' where reg_b: "is_registered (reg_data reg) fd idx (length data0) = (b, idx')" by fastforce
    have take: "take (length data0) (reg_data reg) = data0" using Suc.prems(3) by simp
    note spec = is_registered_spec [OF sorted take Suc.prems(4) _ reg_b]
    have idx': "idx' \<le> length data0" by (rule is_registered_bound [OF Suc.prems(4) reg_b])
    have listed: "proc_fd_list n E it w1 = (Ok fds, w') \<Longrightarrow> proc_fd_list (Suc n) E it w = (Ok (fd # fds), w')" for fds
      using item Some by (simp add: and_then_Ok)
    have below: "\<forall>i < idx'. \<forall>f \<in> set fds. fde_fd (data0 ! i) < f"
      if "\<forall>i < idx. \<forall>f \<in> set (fd # fds). fde_fd (data0 ! i) < f" "sorted_wrt (<) (fd # fds)" for fds
      using spec that by fastforce
    show ?thesis
    proof (cases b)
      case True
      with rest Some reg_b have "register_new_loop n E it idx' (length data0) (reg, w1) = (Ok (), (reg', w'))"
        by simp
      from Suc.IH [OF this same Suc.prems(3) idx'] obtain fds where
        fds: "proc_fd_list n E it w1 = (Ok fds, w')" and
        ih: "sorted_wrt (<) fds \<Longrightarrow> \<forall>i < idx'. \<forall>f \<in> set fds. fde_fd (data0 ! i) < f \<Longrightarrow>
          \<exists>added. reg' = reg\<lparr>reg_data := data0 @ new @ added\<rparr>
            \<and> (added \<noteq> [] \<longrightarrow> length (reg_data reg') \<le> REGISTRY_SIZE)
            \<and> map fde_fd added = filter (\<lambda>f. f \<notin> fde_fd ` set data0) fds
            \<and> (\<forall>entry \<in> set added. justified E u reg entry)"
        by auto
      have "\<exists>added. reg' = reg\<lparr>reg_data := data0 @ new @ added\<rparr>
            \<and> (added \<noteq> [] \<longrightarrow> length (reg_data reg') \<le> REGISTRY_SIZE)
            \<and> map fde_fd added = filter (\<lambda>f. f \<notin> fde_fd ` set data0) (fd # fds)
            \<and> (\<forall>entry \<in> set added. justified E u reg entry)"
        if asc: "sorted_wrt (<) (fd # fds)" "\<forall>i < idx. \<forall>f \<in> set (fd # fds). fde_fd (data0 ! i) < f"
      proof -
        have "fd \<in> fde_fd ` set data0" using spec asc(2) True by auto
        moreover have "sorted_wrt (<) fds" using asc(1) by simp
        note ih [OF this below [OF asc(2,1)]]
        ultimately show ?thesis by simp
      qed
      with listed [OF fds] show ?thesis by (intro exI [of _ "fd # fds"]) blast
    next
      case False
      with rest Some reg_b obtain reg1 w2 where
        def_run: "register_default E fd (reg, w1) = (Ok (), (reg1, w2))" and
        loop: "register_new_loop n E it idx' (length data0) (reg1, w2) = (Ok (), (reg', w'))"
        by (auto simp: and_then_eq_Ok_iff)
      from register_default_Ok [OF pure def_run] obtain entry where
        w2: "w2 = w1" and room: "length (reg_data reg) < REGISTRY_SIZE" and
        entry: "fde_fd entry = fd" "justified E w1 reg entry" and
        reg1: "reg1 = reg\<lparr>reg_data := reg_data reg @ [entry]\<rparr>"
        by auto
      from entry(2) justified_same [OF stable same, of entry] not_dir Some entry(1)
      have just: "justified E u reg entry" by simp
      have data1: "reg_data reg1 = data0 @ new @ [entry]" by (simp add: reg1 Suc.prems(3))
      have just1: "justified E u reg1 = justified E u reg" by (simp add: fun_eq_iff reg1 justified_def)
      from Suc.IH [OF loop [unfolded w2] same data1 idx'] obtain fds where
        fds: "proc_fd_list n E it w1 = (Ok fds, w')" and
        ih: "sorted_wrt (<) fds \<Longrightarrow> \<forall>i < idx'. \<forall>f \<in> set fds. fde_fd (data0 ! i) < f \<Longrightarrow>
          \<exists>added. reg' = reg1\<lparr>reg_data := data0 @ (new @ [entry]) @ added\<rparr>
            \<and> (added \<noteq> [] \<longrightarrow> length (reg_data reg') \<le> REGISTRY_SIZE)
            \<and> map fde_fd added = filter (\<lambda>f. f \<notin> fde_fd ` set data0) fds
            \<and> (\<forall>entry \<in> set added. justified E u reg entry)"
        by (auto simp: just1)
      have "\<exists>added. reg' = reg\<lparr>reg_data := data0 @ new @ added\<rparr>
            \<and> (added \<noteq> [] \<longrightarrow> length (reg_data reg') \<le> REGISTRY_SIZE)
            \<and> map fde_fd added = filter (\<lambda>f. f \<notin> fde_fd ` set data0) (fd # fds)
            \<and> (\<forall>entry \<in> set added. justified E u reg entry)"
        if asc: "sorted_wrt (<) (fd # fds)" "\<forall>i < idx. \<forall>f \<in> set (fd # fds). fde_fd (data0 ! i) < f"
      proof -
        from ih below [OF asc(2,1)] asc(1) obtain added where
          added: "reg' = reg1\<lparr>reg_data := data0 @ (new @ [entry]) @ added\<rparr>"
            "added \<noteq> [] \<longrightarrow> length (reg_data reg') \<le> REGISTRY_SIZE"
            "map fde_fd added = filter (\<lambda>f. f \<notin> fde_fd ` set data0) fds"
            "\<forall>entry \<in> set added. justified E u reg entry" by auto
        have "fd \<notin> fde_fd ` set data0" using spec asc(2) False by auto
        with added entry just room show ?thesis
          by (intro exI [of _ "entry # added"]) (cases added; auto simp: reg1 Suc.prems(3))
      qed
      with listed [OF fds] show ?thesis by (intro exI [of _ "fd # fds"]) blast
    qed
  qed
qed simp

lemma strict_by_imp_sorted: "strict_by key data \<Longrightarrow> sorted (map key data)"
  by (simp add: strict_by_def strict_sorted_iff)

lemma strict_by_sort_key:
  assumes "distinct (map fde_fd data)"
  shows "strict_by fde_fd (sort_key fde_fd data)"
proof -
  have "distinct (map fde_fd (sort_key fde_fd data))"
    using assms by (simp add: distinct_map)
  moreover have "sorted (map fde_fd (sort_key fde_fd data))" by (rule sorted_sort_key)
  ultimately show ?thesis by (simp add: strict_by_def strict_sorted_iff)
qed

lemma register_new_effect:
  assumes inv: "reg_inv reg" and stable: "listing_stable E" and asc: "listing_ascending E"
    and run: "register_new E (reg, w) = (Ok (), (reg', w'))"
  shows "reg_inv reg' \<and> reg' = reg\<lparr>reg_data := reg_data reg'\<rparr>
    \<and> (\<exists>w0 it w1 fds w2. (debug_assert_single_threaded E :: ('w, unit, fd_registry_error) prog) w = (Ok (), w0)
        \<and> proc_fd_iterator_new E w0 = (Ok it, w1)
        \<and> proc_fd_list (loop_fuel E) E it w1 = (Ok fds, w2)
        \<and> w' = proc_fd_drop E (iter_dir it) w2
        \<and> fde_fd ` set (reg_data reg') = fde_fd ` set (reg_data reg) \<union> set fds
        \<and> set (reg_data reg) \<subseteq> set (reg_data reg')
        \<and> (\<forall>entry \<in> set (reg_data reg') - set (reg_data reg). justified E w1 reg entry))"
proof -
  from inv have sorted: "strict_by fde_fd (reg_data reg)" and len: "length (reg_data reg) \<le> REGISTRY_SIZE"
    by (simp_all add: reg_inv_def)
  let ?data0 = "reg_data reg"
  from run strict_by_imp_sorted [OF sorted] obtain w0 it w1 reg1 w2 where
    single: "(debug_assert_single_threaded E :: ('w, unit, fd_registry_error) prog) w = (Ok (), w0)" and
    new: "proc_fd_iterator_new E w0 = (Ok it, w1)" and
    loop: "register_new_loop (loop_fuel E) E it 0 (length ?data0) (reg, w1) = (Ok (), (reg1, w2))" and
    last: "(if length (reg_data reg1) \<noteq> length ?data0 then set_data (sort_key fde_fd (reg_data reg1)) else ok ())
        (reg1, proc_fd_drop E (iter_dir it) w2) = (Ok (), (reg', w'))"
    by (auto simp: register_new_def and_then_eq_Ok_iff on_snd_eq_iff finally_do_eq_Ok_iff strict_by_imp_sorted)
  from last have drop: "w' = proc_fd_drop E (iter_dir it) w2" by (simp split: if_splits)
  from last have reg': "reg' = (if length (reg_data reg1) \<noteq> length ?data0
      then reg1\<lparr>reg_data := sort_key fde_fd (reg_data reg1)\<rparr> else reg1)"
    by (simp split: if_splits)
  from register_new_loop_Ok [OF stable new sorted loop same_answers_refl, of "[]"] obtain fds where
    list: "proc_fd_list (loop_fuel E) E it w1 = (Ok fds, w2)" and
    ex: "sorted_wrt (<) fds \<Longrightarrow> \<exists>added. reg1 = reg\<lparr>reg_data := ?data0 @ added\<rparr>
        \<and> (added \<noteq> [] \<longrightarrow> length (reg_data reg1) \<le> REGISTRY_SIZE)
        \<and> map fde_fd added = filter (\<lambda>f. f \<notin> fde_fd ` set ?data0) fds
        \<and> (\<forall>entry \<in> set added. justified E w1 reg entry)"
    by auto
  have fds: "sorted_wrt (<) fds" using asc new list unfolding listing_ascending_def by blast
  from ex [OF this] obtain added where
    reg1: "reg1 = reg\<lparr>reg_data := ?data0 @ added\<rparr>" and
    bound: "added \<noteq> [] \<longrightarrow> length (?data0 @ added) \<le> REGISTRY_SIZE" and
    keys: "map fde_fd added = filter (\<lambda>f. f \<notin> fde_fd ` set ?data0) fds" and
    just: "\<forall>entry \<in> set added. justified E w1 reg entry"
    by auto
  have new_keys: "fde_fd ` set added = set fds - fde_fd ` set ?data0"
    using arg_cong [OF keys, of set] by auto
  have "distinct (map fde_fd added)"
    unfolding keys using fds by (simp add: strict_sorted_iff)
  with strict_by_distinct [OF sorted] have distinct: "distinct (map fde_fd (?data0 @ added))"
    using new_keys by auto
  have data': "reg_data reg' = (if added = [] then ?data0 else sort_key fde_fd (?data0 @ added))"
    by (simp add: reg' reg1)
  have set': "set (reg_data reg') = set (?data0 @ added)" by (simp add: data')
  have "reg_inv reg'"
    using strict_by_sort_key [OF distinct] bound len sorted by (auto simp: reg_inv_def data')
  moreover have "fde_fd ` set (reg_data reg') = fde_fd ` set ?data0 \<union> set fds"
    using new_keys by (auto simp: set')
  moreover have "\<forall>entry \<in> set (reg_data reg') - set ?data0. justified E w1 reg entry"
    using just by (auto simp: set')
  moreover have "reg' = reg\<lparr>reg_data := reg_data reg'\<rparr>" by (simp add: reg' reg1)
  moreover have "set ?data0 \<subseteq> set (reg_data reg')" by (simp add: set')
  ultimately show ?thesis using single new list drop by blast
qed

text \<open>
  C2. \<^verbatim>\<open>register_new\<close> lets nothing slip in. Given that procfs lists descriptors in ascending
  order and that the queries disturb nothing, when it returns \<^verbatim>\<open>Ok\<close> on a well-formed registry
  the result is well-formed and differs in the entries only: it covers exactly the old descriptors
  and those this run listed, keeps every old entry as it was, and each new entry carries the
  information gathered from the kernel and the action that the policy has for it. The policy
  \<open>allowed_as\<close> names what may be open: sockets bound to a listed name or path, connections to
  listed or trusted peers, the null device, the random device and listed or trusted files. So no
  new entry is a pipe, an epoll handle, a signal descriptor or a connection to an abstract name,
  and no file or socket is entered that is on no list.
\<close>

theorem register_new_sound:
  assumes inv: "reg_inv reg" and stable: "listing_stable E" and asc: "listing_ascending E"
    and run: "register_new E (reg, w) = (Ok (), (reg', w'))"
  shows "reg_inv reg' \<and> reg' = reg\<lparr>reg_data := reg_data reg'\<rparr>
    \<and> (\<exists>w0 it w1 fds w2. (debug_assert_single_threaded E :: ('w, unit, fd_registry_error) prog) w = (Ok (), w0)
        \<and> proc_fd_iterator_new E w0 = (Ok it, w1)
        \<and> proc_fd_list (loop_fuel E) E it w1 = (Ok fds, w2)
        \<and> w' = proc_fd_drop E (iter_dir it) w2
        \<and> fde_fd ` set (reg_data reg') = fde_fd ` set (reg_data reg) \<union> set fds
        \<and> set (reg_data reg) \<subseteq> set (reg_data reg')
        \<and> (\<forall>entry \<in> set (reg_data reg') - set (reg_data reg). 
             info_at E (fde_fd entry) w1 = Ok (fde_info entry)
             \<and> allowed_as reg (fde_info entry) (fde_action entry) \<and> \<not> fde_executed entry))"
  using register_new_effect [OF assms] unfolding justified_def .

section \<open>A world with one descriptor\<close>

text \<open>
  The directory lists its two dot entries and descriptor 7, whose type and link are parameters; the
  state is what is left to read.
\<close>

definition one_fd_kernel :: "int \<Rightarrow> string \<Rightarrow> syscall \<Rightarrow> string list \<Rightarrow> sysret \<times> string list" where
  "one_fd_kernel mode link c w =
     (let answer = (\<lambda>v out. \<lparr>retval = v, errno_after = 0, outval = out\<rparr>) in
      case c of
        StdCall (Std_path_exists _) \<Rightarrow> (answer 1 NoOut, w)
      | FdCall (Libc_opendir _) \<Rightarrow> (answer 1 NoOut, [''.'', ''..'', ''7''])
      | FdCall (Libc_dirfd _) \<Rightarrow> (answer 9 NoOut, w)
      | FdCall (Libc_readdir _) \<Rightarrow>
          (case w of [] \<Rightarrow> (answer 0 NoOut, []) | name # names \<Rightarrow> (answer 1 (OutBytes name), names))
      | FdCall (Libc_fstat _) \<Rightarrow> (answer 0 (OutStat \<lparr>st_dev = 0, st_ino = 7, st_mode = mode\<rparr>), w)
      | FdCall (Libc_readlink _ _) \<Rightarrow> (answer (int (length link)) (OutBytes link), w)
      | _ \<Rightarrow> (answer 0 NoOut, w))"

definition one_fd_env :: "int \<Rightarrow> string \<Rightarrow> string list env" where
  "one_fd_env mode link = \<lparr>kernel = one_fd_kernel mode link, loop_fuel = 5, debug_assertions = False\<rparr>"

abbreviation pipe_env :: "string list env" where "pipe_env \<equiv> one_fd_env S_IFIFO []"

abbreviation null_env :: "string list env" where "null_env \<equiv> one_fd_env S_IFCHR ''/dev/null''"

lemma one_fd_env_simps [simp]:
  "kernel (one_fd_env mode link) = one_fd_kernel mode link" "loop_fuel (one_fd_env mode link) = Suc (Suc (Suc (Suc (Suc 0))))"
  "debug_assertions (one_fd_env mode link) = False"
  by (simp_all add: one_fd_env_def numeral_eq_Suc)

lemma one_fd_queries: "info_query c \<Longrightarrow> one_fd_kernel mode link c w = (fst (one_fd_kernel mode link c []), w)"
  by (cases c rule: info_query.cases) (simp_all add: one_fd_kernel_def Let_def)

lemma one_fd_env_stable: "listing_stable (one_fd_env mode link)"
proof -
  have "fst (one_fd_kernel mode link c w) = fst (one_fd_kernel mode link c w')" if "info_query c" for c w w'
    using one_fd_queries [OF that, of mode link w] one_fd_queries [OF that, of mode link w'] by simp
  moreover have "snd (one_fd_kernel mode link c w) = w" if "info_query c" for c w
    using one_fd_queries [OF that, of mode link w] by simp
  ultimately show ?thesis by (simp add: listing_stable_def queries_pure_def same_answers_def)
qed

lemma one_fd_new: "proc_fd_iterator_new (one_fd_env mode link) w =
    (Ok \<lparr>iter_dir = 1, iter_dir_fd = 9\<rparr>, [''.'', ''..'', ''7''])"
  by (simp add: proc_fd_iterator_new_def std_bool_def sys_opendir_def sys_dirfd_def checked_call_def and_then_def
      match_result_def map_err_def invoke_def of_outcome_def one_fd_kernel_def check_defs ok_def)

lemma one_fd_next:
  "proc_fd_next (loop_fuel (one_fd_env mode link)) (one_fd_env mode link) \<lparr>iter_dir = 1, iter_dir_fd = 9\<rparr> [''.'', ''..'', ''7''] = (Ok (Some 7), [])"
  "proc_fd_next (loop_fuel (one_fd_env mode link)) (one_fd_env mode link) \<lparr>iter_dir = 1, iter_dir_fd = 9\<rparr> [] = (Ok None, [])"
  by (simp_all add: sys_readdir_def next_fd_def parse_i32_def parse_unsigned_def is_ascii_digit_def digit_value_def
      and_then_def match_result_def map_err_def invoke_def of_outcome_def one_fd_kernel_def check_defs ok_def)

lemma one_fd_list:
  "proc_fd_list n (one_fd_env mode link) \<lparr>iter_dir = 1, iter_dir_fd = 9\<rparr> [''.'', ''..'', ''7''] =
     (if n < 2 then (Diverges, if n = 0 then [''.'', ''..'', ''7''] else []) else (Ok [7], []))"
proof (cases n)
  case (Suc m)
  then show ?thesis
    by (cases m) (simp_all add: and_then_def match_result_def one_fd_next diverge_def ok_def
        del: one_fd_env_simps proc_fd_next.simps)
qed (simp add: diverge_def)

lemma one_fd_list_ascending:
  "proc_fd_list n (one_fd_env mode link) \<lparr>iter_dir = 1, iter_dir_fd = 9\<rparr> [''.'', ''..'', ''7''] = (Ok fds, w') \<Longrightarrow>
    sorted_wrt (<) fds"
  by (auto simp: one_fd_list split: if_splits)

lemma one_fd_env_ascending: "listing_ascending (one_fd_env mode link)"
  by (auto simp: listing_ascending_def one_fd_new dest: one_fd_list_ascending)

definition pipe_registry :: registry where
  "pipe_registry = (empty_registry LibApp)\<lparr>reg_data := [fd_entry_new 7 Fifo Close]\<rparr>"

lemma pipe_registry_data [simp]: "reg_data pipe_registry = [fd_entry_new 7 Fifo Close]"
  by (simp add: pipe_registry_def)

lemma pipe_registry_inv: "reg_inv pipe_registry"
  by (simp add: reg_inv_def strict_by_def)

lemma pipe_open_entries: "open_entries pipe_registry = [fd_entry_new 7 Fifo Close]"
  by (simp add: open_entries_def fd_entry_closed_def fd_entry_new_def)

lemma pipe_info: "info_at pipe_env fd w = Ok Fifo"
  by (simp add: info_at_def fd_info_try_from_def sys_fstat_def checked_call_def and_then_def match_result_def
      map_err_def invoke_def of_outcome_def check_defs get_file_type_def ok_def one_fd_kernel_def)

lemma one_fd_drop: "proc_fd_drop (one_fd_env mode link) d w = w"
  by (simp add: proc_fd_drop_def one_fd_kernel_def)

theorem audit_iff_witness: "audit pipe_env pipe_registry [] = (Ok (), [])"
proof -
  have "(debug_assert_single_threaded pipe_env :: (string list, unit, audit_error) prog) [] = (Ok (), [])"
    by (simp add: debug_assert_single_threaded_def when_do_def)
  moreover have "proc_fd_list (loop_fuel pipe_env) pipe_env \<lparr>iter_dir = 1, iter_dir_fd = 9\<rparr> [''.'', ''..'', ''7'']
      = (Ok (map fde_fd (open_entries pipe_registry)), [])"
    unfolding one_fd_list pipe_open_entries by (simp add: fd_entry_new_def)
  moreover have "\<forall>entry \<in> set (open_entries pipe_registry).
      info_at pipe_env (fde_fd entry) [''.'', ''..'', ''7''] = Ok (fde_info entry)"
    by (simp add: pipe_open_entries pipe_info fd_entry_new_def)
  ultimately show ?thesis
    using one_fd_new [of S_IFIFO "[]" "[]"] unfolding audit_iff [OF one_fd_env_stable] one_fd_drop by blast
qed

section \<open>A world with the null device\<close>

abbreviation null_info :: fd_info where "null_info \<equiv> File 0 7 (zero_padded 512 ''/dev/null'') 0 0 0 0"

lemma null_info_at: "fd_info_try_from null_env 7 w = (Ok null_info, w)"
proof -
  have nat7: "show_int 7 = ''7''"
    by (simp add: show_int_def) (subst show_nat.simps, simp add: digit_char_def char_of_def bit_iff_odd)
  show ?thesis
    by (simp add: fd_info_try_from_def get_file_info_def get_proc_fd_link_info_def PROC_SELF_FD_DIR_def nat7
        cstr_until_nul_def sys_fstat_def sys_readlink_def sys_fcntl_getfd_def sys_fcntl_getfl_def sys_lseek64_def
        and_then_def match_result_def map_err_def checked_call_def invoke_def one_fd_kernel_def get_file_type_def
        check_defs ok_def of_outcome_def FS_FLAGS_OPEN_BITMASK_def)
qed

lemma null_allowed: "allowed_as (empty_registry LibApp) null_info Reopen"
proof -
  have "utf8_valid ''/dev/null''" by (intro utf8_valid_ascii) (simp add: ascii_def)
  moreover have "as_cstr (zero_padded 512 ''/dev/null'') = Ok ''/dev/null''"
    by (simp add: as_cstr_def cstr_until_nul_zero_padded)
  ultimately show ?thesis by (simp add: allowed_as_simps empty_registry_def)
qed

abbreviation null_registry :: registry where
  "null_registry \<equiv> (empty_registry LibApp)\<lparr>reg_data := [fd_entry_new 7 null_info Reopen]\<rparr>"

lemma register_new_null: "register_new null_env (empty_registry LibApp, []) = (Ok (), (null_registry, []))"
proof -
  have data: "reg_data (empty_registry LibApp) = []" by (simp add: empty_registry_def)
  have reg: "is_registered [] 7 0 0 = (False, 0)" by (subst is_registered.simps) simp
  have "register_default null_env 7 (empty_registry LibApp, []) = (Ok (), (null_registry, []))"
    using null_allowed by (simp add: register_default_def default_action_iff [of _ 7, symmetric] on_snd_def and_then_def
        match_result_def map_err_def null_info_at gets_def of_outcome_def arrayvec_push_def set_data_run ok_def data)
  with reg have "register_new_loop (loop_fuel null_env) null_env \<lparr>iter_dir = 1, iter_dir_fd = 9\<rparr> 0 0
      (empty_registry LibApp, [''.'', ''..'', ''7'']) = (Ok (), (null_registry, []))"
    using one_fd_next unfolding one_fd_env_simps(2)
    by (simp add: on_snd_def and_then_def match_result_def map_err_def get_data_run ok_def data del: proc_fd_next.simps)
  moreover have "(debug_assert_single_threaded null_env :: (string list, unit, fd_registry_error) prog) [] = (Ok (), [])"
    by (simp add: debug_assert_single_threaded_def when_do_def)
  ultimately show ?thesis
    by (simp add: register_new_def on_snd_def and_then_def match_result_def map_err_def one_fd_new get_data_run
        finally_do_def one_fd_drop ok_def data set_data_run del: register_new_loop.simps one_fd_env_simps)
qed

theorem register_new_sound_witness:
  "register_new null_env (empty_registry LibApp, []) = (Ok (), (null_registry, []))
     \<and> reg_inv null_registry \<and> allowed_as (empty_registry LibApp) null_info Reopen"
proof -
  have "reg_inv (empty_registry LibApp)" by (simp add: reg_inv_def empty_registry_def strict_by_def)
  from register_new_sound [OF this one_fd_env_stable one_fd_env_ascending register_new_null]
  show ?thesis using register_new_null by (auto simp: empty_registry_def fd_entry_new_def)
qed

end
