(* ===== verification/Fd_Actions.thy ===== *)
theory Fd_Actions
  imports Fd_Safety
begin

unbundle bit_operations_syntax

text \<open>
  The operations that carry out the recorded actions after a fork, and the shutdown of the
  server. Logged runs show which descriptor calls complete: the null device is opened, then the
  calls of each entry follow in registry order. A failure stops the walk, and the registry then
  says exactly how far it came.
\<close>

section \<open>Descriptor calls of a log\<close>

fun is_fd_call :: "syscall \<Rightarrow> bool" where
  "is_fd_call (FdCall _) = True"
| "is_fd_call _ = False"

definition fd_calls :: "(syscall \<times> int) list \<Rightarrow> (syscall \<times> int) list" where
  "fd_calls log = filter (\<lambda>p. is_fd_call (fst p)) (completed log)"

lemma fd_calls_completed: "completed log' = completed log @ cs \<Longrightarrow>
    fd_calls log' = fd_calls log @ filter (\<lambda>p. is_fd_call (fst p)) cs"
  by (simp add: fd_calls_def)

lemma expected_calls_fd: "c \<in> set (expected_calls ft dn nf entry) \<Longrightarrow> is_fd_call c"
  by (auto simp: expected_calls_def reopen_calls_def split: if_splits action.splits fd_info.splits option.splits)

lemma filter_expected_calls:
  assumes "map fst cs = expected_calls ft dn nf entry"
  shows "filter (\<lambda>p. is_fd_call (fst p)) cs = cs"
proof -
  have "is_fd_call (fst p)" if "p \<in> set cs" for p
    using that assms expected_calls_fd [of "fst p" ft dn nf entry] by (metis image_eqI list.set_map)
  then show ?thesis by (simp add: filter_id_conv)
qed

lemma other_call_logged:
  "\<not> is_fd_call c \<Longrightarrow> invoke (logged E) c (w, log) = (r, (w', log')) \<Longrightarrow> fd_calls log' = fd_calls log"
  by (auto simp: kernel_logged fd_calls_def completed_def split: prod.splits)

lemma debug_assert_logged:
  assumes "debug_assert_single_threaded (logged E) (w, log) = (Ok (), (w', log'))"
  shows "fd_calls log' = fd_calls log"
  using assms
  by (auto simp: debug_assert_single_threaded_def when_do_def assert_single_threaded_def and_then_eq_Ok_iff
      proc_stat_get_def kernel_logged fd_calls_def completed_def split: if_splits prod.splits)

lemma sync_fd_state_logged:
  assumes "species_sync_fd_state (logged E) species (w, log) = (Ok (), (w', log'))"
  shows "fd_calls log' = fd_calls log"
  using assms
  by (cases species)
     (auto simp: and_then_eq_Ok_iff kernel_logged fd_calls_def completed_def split: prod.splits)

section \<open>Walking over the entries\<close>

definition executed_entry :: "fork_type \<Rightarrow> fd_entry \<Rightarrow> fd_entry" where
  "executed_entry fork_type entry = entry\<lparr>fde_executed := fde_executed entry \<or> acts fork_type entry\<rparr>"

lemma executed_entry_simps [simp]:
  "fde_fd (executed_entry ft e) = fde_fd e" "fde_info (executed_entry ft e) = fde_info e"
  "fde_action (executed_entry ft e) = fde_action e"
  by (simp_all add: executed_entry_def)

lemma set_entry_eq [simp]:
  "set_entry i e (reg, w) = (r, t) \<longleftrightarrow> r = Ok () \<and> t = (reg\<lparr>reg_data := (reg_data reg)[i := e]\<rparr>, w)"
  by (auto simp: set_entry_def)

text \<open>Whatever the environment: the new entry, when there is one, is the executed one.\<close>

lemma fd_entry_execute_entry:
  "fd_entry_execute E dn ft entry w = (Ok (entry', b), w') \<Longrightarrow> entry' = executed_entry ft entry"
  by (cases "fde_action entry"; cases "fde_executed entry")
     (auto simp: fd_entry_execute_def and_then_eq_Ok_iff executed_entry_def acts_def split: if_splits)

lemma execute_entry_run:
  assumes run: "execute_entry E dn ft i (reg, w) = (r, (reg', w'))"
  shows "(r = Ok () \<longrightarrow> reg' = reg\<lparr>reg_data := (reg_data reg)[i := executed_entry ft (reg_data reg ! i)]\<rparr>)
     \<and> (r \<noteq> Ok () \<longrightarrow> reg' = reg)"
proof -
  obtain r1 w1 where e: "fd_entry_execute E dn ft (reg_data reg ! i) w = (r1, w1)" by fastforce
  show ?thesis
  proof (cases r1)
    case (Ok x)
    with e have "fst x = executed_entry ft (reg_data reg ! i)"
      by (metis fd_entry_execute_entry prod.collapse)
    with run e Ok show ?thesis
      by (cases x) (simp add: execute_entry_def on_snd_def and_then_Ok map_err_Ok set_entry_def modify_def)
  qed (use run e in \<open>auto simp: execute_entry_def on_snd_def and_then_Err and_then_Panic and_then_Diverges
      map_err_Err map_err_Panic map_err_Diverges\<close>)
qed

lemma for_each_execute:
  "for_each (execute_entry E dn ft) [k..<length (reg_data reg)] (reg, w) = (r, (reg', w')) \<Longrightarrow>
     k \<le> length (reg_data reg) \<Longrightarrow>
     \<exists>m. k \<le> m \<and> m \<le> length (reg_data reg) \<and> (r = Ok () \<longrightarrow> m = length (reg_data reg))
       \<and> reg' = reg\<lparr>reg_data := take k (reg_data reg)
            @ map (executed_entry ft) (take (m - k) (drop k (reg_data reg))) @ drop m (reg_data reg)\<rparr>"
proof (induction "length (reg_data reg) - k" arbitrary: k reg w)
  case 0
  then show ?case by (intro exI [of _ k]) simp
next
  case (Suc n)
  let ?data = "reg_data reg"
  from Suc.hyps(2) have k: "k < length ?data" by simp
  obtain r1 reg1 w1 where first: "execute_entry E dn ft k (reg, w) = (r1, (reg1, w1))" by (metis prod.exhaust)
  note step = execute_entry_run [OF first]
  show ?case
  proof (cases "r1 = Ok ()")
    case False
    then have "reg' = reg \<and> r \<noteq> Ok ()"
      using Suc.prems(1) first step k
      by (cases r1) (auto simp: upt_conv_Cons and_then_def match_result_def fail_def)
    then show ?thesis using k by (intro exI [of _ k]) simp
  next
    case True
    with step have reg1: "reg1 = reg\<lparr>reg_data := ?data[k := executed_entry ft (?data ! k)]\<rparr>" by simp
    then have len: "length (reg_data reg1) = length ?data" by simp
    from Suc.prems(1) first True k have
      "for_each (execute_entry E dn ft) [Suc k..<length (reg_data reg1)] (reg1, w1) = (r, (reg', w'))"
      by (simp add: upt_conv_Cons and_then_def match_result_def len)
    moreover have "n = length (reg_data reg1) - Suc k" "Suc k \<le> length (reg_data reg1)"
      using Suc.hyps(2) k len by simp_all
    ultimately obtain m where m:
      "Suc k \<le> m" "m \<le> length ?data" "r = Ok () \<longrightarrow> m = length ?data"
      "reg' = reg1\<lparr>reg_data := take (Suc k) (reg_data reg1)
            @ map (executed_entry ft) (take (m - Suc k) (drop (Suc k) (reg_data reg1))) @ drop m (reg_data reg1)\<rparr>"
      using Suc.hyps(1) len by metis
    from m(1) obtain j where j: "m - k = Suc j" "m - Suc k = j" by (cases "m - k") auto
    have "take (Suc k) (reg_data reg1) = take k ?data @ [executed_entry ft (?data ! k)]"
      using k by (simp add: reg1 take_Suc_conv_app_nth)
    moreover have "drop k ?data = ?data ! k # drop (Suc k) ?data" using k by (rule Cons_nth_drop_Suc [symmetric])
    ultimately show ?thesis
      using m j by (intro exI [of _ m]) (simp add: reg1)
  qed
qed

lemma execute_actions_split:
  assumes run: "execute_actions E ft (reg, w) = (r, (reg', w'))"
  shows "(reg' = reg \<and> r \<noteq> Ok ())
    \<or> (\<exists>w1 dn w2 rc wc.
         (debug_assert_single_threaded E :: ('w, unit, fd_registry_error) prog) w = (Ok (), w1)
       \<and> sys_open E DEV_NULL_PATH (O_RDWR OR O_CLOEXEC) None w1 = (Ok dn, w2)
       \<and> for_each (execute_entry E dn ft) [0..<length (reg_data reg)] (reg, w2) = (rc, (reg', wc))
       \<and> (if rc = Ok () then species_sync_fd_state E (reg_species reg') wc = (r, w') else r \<noteq> Ok ()))"
proof -
  obtain ra w1 where a: "(debug_assert_single_threaded E :: ('w, unit, fd_registry_error) prog) w = (ra, w1)"
    by fastforce
  obtain rb w2 where b: "sys_open E DEV_NULL_PATH (O_RDWR OR O_CLOEXEC) None w1 = (rb, w2)"
    by fastforce
  note defs = execute_actions_def on_snd_def and_then_Ok and_then_Err and_then_Panic and_then_Diverges
  show ?thesis
  proof (cases ra)
    case ra: (Ok u)
    show ?thesis
    proof (cases rb)
      case rb: (Ok dn)
      obtain rc reg1 wc where c: "for_each (execute_entry E dn ft) [0..<length (reg_data reg)] (reg, w2) = (rc, (reg1, wc))"
        by (metis prod.exhaust)
      have "reg' = reg1 \<and> (if rc = Ok () then species_sync_fd_state E (reg_species reg1) wc = (r, w') else r \<noteq> Ok ())"
        using run by (cases rc) (auto simp: defs a ra b [simplified] rb map_err_Ok c gets_def split: prod.splits)
      with a ra b rb c show ?thesis
        by (intro disjI2 exI [of _ w1] exI [of _ dn] exI [of _ w2] exI [of _ rc] exI [of _ wc]) auto
    qed (use run in \<open>auto simp: defs a ra b [simplified] map_err_Err map_err_Panic map_err_Diverges\<close>)
  qed (use run in \<open>auto simp: defs a\<close>)
qed

text \<open>
  C24. A failure while executing the actions leaves the registry exact: whatever
  \<^verbatim>\<open>execute_actions\<close> returns, the entries of some prefix are marked as executed if their action
  applies, all others are as before, and the prefix is the whole registry when it returns
  \<^verbatim>\<open>Ok\<close>; descriptors, information, actions and order never change.
\<close>

theorem execute_actions_prefix:
  assumes run: "execute_actions E ft (reg, w) = (r, (reg', w'))"
  shows "\<exists>m \<le> length (reg_data reg). (r = Ok () \<longrightarrow> m = length (reg_data reg))
    \<and> reg' = reg\<lparr>reg_data := map (executed_entry ft) (take m (reg_data reg)) @ drop m (reg_data reg)\<rparr>"
  using execute_actions_split [OF run]
proof
  assume "reg' = reg \<and> r \<noteq> Ok ()"
  then show ?thesis by (intro exI [of _ 0]) simp
next
  assume "\<exists>w1 dn w2 rc wc.
         (debug_assert_single_threaded E :: ('a, unit, fd_registry_error) prog) w = (Ok (), w1)
       \<and> sys_open E DEV_NULL_PATH (O_RDWR OR O_CLOEXEC) None w1 = (Ok dn, w2)
       \<and> for_each (execute_entry E dn ft) [0..<length (reg_data reg)] (reg, w2) = (rc, (reg', wc))
       \<and> (if rc = Ok () then species_sync_fd_state E (reg_species reg') wc = (r, w') else r \<noteq> Ok ())"
  then obtain dn w2 rc wc where c:
      "for_each (execute_entry E dn ft) [0..<length (reg_data reg)] (reg, w2) = (rc, (reg', wc))"
    and r: "r = Ok () \<longrightarrow> rc = Ok ()" by (auto split: if_splits)
  from for_each_execute [OF c] r show ?thesis by auto
qed

text \<open>The calls of a complete walk: those of each entry, one after the other.\<close>

definition entry_calls :: "fork_type \<Rightarrow> int \<Rightarrow> fd_entry \<Rightarrow> (syscall \<times> int) list \<Rightarrow> bool" where
  "entry_calls ft dn entry calls \<longleftrightarrow> (\<exists>new_fd. map fst calls = expected_calls ft dn new_fd entry
     \<and> (acts ft entry \<and> fde_action entry = Reopen \<longrightarrow> snd (hd calls) = new_fd \<and> calls \<noteq> []))"

lemma execute_entry_calls:
  assumes "execute_entry (logged E) dn ft i (reg, (w, log)) = (Ok (), (reg', (w', log')))"
  shows "\<exists>calls. completed log' = completed log @ calls \<and> entry_calls ft dn (reg_data reg ! i) calls"
proof -
  from assms obtain entry' b where
    "fd_entry_execute (logged E) dn ft (reg_data reg ! i) (w, log) = (Ok (entry', b), (w', log'))"
    by (auto simp: execute_entry_def and_then_eq_Ok_iff on_snd_eq_iff)
  from fd_entry_execute_trace [OF this] show ?thesis by (auto simp: entry_calls_def)
qed

lemma for_each_execute_calls:
  "for_each (execute_entry (logged E) dn ft) [k..<length (reg_data reg)] (reg, (w, log)) = (Ok (), (reg', (w', log'))) \<Longrightarrow>
     \<exists>css. list_all2 (entry_calls ft dn) (drop k (reg_data reg)) css \<and> completed log' = completed log @ concat css"
proof (induction "length (reg_data reg) - k" arbitrary: k reg w log)
  case 0
  then show ?case by (intro exI [of _ "[]"]) simp
next
  case (Suc n)
  then have k: "k < length (reg_data reg)" by simp
  with Suc.prems obtain reg1 w1 log1 where
    first: "execute_entry (logged E) dn ft k (reg, (w, log)) = (Ok (), (reg1, (w1, log1)))" and
    rest: "for_each (execute_entry (logged E) dn ft) [Suc k..<length (reg_data reg)] (reg1, (w1, log1)) = (Ok (), (reg', (w', log')))"
    by (auto simp: upt_conv_Cons and_then_eq_Ok_iff)
  from execute_entry_run [OF first] have reg1:
    "reg_data reg1 = (reg_data reg)[k := executed_entry ft (reg_data reg ! k)]" by simp
  from execute_entry_calls [OF first] obtain calls where
    calls: "completed log1 = completed log @ calls" "entry_calls ft dn (reg_data reg ! k) calls" by blast
  have "n = length (reg_data reg1) - Suc k" "length (reg_data reg1) = length (reg_data reg)"
    using Suc.hyps(2) reg1 by simp_all
  with Suc.hyps(1) [of reg1 "Suc k" w1 log1] rest obtain css where
    "list_all2 (entry_calls ft dn) (drop (Suc k) (reg_data reg1)) css" "completed log' = completed log1 @ concat css"
    by auto
  moreover have "drop (Suc k) (reg_data reg1) = drop (Suc k) (reg_data reg)" by (simp add: reg1)
  moreover have "drop k (reg_data reg) = reg_data reg ! k # drop (Suc k) (reg_data reg)"
    using k by (rule Cons_nth_drop_Suc [symmetric])
  ultimately show ?case using calls by (intro exI [of _ "calls # css"]) simp
qed

section \<open>The calls of the whole registry\<close>

lemma list_all2_concat:
  "list_all2 P xs css \<Longrightarrow> (\<And>x cs c. P x cs \<Longrightarrow> c \<in> set cs \<Longrightarrow> Q c) \<Longrightarrow> c \<in> set (concat css) \<Longrightarrow> Q c"
  by (induction xs css rule: list_all2_induct) auto

lemma entry_calls_are_fd_calls: "entry_calls ft dn entry cs \<Longrightarrow> c \<in> set cs \<Longrightarrow> is_fd_call (fst c)"
  unfolding entry_calls_def by (metis expected_calls_fd image_eqI list.set_map)

lemma filter_concat_entry_calls:
  "list_all2 (entry_calls ft dn) xs css \<Longrightarrow> filter (\<lambda>p. is_fd_call (fst p)) (concat css) = concat css"
  using list_all2_concat [where Q = "\<lambda>p. is_fd_call (fst p)"] entry_calls_are_fd_calls
  by (metis (no_types, lifting) filter_id_conv)

lemma execute_actions_effect_calls:
  assumes run: "execute_actions (logged E) ft (reg, (w, log)) = (Ok (), (reg', (w', log')))"
  shows "\<exists>dev_null_fd css. list_all2 (entry_calls ft dev_null_fd) (reg_data reg) css
    \<and> fd_calls log' = fd_calls log @ (FdCall (Libc_open DEV_NULL_PATH (O_RDWR OR O_CLOEXEC) 0), dev_null_fd) # concat css"
proof -
  from execute_actions_split [OF run] obtain w1 log1 dn w2 log2 wc logc where
    a: "debug_assert_single_threaded (logged E) (w, log)
      = ((Ok () :: (unit, fd_registry_error) outcome), (w1, log1))"
    and b: "sys_open (logged E) DEV_NULL_PATH (O_RDWR OR O_CLOEXEC) None (w1, log1) = (Ok dn, (w2, log2))"
    and c: "for_each (execute_entry (logged E) dn ft) [0..<length (reg_data reg)] (reg, (w2, log2))
      = (Ok (), (reg', (wc, logc)))"
    and d: "species_sync_fd_state (logged E) (reg_species reg') (wc, logc)
      = ((Ok () :: (unit, fd_registry_error) outcome), (w', log'))"
    by (auto split: if_splits)
  from for_each_execute_calls [OF c] obtain css where css:
    "list_all2 (entry_calls ft dn) (reg_data reg) css" "completed logc = completed log2 @ concat css"
    by auto
  have "fd_calls log' = fd_calls logc" using d by (rule sync_fd_state_logged)
  also have "\<dots> = fd_calls log2 @ concat css"
    using fd_calls_completed [OF css(2)] css(1) by (simp add: filter_concat_entry_calls)
  also have "fd_calls log2 = fd_calls log1 @ [(FdCall (Libc_open DEV_NULL_PATH (O_RDWR OR O_CLOEXEC) 0), dn)]"
    using fd_calls_completed [OF sys_open_completed [OF b]] by simp
  also have "fd_calls log1 = fd_calls log" using a by (rule debug_assert_logged)
  finally show ?thesis using css(1) by auto
qed

text \<open>
  C6. A successful \<^verbatim>\<open>execute_actions\<close> completes exactly these descriptor calls: the null device
  is opened, then for each entry in registry order the calls its action stands for, and nothing
  else. (The descriptor of the null device is not closed.)
\<close>

theorem execute_actions_calls:
  assumes run: "execute_actions (logged E) ft (reg, (w, log)) = (Ok (), (reg', (w', log')))"
  shows "\<exists>dev_null_fd css. list_all2 (entry_calls ft dev_null_fd) (reg_data reg) css
    \<and> fd_calls log' = fd_calls log @ (FdCall (Libc_open DEV_NULL_PATH (O_RDWR OR O_CLOEXEC) 0), dev_null_fd) # concat css"
  using run by (rule execute_actions_effect_calls)

text \<open>A world in which every call answers 3, which can pass for a descriptor.\<close>

definition three_env :: "unit env" where
  "three_env = \<lparr>kernel = (\<lambda>c w. (\<lparr>retval = 3, errno_after = 0, outval = NoOut\<rparr>, w)),
     loop_fuel = 1, debug_assertions = False\<rparr>"

lemma three_env_simps [simp]:
  "kernel three_env c w = (\<lparr>retval = 3, errno_after = 0, outval = NoOut\<rparr>, w)"
  "loop_fuel three_env = Suc 0" "debug_assertions three_env = False"
  by (simp_all add: three_env_def)

lemma execute_one_pipe:
  "execute_actions (logged three_env) Application (one_pipe, ((), [])) =
     (Ok (), (one_pipe\<lparr>reg_data := [(fd_entry_new 5 Fifo Close)\<lparr>fde_executed := True\<rparr>]\<rparr>,
       ((), [(FdCall (Libc_open DEV_NULL_PATH (O_RDWR OR O_CLOEXEC) 0), 3), (FdCall (Libc_close 5), 3)])))"
  by (simp add: execute_actions_def execute_entry_def fd_entry_execute_def fd_entry_new_def empty_registry_def
      debug_assert_single_threaded_def when_do_def sys_open_def sys_close_def checked_call_def kernel_logged
      on_snd_def and_then_def match_result_def map_err_def invoke_def of_outcome_def check_failure_def ok_def
      set_entry_def modify_def gets_def get_data_def)

theorem execute_actions_calls_witness:
  "\<exists>dev_null_fd css. list_all2 (entry_calls Application dev_null_fd) (reg_data one_pipe) css
    \<and> [(FdCall (Libc_open DEV_NULL_PATH (O_RDWR OR O_CLOEXEC) 0), 3), (FdCall (Libc_close 5), 3)]
        = (FdCall (Libc_open DEV_NULL_PATH (O_RDWR OR O_CLOEXEC) 0), dev_null_fd) # concat css"
  using execute_actions_calls [OF execute_one_pipe]
  by (simp add: fd_calls_def completed_Cons)

theorem execute_actions_prefix_witness:
  "\<exists>m \<le> length (reg_data one_pipe). m = length (reg_data one_pipe)
    \<and> one_pipe\<lparr>reg_data := [(fd_entry_new 5 Fifo Close)\<lparr>fde_executed := True\<rparr>]\<rparr>
        = one_pipe\<lparr>reg_data := map (executed_entry Application) (take m (reg_data one_pipe)) @ drop m (reg_data one_pipe)\<rparr>"
  using execute_actions_prefix [OF execute_one_pipe] by blast

lemma application_open_effect:
  assumes run: "execute_actions E Application (reg, w) = (Ok (), (reg', w'))"
  shows "\<forall>entry \<in> set (open_entries reg').
    fde_action entry = Ignore \<or> (fde_action entry \<in> {DupeNull, Reopen} \<and> fde_executed entry)"
proof -
  from execute_actions_split [OF run] obtain dn w2 wc where
    "for_each (execute_entry E dn Application) [0..<length (reg_data reg)] (reg, w2) = (Ok (), (reg', wc))"
    by (auto split: if_splits)
  from for_each_execute [OF this] have "reg_data reg' = map (executed_entry Application) (reg_data reg)" by auto
  moreover have "fde_action e = Ignore \<or> (fde_action e \<in> {DupeNull, Reopen} \<and> fde_executed (executed_entry Application e))"
    if "\<not> fd_entry_closed (executed_entry Application e)" for e
    using that by (cases "fde_action e") (auto simp: fd_entry_closed_def executed_entry_def acts_def)
  ultimately show ?thesis unfolding open_entries_def by fastforce
qed

text \<open>
  What an application child can still reach: after a successful \<^verbatim>\<open>execute_actions\<close> for an
  application, an entry still counts as open only if its action is \<^verbatim>\<open>DupeNull\<close> or \<^verbatim>\<open>Reopen\<close> (and
  has been carried out) or \<^verbatim>\<open>Ignore\<close>; no entry marked for closing survives.
\<close>

theorem application_open_entries:
  assumes run: "execute_actions E Application (reg, w) = (Ok (), (reg', w'))"
  shows "\<forall>entry \<in> set (open_entries reg').
    fde_action entry = Ignore \<or> (fde_action entry \<in> {DupeNull, Reopen} \<and> fde_executed entry)"
  using assms by (rule application_open_effect)

abbreviation two_pipes :: registry where
  "two_pipes \<equiv> (empty_registry LibApp)\<lparr>reg_data := [fd_entry_new 5 Fifo Close, fd_entry_new 6 Fifo Ignore]\<rparr>"

theorem application_open_entries_witness:
  "\<exists>reg' w'. execute_actions (logged three_env) Application (two_pipes, ((), [])) = (Ok (), (reg', w'))
     \<and> open_entries reg' = [fd_entry_new 6 Fifo Ignore] \<and> fde_action (hd (open_entries reg')) = Ignore"
proof -
  let ?reg' = "two_pipes\<lparr>reg_data := [(fd_entry_new 5 Fifo Close)\<lparr>fde_executed := True\<rparr>, fd_entry_new 6 Fifo Ignore]\<rparr>"
  let ?log = "[(FdCall (Libc_open DEV_NULL_PATH (O_RDWR OR O_CLOEXEC) 0), 3), (FdCall (Libc_close 5), 3)]"
  have run: "execute_actions (logged three_env) Application (two_pipes, ((), [])) = (Ok (), (?reg', ((), ?log)))"
    by (simp add: execute_actions_def execute_entry_def fd_entry_execute_def fd_entry_new_def empty_registry_def
      debug_assert_single_threaded_def when_do_def sys_open_def sys_close_def checked_call_def kernel_logged
      on_snd_def and_then_def match_result_def map_err_def invoke_def of_outcome_def check_failure_def ok_def
      set_entry_def modify_def gets_def get_data_def)
  have "open_entries ?reg' = [fd_entry_new 6 Fifo Ignore]"
    by (simp add: open_entries_def fd_entry_closed_def fd_entry_new_def)
  moreover have "\<not> fde_executed (fd_entry_new 6 Fifo Ignore)" by (simp add: fd_entry_new_def)
  ultimately show ?thesis using run application_open_entries [OF run] by auto
qed

section \<open>Shutting down\<close>

lemma override_and_close_entry:
  "fd_entry_override_and_close (logged E) entry (w, log) = (Ok (), (w', log')) \<Longrightarrow>
     \<exists>cs. completed log' = completed log @ cs
       \<and> map fst cs = (if fde_action entry = Ignore then [] else [FdCall (Libc_close (fde_fd entry))])"
  by (auto simp: fd_entry_override_and_close_def match_result_eq_Ok_iff dest!: sys_close_completed split: action.splits)

lemma override_and_close_entries:
  "for_each (\<lambda>entry. on_snd (map_err EntryActionFailure (fd_entry_override_and_close (logged E) entry))) data
      (reg, (w, log)) = (Ok (), (reg', (w', log'))) \<Longrightarrow>
     reg' = reg \<and> (\<exists>cs. completed log' = completed log @ cs
       \<and> map fst cs = map (\<lambda>entry. FdCall (Libc_close (fde_fd entry))) (filter (\<lambda>entry. fde_action entry \<noteq> Ignore) data))"
proof (induction data arbitrary: w log)
  case (Cons entry data)
  from Cons.prems obtain w1 log1 where
    first: "fd_entry_override_and_close (logged E) entry (w, log) = (Ok (), (w1, log1))" and
    rest: "for_each (\<lambda>entry. on_snd (map_err EntryActionFailure (fd_entry_override_and_close (logged E) entry))) data
      (reg, (w1, log1)) = (Ok (), (reg', (w', log')))"
    by (auto simp: and_then_eq_Ok_iff on_snd_eq_iff)
  from override_and_close_entry [OF first] obtain c where
    "completed log1 = completed log @ c"
    "map fst c = (if fde_action entry = Ignore then [] else [FdCall (Libc_close (fde_fd entry))])" by blast
  moreover from Cons.IH [OF rest] obtain cs where "reg' = reg" "completed log' = completed log1 @ cs"
    "map fst cs = map (\<lambda>entry. FdCall (Libc_close (fde_fd entry))) (filter (\<lambda>entry. fde_action entry \<noteq> Ignore) data)"
    by blast
  ultimately show ?case by (intro conjI exI [of _ "c @ cs"]) auto
qed simp

text \<open>
  C27. Shutting down closes everything: a successful \<^verbatim>\<open>override_and_close\<close> completes one
  \<^verbatim>\<open>close\<close> for each entry whose action is not \<^verbatim>\<open>Ignore\<close>, in registry order, whether or not the
  entry was executed before, makes no other descriptor call and leaves the registry as it was.
\<close>

theorem override_and_close_calls:
  assumes run: "override_and_close (logged E) (reg, (w, log)) = (Ok (), (reg', (w', log')))"
  shows "reg' = reg \<and> (\<exists>cs. fd_calls log' = fd_calls log @ cs
    \<and> map fst cs = map (\<lambda>entry. FdCall (Libc_close (fde_fd entry)))
         (filter (\<lambda>entry. fde_action entry \<noteq> Ignore) (reg_data reg)))"
proof -
  from run obtain w1 log1 wc logc where
    a: "debug_assert_single_threaded (logged E) (w, log)
      = ((Ok () :: (unit, fd_registry_error) outcome), (w1, log1))"
    and c: "for_each (\<lambda>entry. on_snd (map_err EntryActionFailure (fd_entry_override_and_close (logged E) entry)))
       (reg_data reg) (reg, (w1, log1)) = (Ok (), (reg', (wc, logc)))"
    and d: "species_sync_fd_state (logged E) (reg_species reg') (wc, logc)
      = ((Ok () :: (unit, fd_registry_error) outcome), (w', log'))"
    by (auto simp: override_and_close_def and_then_eq_Ok_iff on_snd_eq_iff)
  from override_and_close_entries [OF c] obtain cs where cs: "reg' = reg" "completed logc = completed log1 @ cs"
    "map fst cs = map (\<lambda>entry. FdCall (Libc_close (fde_fd entry))) (filter (\<lambda>entry. fde_action entry \<noteq> Ignore) (reg_data reg))"
    by blast
  then have "set (map fst cs) \<subseteq> {c. is_fd_call c}" by auto
  then have "filter (\<lambda>p. is_fd_call (fst p)) cs = cs" by (auto simp: filter_id_conv)
  with cs fd_calls_completed [OF cs(2)] debug_assert_logged [OF a] sync_fd_state_logged [OF d] show ?thesis by auto
qed

theorem override_and_close_calls_witness:
  "override_and_close (logged three_env) (one_pipe, ((), [])) = (Ok (), (one_pipe, ((), [(FdCall (Libc_close 5), 3)])))
   \<and> (\<exists>cs. [(FdCall (Libc_close 5), 3)] = cs \<and> map fst cs = [FdCall (Libc_close 5)])"
proof -
  have run: "override_and_close (logged three_env) (one_pipe, ((), [])) =
      (Ok (), (one_pipe, ((), [(FdCall (Libc_close 5), 3)])))"
    by (simp add: override_and_close_def fd_entry_override_and_close_def fd_entry_new_def empty_registry_def
      debug_assert_single_threaded_def when_do_def sys_close_def checked_call_def kernel_logged
      on_snd_def and_then_def match_result_def map_err_def invoke_def of_outcome_def check_failure_def ok_def
      gets_def get_data_def)
  from override_and_close_calls [OF this] run show ?thesis
    by (simp add: fd_calls_def completed_Cons fd_entry_new_def)
qed

section \<open>A descriptor that was closed and opened again\<close>

text \<open>
  C28. The check that only files are reopened guards new entries only: when \<^verbatim>\<open>register\<close> accepts
  the action \<^verbatim>\<open>Reopen\<close> for a descriptor that is not a file, it has overwritten the closed entry
  of that descriptor, and carrying out the action is the \<^verbatim>\<open>unreachable!\<close> panic in the child.
\<close>

theorem reregistered_reopen_panics:
  assumes inv: "reg_inv reg" and run: "register E fd Reopen (reg, w) = (Ok (), (reg', w'))"
    and entry: "table_find (reg_data reg') fd = Some entry" "\<not> is_file (fde_info entry)"
  shows "(\<exists>old. table_find (reg_data reg) fd = Some old \<and> fd_entry_closed old)
    \<and> fst (fd_entry_execute E' dev_null_fd fork_type entry w'') = Panic ''internal error: entered unreachable code''"
proof -
  from inv have sorted: "strict_by fde_fd (reg_data reg)" by (simp add: reg_inv_def)
  from run [unfolded register_cases [OF sorted]] obtain info where
    reg': "reg' = reg\<lparr>reg_data := table_put (reg_data reg) (fd_entry_new fd info Reopen)\<rparr>"
    and guard: "case table_find (reg_data reg) fd of Some e \<Rightarrow> fd_entry_closed e | None \<Rightarrow> is_file info"
    by (auto simp: and_then_eq_Ok_iff on_snd_eq_iff split: option.splits if_splits)
  from entry(1) have e: "entry = fd_entry_new fd info Reopen"
    by (simp add: reg' fd_table.find_put [OF sorted])
  with entry(2) have "\<not> is_file info" by (simp add: fd_entry_new_def)
  with guard have "\<exists>old. table_find (reg_data reg) fd = Some old \<and> fd_entry_closed old"
    by (auto split: option.splits)
  with entry(2) e show ?thesis by (simp add: fd_entry_execute_reopen_panics fd_entry_new_def)
qed

abbreviation closed_pipe :: registry where
  "closed_pipe \<equiv> (empty_registry LibApp)\<lparr>reg_data := [(fd_entry_new 5 Fifo Close)\<lparr>fde_executed := True\<rparr>]\<rparr>"

theorem reregistered_reopen_panics_witness:
  "\<exists>reg'. register fifo_env 5 Reopen (closed_pipe, ()) = (Ok (), (reg', ()))
     \<and> fst (fd_entry_execute fifo_env 9 Application (fd_entry_new 5 Fifo Reopen) ())
         = Panic ''internal error: entered unreachable code''"
proof -
  let ?reg = "(empty_registry LibApp)\<lparr>reg_data := [fd_entry_new 5 Fifo Reopen]\<rparr>"
  have inv: "reg_inv closed_pipe" "reg_inv ?reg" by (simp_all add: reg_inv_def strict_by_def)
  have "on_snd (map_err FdInfoFailure (fd_info_try_from fifo_env 5)) (closed_pipe, ()) = (Ok Fifo, (closed_pipe, ()))"
    by (simp add: on_snd_def map_err_def match_result_def fifo_info ok_def)
  moreover have "(on_snd (debug_assert_single_threaded fifo_env) :: (unit, unit) reg_prog) (closed_pipe, ())
      = (Ok (), (closed_pipe, ()))"
    by (simp add: on_snd_def debug_assert_single_threaded_def when_do_def ok_def)
  moreover have find: "find_fd (reg_data closed_pipe) 5 = Ok 0" "find_fd (reg_data ?reg) 5 = Ok 0"
    using inv by (simp_all add: reg_inv_def find_fd_rank rank_def fd_entry_new_def)
  moreover have "fd_entry_closed (reg_data closed_pipe ! 0)" by (simp add: fd_entry_closed_def fd_entry_new_def)
  ultimately have run: "register fifo_env 5 Reopen (closed_pipe, ()) = (Ok (), (?reg, ()))"
    unfolding register_def by (simp add: and_then_Ok set_data_run)
  have "table_find (reg_data ?reg) 5 = Some (fd_entry_new 5 Fifo Reopen)"
    using find(2) by (simp add: table_find_def)
  with run have "\<not> is_file (fde_info (fd_entry_new 5 Fifo Reopen)) \<Longrightarrow>
      fst (fd_entry_execute fifo_env 9 Application (fd_entry_new 5 Fifo Reopen) ())
        = Panic ''internal error: entered unreachable code''"
    using reregistered_reopen_panics [OF inv(1), of fifo_env 5 "()" ?reg "()" "fd_entry_new 5 Fifo Reopen" fifo_env 9
      Application "()"] by blast
  moreover have "\<not> is_file (fde_info (fd_entry_new 5 Fifo Reopen))" by (simp add: fd_entry_new_def)
  ultimately show ?thesis using run by blast
qed

end
