(* ===== verification/Messages.thy ===== *)
theory Messages
  imports Slices
begin

unbundle bit_operations_syntax

text \<open>
  The wire protocol of \<^verbatim>\<open>zygote-messages\<close>: parameters and messages as the crate's types, the
  tables of \<^verbatim>\<open>schemas/messages.fbs\<close> as records, and the marshalling code that the derive
  macros of \<^verbatim>\<open>zygote-proc-macros\<close> generate from the attributes of each field. The FlatBuffers
  library between a table and its bytes is a parameter where bytes matter.

  A field is one marshalling function and one unmarshalling function; the locale
  \<open>wire_field\<close> is their contract, with \<open>norm\<close> saying what one trip over the wire leaves.
\<close>

section \<open>Fields\<close>

text \<open>\<^verbatim>\<open>#[marshal(default = d)]\<close> and \<^verbatim>\<open>#[unmarshal(valid_range = r)]\<close>.\<close>

definition marshal_default :: "'a \<Rightarrow> 'a option \<Rightarrow> 'a" where
  "marshal_default d x = (case x of Some v \<Rightarrow> v | None \<Rightarrow> d)"

definition unmarshal_valid_range :: "('a \<Rightarrow> bool) \<Rightarrow> 'a \<Rightarrow> 'a option" where
  "unmarshal_valid_range in_range v = (if in_range v then Some v else None)"

abbreviation RAW_CAP_MAX :: "64 word" where "RAW_CAP_MAX \<equiv> - 1"

definition marshal_capability_flags :: "64 word option \<Rightarrow> 64 word" where
  "marshal_capability_flags cap = (case cap of Some bits \<Rightarrow> bits | None \<Rightarrow> RAW_CAP_MAX)"

text \<open>\<open>all_flags\<close> are the flags the \<^verbatim>\<open>cap\<close> crate defines.\<close>

definition unmarshal_capability_flags :: "64 word \<Rightarrow> 64 word \<Rightarrow> 64 word option" where
  "unmarshal_capability_flags all_flags cap = (if cap = RAW_CAP_MAX then None else Some (cap AND all_flags))"

definition marshal_string :: "string option \<Rightarrow> string option" where
  "marshal_string s = (case s of Some name \<Rightarrow> Some name | None \<Rightarrow> Some '''')"

definition unmarshal_string :: "string option \<Rightarrow> string option" where
  "unmarshal_string s = map_option (\<lambda>s. s) s"

text \<open>\<^verbatim>\<open>ToPacked for Option<&[u8]>\<close> and \<^verbatim>\<open>ToPacked for Option<&str>\<close>.\<close>

definition to_packed_default :: "string option \<Rightarrow> string" where
  "to_packed_default s = (case s of Some bytes \<Rightarrow> bytes | None \<Rightarrow> '''')"

definition unmarshal_preloading_cmd :: "string option \<Rightarrow> string option" where
  "unmarshal_preloading_cmd cmd =
     (case cmd of Some vec \<Rightarrow> if vec = [] then None else Some vec | None \<Rightarrow> None)"

abbreviation GID_VECTOR_SIZE :: nat where "GID_VECTOR_SIZE \<equiv> 32"
abbreviation RLIMIT_VECTOR_SIZE :: nat where "RLIMIT_VECTOR_SIZE \<equiv> 16"
abbreviation MESSAGE_BUFFER_SIZE :: nat where "MESSAGE_BUFFER_SIZE \<equiv> 2048"
abbreviation MESSAGE_ARG_BUFFER_MAX :: nat where "MESSAGE_ARG_BUFFER_MAX \<equiv> 32"

text \<open>The resource is a bit pattern: \<^verbatim>\<open>u32\<close> on the wire, \<^verbatim>\<open>c_int\<close> in the \<^verbatim>\<open>setrlimit\<close> call.\<close>

record rlimit_data =
  rl_resource :: "32 word"
  rl_hard :: "64 word"
  rl_soft :: "64 word"

definition unmarshal_secondary_groups :: "int list option \<Rightarrow> (int list, 'e) outcome" where
  "unmarshal_secondary_groups groups =
     (case groups of Some gs \<Rightarrow> arrayvec_collect GID_VECTOR_SIZE gs | None \<Rightarrow> Ok [])"

definition unmarshal_rlimits :: "rlimit_data list \<Rightarrow> (rlimit_data list, 'e) outcome" where
  "unmarshal_rlimits rlimits =
     arrayvec_collect RLIMIT_VECTOR_SIZE
       (map (\<lambda>rlimit. \<lparr>rl_resource = rl_resource rlimit, rl_hard = rl_hard rlimit, rl_soft = rl_soft rlimit\<rparr>) rlimits)"

definition unmarshal_libapp_args :: "string list \<Rightarrow> (string list, 'e) outcome" where
  "unmarshal_libapp_args args = arrayvec_collect MESSAGE_ARG_BUFFER_MAX args"

subsection \<open>The contract of a field\<close>

locale wire_field =
  fixes marshal :: "'a \<Rightarrow> 'w"
    and unmarshal :: "'w \<Rightarrow> 'a"
    and norm :: "'a \<Rightarrow> 'a"
  assumes unmarshal_marshal: "unmarshal (marshal x) = norm x"
    and norm_norm: "norm (norm x) = norm x"
begin

lemma second_trip: "unmarshal (marshal (unmarshal (marshal x))) = unmarshal (marshal x)"
  by (simp add: unmarshal_marshal norm_norm)

end

definition in_positive :: "int \<Rightarrow> bool" where "in_positive v \<longleftrightarrow> 1 \<le> v"

definition in_nice :: "int \<Rightarrow> bool" where "in_nice v \<longleftrightarrow> - 20 \<le> v \<and> v < 20"

abbreviation I32_MAX :: int where "I32_MAX \<equiv> 2147483647"

definition norm_range :: "('a \<Rightarrow> bool) \<Rightarrow> 'a option \<Rightarrow> 'a option" where
  "norm_range P x = (case x of Some v \<Rightarrow> if P v then Some v else None | None \<Rightarrow> None)"

definition norm_some :: "'a \<Rightarrow> 'a option \<Rightarrow> 'a option" where
  "norm_some d x = Some (case x of Some v \<Rightarrow> v | None \<Rightarrow> d)"

definition norm_caps :: "64 word \<Rightarrow> 64 word option \<Rightarrow> 64 word option" where
  "norm_caps all_flags x = (case x of Some c \<Rightarrow> if c = RAW_CAP_MAX then None else Some (c AND all_flags) | None \<Rightarrow> None)"

definition norm_cmd :: "string option \<Rightarrow> string option" where
  "norm_cmd x = (case x of Some bs \<Rightarrow> if bs = [] then None else Some bs | None \<Rightarrow> None)"

lemma wire_field_range:
  "\<not> P d \<Longrightarrow> wire_field (marshal_default d) (unmarshal_valid_range P) (norm_range P)"
  by unfold_locales
     (auto simp: marshal_default_def unmarshal_valid_range_def norm_range_def split: option.splits)

interpretation uid_field: wire_field "marshal_default (- 1)" "unmarshal_valid_range in_positive"
    "norm_range in_positive"
  by (rule wire_field_range) (simp add: in_positive_def)

interpretation nice_field: wire_field "marshal_default I32_MAX" "unmarshal_valid_range in_nice"
    "norm_range in_nice"
  by (rule wire_field_range) (simp add: in_nice_def)

text \<open>Every \<^verbatim>\<open>u64\<close> is in \<^verbatim>\<open>(0..)\<close> and every \<^verbatim>\<open>bool\<close> in \<^verbatim>\<open>(false..)\<close>.\<close>

interpretation flags_field: wire_field "marshal_default (0 :: 64 word)" "unmarshal_valid_range (\<lambda>v. 0 \<le> v)"
    "norm_some 0"
  by unfold_locales (auto simp: marshal_default_def unmarshal_valid_range_def norm_some_def)

interpretation privs_field: wire_field "marshal_default False" "unmarshal_valid_range (\<lambda>v. False \<le> v)"
    "norm_some False"
  by unfold_locales (auto simp: marshal_default_def unmarshal_valid_range_def norm_some_def)

interpretation caps_field: wire_field marshal_capability_flags "unmarshal_capability_flags all_flags"
    "norm_caps all_flags" for all_flags
proof
  show "unmarshal_capability_flags all_flags (marshal_capability_flags x) = norm_caps all_flags x" for x
    by (auto simp: marshal_capability_flags_def unmarshal_capability_flags_def norm_caps_def split: option.splits)
  have "c AND all_flags \<noteq> RAW_CAP_MAX" if "c \<noteq> RAW_CAP_MAX" for c
    using that by (metis word_bw_assocs(1) word_bw_same(1) word_and_max word_bw_comms(1))
  then show "norm_caps all_flags (norm_caps all_flags x) = norm_caps all_flags x" for x
    by (auto simp: norm_caps_def word_bw_assocs split: option.splits)
qed

interpretation string_field: wire_field marshal_string unmarshal_string "norm_some ''''"
  by unfold_locales (auto simp: marshal_string_def unmarshal_string_def norm_some_def split: option.splits)

interpretation cmd_field: wire_field "\<lambda>x. Some (to_packed_default x)" unmarshal_preloading_cmd norm_cmd
  by unfold_locales
     (auto simp: to_packed_default_def unmarshal_preloading_cmd_def norm_cmd_def split: option.splits)

interpretation str_field: wire_field "\<lambda>x. Some (to_packed_default x)" "\<lambda>s. s" "norm_some ''''"
  by unfold_locales (auto simp: to_packed_default_def norm_some_def split: option.splits)

lemmas field_trips =
  uid_field.unmarshal_marshal nice_field.unmarshal_marshal flags_field.unmarshal_marshal
  privs_field.unmarshal_marshal caps_field.unmarshal_marshal string_field.unmarshal_marshal
  cmd_field.unmarshal_marshal

section \<open>Parameters common to all spawn operations\<close>

record spawn_params =
  sp_selinux_flags :: "64 word option"
  sp_no_new_privs :: "bool option"
  sp_uid :: "int option"
  sp_gid :: "int option"
  sp_process_name :: "string option"
  sp_priority_initial :: "int option"
  sp_priority_final :: "int option"
  sp_cap_effective :: "64 word option"
  sp_cap_permitted :: "64 word option"
  sp_cap_inheritable :: "64 word option"
  sp_cap_bound :: "64 word option"
  sp_se_info :: "string option"
  sp_secondary_groups :: "int list"
  sp_rlimits :: "rlimit_data list"

text \<open>\<^verbatim>\<open>table SpawnCommon\<close>: scalars have a value, strings and the groups may be absent.\<close>

record spawn_common_table =
  sc_selinux_flags :: "64 word"
  sc_no_new_privs :: bool
  sc_uid :: int
  sc_gid :: int
  sc_process_name :: "string option"
  sc_priority_initial :: int
  sc_priority_final :: int
  sc_cap_effective :: "64 word"
  sc_cap_permitted :: "64 word"
  sc_cap_inheritable :: "64 word"
  sc_cap_bound :: "64 word"
  sc_se_info :: "string option"
  sc_secondary_groups :: "int list option"
  sc_rlimits :: "rlimit_data list"

definition marshal_common :: "spawn_params \<Rightarrow> spawn_common_table" where
  "marshal_common p =
     \<lparr>sc_selinux_flags = marshal_default 0 (sp_selinux_flags p),
      sc_no_new_privs = marshal_default False (sp_no_new_privs p),
      sc_uid = marshal_default (- 1) (sp_uid p),
      sc_gid = marshal_default (- 1) (sp_gid p),
      sc_process_name = marshal_string (sp_process_name p),
      sc_priority_initial = marshal_default I32_MAX (sp_priority_initial p),
      sc_priority_final = marshal_default I32_MAX (sp_priority_final p),
      sc_cap_effective = marshal_capability_flags (sp_cap_effective p),
      sc_cap_permitted = marshal_capability_flags (sp_cap_permitted p),
      sc_cap_inheritable = marshal_capability_flags (sp_cap_inheritable p),
      sc_cap_bound = marshal_capability_flags (sp_cap_bound p),
      sc_se_info = marshal_string (sp_se_info p),
      sc_secondary_groups = Some (sp_secondary_groups p),
      sc_rlimits = sp_rlimits p\<rparr>"

definition common_from_table :: "64 word \<Rightarrow> spawn_common_table \<Rightarrow> (spawn_params, 'e) outcome" where
  "common_from_table all_flags t =
     bind_outcome (unmarshal_secondary_groups (sc_secondary_groups t)) (\<lambda>secondary_groups.
     bind_outcome (unmarshal_rlimits (sc_rlimits t)) (\<lambda>rlimits.
       Ok \<lparr>sp_selinux_flags = unmarshal_valid_range (\<lambda>v. 0 \<le> v) (sc_selinux_flags t),
           sp_no_new_privs = unmarshal_valid_range (\<lambda>v. False \<le> v) (sc_no_new_privs t),
           sp_uid = unmarshal_valid_range in_positive (sc_uid t),
           sp_gid = unmarshal_valid_range in_positive (sc_gid t),
           sp_process_name = unmarshal_string (sc_process_name t),
           sp_priority_initial = unmarshal_valid_range in_nice (sc_priority_initial t),
           sp_priority_final = unmarshal_valid_range in_nice (sc_priority_final t),
           sp_cap_effective = unmarshal_capability_flags all_flags (sc_cap_effective t),
           sp_cap_permitted = unmarshal_capability_flags all_flags (sc_cap_permitted t),
           sp_cap_inheritable = unmarshal_capability_flags all_flags (sc_cap_inheritable t),
           sp_cap_bound = unmarshal_capability_flags all_flags (sc_cap_bound t),
           sp_se_info = unmarshal_string (sc_se_info t),
           sp_secondary_groups = secondary_groups,
           sp_rlimits = rlimits\<rparr>))"

text \<open>\<^verbatim>\<open>Itertools::unique\<close> keeps the first of equal elements.\<close>

definition unique :: "'a list \<Rightarrow> 'a list" where
  "unique xs = rev (remdups (rev xs))"

definition or_option :: "'a option \<Rightarrow> 'a option \<Rightarrow> 'a option" where
  "or_option a b = (case a of Some x \<Rightarrow> Some x | None \<Rightarrow> b)"

text \<open>\<^verbatim>\<open>SpawnParamsCommon::or\<close>; collecting into the fixed-capacity vectors can panic.\<close>

definition params_or :: "spawn_params \<Rightarrow> spawn_params \<Rightarrow> (spawn_params, 'e) outcome" where
  "params_or p q =
     bind_outcome (arrayvec_collect GID_VECTOR_SIZE (unique (sp_secondary_groups p @ sp_secondary_groups q))) (\<lambda>groups.
     bind_outcome (arrayvec_collect RLIMIT_VECTOR_SIZE (sp_rlimits p @ sp_rlimits q)) (\<lambda>rlimits.
       Ok \<lparr>sp_selinux_flags = or_option (sp_selinux_flags p) (sp_selinux_flags q),
           sp_no_new_privs = or_option (sp_no_new_privs p) (sp_no_new_privs q),
           sp_uid = or_option (sp_uid p) (sp_uid q),
           sp_gid = or_option (sp_gid p) (sp_gid q),
           sp_process_name = or_option (sp_process_name p) (sp_process_name q),
           sp_priority_initial = or_option (sp_priority_initial p) (sp_priority_initial q),
           sp_priority_final = or_option (sp_priority_final p) (sp_priority_final q),
           sp_cap_effective = or_option (sp_cap_effective p) (sp_cap_effective q),
           sp_cap_permitted = or_option (sp_cap_permitted p) (sp_cap_permitted q),
           sp_cap_inheritable = or_option (sp_cap_inheritable p) (sp_cap_inheritable q),
           sp_cap_bound = or_option (sp_cap_bound p) (sp_cap_bound q),
           sp_se_info = or_option (sp_se_info p) (sp_se_info q),
           sp_secondary_groups = groups,
           sp_rlimits = rlimits\<rparr>))"

section \<open>Messages\<close>

record android_native =
  an_preloading_cmd :: "string option"
  an_package :: string
  an_start_seq :: int
  an_target_sdk_version :: int
  an_runtime_flags :: int
  an_top_app :: bool

record android_native_subspecies =
  ans_target_sdk_version :: int
  ans_runtime_flags :: int
  ans_library_path :: string
  ans_library_dirs :: string
  ans_permitted_library_paths :: string
  ans_shared :: bool
  ans_zip_path :: string
  ans_native_shared_lib_path :: string
  ans_preload_func :: "string option"
  ans_uid_gid_min :: int
  ans_uid_gid_max :: int

text \<open>\<^verbatim>\<open>enum SpawnPayload\<close>.\<close>

datatype spawn_payload =
    PayloadAndroidNative android_native
  | PayloadAndroidNativeSubspecies android_native_subspecies
  | PayloadLibApp string "string list"
  | PayloadMock string

record stat_response =
  sr_pid :: nat
  sr_pgrp :: nat
  sr_minflt :: nat
  sr_cminflt :: nat
  sr_majflt :: nat
  sr_cmajflt :: nat
  sr_utime :: nat
  sr_stime :: nat
  sr_num_threads :: nat
  sr_vsize :: nat
  sr_rss :: nat

text \<open>\<^verbatim>\<open>enum Message\<close>.\<close>

datatype zygote_message =
    AckResponse
  | Exit
  | IdentityQuery
  | IdentityQueryResponse string string string
  | Spawn spawn_params spawn_payload
  | SpawnSubspecies spawn_params string spawn_payload
  | SpawnResponse int
  | Stat
  | StatResponse stat_response

fun get_spawn_params :: "zygote_message \<Rightarrow> spawn_params option" where
  "get_spawn_params (Spawn common payload) = Some common"
| "get_spawn_params (SpawnSubspecies common path payload) = Some common"
| "get_spawn_params _ = None"

fun get_spawn_payload :: "zygote_message \<Rightarrow> spawn_payload option" where
  "get_spawn_payload (Spawn common payload) = Some payload"
| "get_spawn_payload (SpawnSubspecies common path payload) = Some payload"
| "get_spawn_payload _ = None"

fun variant_name :: "zygote_message \<Rightarrow> string" where
  "variant_name AckResponse = ''AckResponse''"
| "variant_name Exit = ''Exit''"
| "variant_name IdentityQuery = ''IdentityQuery''"
| "variant_name (IdentityQueryResponse _ _ _) = ''IdentityQueryResponse''"
| "variant_name (Spawn _ _) = ''Spawn''"
| "variant_name (SpawnSubspecies _ _ _) = ''SpawnSubspecies''"
| "variant_name (SpawnResponse _) = ''SpawnResponse''"
| "variant_name Stat = ''Stat''"
| "variant_name (StatResponse _) = ''StatResponse''"

section \<open>Tables of the schema\<close>

text \<open>A union is its type byte next to the table, as in the generated code.\<close>

datatype payload_table =
    SpawnAndroidNativeTable android_native
  | SpawnSubspeciesAndroidNativeTable android_native_subspecies
  | SpawnLibAppTable string "string list"
  | SpawnMockTable string

record spawn_table =
  st_common :: "spawn_common_table option"
  st_payload_type :: nat
  st_payload :: "payload_table option"

record spawn_subspecies_table =
  sst_common :: "spawn_common_table option"
  sst_socket_path :: string
  sst_payload_type :: nat
  sst_payload :: "payload_table option"

datatype message_table =
    AckTable
  | ExitTable
  | IdentityQueryTable
  | IdentityQueryResponseTable string string string
  | SpawnTable spawn_table
  | SpawnSubspeciesTable spawn_subspecies_table
  | SpawnResponseTable int
  | StatTable
  | StatResponseTable stat_response

record parcel =
  message_type :: nat
  message :: "message_table option"

text \<open>The type bytes count the members of each union of the schema from 1; 0 is \<^verbatim>\<open>NONE\<close>.\<close>

fun payload_type :: "spawn_payload \<Rightarrow> nat" where
  "payload_type (PayloadAndroidNative _) = 1"
| "payload_type (PayloadAndroidNativeSubspecies _) = 2"
| "payload_type (PayloadLibApp _ _) = 3"
| "payload_type (PayloadMock _) = 4"

fun inner_type :: "zygote_message \<Rightarrow> nat" where
  "inner_type AckResponse = 1"
| "inner_type Exit = 2"
| "inner_type IdentityQuery = 3"
| "inner_type (IdentityQueryResponse _ _ _) = 4"
| "inner_type (Spawn _ _) = 5"
| "inner_type (SpawnSubspecies _ _ _) = 6"
| "inner_type (SpawnResponse _) = 7"
| "inner_type Stat = 8"
| "inner_type (StatResponse _) = 9"

fun payload_table_type :: "payload_table \<Rightarrow> nat" where
  "payload_table_type (SpawnAndroidNativeTable _) = 1"
| "payload_table_type (SpawnSubspeciesAndroidNativeTable _) = 2"
| "payload_table_type (SpawnLibAppTable _ _) = 3"
| "payload_table_type (SpawnMockTable _) = 4"

fun message_table_type :: "message_table \<Rightarrow> nat" where
  "message_table_type AckTable = 1"
| "message_table_type ExitTable = 2"
| "message_table_type IdentityQueryTable = 3"
| "message_table_type (IdentityQueryResponseTable _ _ _) = 4"
| "message_table_type (SpawnTable _) = 5"
| "message_table_type (SpawnSubspeciesTable _) = 6"
| "message_table_type (SpawnResponseTable _) = 7"
| "message_table_type StatTable = 8"
| "message_table_type (StatResponseTable _) = 9"

section \<open>Marshalling\<close>

fun marshal_payload :: "spawn_payload \<Rightarrow> payload_table" where
  "marshal_payload (PayloadAndroidNative d) =
     SpawnAndroidNativeTable (d\<lparr>an_preloading_cmd := Some (to_packed_default (an_preloading_cmd d))\<rparr>)"
| "marshal_payload (PayloadAndroidNativeSubspecies d) =
     SpawnSubspeciesAndroidNativeTable (d\<lparr>ans_preload_func := Some (to_packed_default (ans_preload_func d))\<rparr>)"
| "marshal_payload (PayloadLibApp path args) = SpawnLibAppTable path args"
| "marshal_payload (PayloadMock name) = SpawnMockTable name"

fun marshal_message :: "zygote_message \<Rightarrow> message_table" where
  "marshal_message AckResponse = AckTable"
| "marshal_message Exit = ExitTable"
| "marshal_message IdentityQuery = IdentityQueryTable"
| "marshal_message (IdentityQueryResponse name species arch) = IdentityQueryResponseTable name species arch"
| "marshal_message (Spawn common payload) =
     SpawnTable \<lparr>st_common = Some (marshal_common common), st_payload_type = payload_type payload,
       st_payload = Some (marshal_payload payload)\<rparr>"
| "marshal_message (SpawnSubspecies common path payload) =
     SpawnSubspeciesTable \<lparr>sst_common = Some (marshal_common common), sst_socket_path = path,
       sst_payload_type = payload_type payload, sst_payload = Some (marshal_payload payload)\<rparr>"
| "marshal_message (SpawnResponse pid) = SpawnResponseTable pid"
| "marshal_message Stat = StatTable"
| "marshal_message (StatResponse d) = StatResponseTable d"

definition to_parcel :: "zygote_message \<Rightarrow> parcel" where
  "to_parcel m = \<lparr>message_type = inner_type m, message = Some (marshal_message m)\<rparr>"

section \<open>Unmarshalling\<close>

datatype message_error =
    InvalidFlatBuffer
  | UnknownVariant string nat

definition CAST_FAILED :: "string" where "CAST_FAILED = ''Unable to cast to #inner_type_snake_name''"

text \<open>
  \<^verbatim>\<open>SpawnPayload::from_spawn\<close> and \<^verbatim>\<open>from_spawn_subspecies\<close>, on the two payload fields of the source.
\<close>

definition payload_from :: "nat \<Rightarrow> payload_table option \<Rightarrow> (spawn_payload, message_error) outcome" where
  "payload_from tag t =
     (if tag = 1 then
        (case t of Some (SpawnAndroidNativeTable d) \<Rightarrow>
             Ok (PayloadAndroidNative (d\<lparr>an_preloading_cmd := unmarshal_preloading_cmd (an_preloading_cmd d)\<rparr>))
         | _ \<Rightarrow> Panic CAST_FAILED)
      else if tag = 2 then
        (case t of Some (SpawnSubspeciesAndroidNativeTable d) \<Rightarrow> Ok (PayloadAndroidNativeSubspecies d)
         | _ \<Rightarrow> Panic CAST_FAILED)
      else if tag = 3 then
        (case t of Some (SpawnLibAppTable path args) \<Rightarrow>
             bind_outcome (unmarshal_libapp_args args) (\<lambda>args. Ok (PayloadLibApp path args))
         | _ \<Rightarrow> Panic CAST_FAILED)
      else if tag = 4 then
        (case t of Some (SpawnMockTable name) \<Rightarrow> Ok (PayloadMock name) | _ \<Rightarrow> Panic CAST_FAILED)
      else Err (UnknownVariant ''SpawnPayload'' tag))"

definition expect_table :: "'t option \<Rightarrow> ('t, 'e) outcome" where
  "expect_table t = (case t of Some x \<Rightarrow> Ok x | None \<Rightarrow> Panic ''Missing table in flatbuffer'')"

definition spawn_from :: "64 word \<Rightarrow> spawn_table \<Rightarrow> (zygote_message, message_error) outcome" where
  "spawn_from all_flags t =
     bind_outcome (expect_table (st_common t)) (\<lambda>c.
     bind_outcome (common_from_table all_flags c) (\<lambda>common.
     bind_outcome (payload_from (st_payload_type t) (st_payload t)) (\<lambda>payload.
       Ok (Spawn common payload))))"

definition spawn_subspecies_from ::
  "64 word \<Rightarrow> spawn_subspecies_table \<Rightarrow> (zygote_message, message_error) outcome"
where
  "spawn_subspecies_from all_flags t =
     bind_outcome (expect_table (sst_common t)) (\<lambda>c.
     bind_outcome (common_from_table all_flags c) (\<lambda>common.
     bind_outcome (payload_from (sst_payload_type t) (sst_payload t)) (\<lambda>payload.
       Ok (SpawnSubspecies common (sst_socket_path t) payload))))"

text \<open>\<^verbatim>\<open>Message::try_from_parcel\<close> after the parcel was read from the buffer.\<close>

definition message_from_parcel :: "64 word \<Rightarrow> parcel \<Rightarrow> (zygote_message, message_error) outcome" where
  "message_from_parcel all_flags p =
     (let tag = message_type p; t = message p in
      if tag = 1 then Ok AckResponse
      else if tag = 2 then Ok Exit
      else if tag = 3 then Ok IdentityQuery
      else if tag = 4 then
        (case t of Some (IdentityQueryResponseTable name species arch) \<Rightarrow> Ok (IdentityQueryResponse name species arch)
         | _ \<Rightarrow> Panic CAST_FAILED)
      else if tag = 5 then
        (case t of Some (SpawnTable s) \<Rightarrow> spawn_from all_flags s | _ \<Rightarrow> Panic CAST_FAILED)
      else if tag = 6 then
        (case t of Some (SpawnSubspeciesTable s) \<Rightarrow> spawn_subspecies_from all_flags s | _ \<Rightarrow> Panic CAST_FAILED)
      else if tag = 7 then
        (case t of Some (SpawnResponseTable pid) \<Rightarrow> Ok (SpawnResponse pid) | _ \<Rightarrow> Panic CAST_FAILED)
      else if tag = 8 then Ok Stat
      else if tag = 9 then
        (case t of Some (StatResponseTable d) \<Rightarrow> Ok (StatResponse d) | _ \<Rightarrow> Panic CAST_FAILED)
      else Err (UnknownVariant ''Message'' tag))"

text \<open>
  \<^verbatim>\<open>flatbuffers::root\<close> is the parameter \<open>root\<close>: it verifies a buffer and gives the parcel in it.
\<close>

definition try_from_parcel ::
  "(string \<Rightarrow> parcel option) \<Rightarrow> 64 word \<Rightarrow> string \<Rightarrow> (zygote_message, message_error) outcome"
where
  "try_from_parcel root all_flags buffer =
     (case root buffer of None \<Rightarrow> Err InvalidFlatBuffer | Some p \<Rightarrow> message_from_parcel all_flags p)"

end
