(* ===== verification/Messages_Wire.thy ===== *)
theory Messages_Wire
  imports Messages
begin

text \<open>
  What the wire does to a message: the normal form in which parameters and messages arrive, the
  parameters that survive unchanged, the parcels on which unmarshalling panics, and the laws of
  \<^verbatim>\<open>SpawnParamsCommon::or\<close>, which merges what arrived with the defaults of the server.
\<close>

section \<open>One trip over the wire\<close>

definition wire_params :: "64 word \<Rightarrow> spawn_params \<Rightarrow> spawn_params" where
  "wire_params all_flags p =
     \<lparr>sp_selinux_flags = norm_some 0 (sp_selinux_flags p),
      sp_no_new_privs = norm_some False (sp_no_new_privs p),
      sp_uid = norm_range in_positive (sp_uid p),
      sp_gid = norm_range in_positive (sp_gid p),
      sp_process_name = norm_some '''' (sp_process_name p),
      sp_priority_initial = norm_range in_nice (sp_priority_initial p),
      sp_priority_final = norm_range in_nice (sp_priority_final p),
      sp_cap_effective = norm_caps all_flags (sp_cap_effective p),
      sp_cap_permitted = norm_caps all_flags (sp_cap_permitted p),
      sp_cap_inheritable = norm_caps all_flags (sp_cap_inheritable p),
      sp_cap_bound = norm_caps all_flags (sp_cap_bound p),
      sp_se_info = norm_some '''' (sp_se_info p),
      sp_secondary_groups = sp_secondary_groups p,
      sp_rlimits = sp_rlimits p\<rparr>"

fun wire_payload :: "spawn_payload \<Rightarrow> spawn_payload" where
  "wire_payload (PayloadAndroidNative d) =
     PayloadAndroidNative (d\<lparr>an_preloading_cmd := norm_cmd (an_preloading_cmd d)\<rparr>)"
| "wire_payload (PayloadAndroidNativeSubspecies d) =
     PayloadAndroidNativeSubspecies (d\<lparr>ans_preload_func := norm_some '''' (ans_preload_func d)\<rparr>)"
| "wire_payload p = p"

fun wire_message :: "64 word \<Rightarrow> zygote_message \<Rightarrow> zygote_message" where
  "wire_message all_flags (Spawn common payload) = Spawn (wire_params all_flags common) (wire_payload payload)"
| "wire_message all_flags (SpawnSubspecies common path payload) =
     SpawnSubspecies (wire_params all_flags common) path (wire_payload payload)"
| "wire_message all_flags m = m"

text \<open>The capacities that the vector types of the sender guarantee.\<close>

definition params_fit :: "spawn_params \<Rightarrow> bool" where
  "params_fit p \<longleftrightarrow>
     length (sp_secondary_groups p) \<le> GID_VECTOR_SIZE \<and> length (sp_rlimits p) \<le> RLIMIT_VECTOR_SIZE"

fun payload_fits :: "spawn_payload \<Rightarrow> bool" where
  "payload_fits (PayloadLibApp path args) \<longleftrightarrow> length args \<le> MESSAGE_ARG_BUFFER_MAX"
| "payload_fits _ \<longleftrightarrow> True"

fun message_fits :: "zygote_message \<Rightarrow> bool" where
  "message_fits (Spawn common payload) \<longleftrightarrow> params_fit common \<and> payload_fits payload"
| "message_fits (SpawnSubspecies common path payload) \<longleftrightarrow> params_fit common \<and> payload_fits payload"
| "message_fits _ \<longleftrightarrow> True"

lemma rlimit_copy [simp]:
  "map (\<lambda>r. \<lparr>rl_resource = rl_resource r, rl_hard = rl_hard r, rl_soft = rl_soft r\<rparr>) rs = rs"
  by (simp add: map_idI)

lemma common_trip: "params_fit p \<Longrightarrow> common_from_table all_flags (marshal_common p) = Ok (wire_params all_flags p)"
  by (simp add: params_fit_def common_from_table_def marshal_common_def wire_params_def field_trips
      flags_field.unmarshal_marshal [simplified] privs_field.unmarshal_marshal [simplified]
      unmarshal_secondary_groups_def unmarshal_rlimits_def arrayvec_collect_def)

lemma payload_trip:
  "payload_fits p \<Longrightarrow> payload_from (payload_type p) (Some (marshal_payload p)) = Ok (wire_payload p)"
proof (cases p)
  case (PayloadAndroidNative d)
  then show ?thesis by (simp add: payload_from_def cmd_field.unmarshal_marshal)
qed (simp_all add: payload_from_def str_field.unmarshal_marshal unmarshal_libapp_args_def arrayvec_collect_def)

lemmas field_norms =
  uid_field.norm_norm nice_field.norm_norm flags_field.norm_norm privs_field.norm_norm
  caps_field.norm_norm string_field.norm_norm cmd_field.norm_norm

lemma wire_message_idem: "wire_message all_flags (wire_message all_flags m) = wire_message all_flags m"
proof -
  have payload: "wire_payload (wire_payload p) = wire_payload p" for p
    by (cases p) (simp_all add: field_norms)
  show ?thesis by (cases m) (simp_all add: wire_params_def field_norms payload)
qed

lemma message_trip:
  assumes "root buffer = Some (to_parcel m)" and "message_fits m"
  shows "try_from_parcel root all_flags buffer = Ok (wire_message all_flags m)"
  using assms(2) unfolding try_from_parcel_def assms(1)
  by (cases m) (simp_all add: to_parcel_def message_from_parcel_def spawn_from_def spawn_subspecies_from_def
      expect_table_def common_trip payload_trip Let_def)

text \<open>
  C21. Round trip of the protocol: every message whose vectors respect their capacities, put into
  a parcel and read back from the receive buffer, arrives as \<open>wire_message\<close> says, for any
  FlatBuffers implementation that reads back this parcel from the zero-padded buffer; a second
  trip changes nothing more. Only spawn requests are altered at all.
\<close>

theorem message_roundtrip:
  assumes flatbuffers: "root (zero_padded MESSAGE_BUFFER_SIZE (finished_data (to_parcel m))) = Some (to_parcel m)"
    and fits: "message_fits m"
  shows "try_from_parcel root all_flags (zero_padded MESSAGE_BUFFER_SIZE (finished_data (to_parcel m)))
       = Ok (wire_message all_flags m)
    \<and> wire_message all_flags (wire_message all_flags m) = wire_message all_flags m
    \<and> (get_spawn_params m = None \<longrightarrow> wire_message all_flags m = m)"
proof -
  have "get_spawn_params m = None \<longrightarrow> wire_message all_flags m = m" by (cases m) simp_all
  with message_trip [where root = root, OF flatbuffers fits] show ?thesis by (simp only: wire_message_idem simp_thms)
qed

definition default_params :: spawn_params where
  "default_params =
     \<lparr>sp_selinux_flags = None, sp_no_new_privs = None, sp_uid = None, sp_gid = None, sp_process_name = None,
      sp_priority_initial = None, sp_priority_final = None, sp_cap_effective = None, sp_cap_permitted = None,
      sp_cap_inheritable = None, sp_cap_bound = None, sp_se_info = None, sp_secondary_groups = [], sp_rlimits = []\<rparr>"

theorem message_roundtrip_witness:
  "try_from_parcel (\<lambda>_. Some (to_parcel (Spawn default_params (PayloadMock ''m'')))) 0 (zero_padded MESSAGE_BUFFER_SIZE [])
     = Ok (Spawn (default_params\<lparr>sp_selinux_flags := Some 0, sp_no_new_privs := Some False,
         sp_process_name := Some '''', sp_se_info := Some ''''\<rparr>) (PayloadMock ''m''))"
proof -
  have "message_fits (Spawn default_params (PayloadMock ''m''))" by (simp add: params_fit_def default_params_def)
  from message_roundtrip [of "\<lambda>_. Some (to_parcel (Spawn default_params (PayloadMock ''m'')))", OF _ this,
      where finished_data = "\<lambda>_. []" and all_flags = 0]
  show ?thesis
    by (simp add: wire_params_def default_params_def norm_some_def norm_range_def norm_caps_def)
qed

section \<open>What survives\<close>

lemma norm_fixed_iff:
  "norm_some d x = x \<longleftrightarrow> x \<noteq> None"
  "norm_range P x' = x' \<longleftrightarrow> pred_option P x'"
  "norm_caps all_flags c = c \<longleftrightarrow> pred_option (\<lambda>v. v \<noteq> RAW_CAP_MAX \<and> v AND all_flags = v) c"
  by (cases x; cases x'; cases c; auto simp: norm_some_def norm_range_def norm_caps_def)+

text \<open>
  C34. Which parameters arrive as they were sent: marshalled into a table and read back, parameters
  that respect the vector capacities come out equal exactly when the SELinux flags, the privileges
  flag, the process name and the SELinux label are given, a given user or group id is at least 1
  (an explicit root id is lost), a given priority is in \<open>[-20, 20)\<close> and given capabilities are known
  flags other than the sentinel.
\<close>

theorem params_survive_iff:
  assumes "params_fit p"
  shows "common_from_table all_flags (marshal_common p) = (Ok p :: (spawn_params, message_error) outcome) \<longleftrightarrow>
     sp_selinux_flags p \<noteq> None \<and> sp_no_new_privs p \<noteq> None \<and> sp_process_name p \<noteq> None \<and> sp_se_info p \<noteq> None
     \<and> pred_option (\<lambda>v. 1 \<le> v) (sp_uid p) \<and> pred_option (\<lambda>v. 1 \<le> v) (sp_gid p)
     \<and> pred_option (\<lambda>v. - 20 \<le> v \<and> v < 20) (sp_priority_initial p)
     \<and> pred_option (\<lambda>v. - 20 \<le> v \<and> v < 20) (sp_priority_final p)
     \<and> list_all (pred_option (\<lambda>v. v \<noteq> - 1 \<and> v AND all_flags = v))
         [sp_cap_effective p, sp_cap_permitted p, sp_cap_inheritable p, sp_cap_bound p]"
  unfolding common_trip [OF assms]
  by (cases p) (auto simp: wire_params_def norm_fixed_iff in_positive_def [abs_def] in_nice_def [abs_def])

text \<open>An explicit root id does not survive.\<close>

definition root_params :: spawn_params where
  "root_params = default_params\<lparr>sp_selinux_flags := Some 0, sp_no_new_privs := Some True,
     sp_process_name := Some ''p'', sp_se_info := Some ''i'', sp_uid := Some 0\<rparr>"

theorem params_survive_iff_witness:
  "common_from_table 1 (marshal_common root_params) \<noteq> (Ok root_params :: (spawn_params, message_error) outcome)"
proof -
  have "params_fit root_params" by (simp add: params_fit_def root_params_def default_params_def)
  from params_survive_iff [OF this, of 1] show ?thesis by (simp add: root_params_def)
qed

section \<open>Parcels that panic\<close>

text \<open>
  What the FlatBuffers verifier of the schema guarantees: a known union type comes with a table
  of that type, and required unions are present. \<^verbatim>\<open>common\<close> is not required.
\<close>

definition verified_payload :: "nat \<Rightarrow> payload_table option \<Rightarrow> bool" where
  "verified_payload tag t \<longleftrightarrow>
     (case t of Some x \<Rightarrow> tag \<in> {1..4} \<longrightarrow> payload_table_type x = tag | None \<Rightarrow> False)"

definition verified :: "parcel \<Rightarrow> bool" where
  "verified p \<longleftrightarrow>
     (message_type p \<in> {1..9} \<longrightarrow> (\<exists>t. message p = Some t \<and> message_table_type t = message_type p)) \<and>
     (case message p of
        Some (SpawnTable t) \<Rightarrow> verified_payload (st_payload_type t) (st_payload t)
      | Some (SpawnSubspeciesTable t) \<Rightarrow> verified_payload (sst_payload_type t) (sst_payload t)
      | _ \<Rightarrow> True)"

definition bad_common :: "spawn_common_table option \<Rightarrow> bool" where
  "bad_common c = (case c of None \<Rightarrow> True
     | Some t \<Rightarrow> GID_VECTOR_SIZE < (case sc_secondary_groups t of Some gs \<Rightarrow> length gs | None \<Rightarrow> 0)
               \<or> RLIMIT_VECTOR_SIZE < length (sc_rlimits t))"

definition bad_payload :: "nat \<Rightarrow> payload_table option \<Rightarrow> bool" where
  "bad_payload tag t \<longleftrightarrow> tag = 3 \<and>
     (case t of Some (SpawnLibAppTable path args) \<Rightarrow> MESSAGE_ARG_BUFFER_MAX < length args | _ \<Rightarrow> False)"

definition bad_parcel :: "parcel \<Rightarrow> bool" where
  "bad_parcel p =
     (case message p of
        Some (SpawnTable t) \<Rightarrow> message_type p = 5 \<and>
          (bad_common (st_common t) \<or> bad_payload (st_payload_type t) (st_payload t))
      | Some (SpawnSubspeciesTable t) \<Rightarrow> message_type p = 6 \<and>
          (bad_common (sst_common t) \<or> bad_payload (sst_payload_type t) (sst_payload t))
      | _ \<Rightarrow> False)"

definition panics :: "('a, 'e) outcome \<Rightarrow> bool" where
  "panics r = (case r of Panic _ \<Rightarrow> True | _ \<Rightarrow> False)"

lemma panics_simps [simp]:
  "panics (Panic s)" "\<not> panics (Ok x)" "\<not> panics (Err e)" "\<not> panics Diverges"
  by (simp_all add: panics_def)

lemma panics_bind: "panics (bind_outcome r f) \<longleftrightarrow> panics r \<or> (\<exists>x. r = Ok x \<and> panics (f x))"
  by (cases r) simp_all

lemma common_panics:
  "(case c of None \<Rightarrow> True | Some t \<Rightarrow> panics (common_from_table all_flags t)) \<longleftrightarrow> bad_common c"
  by (auto simp: bad_common_def common_from_table_def panics_bind unmarshal_secondary_groups_def
      unmarshal_rlimits_def arrayvec_collect_def split: option.splits)

lemma payload_panics:
  assumes "verified_payload tag t"
  shows "panics (payload_from tag t) \<longleftrightarrow> bad_payload tag t"
proof -
  from assms obtain x where x: "t = Some x" "tag \<in> {1..4} \<Longrightarrow> payload_table_type x = tag"
    by (auto simp: verified_payload_def split: option.splits)
  show ?thesis
  proof (cases "tag \<in> {1..4}")
    case True
    with x have "tag = payload_table_type x" by simp
    then show ?thesis
      by (cases x) (simp_all add: x(1) payload_from_def bad_payload_def panics_bind unmarshal_libapp_args_def
          arrayvec_collect_def)
  next
    case False
    then have "tag \<noteq> 1" "tag \<noteq> 2" "tag \<noteq> 3" "tag \<noteq> 4" by auto
    then show ?thesis by (simp add: payload_from_def bad_payload_def)
  qed
qed

lemma common_not_Err: "common_from_table all_flags t \<noteq> Err e" "common_from_table all_flags t \<noteq> Diverges"
  by (auto simp: common_from_table_def unmarshal_secondary_groups_def unmarshal_rlimits_def arrayvec_collect_def
      split: option.splits)

lemma spawn_arm_panics:
  assumes "verified_payload tag t"
  shows "panics (bind_outcome (expect_table c) (\<lambda>c. bind_outcome (common_from_table all_flags c) (\<lambda>common.
      bind_outcome (payload_from tag t) (\<lambda>payload. Ok (f common payload)))))
    \<longleftrightarrow> bad_common c \<or> bad_payload tag t"
proof (cases c)
  case None
  then show ?thesis by (simp add: expect_table_def bad_common_def)
next
  case Some: (Some ct)
  have "panics (common_from_table all_flags ct :: (spawn_params, message_error) outcome) \<longleftrightarrow> bad_common c"
    using common_panics [where c = c and all_flags = all_flags] by (simp add: Some)
  then show ?thesis
    using payload_panics [OF assms] Some
    by (cases "common_from_table all_flags ct :: (spawn_params, message_error) outcome")
       (auto simp: expect_table_def panics_bind common_not_Err)
qed

text \<open>
  C33. A parcel that passed verification makes unmarshalling panic exactly when it is a spawn
  request without the common table, with more than 32 groups, more than 16 resource limits or
  more than 32 library arguments. (The server unmarshals what a client sent, so such a request
  ends it.)
\<close>

theorem unmarshal_panics_iff:
  assumes "verified p"
  shows "panics (message_from_parcel all_flags p) \<longleftrightarrow> bad_parcel p"
proof (cases "message p")
  case None
  with assms have "message_type p \<notin> {1..9}" by (auto simp: verified_def)
  then have "message_from_parcel all_flags p = Err (UnknownVariant ''Message'' (message_type p))"
    by (auto simp: message_from_parcel_def Let_def)
  with None show ?thesis by (simp add: bad_parcel_def)
next
  case (Some t)
  with assms have type: "message_type p \<in> {1..9} \<Longrightarrow> message_table_type t = message_type p"
    by (auto simp: verified_def)
  have unknown: "message_from_parcel all_flags p = Err (UnknownVariant ''Message'' (message_type p))"
    if "message_type p \<notin> {1..9}"
    using that by (auto simp: message_from_parcel_def Let_def)
  show ?thesis
  proof (cases "message_type p \<in> {1..9}")
    case False
    with unknown Some show ?thesis by (auto simp: bad_parcel_def split: message_table.splits)
  next
    case True
    with type have tag: "message_type p = message_table_type t" by simp
    then show ?thesis
    proof (cases t)
      case (SpawnTable st)
      with assms Some have "verified_payload (st_payload_type st) (st_payload st)" by (auto simp: verified_def)
      from spawn_arm_panics [OF this] Some SpawnTable tag show ?thesis
        by (simp add: message_from_parcel_def spawn_from_def bad_parcel_def)
    next
      case (SpawnSubspeciesTable st)
      with assms Some have "verified_payload (sst_payload_type st) (sst_payload st)" by (auto simp: verified_def)
      from spawn_arm_panics [OF this] Some SpawnSubspeciesTable tag show ?thesis
        by (simp add: message_from_parcel_def spawn_subspecies_from_def bad_parcel_def)
    qed (use Some in \<open>auto simp: message_from_parcel_def bad_parcel_def Let_def\<close>)
  qed
qed

theorem unmarshal_panics_iff_witness:
  "message_from_parcel 0 \<lparr>message_type = 5, message = Some (SpawnTable
     \<lparr>st_common = None, st_payload_type = 4, st_payload = Some (SpawnMockTable ''m'')\<rparr>)\<rparr>
   = Panic ''Missing table in flatbuffer''
   \<and> panics (message_from_parcel 0 \<lparr>message_type = 5, message = Some (SpawnTable
     \<lparr>st_common = None, st_payload_type = 4, st_payload = Some (SpawnMockTable ''m'')\<rparr>)\<rparr>)"
  by (subst unmarshal_panics_iff)
     (simp_all add: verified_def verified_payload_def bad_parcel_def bad_common_def
       message_from_parcel_def spawn_from_def expect_table_def)

section \<open>Merging with the defaults of the server\<close>

lemma set_unique [simp]: "set (unique xs) = set xs"
  by (simp add: unique_def)

lemma distinct_unique [simp]: "distinct (unique xs)"
  by (simp add: unique_def)

lemma length_unique: "length (unique xs) = card (set xs)"
  by (metis distinct_card distinct_unique set_unique)

lemma unique_distinct: "distinct xs \<Longrightarrow> unique xs = xs"
  by (simp add: unique_def distinct_remdups_id)

lemma or_option_simps [simp]: "or_option (Some x) b = Some x" "or_option None b = b" "or_option a None = a"
  by (cases a; simp add: or_option_def)+

text \<open>
  \<^verbatim>\<open>or\<close> on parameters: it returns exactly when the distinct groups of both sides fit into 32
  slots and the resource limits into 16, and panics otherwise; every option is the one of the
  first side if that side has it, the groups are those of both sides without duplicates, the
  limits are all of them, in order.
\<close>

theorem params_or_spec:
  "params_or p q =
     (if card (set (sp_secondary_groups p) \<union> set (sp_secondary_groups q)) \<le> GID_VECTOR_SIZE
         \<and> length (sp_rlimits p) + length (sp_rlimits q) \<le> RLIMIT_VECTOR_SIZE
      then Ok \<lparr>sp_selinux_flags = or_option (sp_selinux_flags p) (sp_selinux_flags q),
           sp_no_new_privs = or_option (sp_no_new_privs p) (sp_no_new_privs q),
           sp_uid = or_option (sp_uid p) (sp_uid q), sp_gid = or_option (sp_gid p) (sp_gid q),
           sp_process_name = or_option (sp_process_name p) (sp_process_name q),
           sp_priority_initial = or_option (sp_priority_initial p) (sp_priority_initial q),
           sp_priority_final = or_option (sp_priority_final p) (sp_priority_final q),
           sp_cap_effective = or_option (sp_cap_effective p) (sp_cap_effective q),
           sp_cap_permitted = or_option (sp_cap_permitted p) (sp_cap_permitted q),
           sp_cap_inheritable = or_option (sp_cap_inheritable p) (sp_cap_inheritable q),
           sp_cap_bound = or_option (sp_cap_bound p) (sp_cap_bound q),
           sp_se_info = or_option (sp_se_info p) (sp_se_info q),
           sp_secondary_groups = unique (sp_secondary_groups p @ sp_secondary_groups q),
           sp_rlimits = sp_rlimits p @ sp_rlimits q\<rparr>
      else Panic ''ArrayVec: capacity exceeded'')"
  by (auto simp: params_or_def arrayvec_collect_def length_unique)

lemma common_arrives:
  "common_from_table all_flags (marshal_common p) = (Ok q :: (spawn_params, 'e) outcome) \<Longrightarrow> q = wire_params all_flags p"
  by (auto simp: common_from_table_def marshal_common_def wire_params_def field_trips bind_outcome_eq_Ok_iff
      flags_field.unmarshal_marshal [simplified] privs_field.unmarshal_marshal [simplified]
      unmarshal_secondary_groups_def unmarshal_rlimits_def arrayvec_collect_def split: if_splits)

text \<open>
  C35. The defaults of the server for the process name, the SELinux label, the SELinux flags and
  the privileges flag are never used for a request that came over the wire: of parameters that were
  marshalled, read back and merged with any defaults, whatever the client left out is the empty
  string, 0 or \<open>false\<close>, and what it gave is what it gave.
\<close>

theorem wire_params_hide_defaults:
  assumes arrived: "common_from_table all_flags (marshal_common p) = (Ok q :: (spawn_params, message_error) outcome)"
    and merged: "params_or q defaults = (Ok r :: (spawn_params, 'e) outcome)"
  shows "sp_process_name r = Some (case sp_process_name p of Some name \<Rightarrow> name | None \<Rightarrow> [])
    \<and> sp_se_info r = Some (case sp_se_info p of Some label \<Rightarrow> label | None \<Rightarrow> [])
    \<and> sp_selinux_flags r = Some (case sp_selinux_flags p of Some flags \<Rightarrow> flags | None \<Rightarrow> 0)
    \<and> sp_no_new_privs r = Some (case sp_no_new_privs p of Some b \<Rightarrow> b | None \<Rightarrow> False)"
  using merged common_arrives [OF arrived]
  by (auto simp: params_or_def bind_outcome_eq_Ok_iff wire_params_def norm_some_def)

theorem wire_params_hide_defaults_witness:
  "\<exists>q r. common_from_table 0 (marshal_common default_params) = (Ok q :: (spawn_params, message_error) outcome)
     \<and> params_or q (default_params\<lparr>sp_process_name := Some ''zygote''\<rparr>) = (Ok r :: (spawn_params, unit) outcome)
     \<and> sp_process_name r = Some ''''"
proof -
  have fits: "params_fit default_params" by (simp add: params_fit_def default_params_def)
  obtain r where r: "params_or (wire_params 0 default_params) (default_params\<lparr>sp_process_name := Some ''zygote''\<rparr>)
      = (Ok r :: (spawn_params, unit) outcome)"
    by (simp add: params_or_def wire_params_def default_params_def arrayvec_collect_def unique_def)
  from wire_params_hide_defaults [OF common_trip [OF fits] r] have "sp_process_name r = Some ''''"
    by (simp add: default_params_def)
  with r common_trip [OF fits] show ?thesis by blast
qed

end
