(* ===== verification/Species_Life.thy ===== *)
theory Species_Life
  imports Messages Species_Policy Sys_Util Proc_Fs
begin

unbundle bit_operations_syntax

text \<open>
  What a species does in the life of a server and of its children: the \<^verbatim>\<open>Species\<close> methods of
  \<^verbatim>\<open>android_native.rs\<close>, \<^verbatim>\<open>lib_app.rs\<close> and \<^verbatim>\<open>mock.rs\<close> that act on the world. Each method is one
  definition by cases over the species. \<^verbatim>\<open>gestate\<close> never returns in the source; here its
  result is the exit status of the process.
\<close>

section \<open>What the run is set up with\<close>

text \<open>
  The libraries between bytes and tables, the flags the \<^verbatim>\<open>cap\<close> crate knows and the numbers its
  \<^verbatim>\<open>Capability::try_from\<close> accepts, whether the build is for Android, the exec-spawning flag of \<^verbatim>\<open>server.rs\<close>, the argument region that the C runtime reported at start and the name
  of the architecture.
\<close>

record host =
  fb_root :: "string \<Rightarrow> parcel option"
  fb_finished_data :: "parcel \<Rightarrow> string"
  fb_subspecies_root :: "string \<Rightarrow> android_native_subspecies option"
  cap_all_flags :: "64 word"
  cap_known :: "nat \<Rightarrow> bool"
  target_android :: bool
  is_exec_spawning :: bool
  arg_capacity :: "nat option"
  host_arch :: string

definition ext :: "'w env \<Rightarrow> ext_call \<Rightarrow> ('w, int, 'e) prog" where
  "ext E c = and_then (invoke E (ExtCall c)) (\<lambda>r. ok (retval r))"

text \<open>A call whose failure is a panic, and one whose failure is only logged.\<close>

definition ext_expect :: "'w env \<Rightarrow> string \<Rightarrow> ext_call \<Rightarrow> ('w, int, 'e) prog" where
  "ext_expect E msg c = and_then (ext E c) (\<lambda>r. if r = - 1 then panic msg else ok r)"

definition logging_errors :: "('w, 'a, sys_error) prog \<Rightarrow> ('w, unit, 'e) prog" where
  "logging_errors m = match_result m (\<lambda>_. ok ()) (\<lambda>_. ok ())"

definition expect_some :: "string \<Rightarrow> 'a option \<Rightarrow> ('w, 'a, 'e) prog" where
  "expect_some msg x = (case x of Some v \<Rightarrow> ok v | None \<Rightarrow> panic msg)"

section \<open>Android library wrappers\<close>

definition set_cpuset_policy :: "'w env \<Rightarrow> int \<Rightarrow> bool \<Rightarrow> ('w, unit, sys_error) prog" where
  "set_cpuset_policy E tid top_app = checked_call E (ExtCall (Ext_set_cpuset_policy tid top_app)) check_failure_with_void"

definition set_sched_policy :: "'w env \<Rightarrow> int \<Rightarrow> bool \<Rightarrow> ('w, unit, sys_error) prog" where
  "set_sched_policy E tid top_app = checked_call E (ExtCall (Ext_set_sched_policy tid top_app)) check_failure_with_void"

definition set_selinux_context ::
  "'w env \<Rightarrow> int \<Rightarrow> bool \<Rightarrow> string \<Rightarrow> string \<Rightarrow> 64 word \<Rightarrow> ('w, unit, sys_error) prog"
where
  "set_selinux_context E uid is_system_server se_info name selinux_flags =
     checked_call E (ExtCall (Ext_selinux_setcontext uid is_system_server se_info name (uint selinux_flags)))
       check_failure_with_void"

definition set_application_target_sdk_version :: "'w env \<Rightarrow> int \<Rightarrow> ('w, unit, 'e) prog" where
  "set_application_target_sdk_version E target =
     and_then (ext E (Ext_set_application_target_sdk_version target)) (\<lambda>_. ok ())"

definition set_program_name :: "'w env \<Rightarrow> ('w, unit, 'e) prog" where
  [simp]: "set_program_name E = and_then (ext E Ext_setprogname) (\<lambda>_. ok ())"

section \<open>Payloads\<close>

fun lib_app_is_spawn_payload_type :: "spawn_payload \<Rightarrow> bool" where
  "lib_app_is_spawn_payload_type (PayloadLibApp _ _) = True"
| "lib_app_is_spawn_payload_type _ = False"

fun mock_is_spawn_payload_type :: "spawn_payload \<Rightarrow> bool" where
  "mock_is_spawn_payload_type (PayloadMock _) = True"
| "mock_is_spawn_payload_type _ = False"

fun is_spawn_payload_type :: "species_tag \<Rightarrow> spawn_payload \<Rightarrow> bool" where
  "is_spawn_payload_type AndroidNative (PayloadAndroidNative _) = True"
| "is_spawn_payload_type AndroidNative (PayloadAndroidNativeSubspecies _) = True"
| "is_spawn_payload_type AndroidNative (PayloadLibApp _ _) = False"
| "is_spawn_payload_type AndroidNative (PayloadMock _) = False"
| "is_spawn_payload_type LibApp payload = lib_app_is_spawn_payload_type payload"
| "is_spawn_payload_type Mock payload = mock_is_spawn_payload_type payload"

section \<open>Re-initialization\<close>

datatype reinit_data = ReInitAndroidNative int | ReInitLibApp | ReInitMock

definition lib_app_gather_reinitialization_data :: "('w, reinit_data, 'e) prog" where
  [simp]: "lib_app_gather_reinitialization_data = ok ReInitLibApp"

definition mock_gather_reinitialization_data :: "('w, reinit_data, 'e) prog" where
  [simp]: "mock_gather_reinitialization_data = ok ReInitMock"

fun gather_reinitialization_data :: "'w env \<Rightarrow> species_tag \<Rightarrow> ('w, reinit_data, 'e) prog" where
  "gather_reinitialization_data E AndroidNative =
     and_then (debug_assert_single_threaded E) (\<lambda>_.
     and_then (ext E Ext_fdsan_get_error_level) (\<lambda>level. ok (ReInitAndroidNative level)))"
| "gather_reinitialization_data E LibApp = lib_app_gather_reinitialization_data"
| "gather_reinitialization_data E Mock = mock_gather_reinitialization_data"

definition as_android_native :: "reinit_data \<Rightarrow> int option" where
  "as_android_native d = (case d of ReInitAndroidNative level \<Rightarrow> Some level | _ \<Rightarrow> None)"

definition wants_top_app :: "spawn_payload \<Rightarrow> bool" where
  "wants_top_app payload = (case payload of PayloadAndroidNative d \<Rightarrow> an_top_app d | _ \<Rightarrow> False)"

definition lib_app_re_initialize_prologue :: "spawn_params \<Rightarrow> spawn_payload \<Rightarrow> reinit_data \<Rightarrow> ('w, unit, 'e) prog" where
  [simp]: "lib_app_re_initialize_prologue params payload re_init_data = ok ()"

definition mock_re_initialize_prologue :: "spawn_params \<Rightarrow> spawn_payload \<Rightarrow> reinit_data \<Rightarrow> ('w, unit, 'e) prog" where
  [simp]: "mock_re_initialize_prologue params payload re_init_data = ok ()"

fun re_initialize_prologue ::
  "'w env \<Rightarrow> species_tag \<Rightarrow> spawn_params \<Rightarrow> spawn_payload \<Rightarrow> reinit_data \<Rightarrow> ('w, unit, 'e) prog"
where
  "re_initialize_prologue E AndroidNative params payload re_init_data =
     and_then (debug_assert_single_threaded E) (\<lambda>_.
     and_then (expect_some ''Expected AndroidNative ReInitData'' (as_android_native re_init_data)) (\<lambda>level.
     and_then (ext E (Ext_fdsan_set_error_level level)) (\<lambda>_.
     and_then (ext E Ext_set_zygote_child) (\<lambda>_.
     and_then (logging_errors (sys_mallopt E M_DECAY_TIME 1)) (\<lambda>_.
     and_then (sys_getuid E) (\<lambda>uid.
     and_then
       (when_do (uid = 0)
         (and_then (expect_some ''No UID specified'' (sp_uid params)) (\<lambda>child_uid.
          if child_uid < 0 then panic ''Invalid UID''
          else and_then (sys_getpid E) (\<lambda>pid.
               and_then (ext_expect E ''Unable to create cgroup for process'' (Ext_cgroup_create child_uid pid))
                 (\<lambda>_. ok ()))))) (\<lambda>_.
     and_then (ext E Ext_cpusets_enabled) (\<lambda>enabled.
     and_then
       (when_do (enabled \<noteq> 0)
         (expect ''Failed to set cpuset policy'' (set_cpuset_policy E 0 (wants_top_app payload)))) (\<lambda>_.
     and_then (expect ''Failed to set scheduler policy'' (set_sched_policy E 0 (wants_top_app payload))) (\<lambda>_.
     and_then (ext E Ext_drop_task_profiles_cache) (\<lambda>_. ok ())))))))))))"
| "re_initialize_prologue E LibApp params payload re_init_data = lib_app_re_initialize_prologue params payload re_init_data"
| "re_initialize_prologue E Mock params payload re_init_data = mock_re_initialize_prologue params payload re_init_data"

abbreviation AID_APP_START :: int where "AID_APP_START \<equiv> 10000"

definition lib_app_set_seccomp_filters :: "spawn_params \<Rightarrow> spawn_payload \<Rightarrow> ('w, unit, 'e) prog" where
  [simp]: "lib_app_set_seccomp_filters params payload = ok ()"

definition mock_set_seccomp_filters :: "spawn_params \<Rightarrow> spawn_payload \<Rightarrow> ('w, unit, 'e) prog" where
  [simp]: "mock_set_seccomp_filters params payload = ok ()"

fun set_seccomp_filters :: "'w env \<Rightarrow> species_tag \<Rightarrow> spawn_params \<Rightarrow> spawn_payload \<Rightarrow> ('w, unit, 'e) prog" where
  "set_seccomp_filters E AndroidNative params payload =
     (case payload of
        PayloadAndroidNativeSubspecies _ \<Rightarrow>
          and_then (ext E Ext_set_app_zygote_seccomp_filter) (\<lambda>_.
            expect ''Failed to set NO_NEW_PRIVS'' (sys_prctl_set_no_new_privs E))
      | _ \<Rightarrow>
          and_then (expect_some ''No UID specified'' (sp_uid params)) (\<lambda>uid.
          and_then (if AID_APP_START \<le> uid then ext E Ext_set_app_seccomp_filter
                    else ext E Ext_set_system_seccomp_filter) (\<lambda>_. ok ())))"
| "set_seccomp_filters E LibApp params payload = lib_app_set_seccomp_filters params payload"
| "set_seccomp_filters E Mock params payload = mock_set_seccomp_filters params payload"

text \<open>A string copied into the front of a zeroed \<^verbatim>\<open>CStringBuffer\<close>.\<close>

definition into_buffer :: "string \<Rightarrow> ('w, string, 'e) prog" where
  "into_buffer s =
     (if BUFFER_SIZE_STRINGS < length s then panic ''range end index out of range for slice of length 512''
      else ok (zero_padded BUFFER_SIZE_STRINGS s))"

definition lib_app_re_initialize_epilogue :: "spawn_params \<Rightarrow> ('w, unit, 'e) prog" where
  [simp]: "lib_app_re_initialize_epilogue params = ok ()"

definition mock_re_initialize_epilogue :: "spawn_params \<Rightarrow> ('w, unit, 'e) prog" where
  [simp]: "mock_re_initialize_epilogue params = ok ()"

fun re_initialize_epilogue :: "'w env \<Rightarrow> species_tag \<Rightarrow> spawn_params \<Rightarrow> ('w, unit, 'e) prog" where
  "re_initialize_epilogue E AndroidNative params =
     and_then (expect_some ''No UID specified'' (sp_uid params)) (\<lambda>uid.
     and_then (expect_some ''No SE Linux info specified'' (sp_se_info params)) (\<lambda>se_info.
     and_then (into_buffer se_info) (\<lambda>se_info_buffer.
     and_then (expect_some ''No process name specified'' (sp_process_name params)) (\<lambda>process_name.
     and_then (into_buffer process_name) (\<lambda>process_name_buffer.
     and_then (expect_some ''se_info_buffer should be null-terminated'' (cstr_until_nul se_info_buffer)) (\<lambda>se_info_cstr.
     and_then (expect_some ''process_name_buffer should be null-terminated''
                (cstr_until_nul process_name_buffer)) (\<lambda>name_cstr.
     and_then (expect_some ''no selinux_flags'' (sp_selinux_flags params)) (\<lambda>selinux_flags.
     and_then (expect ''Unable to transition SE Linux contexts''
                (set_selinux_context E (uid mod 2 ^ 32) False se_info_cstr name_cstr selinux_flags)) (\<lambda>_.
       when_do (sp_no_new_privs params = Some True)
         (expect ''Failed to set NO_NEW_PRIVS'' (sys_prctl_set_no_new_privs E)))))))))))"
| "re_initialize_epilogue E LibApp params = lib_app_re_initialize_epilogue params"
| "re_initialize_epilogue E Mock params = mock_re_initialize_epilogue params"

section \<open>Speciation and gestation\<close>

definition INVALID_PAYLOAD :: string where "INVALID_PAYLOAD = ''Invalid spawn payload for species''"

definition lib_app_speciate :: "spawn_payload \<Rightarrow> ('w, unit, 'e) prog" where
  [simp]: "lib_app_speciate payload = ok ()"

definition mock_speciate :: "spawn_payload \<Rightarrow> ('w, unit, 'e) prog" where
  [simp]: "mock_speciate payload = ok ()"

fun speciate :: "'w env \<Rightarrow> species_tag \<Rightarrow> spawn_payload \<Rightarrow> ('w, unit, 'e) prog" where
  "speciate E AndroidNative payload =
     (case payload of
        PayloadAndroidNativeSubspecies d \<Rightarrow>
          and_then (ext E (Ext_install_setuidgid_seccomp_filter (ans_uid_gid_min d) (ans_uid_gid_max d))) (\<lambda>_.
          and_then (ext E (Ext_app_process_init (ans_target_sdk_version d) (ans_runtime_flags d))) (\<lambda>_.
          and_then (ext E (Ext_preload_lib (ans_library_path d) (ans_library_dirs d)
             (ans_permitted_library_paths d) (ans_target_sdk_version d) (ans_shared d) (ans_zip_path d)
             (ans_native_shared_lib_path d) (ans_preload_func d))) (\<lambda>_. ok ())))
      | _ \<Rightarrow> panic INVALID_PAYLOAD)"
| "speciate E LibApp payload = lib_app_speciate payload"
| "speciate E Mock payload = mock_speciate payload"

text \<open>The command of an exec-spawned application preloads like \<^verbatim>\<open>speciate\<close>.\<close>

definition preload_command :: "'w env \<Rightarrow> host \<Rightarrow> string option \<Rightarrow> ('w, unit, 'e) prog" where
  "preload_command E S preloading_cmd =
     (case preloading_cmd of
        Some cmd_bytes \<Rightarrow>
          if is_exec_spawning S then
            and_then (expect_some ''called Result::unwrap() on an Err value'' (fb_subspecies_root S cmd_bytes)) (\<lambda>cmd.
            and_then (ext E (Ext_preload_lib (ans_library_path cmd) (ans_library_dirs cmd)
              (ans_permitted_library_paths cmd) (ans_target_sdk_version cmd) (ans_shared cmd) (ans_zip_path cmd)
              (ans_native_shared_lib_path cmd) (ans_preload_func cmd))) (\<lambda>_. ok ()))
          else ok ()
      | None \<Rightarrow> ok ())"

definition ENTRY_SYMBOL_NAME :: string where "ENTRY_SYMBOL_NAME = ''zygote_entry''"

definition gestate_lib_app :: "'w env \<Rightarrow> spawn_params \<Rightarrow> string \<Rightarrow> string list \<Rightarrow> ('w, int, 'e) prog" where
  "gestate_lib_app E params path args =
     (if list_ex (\<lambda>arg. cstring_new arg = None) args then panic ''Argument contains null byte''
      else
        and_then (std_bool E (Std_path_exists path)) (\<lambda>exists.
          if \<not> exists then ok 1
          else
            and_then (ext E (Ext_dlopen path)) (\<lambda>library.
              if library = 0 then ok 1
              else
                and_then (ext E (Ext_dlsym library ENTRY_SYMBOL_NAME)) (\<lambda>entry_function.
                  if entry_function = 0 then ok 1
                  else
                    and_then
                      (case sp_priority_final params of
                         Some priority \<Rightarrow> logging_errors (sys_setpriority E PRIO_PROCESS 0 priority)
                       | None \<Rightarrow> ok ()) (\<lambda>_.
                    ext E (Ext_entry_function entry_function args))))))"

definition mock_gestate :: "'w env \<Rightarrow> spawn_payload \<Rightarrow> ('w, int, 'e) prog" where
  [simp]: "mock_gestate E payload =
     (case payload of
        PayloadMock name \<Rightarrow>
          and_then (invoke E (StdCall (Std_print (''Hello from the child process.  My name is '' @ name)))) (\<lambda>_. ok 0)
      | _ \<Rightarrow> panic INVALID_PAYLOAD)"

fun gestate :: "'w env \<Rightarrow> host \<Rightarrow> species_tag \<Rightarrow> spawn_params \<Rightarrow> spawn_payload \<Rightarrow> ('w, int, 'e) prog" where
  "gestate E S AndroidNative params payload =
     (case payload of
        PayloadAndroidNative d \<Rightarrow>
          and_then (ext E (Ext_app_process_init (an_target_sdk_version d) (an_runtime_flags d))) (\<lambda>_.
          and_then (preload_command E S (an_preloading_cmd d)) (\<lambda>_.
            ext E (Ext_run_native_activity_thread (an_start_seq d))))
      | _ \<Rightarrow> panic INVALID_PAYLOAD)"
| "gestate E S LibApp params payload =
     (case payload of
        PayloadLibApp path args \<Rightarrow> gestate_lib_app E params path args
      | _ \<Rightarrow> panic INVALID_PAYLOAD)"
| "gestate E S Mock params payload = mock_gestate E payload"

section \<open>The life of the server\<close>

definition READY_PROPERTY :: string where "READY_PROPERTY = ''zygote.zygote_next.server_ready''"

definition on_start :: "'w env \<Rightarrow> host \<Rightarrow> species_tag \<Rightarrow> ('w, unit, 'e) prog" where
  "on_start E S species =
     (if species = AndroidNative then
        and_then (if is_exec_spawning S then ok 0 else ext E Ext_stats_write) (\<lambda>_.
        and_then (ext E Ext_cache_debuggable) (\<lambda>_. ok ()))
      else ok ())"

definition on_server_ready :: "'w env \<Rightarrow> species_tag \<Rightarrow> ('w, unit, 'e) prog" where
  "on_server_ready E species =
     (if species = AndroidNative
      then and_then (ext E (Ext_property_write READY_PROPERTY ''true'')) (\<lambda>_. ok ()) else ok ())"

definition on_server_destroy :: "'w env \<Rightarrow> species_tag \<Rightarrow> ('w, unit, 'e) prog" where
  "on_server_destroy E species =
     (if species = AndroidNative
      then and_then (ext E (Ext_property_write READY_PROPERTY ''false'')) (\<lambda>_. ok ()) else ok ())"

subsection \<open>Reporting a terminated child\<close>

text \<open>A 32-bit value as the four bytes of a little-endian machine.\<close>

definition le_bytes :: "32 word \<Rightarrow> string" where
  "le_bytes v = map (\<lambda>i. char_of (unat (drop_bit (8 * i) v) mod 256)) [0, 1, 2, 3]"

record sigchld_message =
  um_typ :: "32 word"
  um_pid :: "32 word"
  um_uid :: "32 word"
  um_status :: "32 word"

definition sigchld_as_bytes :: "sigchld_message \<Rightarrow> string" where
  "sigchld_as_bytes m = le_bytes (um_typ m) @ le_bytes (um_pid m) @ le_bytes (um_uid m) @ le_bytes (um_status m)"

abbreviation SIG_CHLD_TYPE :: "32 word" where "SIG_CHLD_TYPE \<equiv> 1"

definition handle_sigchld :: "'w env \<Rightarrow> species_tag \<Rightarrow> int \<Rightarrow> int \<Rightarrow> int \<Rightarrow> ('w, unit, 'e) prog" where
  "handle_sigchld E species pid uid status =
     (if species = AndroidNative then
        and_then (invoke E (StdCall Std_datagram_unbound)) (\<lambda>sock.
          if retval sock = - 1 then ok ()
          else
            and_then (invoke E (StdCall (Std_datagram_connect (retval sock) UNSOLICITED_ZYGOTE_SOCKET_PATH))) (\<lambda>r.
            and_then
              (if retval r = - 1 then ok ()
               else and_then (invoke E (StdCall (Std_datagram_send (retval sock)
                      (sigchld_as_bytes \<lparr>um_typ = SIG_CHLD_TYPE, um_pid = word_of_int pid,
                         um_uid = word_of_int uid, um_status = word_of_int status\<rparr>)))) (\<lambda>_. ok ())) (\<lambda>_.
            and_then (invoke E (StdCall (Std_datagram_drop (retval sock)))) (\<lambda>_. ok ()))))
      else ok ())"

fun le_words :: "string \<Rightarrow> 32 word list" where
  "le_words (a # b # c # d # rest) =
     word_of_nat (of_char a + 256 * of_char b + 65536 * of_char c + 16777216 * of_char d) # le_words rest"
| "le_words _ = []"

lemma le_bytes_4: "le_bytes v = map (\<lambda>n. char_of (n mod 256))
    [unat v, unat v div 256, unat v div 65536, unat v div 16777216]"
  by (simp add: le_bytes_def unat_drop_bit_eq) (simp add: drop_bit_eq_div)

lemma four_bytes:
  fixes n :: nat
  assumes "n < 2 ^ 32"
  shows "n mod 256 + 256 * (n div 256 mod 256) + 65536 * (n div 65536 mod 256) + 16777216 * (n div 16777216 mod 256) = n"
proof -
  define q1 q2 q3 where q: "q1 = n div 256" "q2 = q1 div 256" "q3 = q2 div 256"
  have "n div 65536 = q2" "n div 16777216 = q3" by (simp_all add: q div_mult2_eq [symmetric])
  moreover have "q3 < 256" using assms by (simp add: q div_mult2_eq [symmetric] less_mult_imp_div_less)
  moreover have "n = 256 * q1 + n mod 256" "q1 = 256 * q2 + q1 mod 256" "q2 = 256 * q3 + q2 mod 256"
    by (simp_all add: q)
  ultimately show ?thesis by (simp add: q(1) [symmetric])
qed

lemma word_of_nat_unat_id: "word_of_nat (unat v) = (v :: 32 word)"
  by simp

lemma le_words_le_bytes: "le_words (le_bytes v @ rest) = v # le_words rest"
proof -
  have "unat v < 2 ^ LENGTH(32)" by (rule unsigned_less)
  then have "unat v < 2 ^ 32" by simp
  from four_bytes [OF this] have "word_of_nat (unat v mod 256 + 256 * (unat v div 256 mod 256)
      + 65536 * (unat v div 65536 mod 256) + 16777216 * (unat v div 16777216 mod 256)) = v"
    by (simp only: word_of_nat_unat_id)
  then have "word_of_nat (unat v mod 256) + 256 * word_of_nat (unat v div 256 mod 256)
      + 65536 * word_of_nat (unat v div 65536 mod 256) + 16777216 * word_of_nat (unat v div 16777216 mod 256) = v"
    by (simp only: of_nat_add of_nat_mult of_nat_numeral)
  moreover have "unat v div 16777216 mod 256 = unat v div 16777216"
    using \<open>unat v < 2 ^ 32\<close> by (intro mod_less) (simp add: less_mult_imp_div_less)
  ultimately show ?thesis by (simp add: le_bytes_4)
qed

text \<open>
  The report of a terminated child has the layout the receiver reads: 16 bytes that are, as
  four little-endian 32-bit values, the message type, the process id, the user id and the raw
  wait status.
\<close>

theorem sigchld_message_layout:
  "length (sigchld_as_bytes m) = 16 \<and> le_words (sigchld_as_bytes m) = [um_typ m, um_pid m, um_uid m, um_status m]"
proof -
  have "le_words (le_bytes v) = [v]" for v using le_words_le_bytes [of v "[]"] by simp
  then show ?thesis by (simp add: sigchld_as_bytes_def le_words_le_bytes le_bytes_def)
qed

section \<open>Which payloads a child refuses\<close>

lemma ext_run: "kernel E (ExtCall c) w = (r, w') \<Longrightarrow> ext E c w = (Ok (retval r), w')"
  by (simp add: ext_def and_then_def match_result_def invoke_run ok_def)

lemma ext_eq_iff: "ext E c w = (x, w') \<longleftrightarrow> (\<exists>r. kernel E (ExtCall c) w = (r, w') \<and> x = Ok (retval r))"
  by (auto simp: ext_def and_then_def match_result_def invoke_def ok_def split: prod.splits)

text \<open>A program that does not end with the panic of a refused payload.\<close>

definition not_refused :: "('w, 'a, 'e) prog \<Rightarrow> bool" where
  "not_refused m \<longleftrightarrow> (\<forall>w. fst (m w) \<noteq> Panic INVALID_PAYLOAD)"

named_theorems refused_intros \<open>programs that do not end with the panic of a refused payload\<close>

lemma not_refused_simple [refused_intros]:
  "not_refused (ok x)" "msg \<noteq> INVALID_PAYLOAD \<Longrightarrow> not_refused (panic msg)" "not_refused (invoke E c)"
  "not_refused (ext E xc)" "msg \<noteq> INVALID_PAYLOAD \<Longrightarrow> not_refused (expect_some msg v)"
  by (auto simp: not_refused_def ok_def panic_def invoke_def ext_eq_iff expect_some_def prod_eq_iff
      split: prod.splits option.splits)
     (auto simp: ext_def and_then_def match_result_def invoke_def ok_def split: prod.splits)

lemma not_refused_match [refused_intros]:
  assumes "not_refused m" and "\<And>x. not_refused (f x)" and "\<And>e. not_refused (g e)"
  shows "not_refused (match_result m f g)"
  using assms by (auto simp: not_refused_def match_result_def split: prod.splits outcome.splits) (metis fst_conv)

lemma not_refused_and_then [refused_intros]:
  "not_refused m \<Longrightarrow> (\<And>x. not_refused (f x)) \<Longrightarrow> not_refused (and_then m f)"
  unfolding and_then_def by (rule not_refused_match) (auto simp: not_refused_def fail_def)

lemma not_refused_checked [refused_intros]:
  "(\<And>r. check r \<noteq> Panic INVALID_PAYLOAD) \<Longrightarrow> not_refused (checked_call E c check)"
  unfolding checked_call_def by (intro refused_intros) (simp add: not_refused_def of_outcome_def)

lemma not_refused_if [refused_intros]:
  "not_refused m \<Longrightarrow> not_refused m' \<Longrightarrow> not_refused (if b then m else m')"
  by simp

lemma not_refused_std_bool [refused_intros]: "not_refused (std_bool E c)"
  unfolding std_bool_def by (intro refused_intros)

lemma not_refused_logging [refused_intros]: "not_refused m \<Longrightarrow> not_refused (logging_errors m)"
  unfolding logging_errors_def by (intro refused_intros)

lemma not_refused_gestate_lib_app: "not_refused (gestate_lib_app E params path args)"
  unfolding gestate_lib_app_def sys_setpriority_def
  by (intro refused_intros)
     (auto simp: INVALID_PAYLOAD_def check_defs split: option.split if_splits intro!: refused_intros)

lemma not_refused_preload: "not_refused (preload_command E S cmd)"
  by (auto simp: preload_command_def INVALID_PAYLOAD_def intro!: refused_intros split: option.split)

lemma not_refused_android:
  "not_refused (and_then (ext E (Ext_app_process_init a b)) (\<lambda>_. and_then (preload_command E S cmd)
      (\<lambda>_. ext E (Ext_run_native_activity_thread c))))"
  "not_refused (and_then (ext E c1) (\<lambda>_. and_then (ext E c2) (\<lambda>_. and_then (ext E c3) (\<lambda>_. ok ()))))"
  "not_refused (and_then (invoke E c') (\<lambda>_. ok (0 :: int)))"
  by (intro refused_intros not_refused_preload)+

lemmas not_refused_runs =
  not_refused_android [unfolded not_refused_def, rule_format]
  not_refused_gestate_lib_app [unfolded not_refused_def, rule_format]

text \<open>
  C36. What the check of the dispatcher lets through: of the payloads a species accepts, the child
  of a spawn request refuses exactly the subspecies payload of an Android application, and the
  child of a subspecies request exactly its application payload. The check does not look at the
  kind of request, so these end in a panic after the fork.
\<close>

theorem accepted_payloads_refused:
  assumes "is_spawn_payload_type species payload"
  shows "(fst (gestate E S species params payload w) = Panic INVALID_PAYLOAD
        \<longleftrightarrow> species = AndroidNative \<and> (\<exists>d. payload = PayloadAndroidNativeSubspecies d))
    \<and> (fst (speciate E species payload w) = Panic INVALID_PAYLOAD
        \<longleftrightarrow> species = AndroidNative \<and> (\<exists>d. payload = PayloadAndroidNative d))"
  using assms
  by (cases species; cases payload)
     (simp_all add: panic_def ok_def INVALID_PAYLOAD_def not_refused_runs [unfolded INVALID_PAYLOAD_def ok_def])

definition example_subspecies :: android_native_subspecies where
  "example_subspecies = \<lparr>ans_target_sdk_version = 35, ans_runtime_flags = 0, ans_library_path = ''lib.so'',
     ans_library_dirs = ''/d'', ans_permitted_library_paths = ''/d'', ans_shared = False, ans_zip_path = ''/z'',
     ans_native_shared_lib_path = ''/n'', ans_preload_func = None, ans_uid_gid_min = 90000, ans_uid_gid_max = 90099\<rparr>"

definition quiet_env :: "unit env" where
  "quiet_env = \<lparr>kernel = (\<lambda>c w. (\<lparr>retval = 0, errno_after = 0, outval = NoOut\<rparr>, w)), loop_fuel = 1,
     debug_assertions = False\<rparr>"

definition quiet_host :: host where
  "quiet_host = \<lparr>fb_root = (\<lambda>_. None), fb_finished_data = (\<lambda>_. []), fb_subspecies_root = (\<lambda>_. None),
     cap_all_flags = 0, cap_known = (\<lambda>i. i < 41), target_android = True, is_exec_spawning = False, arg_capacity = None,
     host_arch = ''x86_64''\<rparr>"

definition no_params :: spawn_params where
  "no_params =
     \<lparr>sp_selinux_flags = None, sp_no_new_privs = None, sp_uid = None, sp_gid = None, sp_process_name = None,
      sp_priority_initial = None, sp_priority_final = None, sp_cap_effective = None, sp_cap_permitted = None,
      sp_cap_inheritable = None, sp_cap_bound = None, sp_se_info = None, sp_secondary_groups = [], sp_rlimits = []\<rparr>"

theorem accepted_payloads_refused_witness:
  "is_spawn_payload_type AndroidNative (PayloadAndroidNativeSubspecies example_subspecies)
   \<and> fst (gestate quiet_env quiet_host AndroidNative no_params (PayloadAndroidNativeSubspecies example_subspecies) ())
       = (Panic INVALID_PAYLOAD :: (int, unit) outcome)"
proof -
  have accepted: "is_spawn_payload_type AndroidNative (PayloadAndroidNativeSubspecies example_subspecies)" by simp
  show ?thesis
    using accepted by (simp add: accepted_payloads_refused [OF accepted, THEN conjunct1] del: gestate.simps)
qed

end
