(* ===== verification/Call_Traces.thy ===== *)
theory Call_Traces
  imports Sys_Calls
begin

text \<open>
  Reasoning about which calls a program makes and in which order. A run in \<open>logged E\<close> records
  every call; \<open>calls P log\<close> are those of the kind \<open>P\<close>. \<open>silent P m\<close>: \<open>m\<close> makes no call of
  the kind, however it ends. \<open>emits P m cs\<close>: whenever \<open>m\<close> returns \<^verbatim>\<open>Ok\<close>, it made exactly the
  calls \<open>cs\<close> of the kind, in that order. Both are compositional, with one rule per combinator.
  \<open>emits_where P m R\<close> is the general form, for programs whose calls depend on the answers: the
  calls of the kind, each with its answer, satisfy \<open>R\<close>.
\<close>

named_theorems silent_intros \<open>programs that make no call of a kind\<close>
named_theorems emits_intros \<open>the calls of a kind that a successful run makes\<close>

type_synonym 'w logged_world = "'w \<times> (syscall \<times> int) list"

definition logged_events :: "(syscall \<Rightarrow> bool) \<Rightarrow> (syscall \<times> int) list \<Rightarrow> (syscall \<times> int) list" where
  "logged_events P log = filter (\<lambda>p. P (fst p)) log"

definition calls :: "(syscall \<Rightarrow> bool) \<Rightarrow> (syscall \<times> int) list \<Rightarrow> syscall list" where
  "calls P log = map fst (logged_events P log)"

lemma logged_events_append [simp]: "logged_events P (xs @ ys) = logged_events P xs @ logged_events P ys"
  by (simp add: logged_events_def)

lemma logged_events_Cons [simp]: "logged_events P (p # log) = (if P (fst p) then p # logged_events P log else logged_events P log)"
  by (simp add: logged_events_def)

lemma logged_events_Nil [simp]: "logged_events P [] = []"
  by (simp add: logged_events_def)

lemma calls_append [simp]: "calls P (xs @ ys) = calls P xs @ calls P ys"
  by (simp add: calls_def)

lemma calls_Cons [simp]: "calls P (p # log) = (if P (fst p) then fst p # calls P log else calls P log)"
  by (simp add: calls_def)

lemma calls_Nil [simp]: "calls P [] = []"
  by (simp add: calls_def)

definition silent :: "(syscall \<Rightarrow> bool) \<Rightarrow> ('w logged_world, 'a, 'e) prog \<Rightarrow> bool" where
  "silent P m \<longleftrightarrow> (\<forall>w log r w' log'. m (w, log) = (r, (w', log')) \<longrightarrow> logged_events P log' = logged_events P log)"

definition emits_where ::
  "(syscall \<Rightarrow> bool) \<Rightarrow> ('w logged_world, 'a, 'e) prog \<Rightarrow> ((syscall \<times> int) list \<Rightarrow> bool) \<Rightarrow> bool"
where
  "emits_where P m R \<longleftrightarrow> (\<forall>w log x w' log'. m (w, log) = (Ok x, (w', log')) \<longrightarrow>
     (\<exists>es. logged_events P log' = logged_events P log @ es \<and> R es))"

definition emits :: "(syscall \<Rightarrow> bool) \<Rightarrow> ('w logged_world, 'a, 'e) prog \<Rightarrow> syscall list \<Rightarrow> bool" where
  "emits P m cs \<longleftrightarrow> emits_where P m (\<lambda>es. map fst es = cs)"

lemma silent_events: "silent P m \<Longrightarrow> m (w, log) = (r, (w', log')) \<Longrightarrow> logged_events P log' = logged_events P log"
  unfolding silent_def by blast

lemma silentD: "silent P m \<Longrightarrow> m (w, log) = (r, (w', log')) \<Longrightarrow> calls P log' = calls P log"
  by (simp add: calls_def silent_events)

lemma emits_whereD:
  "emits_where P m R \<Longrightarrow> m (w, log) = (Ok x, (w', log')) \<Longrightarrow> \<exists>es. logged_events P log' = logged_events P log @ es \<and> R es"
  unfolding emits_where_def by blast

lemma emitsD: "emits P m cs \<Longrightarrow> m (w, log) = (Ok x, (w', log')) \<Longrightarrow> calls P log' = calls P log @ cs"
  using emits_whereD [of P m "\<lambda>es. map fst es = cs" w log x w' log'] by (auto simp: emits_def calls_def)

lemma emits_where_mono: "emits_where P m R \<Longrightarrow> (\<And>es. R es \<Longrightarrow> R' es) \<Longrightarrow> emits_where P m R'"
  unfolding emits_where_def by blast

lemma emits_where_and_then:
  assumes m: "emits_where P m R" and f: "\<And>x. emits_where P (f x) R'"
  shows "emits_where P (and_then m f) (\<lambda>es. \<exists>es1 es2. es = es1 @ es2 \<and> R es1 \<and> R' es2)"
  unfolding emits_where_def
proof (intro allI impI)
  fix w log x w' log' assume "and_then m f (w, log) = (Ok x, (w', log'))"
  then obtain y w1 log1 where "m (w, log) = (Ok y, (w1, log1))" "f y (w1, log1) = (Ok x, (w', log'))"
    by (auto simp: and_then_eq_Ok_iff)
  from emits_whereD [OF m this(1)] emits_whereD [OF f this(2)] obtain es1 es2
    where "logged_events P log' = logged_events P log @ es1 @ es2" "R es1" "R' es2" by auto
  then show "\<exists>es. logged_events P log' = logged_events P log @ es \<and> (\<exists>es1 es2. es = es1 @ es2 \<and> R es1 \<and> R' es2)" by blast
qed

lemma emits_eq: "emits P m cs \<Longrightarrow> cs = cs' \<Longrightarrow> emits P m cs'"
  by simp

lemma silent_emits: "silent P m \<Longrightarrow> emits P m []"
  unfolding silent_def emits_def emits_where_def by auto

section \<open>Silent programs\<close>

lemma silent_simple [silent_intros]:
  "silent P (ok x)" "silent P (fail e)" "silent P (panic p)" "silent P diverge" "silent P (of_outcome r)"
  by (auto simp: silent_def)

lemma silent_invoke [silent_intros]: "\<not> P c \<Longrightarrow> silent P (invoke (logged E) c)"
  by (auto simp: silent_def kernel_logged split: prod.splits)

lemma silent_match [silent_intros]:
  assumes m: "silent P m" and f: "\<And>x. silent P (f x)" and g: "\<And>e. silent P (g e)"
  shows "silent P (match_result m f g)"
proof -
  have "logged_events P log' = logged_events P log" if "match_result m f g (w, log) = (r, (w', log'))" for w log r w' log'
  proof -
    obtain r1 w1 log1 where m1: "m (w, log) = (r1, (w1, log1))" by (metis prod.exhaust)
    from silent_events [OF m m1] that m1 show ?thesis
      using silent_events [OF f] silent_events [OF g] by (cases r1) (fastforce simp: match_result_def)+
  qed
  then show ?thesis unfolding silent_def by blast
qed

lemma silent_and_then [silent_intros]:
  "silent P m \<Longrightarrow> (\<And>x. silent P (f x)) \<Longrightarrow> silent P (and_then m f)"
  unfolding and_then_def by (intro silent_intros)

lemma silent_map_err [silent_intros]: "silent P m \<Longrightarrow> silent P (map_err g m)"
  unfolding map_err_def by (intro silent_intros)

lemma silent_expect [silent_intros]: "silent P m \<Longrightarrow> silent P (expect msg m)"
  unfolding expect_def by (intro silent_intros)

lemma silent_when_do [silent_intros]: "silent P m \<Longrightarrow> silent P (when_do b m)"
  by (simp add: when_do_def silent_intros)

lemma silent_if [silent_intros]: "silent P m \<Longrightarrow> silent P m' \<Longrightarrow> silent P (if b then m else m')"
  by simp

lemma silent_for_each [silent_intros]: "(\<And>x. silent P (f x)) \<Longrightarrow> silent P (for_each f xs)"
  by (induction xs) (auto intro: silent_intros)

lemma silent_checked_call [silent_intros]: "\<not> P c \<Longrightarrow> silent P (checked_call (logged E) c check)"
  unfolding checked_call_def by (intro silent_intros)

lemma silent_retry [silent_intros]: "silent P m \<Longrightarrow> silent P (retry_eintr n m)"
  by (induction n) (auto intro!: silent_intros split: sys_error.split)

section \<open>Emitting programs\<close>

lemma emits_ok [emits_intros]: "emits P (ok x) []"
  by (rule silent_emits) (rule silent_simple)

lemma emits_never [emits_intros]: "emits P (fail e) cs" "emits P (panic p) cs" "emits P diverge cs"
  by (auto simp: emits_def emits_where_def)

lemma emits_and_then:
  assumes "emits P m cs" and "\<And>x. emits P (f x) ds"
  shows "emits P (and_then m f) (cs @ ds)"
  using assms unfolding emits_def by (rule emits_where_mono [OF emits_where_and_then]) auto

lemma emits_silent_then:
  assumes "silent P m" and "\<And>x. emits P (f x) ds"
  shows "emits P (and_then m f) ds"
  using emits_and_then [OF silent_emits [OF assms(1)] assms(2)] by simp

lemma emits_where_silent_then:
  assumes "silent P m" and f: "\<And>x. emits_where P (f x) R"
  shows "emits_where P (and_then m f) R"
  using emits_where_and_then [OF silent_emits [OF assms(1), unfolded emits_def] f] by (rule emits_where_mono) auto

lemma emits_expect [emits_intros]: "emits P m cs \<Longrightarrow> emits P (expect msg m) cs"
  by (auto simp: emits_def emits_where_def)

lemma emits_map_err [emits_intros]: "emits P m cs \<Longrightarrow> emits P (map_err g m) cs"
  by (auto simp: emits_def emits_where_def)

lemma emits_if [emits_intros]:
  "(b \<Longrightarrow> emits P m cs) \<Longrightarrow> (\<not> b \<Longrightarrow> emits P m' cs') \<Longrightarrow>
     emits P (if b then m else m') (if b then cs else cs')"
  by simp

lemma emits_when_do [emits_intros]: "emits P m cs \<Longrightarrow> emits P (when_do b m) (if b then cs else [])"
  by (simp add: when_do_def emits_ok)

lemma emits_for_each [emits_intros]:
  "(\<And>x. emits P (f x) (g x)) \<Longrightarrow> emits P (for_each f xs) (concat (map g xs))"
  by (induction xs) (auto intro: emits_ok emits_and_then)

lemma emits_invoke [emits_intros]: "emits P (invoke (logged E) c) (if P c then [c] else [])"
  by (auto simp: emits_def emits_where_def kernel_logged split: prod.splits)

lemma emits_checked_call [emits_intros]: "emits P (checked_call (logged E) c check) (if P c then [c] else [])"
  by (auto simp: emits_def emits_where_def checked_call_eq_iff kernel_logged split: prod.splits)

end
