(* ===== verification/Child_Process.thy ===== *)
theory Child_Process
  imports Species_Life Call_Traces
begin

unbundle bit_operations_syntax

text \<open>
  \<^verbatim>\<open>zygote/src/child_process.rs\<close>: how a freshly forked child gives up what it inherited. The
  order of the steps is a security property (filters and groups before the user id, the SELinux
  transition last); the main result states it on logged runs.
\<close>

section \<open>Renaming the process\<close>

definition ZYGOTE_CHILD_PROCESS_INITIAL_NAME :: string where
  "ZYGOTE_CHILD_PROCESS_INITIAL_NAME = ''zygote-child''"

text \<open>What \<^verbatim>\<open>argv[0]\<close> is overwritten with: the name, cut to leave a NUL, and NULs to the end.\<close>

definition argv0_contents :: "nat \<Rightarrow> string \<Rightarrow> string" where
  "argv0_contents capacity new_name =
     (let len_to_copy = min (length new_name) (capacity - 1)
      in take len_to_copy new_name @ replicate (capacity - len_to_copy) NUL)"

definition set_new_process_name :: "'w env \<Rightarrow> host \<Rightarrow> string \<Rightarrow> ('w, unit, 'e) prog" where
  "set_new_process_name E S new_name =
     (let start_idx = length new_name - (TASK_COMM_LEN - 1) in
      and_then (sys_prctl_set_name E (drop start_idx new_name)) (\<lambda>_.
        case arg_capacity S of
          None \<Rightarrow> ok ()
        | Some capacity \<Rightarrow>
            if capacity = 0 then panic ''attempt to subtract with overflow''
            else
              and_then (ext E (Ext_write_argv0 (argv0_contents capacity new_name) capacity)) (\<lambda>_.
              when_do (target_android S) (set_program_name E))))"

section \<open>Re-initialization\<close>

definition keep_capabilities :: "'w env \<Rightarrow> ('w, unit, 'e) prog" where
  "keep_capabilities E =
     match_result (sys_prctl_set_securebits E SECBIT_KEEP_CAPS) (\<lambda>_. ok ())
       (\<lambda>e. case e of Libc code \<Rightarrow> if errno_is code EPERM then ok ()
                                   else panic ''Failed to set secure bits in child process''
                    | _ \<Rightarrow> panic ''Failed to set secure bits in child process'')"

text \<open>The capabilities missing from the bound, as bit numbers in ascending order.\<close>

definition dropped_capabilities :: "64 word \<Rightarrow> 64 word \<Rightarrow> nat list" where
  "dropped_capabilities all_flags bound = filter (\<lambda>i. bit (all_flags AND NOT bound) i) [0..<64]"

definition drop_bound :: "'w env \<Rightarrow> host \<Rightarrow> nat \<Rightarrow> ('w, unit, 'e) prog" where
  "drop_bound E S cap =
     (if \<not> cap_known S cap then panic ''called `Result::unwrap()` on an `Err` value''
      else
        and_then (ext_expect E ''Failed to check capability bound'' (Ext_cap_within_bound cap)) (\<lambda>within.
          if within \<noteq> 0
          then and_then (ext_expect E ''Failed to drop capability bound'' (Ext_cap_drop_bound cap)) (\<lambda>_. ok ())
          else ok ()))"

definition set_rlimit :: "'w env \<Rightarrow> rlimit_data \<Rightarrow> ('w, unit, 'e) prog" where
  "set_rlimit E rlimit =
     expect ''Failed to set rlimit''
       (sys_setrlimit E (sint (rl_resource rlimit)) (uint (rl_soft rlimit)) (uint (rl_hard rlimit)))"

definition re_initialize ::
  "'w env \<Rightarrow> host \<Rightarrow> species_tag \<Rightarrow> reinit_data \<Rightarrow> spawn_params \<Rightarrow> spawn_payload \<Rightarrow> ('w, unit, 'e) prog"
where
  "re_initialize E S species re_init_data params payload =
     and_then (re_initialize_prologue E species params payload re_init_data) (\<lambda>_.
     and_then (set_new_process_name E S ZYGOTE_CHILD_PROCESS_INITIAL_NAME) (\<lambda>_.
     and_then (keep_capabilities E) (\<lambda>_.
     and_then
       (case sp_cap_permitted params of
          Some cap_permitted \<Rightarrow>
            and_then (ext_expect E ''Failed to store additive capabilities''
                       (Ext_cap_store_additive 0 0 (uint cap_permitted))) (\<lambda>_. ok ())
        | None \<Rightarrow> ok ()) (\<lambda>_.
     and_then
       (case sp_cap_bound params of
          Some cap_bound \<Rightarrow> for_each (drop_bound E S) (dropped_capabilities (cap_all_flags S) cap_bound)
        | None \<Rightarrow> ok ()) (\<lambda>_.
     and_then
       (when_do (sp_secondary_groups params \<noteq> [] \<or> is_exec_spawning S)
         (expect ''Failed to set groups'' (sys_setgroups E (sp_secondary_groups params)))) (\<lambda>_.
     and_then (for_each (set_rlimit E) (sp_rlimits params)) (\<lambda>_.
     and_then
       (case sp_gid params of
          Some gid \<Rightarrow> expect ''Failed to set GID''
            (sys_setresgid E (gid mod 2 ^ 32) (gid mod 2 ^ 32) (gid mod 2 ^ 32))
        | None \<Rightarrow> ok ()) (\<lambda>_.
     and_then (set_seccomp_filters E species params payload) (\<lambda>_.
     and_then
       (case sp_uid params of
          Some uid \<Rightarrow> expect ''Failed to set UID''
            (sys_setresuid E (uid mod 2 ^ 32) (uid mod 2 ^ 32) (uid mod 2 ^ 32))
        | None \<Rightarrow> ok ()) (\<lambda>_.
     and_then (ext_expect E ''Failed to load capabilities'' Ext_cap_load) (\<lambda>_.
     and_then (ext_expect E ''Failed to store overwritten capabilities''
                (Ext_cap_store_overwrite (map_option uint (sp_cap_effective params))
                   (map_option uint (sp_cap_permitted params)) (map_option uint (sp_cap_inheritable params)))) (\<lambda>_.
     and_then
       (case sp_process_name params of
          Some name \<Rightarrow>
            (case cstring_new name of Some name_cstr \<Rightarrow> set_new_process_name E S name_cstr | None \<Rightarrow> ok ())
        | None \<Rightarrow> ok ()) (\<lambda>_.
       re_initialize_epilogue E species params)))))))))))))"

text \<open>
  The stack guards are reset around the continuation on Android, unless the application was
  spawned by exec; on other targets the continuation is called at once.
\<close>

definition maybe_reset_stack_guards :: "'w env \<Rightarrow> host \<Rightarrow> ('w, 'a, 'e) prog \<Rightarrow> ('w, 'a, 'e) prog" where
  "maybe_reset_stack_guards E S continuation =
     (if \<not> target_android S \<or> is_exec_spawning S then continuation
      else and_then (ext E Ext_reset_stack_guards) (\<lambda>_. continuation))"

section \<open>The order of the privileged steps\<close>

text \<open>
  Every call that changes the credentials, limits, filters, capabilities or the security context of
  the process, and the checks that decide which capabilities leave the bounding set.
\<close>

fun privileged :: "syscall \<Rightarrow> bool" where
  "privileged (CredCall (Libc_setgroups _)) = True"
| "privileged (CredCall (Libc_setreuid _ _)) = True"
| "privileged (CredCall (Libc_setregid _ _)) = True"
| "privileged (CredCall (Libc_setresgid _ _ _)) = True"
| "privileged (CredCall (Libc_setresuid _ _ _)) = True"
| "privileged (ProcCall (Libc_setrlimit _ _ _)) = True"
| "privileged (ProcCall (Libc_prctl_set_securebits _)) = True"
| "privileged (ProcCall Libc_prctl_set_no_new_privs) = True"
| "privileged (ExtCall Ext_set_app_seccomp_filter) = True"
| "privileged (ExtCall Ext_set_app_zygote_seccomp_filter) = True"
| "privileged (ExtCall Ext_set_system_seccomp_filter) = True"
| "privileged (ExtCall (Ext_install_setuidgid_seccomp_filter _ _)) = True"
| "privileged (ExtCall (Ext_cap_store_additive _ _ _)) = True"
| "privileged (ExtCall (Ext_cap_within_bound _)) = True"
| "privileged (ExtCall (Ext_cap_drop_bound _)) = True"
| "privileged (ExtCall Ext_cap_load) = True"
| "privileged (ExtCall (Ext_cap_store_overwrite _ _ _)) = True"
| "privileged (ExtCall (Ext_selinux_setcontext _ _ _ _ _)) = True"
| "privileged _ = False"

text \<open>The first calls: the capabilities survive the change of the user id, and more are permitted.\<close>

definition keeping_calls :: "spawn_params \<Rightarrow> syscall list" where
  "keeping_calls params =
     ProcCall (Libc_prctl_set_securebits SECBIT_KEEP_CAPS)
     # (case sp_cap_permitted params of
          Some permitted \<Rightarrow> [ExtCall (Ext_cap_store_additive 0 0 (uint permitted))] | None \<Rightarrow> [])"

text \<open>
  The calls that empty the bounding set, each with the answer it got: every capability is checked
  in turn, and exactly those answered to be in the set are dropped.
\<close>

inductive bounding :: "nat list \<Rightarrow> (syscall \<times> int) list \<Rightarrow> bool" where
  none: "bounding [] []"
| absent: "bounding caps es \<Longrightarrow> bounding (cap # caps) ((ExtCall (Ext_cap_within_bound cap), 0) # es)"
| present: "within \<noteq> 0 \<Longrightarrow> bounding caps es \<Longrightarrow>
    bounding (cap # caps) ((ExtCall (Ext_cap_within_bound cap), within) # (ExtCall (Ext_cap_drop_bound cap), r) # es)"

inductive_cases bounding_Nil: "bounding [] es"
inductive_cases bounding_Cons: "bounding (cap # caps) es"

definition bound_exceeded :: "host \<Rightarrow> spawn_params \<Rightarrow> nat list" where
  "bound_exceeded S params = (case sp_cap_bound params of
     Some bound \<Rightarrow> filter (\<lambda>i. bit (cap_all_flags S) i \<and> \<not> bit bound i) [0..<64] | None \<Rightarrow> [])"

definition seccomp_calls :: "spawn_params \<Rightarrow> spawn_payload \<Rightarrow> syscall list" where
  "seccomp_calls params payload =
     (case payload of
        PayloadAndroidNativeSubspecies _ \<Rightarrow>
          [ExtCall Ext_set_app_zygote_seccomp_filter, ProcCall Libc_prctl_set_no_new_privs]
      | _ \<Rightarrow> if AID_APP_START \<le> the (sp_uid params) then [ExtCall Ext_set_app_seccomp_filter]
             else [ExtCall Ext_set_system_seccomp_filter])"

definition context_calls :: "spawn_params \<Rightarrow> syscall list" where
  "context_calls params =
     ExtCall (Ext_selinux_setcontext (the (sp_uid params) mod 2 ^ 32) False
        (the (cstr_until_nul (zero_padded BUFFER_SIZE_STRINGS (the (sp_se_info params)))))
        (the (cstr_until_nul (zero_padded BUFFER_SIZE_STRINGS (the (sp_process_name params)))))
        (uint (the (sp_selinux_flags params))))
     # (if sp_no_new_privs params = Some True then [ProcCall Libc_prctl_set_no_new_privs] else [])"

definition id_calls :: "('i \<Rightarrow> syscall) \<Rightarrow> 'i option \<Rightarrow> syscall list" where
  "id_calls c x = (case x of Some i \<Rightarrow> [c i] | None \<Rightarrow> [])"

definition privileged_sequence :: "host \<Rightarrow> spawn_params \<Rightarrow> spawn_payload \<Rightarrow> syscall list" where
  "privileged_sequence S params payload =
     (if sp_secondary_groups params \<noteq> [] \<or> is_exec_spawning S
      then [CredCall (Libc_setgroups (sp_secondary_groups params))] else [])
     @ map (\<lambda>r. ProcCall (Libc_setrlimit (sint (rl_resource r)) (uint (rl_soft r)) (uint (rl_hard r)))) (sp_rlimits params)
     @ id_calls (\<lambda>g. CredCall (Libc_setresgid (g mod 2 ^ 32) (g mod 2 ^ 32) (g mod 2 ^ 32))) (sp_gid params)
     @ seccomp_calls params payload
     @ id_calls (\<lambda>u. CredCall (Libc_setresuid (u mod 2 ^ 32) (u mod 2 ^ 32) (u mod 2 ^ 32))) (sp_uid params)
     @ [ExtCall Ext_cap_load,
        ExtCall (Ext_cap_store_overwrite (map_option uint (sp_cap_effective params))
          (map_option uint (sp_cap_permitted params)) (map_option uint (sp_cap_inheritable params)))]
     @ context_calls params"

lemma silent_ext [silent_intros]: "\<not> P (ExtCall c) \<Longrightarrow> silent P (ext (logged E) c)"
  unfolding ext_def by (intro silent_intros)

lemma silent_ext_expect [silent_intros]: "\<not> P (ExtCall c) \<Longrightarrow> silent P (ext_expect (logged E) msg c)"
  unfolding ext_expect_def by (intro silent_intros)

lemma silent_logging [silent_intros]: "silent P m \<Longrightarrow> silent P (logging_errors m)"
  unfolding logging_errors_def by (intro silent_intros)

lemma silent_expect_some [silent_intros]: "silent P (expect_some msg x)"
  by (auto simp: expect_some_def intro: silent_intros split: option.split)

lemma emits_ext [emits_intros]: "emits P (ext (logged E) c) (if P (ExtCall c) then [ExtCall c] else [])"
  unfolding ext_def by (rule emits_eq, rule emits_and_then, rule emits_invoke, rule emits_ok) simp

lemma emits_ext_expect [emits_intros]:
  "emits P (ext_expect (logged E) msg c) (if P (ExtCall c) then [ExtCall c] else [])"
  unfolding ext_expect_def
  by (rule emits_eq, rule emits_and_then, rule emits_ext, rule emits_eq, rule emits_if, rule emits_never,
      rule emits_ok) auto

lemma emits_expect_some:
  "(\<And>v. x = Some v \<Longrightarrow> emits P (f v) cs) \<Longrightarrow> emits P (and_then (expect_some msg x) f) cs"
  by (cases x) (simp_all add: expect_some_def emits_never)

lemma emits_into_buffer:
  "emits P (f (zero_padded BUFFER_SIZE_STRINGS s)) cs \<Longrightarrow> emits P (and_then (into_buffer s) f) cs"
  by (simp add: into_buffer_def emits_never)

lemma silent_debug_assert [silent_intros]:
  "\<not> P (StdCall (Std_read_file ''/proc/self/stat'' PROC_STAT_BUFFER_SIZE)) \<Longrightarrow> silent P (debug_assert_single_threaded (logged E))"
  unfolding debug_assert_single_threaded_def assert_single_threaded_def proc_stat_get_def
  by (auto intro!: silent_intros split: outcome.split)

lemma silent_prologue: "silent privileged (re_initialize_prologue (logged E) species params payload d)"
  by (cases species)
     (auto simp: sys_mallopt_def sys_getuid_def sys_getpid_def set_cpuset_policy_def set_sched_policy_def
       intro!: silent_intros)

lemma silent_naming: "silent privileged (set_new_process_name (logged E) S name)"
  by (auto simp: set_new_process_name_def sys_prctl_set_name_def Let_def intro!: silent_intros split: option.split)

lemma emits_keep_capabilities:
  "emits privileged (keep_capabilities (logged E)) [ProcCall (Libc_prctl_set_securebits SECBIT_KEEP_CAPS)]"
  unfolding emits_def emits_where_def
proof (intro allI impI)
  fix w log x w' log' assume run: "keep_capabilities (logged E) (w, log) = (Ok x, (w', log'))"
  have "log' = log @ [(ProcCall (Libc_prctl_set_securebits SECBIT_KEEP_CAPS),
      retval (fst (kernel E (ProcCall (Libc_prctl_set_securebits SECBIT_KEEP_CAPS)) w)))]"
    using run
    by (cases "kernel E (ProcCall (Libc_prctl_set_securebits SECBIT_KEEP_CAPS)) w")
       (auto simp: keep_capabilities_def sys_prctl_set_securebits_def checked_call_def match_result_def and_then_def
         invoke_def kernel_logged of_outcome_def check_defs ok_def panic_def split: if_splits)
  then show "\<exists>es. logged_events privileged log' = logged_events privileged log @ es
      \<and> map fst es = [ProcCall (Libc_prctl_set_securebits SECBIT_KEEP_CAPS)]" by simp
qed

lemma emits_permitted:
  "emits privileged (case x of
       Some c \<Rightarrow> and_then (ext_expect (logged E) msg (Ext_cap_store_additive 0 0 (uint c))) (\<lambda>_. ok ()) | None \<Rightarrow> ok ())
     (case x of Some c \<Rightarrow> [ExtCall (Ext_cap_store_additive 0 0 (uint c))] | None \<Rightarrow> [])"
  by (cases x; simp add: emits_ok) (rule emits_eq, rule emits_and_then, rule emits_ext_expect, rule emits_ok, simp)

lemma drop_bound_events:
  assumes "drop_bound (logged E) S cap (w, log) = (Ok (), (w', log'))"
  shows "\<exists>r. log' = log @ [(ExtCall (Ext_cap_within_bound cap), 0)]
    \<or> (\<exists>within. within \<noteq> 0 \<and> log' = log @ [(ExtCall (Ext_cap_within_bound cap), within), (ExtCall (Ext_cap_drop_bound cap), r)])"
  using assms
  by (auto simp: drop_bound_def ext_expect_def ext_def and_then_eq_Ok_iff kernel_logged split: if_splits prod.splits)

lemma emits_bounding:
  "emits_where privileged (for_each (drop_bound (logged E) S) caps :: ('w logged_world, unit, 'e) prog) (bounding caps)"
proof (induction caps)
  case Nil
  show ?case by (auto simp: emits_where_def intro: bounding.none)
next
  case (Cons cap caps)
  show ?case
    unfolding emits_where_def
  proof (intro allI impI)
    fix w log x w' log'
    assume "for_each (drop_bound (logged E) S) (cap # caps) (w, log) = ((Ok x :: (unit, 'e) outcome), (w', log'))"
    then obtain w1 log1 where one: "drop_bound (logged E) S cap (w, log) = ((Ok () :: (unit, 'e) outcome), (w1, log1))"
      and rest: "for_each (drop_bound (logged E) S) caps (w1, log1) = ((Ok x :: (unit, 'e) outcome), (w', log'))"
      by (auto simp: and_then_eq_Ok_iff)
    from emits_whereD [OF Cons.IH rest] obtain es where "logged_events privileged log' = logged_events privileged log1 @ es"
      "bounding caps es" by blast
    with drop_bound_events [OF one] show "\<exists>es. logged_events privileged log' = logged_events privileged log @ es \<and> bounding (cap # caps) es"
      by (auto intro: bounding.absent bounding.present)
  qed
qed

lemma emits_bound_exceeded:
  "emits_where privileged
     (case sp_cap_bound params of
        Some cap_bound \<Rightarrow> for_each (drop_bound (logged E) S) (dropped_capabilities (cap_all_flags S) cap_bound)
      | None \<Rightarrow> ok ()) (bounding (bound_exceeded S params))"
proof (cases "sp_cap_bound params")
  case None
  then show ?thesis by (auto simp: emits_where_def bound_exceeded_def intro: bounding.none)
next
  case (Some bound)
  then have "bound_exceeded S params = dropped_capabilities (cap_all_flags S) bound"
    by (auto simp: bound_exceeded_def dropped_capabilities_def bit_simps intro!: filter_cong)
  with emits_bounding Some show ?thesis by simp
qed

lemma emits_groups:
  "emits privileged (when_do b (expect msg (sys_setgroups (logged E) gs))) (if b then [CredCall (Libc_setgroups gs)] else [])"
  unfolding sys_setgroups_def
  by (rule emits_eq, rule emits_when_do, rule emits_expect, rule emits_checked_call) simp

lemma emits_rlimits:
  "emits privileged (for_each (set_rlimit (logged E)) rs)
     (map (\<lambda>r. ProcCall (Libc_setrlimit (sint (rl_resource r)) (uint (rl_soft r)) (uint (rl_hard r)))) rs)"
proof (rule emits_eq, rule emits_for_each)
  show "emits privileged (set_rlimit (logged E) r)
      [ProcCall (Libc_setrlimit (sint (rl_resource r)) (uint (rl_soft r)) (uint (rl_hard r)))]" for r
    unfolding set_rlimit_def sys_setrlimit_def
    by (rule emits_eq, rule emits_expect, rule emits_checked_call) simp
qed (induction rs; simp)

lemma emits_gid:
  "emits privileged (case x of Some i \<Rightarrow> expect msg (sys_setresgid (logged E) (f i) (f i) (f i)) | None \<Rightarrow> ok ())
     (id_calls (\<lambda>i. CredCall (Libc_setresgid (f i) (f i) (f i))) x)"
  unfolding sys_setresgid_def id_calls_def
  by (cases x; simp add: emits_ok) (rule emits_eq, rule emits_expect, rule emits_checked_call, simp)

lemma emits_uid:
  "emits privileged (case x of Some i \<Rightarrow> expect msg (sys_setresuid (logged E) (f i) (f i) (f i)) | None \<Rightarrow> ok ())
     (id_calls (\<lambda>i. CredCall (Libc_setresuid (f i) (f i) (f i))) x)"
  unfolding sys_setresuid_def id_calls_def
  by (cases x; simp add: emits_ok) (rule emits_eq, rule emits_expect, rule emits_checked_call, simp)

lemma emits_no_new_privs:
  "emits privileged (expect msg (sys_prctl_set_no_new_privs (logged E))) [ProcCall Libc_prctl_set_no_new_privs]"
  unfolding sys_prctl_set_no_new_privs_def by (rule emits_eq, rule emits_expect, rule emits_checked_call) simp

lemma emits_seccomp:
  "emits privileged (set_seccomp_filters (logged E) AndroidNative params payload) (seccomp_calls params payload)"
proof -
  have filters: "emits privileged (and_then (expect_some msg (sp_uid params)) (\<lambda>uid.
      and_then (if AID_APP_START \<le> uid then ext (logged E) Ext_set_app_seccomp_filter
                else ext (logged E) Ext_set_system_seccomp_filter) (\<lambda>_. ok ())))
     (if AID_APP_START \<le> the (sp_uid params) then [ExtCall Ext_set_app_seccomp_filter]
      else [ExtCall Ext_set_system_seccomp_filter])" for msg
    by (rule emits_expect_some, rule emits_eq, rule emits_and_then, rule emits_if, rule emits_ext, rule emits_ext,
        rule emits_ok) simp
  have zygote: "emits privileged (and_then (ext (logged E) Ext_set_app_zygote_seccomp_filter)
      (\<lambda>_. expect msg (sys_prctl_set_no_new_privs (logged E))))
      [ExtCall Ext_set_app_zygote_seccomp_filter, ProcCall Libc_prctl_set_no_new_privs]" for msg
    by (rule emits_eq, rule emits_and_then, rule emits_ext, rule emits_no_new_privs) simp
  show ?thesis by (cases payload) (simp_all add: seccomp_calls_def filters zygote cong: if_cong)
qed

lemma emits_epilogue:
  "emits privileged (re_initialize_epilogue (logged E) AndroidNative params) (context_calls params)"
proof -
  have final: "emits privileged (and_then (expect msg (set_selinux_context (logged E) u False a b fl))
      (\<lambda>_. when_do c (expect msg' (sys_prctl_set_no_new_privs (logged E)))))
      (ExtCall (Ext_selinux_setcontext u False a b (uint fl)) # (if c then [ProcCall Libc_prctl_set_no_new_privs] else []))"
    for msg msg' u a b fl c
    unfolding set_selinux_context_def
    by (rule emits_eq, rule emits_and_then, rule emits_expect, rule emits_checked_call, rule emits_when_do,
        rule emits_no_new_privs) simp
  show ?thesis
    unfolding re_initialize_epilogue.simps context_calls_def
    apply (rule emits_expect_some, rule emits_expect_some, rule emits_into_buffer, rule emits_expect_some,
        rule emits_into_buffer, rule emits_expect_some, rule emits_expect_some, rule emits_expect_some)
    apply (rule emits_eq, rule final, simp)
    done
qed

text \<open>
  C15. The order in which a child of the Android server gives up its privileges. When
  \<^verbatim>\<open>re_initialize\<close> returns, the privileged calls it made (those on ids and groups, resource limits,
  secure bits, capabilities and their bounding set, seccomp filters, the SELinux context and
  \<^verbatim>\<open>NO_NEW_PRIVS\<close>) are exactly these, in this order:
  \<^verbatim>\<open>SECBIT_KEEP_CAPS\<close> and, if permitted capabilities were requested, their additive store; if a
  bounding set was requested, a check of every known capability that is missing from it, in
  ascending order, each followed by dropping the capability exactly when the kernel answered that
  it is within the bound; supplementary groups (if any were requested, or always when spawned by
  exec), resource limits, group id, the seccomp filter that belongs to the payload and user id,
  user id, the load and the final store of the capabilities, then the SELinux transition with the
  requested label and name, and last \<^verbatim>\<open>NO_NEW_PRIVS\<close> when requested. So the bounding set, the group
  id and the filters are set while the user id still permits it, and \<^verbatim>\<open>NO_NEW_PRIVS\<close> of an
  application never precedes the transition.
\<close>

theorem re_initialize_order:
  assumes run: "re_initialize (logged E) S AndroidNative d params payload (w, log)
      = ((Ok () :: (unit, 'e) outcome), (w', log'))"
  shows "\<exists>keeping bounds rest. logged_events privileged log' = logged_events privileged log @ keeping @ bounds @ rest
    \<and> map fst keeping = keeping_calls params
    \<and> bounding (bound_exceeded S params) bounds
    \<and> map fst rest = privileged_sequence S params payload"
proof -
  have store: "emits privileged (ext_expect (logged E) msg (Ext_cap_store_overwrite a b c))
      [ExtCall (Ext_cap_store_overwrite a b c)]" for msg a b c
    by (rule emits_eq, rule emits_ext_expect) simp
  have load: "emits privileged (ext_expect (logged E) msg Ext_cap_load) [ExtCall Ext_cap_load]" for msg
    by (rule emits_eq, rule emits_ext_expect) simp
  have name: "silent privileged (case x of Some name \<Rightarrow>
      (case cstring_new name of Some n \<Rightarrow> set_new_process_name (logged E) S n | None \<Rightarrow> ok ()) | None \<Rightarrow> ok ())" for x
    by (auto intro!: silent_intros silent_naming split: option.split)
  have split: "privileged_sequence S params payload = (if sp_secondary_groups params \<noteq> [] \<or> is_exec_spawning S
        then [CredCall (Libc_setgroups (sp_secondary_groups params))] else [])
     @ map (\<lambda>r. ProcCall (Libc_setrlimit (sint (rl_resource r)) (uint (rl_soft r)) (uint (rl_hard r)))) (sp_rlimits params)
     @ id_calls (\<lambda>g. CredCall (Libc_setresgid (g mod 2 ^ 32) (g mod 2 ^ 32) (g mod 2 ^ 32))) (sp_gid params)
     @ seccomp_calls params payload
     @ id_calls (\<lambda>u. CredCall (Libc_setresuid (u mod 2 ^ 32) (u mod 2 ^ 32) (u mod 2 ^ 32))) (sp_uid params)
     @ [ExtCall Ext_cap_load]
     @ [ExtCall (Ext_cap_store_overwrite (map_option uint (sp_cap_effective params))
          (map_option uint (sp_cap_permitted params)) (map_option uint (sp_cap_inheritable params)))]
     @ context_calls params"
    by (simp add: privileged_sequence_def)
  note later = emits_and_then [OF emits_groups] emits_and_then [OF emits_rlimits] emits_and_then [OF emits_gid]
    emits_and_then [OF emits_seccomp] emits_and_then [OF emits_uid] emits_and_then [OF load] emits_and_then [OF store]
    emits_silent_then [OF name] emits_epilogue
  have "emits_where privileged (re_initialize (logged E) S AndroidNative d params payload :: (_, unit, 'e) prog)
      (\<lambda>es. \<exists>keep es1. es = keep @ es1 \<and> map fst keep = [ProcCall (Libc_prctl_set_securebits SECBIT_KEEP_CAPS)]
        \<and> (\<exists>add es2. es1 = add @ es2
          \<and> map fst add = (case sp_cap_permitted params of
               Some c \<Rightarrow> [ExtCall (Ext_cap_store_additive 0 0 (uint c))] | None \<Rightarrow> [])
          \<and> (\<exists>bounds rest. es2 = bounds @ rest \<and> bounding (bound_exceeded S params) bounds
             \<and> map fst rest = privileged_sequence S params payload)))"
    unfolding re_initialize_def split
    by (intro emits_where_silent_then [OF silent_prologue] emits_where_silent_then [OF silent_naming]
        emits_where_and_then [OF emits_keep_capabilities [unfolded emits_def]]
        emits_where_and_then [OF emits_permitted [unfolded emits_def]]
        emits_where_and_then [OF emits_bound_exceeded] later [unfolded emits_def])
  from emits_whereD [OF this run] obtain es es1 es2 keep add bounds rest where
    log: "logged_events privileged log' = logged_events privileged log @ es" "es = keep @ es1" "es1 = add @ es2" "es2 = bounds @ rest"
    and parts: "map fst keep = [ProcCall (Libc_prctl_set_securebits SECBIT_KEEP_CAPS)]"
      "map fst add = (case sp_cap_permitted params of
         Some c \<Rightarrow> [ExtCall (Ext_cap_store_additive 0 0 (uint c))] | None \<Rightarrow> [])"
      "bounding (bound_exceeded S params) bounds" "map fst rest = privileged_sequence S params payload"
    by (elim exE conjE) (rule that; assumption)
  with log show ?thesis
    by (intro exI [of _ "keep @ add"] exI [of _ bounds] exI [of _ rest]) (simp add: keeping_calls_def)
qed

definition app_params :: spawn_params where
  "app_params = no_params\<lparr>sp_uid := Some 10123, sp_gid := Some 10123, sp_se_info := Some ''default'',
     sp_process_name := Some ''app'', sp_selinux_flags := Some 0\<rparr>"

definition app_payload :: spawn_payload where
  "app_payload = PayloadAndroidNative \<lparr>an_preloading_cmd = None, an_package = ''p'', an_start_seq = 1,
     an_target_sdk_version = 35, an_runtime_flags = 0, an_top_app = True\<rparr>"

lemma app_params_simps [simp]:
  "sp_uid app_params = Some 10123" "sp_gid app_params = Some 10123" "sp_se_info app_params = Some ''default''"
  "sp_process_name app_params = Some ''app''" "sp_selinux_flags app_params = Some 0"
  "sp_no_new_privs app_params = None" "sp_cap_permitted app_params = None" "sp_cap_bound app_params = None"
  "sp_cap_effective app_params = None" "sp_cap_inheritable app_params = None"
  "sp_secondary_groups app_params = []" "sp_rlimits app_params = []"
  by (simp_all add: app_params_def no_params_def)

lemma quiet_simps [simp]:
  "kernel quiet_env c w = (\<lparr>retval = 0, errno_after = 0, outval = NoOut\<rparr>, w)"
  "debug_assertions quiet_env = False"
  "is_exec_spawning quiet_host = False" "arg_capacity quiet_host = None"
  by (simp_all add: quiet_env_def quiet_host_def)

lemma small_cstr: "cstr_until_nul (zero_padded BUFFER_SIZE_STRINGS ''default'') = Some ''default''"
    "cstr_until_nul (zero_padded BUFFER_SIZE_STRINGS ''app'') = Some ''app''"
  by (rule cstr_until_nul_zero_padded; simp)+

text \<open>An application that may use capability 1 and is to lose capability 2, which the process has.\<close>

definition bounded_env :: "unit env" where
  "bounded_env = quiet_env\<lparr>kernel := (\<lambda>c w. (\<lparr>retval = (case c of ExtCall (Ext_cap_within_bound cap) \<Rightarrow> 1 | _ \<Rightarrow> 0),
     errno_after = 0, outval = NoOut\<rparr>, w))\<rparr>"

abbreviation bounded_params :: spawn_params where
  "bounded_params \<equiv> app_params\<lparr>sp_cap_permitted := Some 2, sp_cap_bound := Some 3\<rparr>"

abbreviation bounded_host :: host where "bounded_host \<equiv> quiet_host\<lparr>cap_all_flags := 7\<rparr>"

lemma bounded_simps [simp]:
  "kernel bounded_env c w = (\<lparr>retval = (case c of ExtCall (Ext_cap_within_bound cap) \<Rightarrow> 1 | _ \<Rightarrow> 0), errno_after = 0,
     outval = NoOut\<rparr>, w)"
  "debug_assertions bounded_env = False" "cap_known quiet_host cap \<longleftrightarrow> cap < 41" "target_android quiet_host"
  by (simp_all add: bounded_env_def quiet_env_def quiet_host_def)

lemma bounded_exceeded: "dropped_capabilities 7 3 = [2]" "bound_exceeded bounded_host bounded_params = [2]"
  by (simp_all add: dropped_capabilities_def bound_exceeded_def upt_conv_Cons)

theorem re_initialize_order_witness:
  "\<exists>log'. re_initialize (logged bounded_env) bounded_host AndroidNative (ReInitAndroidNative 0) bounded_params app_payload ((), [])
       = ((Ok () :: (unit, unit) outcome), ((), log'))
     \<and> calls privileged log' =
         [ProcCall (Libc_prctl_set_securebits SECBIT_KEEP_CAPS), ExtCall (Ext_cap_store_additive 0 0 2),
          ExtCall (Ext_cap_within_bound 2), ExtCall (Ext_cap_drop_bound 2),
          CredCall (Libc_setresgid 10123 10123 10123), ExtCall Ext_set_app_seccomp_filter,
          CredCall (Libc_setresuid 10123 10123 10123), ExtCall Ext_cap_load,
          ExtCall (Ext_cap_store_overwrite None (Some 2) None),
          ExtCall (Ext_selinux_setcontext 10123 False ''default'' ''app'' 0)]"
proof -
  obtain log' where run: "re_initialize (logged bounded_env) bounded_host AndroidNative (ReInitAndroidNative 0)
      bounded_params app_payload ((), []) = ((Ok () :: (unit, unit) outcome), ((), log'))"
    and answers: "\<forall>cap r. (ExtCall (Ext_cap_within_bound cap), r) \<in> set log' \<longrightarrow> r = 1"
    by (simp add: re_initialize_def set_new_process_name_def keep_capabilities_def debug_assert_single_threaded_def
        when_do_def sys_prctl_set_name_def sys_prctl_set_securebits_def sys_mallopt_def sys_getuid_def sys_getpid_def
        set_cpuset_policy_def set_sched_policy_def set_selinux_context_def sys_setresgid_def sys_setresuid_def
        expect_some_def as_android_native_def logging_errors_def into_buffer_def small_cstr cstring_new_def
        app_payload_def ext_def ext_expect_def expect_def checked_call_def kernel_logged check_defs drop_bound_def
        bounded_exceeded and_then_def match_result_def invoke_def of_outcome_def ok_def)
  from re_initialize_order [OF run] obtain keeping bounds rest where
    es: "logged_events privileged log' = keeping @ bounds @ rest" and
    parts: "map fst keeping = keeping_calls bounded_params" "bounding [2] bounds"
      "map fst rest = privileged_sequence bounded_host bounded_params app_payload"
    by (auto simp: bounded_exceeded)
  have "bounds \<noteq> [(ExtCall (Ext_cap_within_bound 2), 0)]"
  proof
    assume "bounds = [(ExtCall (Ext_cap_within_bound 2), 0)]"
    with es have "(ExtCall (Ext_cap_within_bound 2), 0) \<in> set (logged_events privileged log')" by simp
    with answers [rule_format, of 2 0] show False by (simp add: logged_events_def)
  qed
  with parts(2) have "map fst bounds = [ExtCall (Ext_cap_within_bound 2), ExtCall (Ext_cap_drop_bound 2)]"
    by (auto elim!: bounding_Cons bounding_Nil)
  with run es parts(1,3) show ?thesis
    by (simp add: calls_def keeping_calls_def privileged_sequence_def id_calls_def seccomp_calls_def context_calls_def
        small_cstr app_payload_def)
qed

section \<open>The two names\<close>

fun naming :: "syscall \<Rightarrow> bool" where
  "naming (ProcCall (Libc_prctl_set_name _)) = True"
| "naming (ExtCall (Ext_write_argv0 _ _)) = True"
| "naming _ = False"

lemma argv0_cstr:
  assumes "0 < capacity" and "NUL \<notin> set name"
  shows "cstr_until_nul (argv0_contents capacity name) = Some (take (capacity - 1) name)"
proof -
  obtain rest where rest: "argv0_contents capacity name = take (capacity - 1) name @ NUL # rest"
  proof (cases "length name \<le> capacity - 1")
    case True
    then have "replicate (capacity - length name) NUL = NUL # replicate (capacity - length name - 1) NUL"
      using assms(1) by (cases "capacity - length name") auto
    with True that show ?thesis by (simp add: argv0_contents_def)
  next
    case False
    with assms(1) that [of "[]"] show ?thesis by (simp add: argv0_contents_def)
  qed
  have "takeWhile (\<lambda>c. c \<noteq> NUL) (take (capacity - 1) name @ NUL # rest) = take (capacity - 1) name"
    using assms(2) by (subst takeWhile_append2) (auto dest: in_set_takeD)
  then show ?thesis by (simp add: rest cstr_until_nul_def)
qed

text \<open>
  Renaming sets the thread name to the last 15 bytes of the name and overwrites the argument
  region with exactly its capacity in bytes: what is read back as \<^verbatim>\<open>argv[0]\<close> is the name, cut to
  leave room for the terminator, and nothing of the old arguments is left.
\<close>

theorem set_new_process_name_bounds:
  assumes run: "set_new_process_name (logged E) S name (w, log) = ((Ok () :: (unit, 'e) outcome), (w', log'))"
    and region: "arg_capacity S = Some capacity" and content: "NUL \<notin> set name"
  shows "calls naming log' = calls naming log
      @ [ProcCall (Libc_prctl_set_name (zero_padded TASK_COMM_LEN (drop (length name - 15) name))),
         ExtCall (Ext_write_argv0 (argv0_contents capacity name) capacity)]
    \<and> length (argv0_contents capacity name) = capacity
    \<and> cstr_until_nul (argv0_contents capacity name) = Some (take (capacity - 1) name)
    \<and> cstr_until_nul (zero_padded TASK_COMM_LEN (drop (length name - 15) name)) = Some (drop (length name - 15) name)"
proof -
  have positive: "0 < capacity"
    using run region by (cases "capacity = 0") (auto simp: set_new_process_name_def Let_def and_then_eq_Ok_iff)
  have "emits naming (set_new_process_name (logged E) S name :: (_, unit, 'e) prog)
      [ProcCall (Libc_prctl_set_name (zero_padded TASK_COMM_LEN (drop (length name - 15) name))),
       ExtCall (Ext_write_argv0 (argv0_contents capacity name) capacity)]"
    using positive unfolding set_new_process_name_def Let_def region option.case sys_prctl_set_name_def
    by (simp, intro emits_eq [OF emits_and_then [OF emits_and_then [OF emits_invoke emits_ok]
          emits_and_then [OF emits_ext emits_when_do [OF emits_and_then [OF emits_ext emits_ok]]]]]) simp
  from emitsD [OF this run] have "calls naming log' = calls naming log
      @ [ProcCall (Libc_prctl_set_name (zero_padded TASK_COMM_LEN (drop (length name - 15) name))),
         ExtCall (Ext_write_argv0 (argv0_contents capacity name) capacity)]" .
  moreover have "length (argv0_contents capacity name) = capacity"
    using positive by (simp add: argv0_contents_def Let_def)
  moreover have "NUL \<notin> set (drop (length name - 15) name)" using content by (auto dest: in_set_dropD)
  then have "cstr_until_nul (zero_padded TASK_COMM_LEN (drop (length name - 15) name)) = Some (drop (length name - 15) name)"
    by (rule cstr_until_nul_zero_padded) simp
  ultimately show ?thesis using argv0_cstr [OF positive content] by simp
qed

theorem set_new_process_name_bounds_witness:
  "\<exists>log'. set_new_process_name (logged quiet_env) (quiet_host\<lparr>arg_capacity := Some 4\<rparr>) ''zygote'' ((), [])
       = ((Ok () :: (unit, unit) outcome), ((), log'))
     \<and> cstr_until_nul (argv0_contents 4 ''zygote'') = Some ''zyg''"
proof -
  let ?S = "quiet_host\<lparr>arg_capacity := Some 4\<rparr>"
  have region: "arg_capacity ?S = Some 4" by simp
  obtain log' where run: "set_new_process_name (logged quiet_env) ?S ''zygote'' ((), [])
      = ((Ok () :: (unit, unit) outcome), ((), log'))"
    by (simp add: set_new_process_name_def sys_prctl_set_name_def ext_def kernel_logged and_then_def
        match_result_def invoke_def ok_def when_do_def)
  from set_new_process_name_bounds [OF run region] run show ?thesis by simp
qed

end
