(* ===== verification/Config.thy ===== *)
theory Config
  imports Species_Life
begin

text \<open>
  The configuration of a server (\<^verbatim>\<open>zygote/src/config.rs\<close>), the level parsers and the one-time
  initialization of \<^verbatim>\<open>zygote-core\<close>, and the command line front ends that build messages. Argument
  parsing itself is the \<^verbatim>\<open>clap\<close> crate's; here are the values it fills in and what the sources
  compute from them.
\<close>

section \<open>Levels\<close>

datatype level = Off | Error | Warn | Info | Debug | Trace

fun level_rank :: "level \<Rightarrow> nat" where
  "level_rank Off = 0"
| "level_rank Error = 1"
| "level_rank Warn = 2"
| "level_rank Info = 3"
| "level_rank Debug = 4"
| "level_rank Trace = 5"

lemma level_rank_inj: "level_rank a = level_rank b \<Longrightarrow> a = b"
  by (cases a; cases b) simp_all

instantiation level :: linorder
begin

definition less_eq_level :: "level \<Rightarrow> level \<Rightarrow> bool" where
  "less_eq_level a b \<longleftrightarrow> level_rank a \<le> level_rank b"

definition less_level :: "level \<Rightarrow> level \<Rightarrow> bool" where
  "less_level a b \<longleftrightarrow> level_rank a < level_rank b"

instance
  by standard (auto simp: less_eq_level_def less_level_def dest: level_rank_inj)

end

datatype core_error = InvalidLogLevel string | InvalidTraceLevel string

text \<open>Both parsers try the names of the \<^verbatim>\<open>log\<close> or \<^verbatim>\<open>tracing\<close> crate first (\<open>from_str\<close>), then digits.\<close>

definition level_digit :: "string \<Rightarrow> level option" where
  "level_digit s =
     (if s = ''0'' then Some Off else if s = ''1'' then Some Error else if s = ''2'' then Some Warn
      else if s = ''3'' then Some Info else if s = ''4'' then Some Debug else if s = ''5'' then Some Trace
      else None)"

definition log_level_parser :: "(string \<Rightarrow> level option) \<Rightarrow> string \<Rightarrow> (level, core_error) outcome" where
  "log_level_parser from_str arg =
     (case from_str arg of
        Some l \<Rightarrow> Ok l
      | None \<Rightarrow> (case level_digit arg of Some l \<Rightarrow> Ok l | None \<Rightarrow> Err (InvalidLogLevel arg)))"

definition trace_level_parser :: "(string \<Rightarrow> level option) \<Rightarrow> string \<Rightarrow> (level, core_error) outcome" where
  "trace_level_parser from_str arg =
     (case from_str arg of
        Some l \<Rightarrow> Ok l
      | None \<Rightarrow> (case level_digit arg of Some l \<Rightarrow> Ok l | None \<Rightarrow> Err (InvalidTraceLevel arg)))"

lemma show_digits:
  "show_nat 0 = ''0''" "show_nat 1 = ''1''" "show_nat (Suc 0) = ''1''" "show_nat 2 = ''2''" "show_nat 3 = ''3''"
  "show_nat 4 = ''4''" "show_nat 5 = ''5''"
  by (simp_all add: show_nat.simps digit_char_def char_of_def bit_0)

lemma level_digit_rank: "level_digit s = Some l \<longleftrightarrow> s = show_nat (level_rank l)"
  by (cases l) (auto simp: level_digit_def show_digits)

lemma level_digit_None: "level_digit s = None \<longleftrightarrow> s \<notin> show_nat ` {0..5}"
proof -
  have "{0..5 :: nat} = {0, 1, 2, 3, 4, 5}" by auto
  then show ?thesis by (auto simp: level_digit_def show_digits)
qed

text \<open>
  Numeric levels are ranks: an argument that is not a name known to the logging crate is
  accepted exactly when it is the decimal rank of a level, and gives that level; so a larger digit
  is a more verbose level, and everything else is the error that carries the argument.
\<close>

theorem log_level_digits:
  assumes "from_str arg = None"
  shows "(log_level_parser from_str arg = Ok l \<longleftrightarrow> arg = show_nat (level_rank l))
    \<and> (log_level_parser from_str arg = Err (InvalidLogLevel arg) \<longleftrightarrow> arg \<notin> show_nat ` {0..5})
    \<and> (level_rank l < level_rank l' \<longleftrightarrow> l < l')"
proof (cases "level_digit arg")
  case None
  then have "arg \<noteq> show_nat (level_rank l)" by (metis level_digit_rank option.distinct(1))
  moreover from None have "arg \<notin> show_nat ` {0..5}" by (simp only: level_digit_None not_False_eq_True)
  ultimately show ?thesis using assms None by (simp add: log_level_parser_def less_level_def)
next
  case (Some k)
  then have "arg = show_nat (level_rank l) \<longleftrightarrow> k = l" by (metis level_digit_rank option.inject)
  moreover from Some have "arg \<in> show_nat ` {0..5}" by (metis level_digit_None option.distinct(1))
  ultimately show ?thesis using assms Some by (simp add: log_level_parser_def less_level_def)
qed

theorem log_level_digits_witness:
  "log_level_parser (\<lambda>_. None) ''3'' = Ok Info \<and> log_level_parser (\<lambda>_. None) ''6'' = Err (InvalidLogLevel ''6'')"
proof -
  have "level_digit ''6'' = None" by (simp add: level_digit_def)
  then have "''6'' \<notin> show_nat ` {0..5}" by (simp only: level_digit_None not_False_eq_True)
  then show ?thesis
    using log_level_digits [of "\<lambda>_. None" "''3''" Info] log_level_digits [of "\<lambda>_. None" "''6''" Info]
    by (simp add: show_digits)
qed

text \<open>
  \<^verbatim>\<open>init_reporting\<close> may run once: the flag is the state, and setting the logger up is the
  business of the \<^verbatim>\<open>logger\<close> and \<^verbatim>\<open>tracing\<close> crates.
\<close>

definition init_reporting :: "(bool \<times> 'w, unit, 'e) prog" where
  "init_reporting = (\<lambda>(initialized, w).
     if initialized then (Panic ''Reporting initialization invoked multiple times'', (True, w)) else (Ok (), (True, w)))"

definition init_reporting_for_testing :: "(bool \<times> 'w, unit, 'e) prog" where
  "init_reporting_for_testing = (\<lambda>(initialized, w). (Ok (), (True, w)))"

section \<open>The configuration of a server\<close>

record config =
  cfg_command_fd :: "string option"
  cfg_name :: string
  cfg_preload_gid :: "int option"
  cfg_preload_libraries :: "string list"
  cfg_preload_uid :: "int option"
  cfg_socket :: "string option"
  cfg_species :: species_tag
  cfg_selinux_flags :: "64 word option"
  cfg_uid :: "int option"
  cfg_gid :: "int option"
  cfg_process_name :: "string option"
  cfg_priority_initial :: "int option"
  cfg_priority_final :: "int option"
  cfg_secondary_groups :: "int list"

definition SOCKET_DIR_DEV :: string where "SOCKET_DIR_DEV = ''/dev/socket''"
definition SOCKET_DIR_TMP :: string where "SOCKET_DIR_TMP = ''/tmp/socket''"

definition get_socket_dir :: "'w env \<Rightarrow> ('w, string, 'e) prog" where
  "get_socket_dir E =
     match_result (have_write_permissions E SOCKET_DIR_DEV)
       (\<lambda>writable. ok (if writable then SOCKET_DIR_DEV else SOCKET_DIR_TMP))
       (\<lambda>_. ok SOCKET_DIR_TMP)"

definition config_socket :: "'w env \<Rightarrow> config \<Rightarrow> ('w, string, 'e) prog" where
  "config_socket E config =
     (case cfg_socket config of
        Some socket \<Rightarrow> ok socket
      | None \<Rightarrow>
          and_then (get_socket_env_var E (cfg_species config) (cfg_name config)) (\<lambda>var.
            case var of
              Some socket \<Rightarrow> ok socket
            | None \<Rightarrow> and_then (get_socket_dir E) (\<lambda>dir. ok (dir @ ''/'' @ cfg_name config))))"

text \<open>The vector of groups is collected into a fixed capacity.\<close>

definition config_to_spawn_params :: "config \<Rightarrow> (spawn_params, 'e) outcome" where
  "config_to_spawn_params config =
     bind_outcome (arrayvec_collect GID_VECTOR_SIZE (cfg_secondary_groups config)) (\<lambda>groups.
       Ok \<lparr>sp_selinux_flags = cfg_selinux_flags config, sp_no_new_privs = None, sp_uid = cfg_uid config,
           sp_gid = cfg_gid config, sp_process_name = cfg_process_name config,
           sp_priority_initial = cfg_priority_initial config, sp_priority_final = cfg_priority_final config,
           sp_cap_effective = None, sp_cap_permitted = None, sp_cap_inheritable = None, sp_cap_bound = None,
           sp_se_info = None, sp_secondary_groups = groups, sp_rlimits = []\<rparr>)"

section \<open>Command line front ends\<close>

text \<open>\<^verbatim>\<open>SpawnCommonParser\<close>, whose fields the launcher shares.\<close>

record spawn_common_args =
  sca_selinux_flags :: "64 word option"
  sca_uid :: "int option"
  sca_gid :: "int option"
  sca_process_name :: "string option"
  sca_priority_initial :: "int option"
  sca_priority_final :: "int option"
  sca_secondary_groups :: "int list"
  sca_se_info :: "string option"

definition to_spawn_common :: "spawn_common_args \<Rightarrow> (spawn_params, 'e) outcome" where
  "to_spawn_common a =
     bind_outcome (arrayvec_collect GID_VECTOR_SIZE (sca_secondary_groups a)) (\<lambda>groups.
       Ok \<lparr>sp_selinux_flags = sca_selinux_flags a, sp_no_new_privs = None, sp_uid = sca_uid a, sp_gid = sca_gid a,
           sp_process_name = sca_process_name a, sp_priority_initial = sca_priority_initial a,
           sp_priority_final = sca_priority_final a, sp_cap_effective = None, sp_cap_permitted = None,
           sp_cap_inheritable = None, sp_cap_bound = None, sp_se_info = sca_se_info a,
           sp_secondary_groups = groups, sp_rlimits = []\<rparr>)"

datatype payload_args =
    AndroidNativeArgs string int int int bool
  | AndroidNativeSubspeciesArgs android_native_subspecies
  | LibAppArgs string "string list"
  | MockArgs string

fun to_spawn_payload :: "payload_args \<Rightarrow> (spawn_payload, message_error) outcome" where
  "to_spawn_payload (AndroidNativeArgs package start_seq target_sdk_version runtime_flags top_app) =
     Ok (PayloadAndroidNative \<lparr>an_preloading_cmd = None, an_package = package, an_start_seq = start_seq,
       an_target_sdk_version = target_sdk_version, an_runtime_flags = runtime_flags, an_top_app = top_app\<rparr>)"
| "to_spawn_payload (AndroidNativeSubspeciesArgs d) = Ok (PayloadAndroidNativeSubspecies d)"
| "to_spawn_payload (LibAppArgs path args) =
     bind_outcome (arrayvec_collect MESSAGE_ARG_BUFFER_MAX args) (\<lambda>args. Ok (PayloadLibApp path args))"
| "to_spawn_payload (MockArgs name) = Ok (PayloadMock name)"

text \<open>\<^verbatim>\<open>SpeciesRef::from(&SpawnPayloadParser)\<close>.\<close>

fun payload_species :: "payload_args \<Rightarrow> species_tag" where
  "payload_species (AndroidNativeArgs _ _ _ _ _) = AndroidNative"
| "payload_species (AndroidNativeSubspeciesArgs _) = AndroidNative"
| "payload_species (LibAppArgs _ _) = LibApp"
| "payload_species (MockArgs _) = Mock"

datatype message_args =
    ExitArgs
  | IdentityQueryArgs
  | SpawnArgs spawn_common_args payload_args
  | SpawnSubspeciesArgs spawn_common_args string payload_args
  | StatArgs

fun to_message :: "message_args \<Rightarrow> (zygote_message, message_error) outcome" where
  "to_message ExitArgs = Ok Exit"
| "to_message IdentityQueryArgs = Ok IdentityQuery"
| "to_message (SpawnArgs common payload) =
     bind_outcome (to_spawn_common common) (\<lambda>c.
     bind_outcome (to_spawn_payload payload) (\<lambda>p. Ok (Spawn c p)))"
| "to_message (SpawnSubspeciesArgs common socket_path payload) =
     bind_outcome (to_spawn_common common) (\<lambda>c.
     bind_outcome (to_spawn_payload payload) (\<lambda>p. Ok (SpawnSubspecies c socket_path p)))"
| "to_message StatArgs = Ok Stat"

text \<open>
  \<^verbatim>\<open>zygote_launch\<close> has arguments of its own: the same options in one structure with the payload.
  The message goes through the wire format inside one process, then the species of the payload
  runs it. The result is the exit status.
\<close>

record launch =
  la_selinux_flags :: "64 word option"
  la_log_level :: level
  la_trace_level :: level
  la_payload :: payload_args
  la_uid :: "int option"
  la_gid :: "int option"
  la_process_name :: "string option"
  la_priority_initial :: "int option"
  la_priority_final :: "int option"
  la_se_info :: "string option"
  la_secondary_groups :: "int list"

definition launch_to_spawn_params :: "launch \<Rightarrow> (spawn_params, 'e) outcome" where
  "launch_to_spawn_params a =
     bind_outcome (arrayvec_collect GID_VECTOR_SIZE (la_secondary_groups a)) (\<lambda>groups.
       Ok \<lparr>sp_selinux_flags = la_selinux_flags a, sp_no_new_privs = None, sp_uid = la_uid a, sp_gid = la_gid a,
           sp_process_name = la_process_name a, sp_priority_initial = la_priority_initial a,
           sp_priority_final = la_priority_final a, sp_cap_effective = None, sp_cap_permitted = None,
           sp_cap_inheritable = None, sp_cap_bound = None, sp_se_info = la_se_info a,
           sp_secondary_groups = groups, sp_rlimits = []\<rparr>)"

definition launch_to_spawn_message :: "launch \<Rightarrow> (zygote_message, message_error) outcome" where
  "launch_to_spawn_message a =
     bind_outcome (launch_to_spawn_params a) (\<lambda>c.
     bind_outcome (to_spawn_payload (la_payload a)) (\<lambda>p. Ok (Spawn c p)))"

text \<open>The launcher sends what \<^verbatim>\<open>zygote_cli\<close> would send for the same options.\<close>

lemma launch_as_cli:
  "launch_to_spawn_message a =
     to_message (SpawnArgs
       \<lparr>sca_selinux_flags = la_selinux_flags a, sca_uid = la_uid a, sca_gid = la_gid a,
        sca_process_name = la_process_name a, sca_priority_initial = la_priority_initial a,
        sca_priority_final = la_priority_final a, sca_secondary_groups = la_secondary_groups a,
        sca_se_info = la_se_info a\<rparr> (la_payload a))"
  by (simp add: launch_to_spawn_message_def launch_to_spawn_params_def to_spawn_common_def)

definition launch_main :: "'w env \<Rightarrow> host \<Rightarrow> launch \<Rightarrow> ('w, int, message_error) prog" where
  "launch_main E S config =
     and_then (of_outcome (launch_to_spawn_message config)) (\<lambda>m.
     let bytes = fb_finished_data S (to_parcel m) in
     if MESSAGE_BUFFER_SIZE < length bytes then panic ''range end index out of range for slice of length 2048''
     else
       and_then (of_outcome (try_from_parcel (fb_root S) (cap_all_flags S) (zero_padded MESSAGE_BUFFER_SIZE bytes)))
         (\<lambda>spawn_message.
            case (get_spawn_params spawn_message, get_spawn_payload spawn_message) of
              (Some spawn_params, Some spawn_payload) \<Rightarrow> gestate E S (payload_species (la_payload config)) spawn_params spawn_payload
            | _ \<Rightarrow> panic ''called Option::unwrap() on a None value''))"

datatype cli_error = CliSys sys_error | CliMessage message_error | CliNoSocket

text \<open>\<^verbatim>\<open>zygote_cli\<close>: connect, send one command, read one response.\<close>

definition get_client_socket :: "'w env \<Rightarrow> string \<Rightarrow> ('w, int, cli_error) prog" where
  "get_client_socket E socket_str =
     and_then
       (case strip_prefix ''@'' socket_str of
          Some abs_socket_addr \<Rightarrow> map_err CliSys (of_outcome (abstract_socket_address abs_socket_addr AF_UNIX))
        | None \<Rightarrow>
            and_then (std_bool E (Std_path_exists socket_str)) (\<lambda>exists.
              if exists then map_err CliSys (of_outcome (bound_socket_address socket_str AF_UNIX))
              else fail CliNoSocket)) (\<lambda>socket_addr.
     and_then (map_err CliSys (sys_socket E AF_UNIX SOCK_SEQPACKET 0)) (\<lambda>client_socket.
     and_then (map_err CliSys (sys_connect E client_socket socket_addr)) (\<lambda>_. ok client_socket)))"

definition handle_command_transaction ::
  "'w env \<Rightarrow> host \<Rightarrow> string \<Rightarrow> int \<Rightarrow> ('w, zygote_message, cli_error) prog"
where
  "handle_command_transaction E S finished_data client_socket =
     and_then (map_err CliSys (sys_sendmsg E client_socket finished_data)) (\<lambda>_.
     and_then (map_err CliSys (sys_recvmsg E client_socket MESSAGE_BUFFER_SIZE)) (\<lambda>(_, response_buffer).
       map_err CliMessage (of_outcome (try_from_parcel (fb_root S) (cap_all_flags S) response_buffer))))"

definition cli_main :: "'w env \<Rightarrow> host \<Rightarrow> string \<Rightarrow> message_args \<Rightarrow> ('w, zygote_message, cli_error) prog" where
  "cli_main E S socket_str command =
     and_then (map_err CliMessage (of_outcome (to_message command))) (\<lambda>m.
     and_then (get_client_socket E socket_str) (\<lambda>client_socket.
     and_then (handle_command_transaction E S (fb_finished_data S (to_parcel m)) client_socket) (\<lambda>response.
     and_then (map_err CliSys (sys_close E client_socket)) (\<lambda>_. ok response))))"

end
