(* ===== verification/Server_State.thy ===== *)
theory Server_State
  imports Child_Process Fd_Actions Config
begin

unbundle bit_operations_syntax

text \<open>
  The state of \<^verbatim>\<open>Server\<close> in \<^verbatim>\<open>zygote/src/server.rs\<close>: its errors, the data it attaches to epoll
  events, the record itself, the invariant that its handlers rely on, and the programs over it.
  An operation of the server is a program over the pair of the server and the world.
\<close>

abbreviation BUFFER_SIZE_CLIENT_SOCKETS :: nat where "BUFFER_SIZE_CLIENT_SOCKETS \<equiv> 16"
abbreviation BUFFER_SIZE_EPOLL_EVENTS :: nat where "BUFFER_SIZE_EPOLL_EVENTS \<equiv> 32"
abbreviation SERVER_SOCKET_BACKLOG :: int where "SERVER_SOCKET_BACKLOG \<equiv> 10"

section \<open>Errors\<close>

datatype signal_handler_error =
    SigPoll sys_error
  | ProcessAccounting sys_error
  | SigRead sys_error
  | SetMask sys_error
  | SigSetFailure sys_error
  | SignalFdFailure sys_error

datatype server_socket_error =
    Accept sys_error
  | ClientRegistration fd_registry_error
  | Creation sys_error
  | DirectoryCreation int
  | Fstat sys_error
  | Listen sys_error
  | Metadata sys_error
  | PathExists string
  | PathHasNoParent string
  | SocketPoll sys_error
  | ProvidedFdNotOpenFile int
  | ProvidedFdNotSeqPacket int
  | ProvidedFdNotSocket int
  | TooManyClients "ucred option"

datatype client_error =
    CloseFailure int sys_error
  | IdentityQueryResponseFailure int sys_error
  | InvalidClientSocketFd int
  | MissingSpawnParams
  | MissingSpawnPayload
  | ClientPoll sys_error
  | ProcessCreationFailure int sys_error
  | ClientRead sys_error
  | RegistryUpdate fd_registry_error
  | Reinitialization
  | SpawnResponseFailure int sys_error
  | StatReadFailure int procfs_error
  | StatResponseFailure int sys_error

section \<open>Epoll data\<close>

datatype epoll_tag = ClientTag | ServerTag | SignalTag

record epoll_data =
  ed_fd :: int
  ed_class :: epoll_tag

datatype server_error =
    ClientFailure client_error
  | EffectivePermissionsFailure "int option" "int option" sys_error
  | EpollError epoll_data "32 word"
  | FdRegistryFailure fd_registry_error
  | InvalidEpollData "64 word"
  | PollError sys_error
  | ProcessGroupFailure sys_error
  | ServerSocketFailure server_socket_error
  | SignalHandlerFailure signal_handler_error

fun epoll_tag_value :: "epoll_tag \<Rightarrow> 64 word" where
  "epoll_tag_value ClientTag = 0"
| "epoll_tag_value ServerTag = 1"
| "epoll_tag_value SignalTag = 2"

text \<open>\<^verbatim>\<open>value.fd as u32 as u64 | (value.class as u64) << 32\<close>.\<close>

definition epoll_data_to_u64 :: "epoll_data \<Rightarrow> 64 word" where
  "epoll_data_to_u64 d = ucast (word_of_int (ed_fd d) :: 32 word) OR push_bit 32 (epoll_tag_value (ed_class d))"

text \<open>The class is read from \<^verbatim>\<open>(value >> 32) as i8\<close>, the descriptor from \<^verbatim>\<open>value as i32\<close>.\<close>

definition epoll_data_try_from :: "64 word \<Rightarrow> (epoll_data, server_error) outcome" where
  "epoll_data_try_from v =
     (let fd = sint (ucast v :: 32 word); class = ucast (drop_bit 32 v) :: 8 word in
      if class = 0 then Ok \<lparr>ed_fd = fd, ed_class = ClientTag\<rparr>
      else if class = 1 then Ok \<lparr>ed_fd = fd, ed_class = ServerTag\<rparr>
      else if class = 2 then Ok \<lparr>ed_fd = fd, ed_class = SignalTag\<rparr>
      else Err (InvalidEpollData v))"

definition epoll_data_new :: "int \<Rightarrow> epoll_tag \<Rightarrow> epoll_data" where
  "epoll_data_new fd class = \<lparr>ed_fd = fd, ed_class = class\<rparr>"

text \<open>The slots of the event buffer before the kernel fills them: \<^verbatim>\<open>EpollEvent::new(0, u64::MAX)\<close>.\<close>

definition BLANK_EVENT :: epoll_event where "BLANK_EVENT = (0, - 1)"

lemma sint_word_of_int_i32: "- (2 ^ 31) \<le> i \<Longrightarrow> i < 2 ^ 31 \<Longrightarrow> sint (word_of_int i :: 32 word) = i"
  by (simp add: signed_of_int signed_take_bit_int_eq_self)

lemma low_half:
  fixes f :: "32 word" and c :: "64 word"
  shows "ucast (ucast f OR push_bit 32 c :: 64 word) = f"
  by (rule bit_word_eqI) (simp add: bit_simps)

lemma high_half:
  fixes f :: "32 word" and c :: "64 word"
  assumes "c = 0 \<or> c = 1 \<or> c = 2"
  shows "drop_bit 32 (ucast f OR push_bit 32 c :: 64 word) = c"
proof -
  have "drop_bit 32 (ucast f :: 64 word) = 0"
    by (rule bit_word_eqI) (auto simp: bit_simps dest: bit_imp_le_length)
  moreover have "drop_bit 32 (push_bit 32 c) = c" using assms by auto
  ultimately show ?thesis by simp
qed

text \<open>
  Epoll data survives the kernel: what the server stores with a descriptor is read back as
  that descriptor and class, so a readiness report can only lead to the handler of the class the
  descriptor was added with; a value is refused exactly when its fifth byte names no class, and
  the filler of unused buffer slots is such a value.
\<close>

theorem epoll_data_roundtrip:
  assumes "- (2 ^ 31) \<le> ed_fd d" and "ed_fd d < 2 ^ 31"
  shows "epoll_data_try_from (epoll_data_to_u64 d) = Ok d
    \<and> (epoll_data_try_from v = Err (InvalidEpollData v) \<longleftrightarrow> (ucast (drop_bit 32 v) :: 8 word) \<notin> {0, 1, 2})
    \<and> epoll_data_try_from (snd BLANK_EVENT) = Err (InvalidEpollData (- 1))"
proof -
  have tag: "drop_bit 32 (epoll_data_to_u64 d) = epoll_tag_value (ed_class d)"
    unfolding epoll_data_to_u64_def by (rule high_half) (cases "ed_class d"; simp)
  have fd: "sint (ucast (epoll_data_to_u64 d) :: 32 word) = ed_fd d"
    unfolding epoll_data_to_u64_def low_half using assms by (rule sint_word_of_int_i32)
  have "epoll_data_try_from (epoll_data_to_u64 d) = Ok d"
    by (cases d; cases "ed_class d") (use tag fd in \<open>auto simp: epoll_data_try_from_def\<close>)
  moreover have "(ucast (drop_bit 32 (- 1 :: 64 word)) :: 8 word) = - 1"
    by (rule bit_word_eqI) (simp add: bit_simps)
  ultimately show ?thesis by (auto simp: epoll_data_try_from_def BLANK_EVENT_def Let_def)
qed

theorem epoll_data_roundtrip_witness:
  "epoll_data_try_from (epoll_data_to_u64 (epoll_data_new (- 1) SignalTag)) = Ok (epoll_data_new (- 1) SignalTag)"
  using epoll_data_roundtrip [of "epoll_data_new (- 1) SignalTag"] by (simp add: epoll_data_new_def)

section \<open>The server\<close>

record server =
  srv_name :: string
  srv_species :: species_tag
  srv_pid :: int
  srv_registry :: registry
  srv_epoll_handle :: "int option"
  srv_signal_fd :: "int option"
  srv_server_socket :: "int option"
  srv_client_sockets :: "int list"
  srv_server_socket_path :: "string option"
  srv_preload_uid :: "int option"
  srv_preload_gid :: "int option"
  srv_spawn_params :: spawn_params

text \<open>What the closure that a forked child runs once the server is dropped has captured.\<close>

record child_thunk =
  th_species :: species_tag
  th_re_init_data :: reinit_data
  th_spawn_params :: spawn_params
  th_message :: string

datatype server_control = PollBreak | PollContinue | Shutdown | Trampoline child_thunk

type_synonym ('w, 'a, 'e) srv_prog = "(server \<times> 'w, 'a, 'e) prog"

text \<open>\<^verbatim>\<open>ServerControlResult<T, ClientError>\<close> as a value inside \<^verbatim>\<open>LoopControl\<close>.\<close>

type_synonym control_result = "client_error + server_control"

definition capture :: "('s, 'a, 'e) prog \<Rightarrow> ('s, 'e + 'a, 'f) prog" where
  "capture m = match_result m (\<lambda>x. ok (Inr x)) (\<lambda>e. ok (Inl e))"

text \<open>A program over the registry of the server.\<close>

definition on_registry :: "(registry \<times> 'w, 'a, 'e) prog \<Rightarrow> ('w, 'a, 'e) srv_prog" where
  "on_registry m = (\<lambda>(srv, w). case m (srv_registry srv, w) of (r, (reg', w')) \<Rightarrow>
     (r, (srv\<lparr>srv_registry := reg'\<rparr>, w')))"

definition get_server :: "('w, server, 'e) srv_prog" where
  "get_server = gets fst"

definition update_server :: "(server \<Rightarrow> server) \<Rightarrow> ('w, unit, 'e) srv_prog" where
  "update_server f = modify (\<lambda>(srv, w). (f srv, w))"

text \<open>\<^verbatim>\<open>Option::unwrap\<close>.\<close>

definition unwrap :: "'a option \<Rightarrow> ('s, 'a, 'e) prog" where
  "unwrap x = expect_some ''called `Option::unwrap()` on a `None` value'' x"

text \<open>
  A value whose destructor \<open>d\<close> runs when \<open>m\<close> leaves the scope, by return or by unwinding; a
  panic of the destructor replaces the result.
\<close>

definition dropping :: "('s, 'a, 'e) prog \<Rightarrow> ('s, unit, 'e) prog \<Rightarrow> ('s, 'a, 'e) prog" where
  "dropping m d = (\<lambda>s. case m s of (r, s') \<Rightarrow>
     (case r of
        Diverges \<Rightarrow> (Diverges, s')
      | Panic p \<Rightarrow> (Panic p, snd (d s'))
      | _ \<Rightarrow> and_then d (\<lambda>_. of_outcome r) s'))"

subsection \<open>The invariant\<close>

text \<open>
  The registry is well-formed, and the client sockets fit their vector, are distinct and have an
  open entry in the registry.
\<close>

definition server_inv :: "server \<Rightarrow> bool" where
  "server_inv srv \<longleftrightarrow> reg_inv (srv_registry srv)
     \<and> length (srv_client_sockets srv) \<le> BUFFER_SIZE_CLIENT_SOCKETS
     \<and> distinct (srv_client_sockets srv)
     \<and> (\<forall>fd \<in> set (srv_client_sockets srv).
          \<exists>e. table_find (reg_data (srv_registry srv)) fd = Some e \<and> \<not> fd_entry_closed e)"

lemma on_registry_run: "m (srv_registry srv, w) = (r, (reg', w')) \<Longrightarrow>
    on_registry m (srv, w) = (r, (srv\<lparr>srv_registry := reg'\<rparr>, w'))"
  by (simp add: on_registry_def)

lemma on_registry_eq_iff: "on_registry m (srv, w) = (r, t) \<longleftrightarrow>
    (\<exists>reg' w'. m (srv_registry srv, w) = (r, (reg', w')) \<and> t = (srv\<lparr>srv_registry := reg'\<rparr>, w'))"
  by (auto simp: on_registry_def split: prod.splits)

lemma and_then_get_server [simp]: "and_then get_server f (srv, w) = f srv (srv, w)"
  by (simp add: get_server_def)

lemma update_server_eq [simp]: "update_server f (srv, w) = (r, t) \<longleftrightarrow> r = Ok () \<and> t = (f srv, w)"
  by (auto simp: update_server_def)

lemma and_then_update_server [simp]: "and_then (update_server f) g (srv, w) = g () (f srv, w)"
  by (simp add: and_then_def match_result_def update_server_def modify_def)

lemma unwrap_simps [simp]:
  "unwrap (Some x) = ok x" "unwrap None = panic ''called `Option::unwrap()` on a `None` value''"
  by (simp_all add: unwrap_def expect_some_def)

lemma capture_run [prog_simps]:
  "m s = (Ok x, s') \<Longrightarrow> capture m s = (Ok (Inr x), s')"
  "m s = (Err e, s') \<Longrightarrow> capture m s = (Ok (Inl e), s')"
  "m s = (Panic p, s') \<Longrightarrow> capture m s = (Panic p, s')"
  by (simp_all add: capture_def match_result_def ok_def)

end
