(* ===== verification/Server_Socket.thy ===== *)
theory Server_Socket
  imports Server_State
begin

text \<open>
  How the server gets the socket it listens on (\<^verbatim>\<open>Server::get_server_socket\<close>): the argument is a
  descriptor number, an abstract name after \<^verbatim>\<open>@\<close>, or a path. \<^verbatim>\<open>Path::parent\<close> of the standard
  library is written out on strings.
\<close>

section \<open>\<^verbatim>\<open>Path::parent\<close>\<close>

text \<open>
  The components of a path are read from its end; a trailing separator and a \<^verbatim>\<open>.\<close> that does not
  start the path count for nothing.
\<close>

abbreviation SEP :: char where "SEP \<equiv> CHR 0x2F"

definition last_component :: "string \<Rightarrow> string" where
  "last_component body = rev (takeWhile (\<lambda>c. c \<noteq> SEP) (rev body))"

definition drop_component :: "string \<Rightarrow> string" where
  "drop_component body =
     take (length body - (length (last_component body) + (if SEP \<in> set body then 1 else 0))) body"

lemma drop_component_shorter: "body \<noteq> [] \<Longrightarrow> length (drop_component body) < length body"
proof -
  assume "body \<noteq> []"
  moreover have "length (last_component body) = length body" if "SEP \<notin> set body"
  proof -
    have "takeWhile (\<lambda>c. c \<noteq> SEP) (rev body) = rev body"
      unfolding takeWhile_eq_all_conv using that by auto
    then have "last_component body = body" by (simp only: last_component_def rev_rev_ident)
    then show ?thesis by simp
  qed
  ultimately show ?thesis by (simp add: drop_component_def)
qed

function trim_right :: "string \<Rightarrow> string" where
  "trim_right body =
     (if body \<noteq> [] \<and> (last_component body = [] \<or> last_component body = ''.'')
      then trim_right (drop_component body) else body)"
  by pat_completeness auto
termination
  by (relation "measure length") (auto simp: drop_component_shorter)

declare trim_right.simps [simp del]

definition path_parent :: "string \<Rightarrow> string option" where
  "path_parent s =
     (let head_len = (if s \<noteq> [] \<and> (hd s = SEP \<or> s = ''.'' \<or> take 2 s = [CHR ''.'', SEP]) then 1 else 0);
          head = take head_len s; body = trim_right (drop head_len s) in
      if body \<noteq> [] then Some (head @ trim_right (drop_component body))
      else if head = ''.'' then Some [] else None)"

section \<open>The socket\<close>

definition open_provided_socket :: "'w env \<Rightarrow> int \<Rightarrow> ('w, int \<times> string option, server_socket_error) prog" where
  "open_provided_socket E fd =
     and_then (std_bool E (Std_path_exists (get_proc_fd_path fd))) (\<lambda>exists.
     if \<not> exists then fail (ProvidedFdNotOpenFile fd)
     else
       and_then (map_err Fstat (sys_fstat E fd)) (\<lambda>stat.
       if get_file_type stat \<noteq> S_IFSOCK then fail (ProvidedFdNotSocket fd)
       else
         and_then (map_err Metadata (sys_get_socket_type E fd)) (\<lambda>ty.
         if ty \<noteq> SOCK_SEQPACKET then fail (ProvidedFdNotSeqPacket fd)
         else
           and_then (map_err Metadata (sys_fcntl_setfl E fd O_NONBLOCK)) (\<lambda>_.
           and_then (map_err Listen (sys_listen E fd SERVER_SOCKET_BACKLOG)) (\<lambda>_.
             ok (fd, None))))))"

definition create_path_socket :: "'w env \<Rightarrow> string \<Rightarrow> ('w, int \<times> string option, server_socket_error) prog" where
  "create_path_socket E path =
     and_then (std_bool E (Std_path_exists path)) (\<lambda>exists.
     if exists then fail (PathExists path)
     else
       and_then (case path_parent path of Some parent \<Rightarrow> ok parent | None \<Rightarrow> fail (PathHasNoParent path)) (\<lambda>parent.
       and_then (invoke E (StdCall (Std_create_dir_all parent))) (\<lambda>r.
       if retval r = - 1 then fail (DirectoryCreation (errno_after r))
       else
         and_then (map_err Creation (create_bound_socket E path SOCK_SEQPACKET)) (\<lambda>socket_fd.
           ok (socket_fd, Some path)))))"

definition get_server_socket :: "'w env \<Rightarrow> string \<Rightarrow> ('w, int \<times> string option, server_socket_error) prog" where
  "get_server_socket E socket_path_or_fd =
     (case parse_i32 socket_path_or_fd of
        Some fd \<Rightarrow> open_provided_socket E fd
      | None \<Rightarrow>
          and_then
            (case strip_prefix ''@'' socket_path_or_fd of
               Some abs_socket_addr \<Rightarrow>
                 and_then (map_err Creation (create_abstract_socket E abs_socket_addr SOCK_SEQPACKET))
                   (\<lambda>socket_fd. ok (socket_fd, None))
             | None \<Rightarrow> create_path_socket E socket_path_or_fd) (\<lambda>(socket_fd, server_socket_path).
          and_then (map_err Metadata (sys_fcntl_setfl E socket_fd O_NONBLOCK)) (\<lambda>_.
          and_then (map_err Listen (sys_listen E socket_fd SERVER_SOCKET_BACKLOG)) (\<lambda>_.
            ok (socket_fd, server_socket_path)))))"

section \<open>Which sockets the server listens on\<close>

abbreviation every_call :: "syscall \<Rightarrow> bool" where "every_call \<equiv> \<lambda>_. True"

lemma logged_step:
  "kernel (logged E) c (w, log) = (r, (w', log')) \<longleftrightarrow> kernel E c w = (r, w') \<and> log' = log @ [(c, retval r)]"
  by (auto simp: kernel_logged split: prod.splits)

lemma logged_stepE:
  assumes "kernel (logged E) c s = (r, t)"
  obtains "calls every_call (snd t) = calls every_call (snd s) @ [c]"
  using assms by (cases s; cases t) (auto simp: logged_step)

lemma checked_logged:
  "checked_call (logged E) c check s = (x, t) \<Longrightarrow> calls every_call (snd t) = calls every_call (snd s) @ [c]"
  by (auto simp: checked_call_eq_iff elim: logged_stepE)

lemma std_bool_logged:
  "std_bool (logged E) c s = (x, t) \<Longrightarrow> calls every_call (snd t) = calls every_call (snd s) @ [StdCall c]"
  by (auto simp: std_bool_def and_then_def match_result_def invoke_def ok_def split: prod.splits elim: logged_stepE)

abbreviation listening :: "int \<Rightarrow> syscall list" where
  "listening fd \<equiv> [FdCall (Libc_fcntl_setfl fd O_NONBLOCK), SockCall (Libc_listen fd SERVER_SOCKET_BACKLOG)]"

abbreviation binding :: "int \<Rightarrow> socket_addr \<Rightarrow> syscall list" where
  "binding fd addr \<equiv> [SockCall (Libc_socket AF_UNIX SOCK_SEQPACKET 0),
     SockCall (Libc_bind fd (address addr) (socklen addr))]"

lemma provided_socket_calls:
  assumes "open_provided_socket (logged E) n s = (Ok (fd, path), t)"
  shows "fd = n \<and> path = None \<and> calls every_call (snd t) = calls every_call (snd s)
    @ [StdCall (Std_path_exists (get_proc_fd_path n)), FdCall (Libc_fstat n),
       SockCall (Libc_getsockopt n SOL_SOCKET SO_TYPE)] @ listening n"
  using assms
  by (auto simp: open_provided_socket_def and_then_eq_Ok_iff sys_fstat_def sys_get_socket_type_def sys_getsockopt_def
      sys_fcntl_setfl_def sys_listen_def split: if_splits dest!: checked_logged std_bool_logged)

lemma bind_calls:
  assumes "and_then (sys_socket (logged E) AF_UNIX SOCK_SEQPACKET 0) (\<lambda>socket_fd.
      and_then (of_outcome r) (\<lambda>socket_addr.
      and_then (sys_bind (logged E) socket_fd socket_addr) (\<lambda>_. ok socket_fd))) s = (Ok fd, t)"
  shows "\<exists>addr. r = Ok addr \<and> calls every_call (snd t) = calls every_call (snd s) @ binding fd addr"
proof -
  from assms obtain addr s1 where "r = Ok addr" "sys_socket (logged E) AF_UNIX SOCK_SEQPACKET 0 s = (Ok fd, s1)"
    "sys_bind (logged E) fd addr s1 = (Ok (), t)"
    by (auto simp: and_then_eq_Ok_iff)
  then show ?thesis by (auto simp: sys_socket_def sys_bind_def dest!: checked_logged)
qed

lemma abstract_socket_calls:
  assumes "create_abstract_socket (logged E) name SOCK_SEQPACKET s = (Ok fd, t)"
  shows "\<exists>addr. abstract_socket_address name AF_UNIX = Ok addr
    \<and> calls every_call (snd t) = calls every_call (snd s) @ binding fd addr"
  using assms unfolding create_abstract_socket_def by (rule bind_calls)

lemma bound_socket_calls:
  assumes "create_bound_socket (logged E) name SOCK_SEQPACKET s = (Ok fd, t)"
  shows "\<exists>addr. bound_socket_address name AF_UNIX = Ok addr
    \<and> calls every_call (snd t) = calls every_call (snd s) @ binding fd addr"
  using assms unfolding create_bound_socket_def by (rule bind_calls)

lemma path_socket_calls:
  assumes "create_path_socket (logged E) name s = (Ok (fd, path), t)"
  shows "\<exists>parent addr. path = Some name \<and> path_parent name = Some parent \<and> bound_socket_address name AF_UNIX = Ok addr
    \<and> calls every_call (snd t) = calls every_call (snd s)
      @ [StdCall (Std_path_exists name), StdCall (Std_create_dir_all parent)] @ binding fd addr"
proof -
  from assms obtain parent where parent: "path_parent name = Some parent"
    by (auto simp: create_path_socket_def and_then_eq_Ok_iff split: if_splits option.splits)
  with assms obtain s1 r s2 where
    "std_bool (logged E) (Std_path_exists name) s = (Ok False :: (bool, server_socket_error) outcome, s1)"
    and "kernel (logged E) (StdCall (Std_create_dir_all parent)) s1 = (r, s2)"
    and "create_bound_socket (logged E) name SOCK_SEQPACKET s2 = (Ok fd, t)" and path: "path = Some name"
    by (auto simp: create_path_socket_def and_then_eq_Ok_iff split: if_splits)
  from std_bool_logged [OF this(1)] this(2) bound_socket_calls [OF this(3)] parent path show ?thesis
    by (auto elim!: logged_stepE)
qed

text \<open>
  Where the server socket comes from. When \<^verbatim>\<open>get_server_socket\<close> succeeds, the system calls
  it made are exactly these. A number: the descriptor is checked to be open, to be a socket and to
  be of the sequenced-packet type, and no path is recorded for later removal. A name after
  \<^verbatim>\<open>@\<close>: a socket is made and bound to the abstract address. A path: it did not exist, its parent
  directory is created, a socket is bound to it and the path is recorded. In each case the
  descriptor is then made non-blocking and listens.
\<close>

theorem server_socket_sources:
  assumes run: "get_server_socket (logged E) arg (w, log) = (Ok (fd, path), (w', log'))"
  shows "\<exists>made. calls every_call log' = calls every_call log @ made @ listening fd
    \<and> (case parse_i32 arg of
         Some n \<Rightarrow> fd = n \<and> path = None
           \<and> made = [StdCall (Std_path_exists (get_proc_fd_path n)), FdCall (Libc_fstat n),
                     SockCall (Libc_getsockopt n SOL_SOCKET SO_TYPE)]
       | None \<Rightarrow>
           (case strip_prefix ''@'' arg of
              Some name \<Rightarrow> path = None \<and> (\<exists>addr. abstract_socket_address name AF_UNIX = Ok addr \<and> made = binding fd addr)
            | None \<Rightarrow> path = Some arg \<and> (\<exists>parent addr. path_parent arg = Some parent
                \<and> bound_socket_address arg AF_UNIX = Ok addr
                \<and> made = [StdCall (Std_path_exists arg), StdCall (Std_create_dir_all parent)] @ binding fd addr)))"
proof (cases "parse_i32 arg")
  case (Some n)
  from provided_socket_calls [of E n "(w, log)"] run Some show ?thesis by (simp add: get_server_socket_def)
next
  case None
  then show ?thesis
  proof (cases "strip_prefix ''@'' arg")
    case (Some name)
    with None run show ?thesis
      by (auto simp: get_server_socket_def and_then_eq_Ok_iff sys_fcntl_setfl_def sys_listen_def
          dest!: checked_logged abstract_socket_calls)
  next
    case no_at: None
    with None run show ?thesis
      by (auto simp: get_server_socket_def and_then_eq_Ok_iff sys_fcntl_setfl_def sys_listen_def
          dest!: checked_logged path_socket_calls)
  qed
qed

theorem server_socket_sources_witness:
  "\<exists>log' addr. get_server_socket (logged quiet_env) ''@z'' ((), []) = (Ok (0, None), ((), log'))
    \<and> abstract_socket_address ''z'' AF_UNIX = Ok addr
    \<and> calls every_call log' = binding 0 addr @ listening 0"
proof -
  have "parse_i32 ''@z'' = None" by (simp add: parse_i32_def parse_unsigned_def is_ascii_digit_def)
  moreover obtain addr where addr: "abstract_socket_address ''z'' AF_UNIX = Ok addr"
    using socket_address_denotes_name [of "''z''" AF_UNIX] by auto
  moreover have quiet: "kernel quiet_env c () = (\<lparr>retval = 0, errno_after = 0, outval = NoOut\<rparr>, ())" for c
    by (simp add: quiet_env_def)
  ultimately have "get_server_socket (logged quiet_env) ''@z'' ((), [])
      = (Ok (0, None), ((), map (\<lambda>c. (c, 0)) (binding 0 addr @ listening 0)))"
    by (simp add: get_server_socket_def create_abstract_socket_def sys_socket_def sys_bind_def sys_fcntl_setfl_def
        sys_listen_def and_then_def match_result_def map_err_def checked_call_def invoke_def ok_def of_outcome_def
        kernel_logged check_defs)
  then obtain log' where run: "get_server_socket (logged quiet_env) ''@z'' ((), []) = (Ok (0, None), ((), log'))"
    by blast
  with server_socket_sources [OF run] addr \<open>parse_i32 ''@z'' = None\<close> show ?thesis by auto
qed

end
