(* ===== verification/Server_Handlers.thy ===== *)
theory Server_Handlers
  imports Server_Socket
begin

unbundle bit_operations_syntax

text \<open>
  The handlers of \<^verbatim>\<open>Server\<close>: requests of clients, new connections, signals. A handler that the
  source types \<^verbatim>\<open>LoopControl<ServerControlResult<_, ClientError>>\<close> returns a \<open>loop_control\<close> over
  \<open>control_result\<close>; its own error channel is unused. What is computed only to be logged is left
  out. The closure of a spawned child is the record \<open>child_thunk\<close>; \<open>run_thunk\<close> is its body.
\<close>

type_synonym 'w handler = "('w, control_result loop_control, client_error) srv_prog"

section \<open>Sending responses\<close>

text \<open>Sends a message; a failure ends the loop with the given client error.\<close>

definition respond :: "'w env \<Rightarrow> host \<Rightarrow> int \<Rightarrow> zygote_message \<Rightarrow> (sys_error \<Rightarrow> client_error) \<Rightarrow> 'w handler" where
  "respond E S fd response client_error =
     match_result (on_snd (sys_sendmsg E fd (fb_finished_data S (to_parcel response))))
       (\<lambda>_. ok Continue)
       (\<lambda>error. ok (Break (Inl (client_error error))))"

definition handle_message_exit :: "'w env \<Rightarrow> host \<Rightarrow> int \<Rightarrow> 'w handler" where
  "handle_message_exit E S fd =
     match_result (on_snd (sys_sendmsg E fd (fb_finished_data S (to_parcel AckResponse))))
       (\<lambda>_. ok (Break (Inr Shutdown)))
       (\<lambda>_. ok (Break (Inr Shutdown)))"

definition handle_message_identity_query :: "'w env \<Rightarrow> host \<Rightarrow> int \<Rightarrow> 'w handler" where
  "handle_message_identity_query E S fd =
     and_then get_server (\<lambda>srv.
       respond E S fd
         (IdentityQueryResponse (srv_name srv) (species_name (srv_species srv)) (host_arch S))
         (IdentityQueryResponseFailure fd))"

definition stat_response_of :: "proc_stat \<Rightarrow> stat_response" where
  "stat_response_of proc =
     \<lparr>sr_pid = ps_pid proc, sr_pgrp = ps_pgrp proc, sr_minflt = ps_minflt proc, sr_cminflt = ps_cminflt proc,
      sr_majflt = ps_majflt proc, sr_cmajflt = ps_cmajflt proc, sr_utime = ps_utime proc, sr_stime = ps_stime proc,
      sr_num_threads = ps_num_threads proc, sr_vsize = ps_vsize proc, sr_rss = ps_rss proc\<rparr>"

definition handle_message_stat :: "'w env \<Rightarrow> host \<Rightarrow> int \<Rightarrow> 'w handler" where
  "handle_message_stat E S fd =
     match_result (on_snd (proc_stat_get E))
       (\<lambda>proc. respond E S fd (StatResponse (stat_response_of proc)) (StatResponseFailure fd))
       (\<lambda>err. ok (Break (Inl (StatReadFailure fd err))))"

section \<open>Spawning\<close>

text \<open>\<^verbatim>\<open>Message::try_from_parcel(..).expect(..)\<close>: the dispatcher has parsed the same bytes.\<close>

definition parse_again :: "host \<Rightarrow> string \<Rightarrow> ('s, zygote_message, 'e) prog" where
  "parse_again S message_buffer =
     expect ''Verified message is now invalid''
       (of_outcome (try_from_parcel (fb_root S) (cap_all_flags S) message_buffer))"

definition fork_or_exec :: "'w env \<Rightarrow> host \<Rightarrow> ('w, int, sys_error) srv_prog" where
  "fork_or_exec E S = (if is_exec_spawning S then ok 0 else on_snd (sys_fork E))"

definition handle_spawn ::
  "'w env \<Rightarrow> host \<Rightarrow> int option \<Rightarrow> string \<Rightarrow> (spawn_params \<Rightarrow> ('w, server_control, client_error) srv_prog) \<Rightarrow> 'w handler"
where
  "handle_spawn E S fd message_buffer child_continuation =
     and_then (on_snd (debug_assert_single_threaded E)) (\<lambda>_.
     and_then get_server (\<lambda>srv.
     and_then (when_do (debug_assertions E)
       (expect ''assertion failed: self.registry.audit()'' (on_snd (audit E (srv_registry srv))))) (\<lambda>_.
     and_then (parse_again S message_buffer) (\<lambda>message.
       case get_spawn_params message of
         None \<Rightarrow> ok (Break (Inl MissingSpawnParams))
       | Some params \<Rightarrow>
           and_then (of_outcome (params_or params (srv_spawn_params srv))) (\<lambda>spawn_params.
           match_result (fork_or_exec E S)
             (\<lambda>new_pid.
                if new_pid = 0 then
                  and_then
                    (case sp_priority_initial spawn_params of
                       Some priority \<Rightarrow> on_snd (logging_errors (sys_setpriority E PRIO_PROCESS 0 priority))
                     | None \<Rightarrow> ok ()) (\<lambda>_.
                  and_then (capture (child_continuation spawn_params)) (\<lambda>result. ok (Break result)))
                else
                  and_then (unwrap fd) (\<lambda>fd. respond E S fd (SpawnResponse new_pid) (SpawnResponseFailure fd)))
             (\<lambda>error. case error of
                Libc errno \<Rightarrow>
                  and_then (unwrap fd) (\<lambda>fd. ok (Break (Inl (ProcessCreationFailure fd (Libc errno)))))
              | _ \<Rightarrow> panic ''internal error: entered unreachable code''))))))"

definition handle_message_spawn :: "'w env \<Rightarrow> host \<Rightarrow> int option \<Rightarrow> string \<Rightarrow> 'w handler" where
  "handle_message_spawn E S fd message_buffer =
     and_then get_server (\<lambda>srv.
     and_then (on_snd (gather_reinitialization_data E (srv_species srv))) (\<lambda>re_init_data.
       handle_spawn E S fd message_buffer (\<lambda>spawn_params.
         ok (Trampoline \<lparr>th_species = srv_species srv, th_re_init_data = re_init_data,
               th_spawn_params = spawn_params, th_message = message_buffer\<rparr>))))"

text \<open>What the child runs after the server is dropped; the result is its exit status.\<close>

definition run_thunk :: "'w env \<Rightarrow> host \<Rightarrow> child_thunk \<Rightarrow> ('w, int, 'e) prog" where
  "run_thunk E S th =
     and_then (debug_assert_single_threaded E) (\<lambda>_.
       maybe_reset_stack_guards E S
         (and_then (parse_again S (th_message th)) (\<lambda>message.
          and_then (expect_some ''Missing spawn payload'' (get_spawn_payload message)) (\<lambda>spawn_payload.
          and_then (re_initialize E S (th_species th) (th_re_init_data th) (th_spawn_params th) spawn_payload) (\<lambda>_.
            gestate E S (th_species th) (th_spawn_params th) spawn_payload)))))"

subsection \<open>Subspecies\<close>

definition add_to_epoll :: "'w env \<Rightarrow> int \<Rightarrow> epoll_tag \<Rightarrow> ('w, unit, sys_error) srv_prog" where
  "add_to_epoll E fd tag =
     and_then get_server (\<lambda>srv.
     and_then (unwrap (srv_epoll_handle srv)) (\<lambda>epfd.
       on_snd (epoll_handle_add E epfd fd EPOLLIN (epoll_data_to_u64 (epoll_data_new fd tag)))))"

definition re_initialize_as_subspecies :: "'w env \<Rightarrow> string \<Rightarrow> ('w, unit, server_error) srv_prog" where
  "re_initialize_as_subspecies E child_socket_path =
     and_then (map_err FdRegistryFailure (on_registry (reset_for_subspecies E))) (\<lambda>_.
     and_then (map_err ServerSocketFailure (on_snd (get_server_socket E child_socket_path)))
       (\<lambda>(child_socket_fd, child_socket_path).
     and_then (map_err FdRegistryFailure (on_registry (register E child_socket_fd Close))) (\<lambda>_.
     and_then (update_server (\<lambda>srv. srv\<lparr>srv_client_sockets := [], srv_server_socket := Some child_socket_fd,
                                       srv_server_socket_path := child_socket_path\<rparr>)) (\<lambda>_.
     and_then (map_err PollError (on_snd (epoll_handle_new E))) (\<lambda>epfd.
     and_then (update_server (\<lambda>srv. srv\<lparr>srv_epoll_handle := Some epfd\<rparr>)) (\<lambda>_.
     and_then (map_err FdRegistryFailure (on_registry (register E epfd Close))) (\<lambda>_.
     and_then get_server (\<lambda>srv.
     and_then (unwrap (srv_server_socket srv)) (\<lambda>server_socket.
     and_then (map_err PollError (add_to_epoll E server_socket ServerTag)) (\<lambda>_.
     and_then (unwrap (srv_signal_fd srv)) (\<lambda>signal_fd.
     and_then (map_err PollError (add_to_epoll E signal_fd SignalTag)) (\<lambda>_.
     and_then (on_snd (sys_getpid E)) (\<lambda>pid.
       update_server (\<lambda>srv. srv\<lparr>srv_pid := pid\<rparr>))))))))))))))"

definition handle_message_spawn_subspecies :: "'w env \<Rightarrow> host \<Rightarrow> int \<Rightarrow> string \<Rightarrow> string \<Rightarrow> 'w handler" where
  "handle_message_spawn_subspecies E S fd socket_path message_buffer =
     and_then get_server (\<lambda>srv.
     and_then (on_snd (gather_reinitialization_data E (srv_species srv))) (\<lambda>re_init_data.
       handle_spawn E S (Some fd) message_buffer (\<lambda>spawn_params.
         and_then (parse_again S message_buffer) (\<lambda>message.
         and_then (case get_spawn_payload message of Some payload \<Rightarrow> ok payload | None \<Rightarrow> fail MissingSpawnPayload)
           (\<lambda>spawn_payload.
         and_then (on_snd (re_initialize E S (srv_species srv) re_init_data spawn_params spawn_payload)) (\<lambda>_.
         and_then (on_snd (speciate E (srv_species srv) spawn_payload)) (\<lambda>_.
         and_then (map_err (\<lambda>_. Reinitialization) (re_initialize_as_subspecies E socket_path)) (\<lambda>_.
           ok PollBreak))))))))"

section \<open>Dispatching\<close>

text \<open>
  The guard on the payload comes before both kinds of spawn request. The branch for bytes that do
  not parse asks for the credentials of the peer, which are logged.
\<close>

definition dispatch_message_handler :: "'w env \<Rightarrow> host \<Rightarrow> int \<Rightarrow> string \<Rightarrow> 'w handler" where
  "dispatch_message_handler E S fd message_buffer =
     match_result (of_outcome (try_from_parcel (fb_root S) (cap_all_flags S) message_buffer))
       (\<lambda>message. and_then get_server (\<lambda>srv.
          case message of
            Exit \<Rightarrow> handle_message_exit E S fd
          | IdentityQuery \<Rightarrow> handle_message_identity_query E S fd
          | Spawn common payload \<Rightarrow>
              if \<not> is_spawn_payload_type (srv_species srv) payload then ok Continue
              else handle_message_spawn E S (Some fd) message_buffer
          | SpawnSubspecies common socket_path payload \<Rightarrow>
              if \<not> is_spawn_payload_type (srv_species srv) payload then ok Continue
              else handle_message_spawn_subspecies E S fd socket_path message_buffer
          | Stat \<Rightarrow> handle_message_stat E S fd
          | _ \<Rightarrow> ok Continue))
       (\<lambda>_. match_result (on_snd (sys_get_socket_creds E fd)) (\<lambda>_. ok Continue) (\<lambda>_. ok Continue))"

definition handle_client_message :: "'w env \<Rightarrow> host \<Rightarrow> int \<Rightarrow> int \<times> string \<Rightarrow> ('w, server_control loop_control, client_error) srv_prog" where
  "handle_client_message E S client_fd = (\<lambda>(readlen, message_buffer).
     if readlen = 0 then ok (Break PollContinue)
     else
       match_result (of_outcome (try_from_parcel (fb_root S) (cap_all_flags S) message_buffer))
         (\<lambda>_. and_then (dispatch_message_handler E S client_fd message_buffer) (\<lambda>control.
            case control of
              Continue \<Rightarrow> ok Continue
            | Break (Inr v) \<Rightarrow> ok (Break v)
            | Break (Inl e) \<Rightarrow> fail e))
         (\<lambda>_. ok (Break PollContinue)))"

definition handle_client_events :: "'w env \<Rightarrow> host \<Rightarrow> int \<Rightarrow> ('w, server_control, client_error) srv_prog" where
  "handle_client_events E S client_fd =
     and_then
       (try_until_would_block (loop_fuel E) ClientRead
          (on_snd (sys_recvmsg E client_fd MESSAGE_BUFFER_SIZE))
          (handle_client_message E S client_fd)) (\<lambda>client_event_status.
       ok (case client_event_status of WouldBlock \<Rightarrow> PollContinue | Early control \<Rightarrow> control))"

end
