(* ===== verification/Server_Events.thy ===== *)
theory Server_Events
  imports Server_Handlers
begin

unbundle bit_operations_syntax

text \<open>
  What the server does with its own descriptors: accepting and dropping clients, and reading the
  signal descriptor (terminated children, requests to stop).
\<close>

section \<open>Clients\<close>

definition close_ignoring_result :: "'w env \<Rightarrow> int \<Rightarrow> ('w, unit, 'e) prog" where
  "close_ignoring_result E fd = match_result (sys_close E fd) (\<lambda>_. ok ()) (\<lambda>_. ok ())"

definition peer_credentials :: "'w env \<Rightarrow> int \<Rightarrow> ('w, ucred option, 'e) prog" where
  "peer_credentials E fd = match_result (sys_get_socket_creds E fd) (\<lambda>c. ok (Some c)) (\<lambda>_. ok None)"

text \<open>
  A new connection. The server has a full client vector exactly when the connection is refused:
  it is closed and its peer is named in the error.
\<close>

definition add_client :: "'w env \<Rightarrow> int \<Rightarrow> ('w, unit loop_control, server_socket_error) srv_prog" where
  "add_client E new_client_fd =
     and_then (map_err Metadata (on_snd (sys_fcntl_setfl E new_client_fd O_NONBLOCK))) (\<lambda>_.
     and_then get_server (\<lambda>srv.
       if length (srv_client_sockets srv) = BUFFER_SIZE_CLIENT_SOCKETS then
         and_then (on_snd (peer_credentials E new_client_fd)) (\<lambda>client_creds.
         and_then (on_snd (close_ignoring_result E new_client_fd)) (\<lambda>_.
           fail (TooManyClients client_creds)))
       else
         and_then (of_outcome (arrayvec_push BUFFER_SIZE_CLIENT_SOCKETS new_client_fd (srv_client_sockets srv)))
           (\<lambda>clients.
         and_then (update_server (\<lambda>srv. srv\<lparr>srv_client_sockets := clients\<rparr>)) (\<lambda>_.
         and_then (map_err ClientRegistration (on_registry (register E new_client_fd Close))) (\<lambda>_.
         and_then (map_err SocketPoll (add_to_epoll E new_client_fd ClientTag)) (\<lambda>_.
           ok Continue))))))"

definition handle_server_events :: "'w env \<Rightarrow> int \<Rightarrow> ('w, server_control, server_socket_error) srv_prog" where
  "handle_server_events E server_fd =
     and_then (try_until_would_block (loop_fuel E) Accept (on_snd (sys_accept E server_fd)) (add_client E))
       (\<lambda>_. ok PollContinue)"

text \<open>\<^verbatim>\<open>Iterator::position\<close> of a descriptor.\<close>

fun position :: "'a \<Rightarrow> 'a list \<Rightarrow> nat option" where
  "position x [] = None"
| "position x (y # ys) = (if y = x then Some 0 else map_option Suc (position x ys))"

definition remove_client_socket :: "'w env \<Rightarrow> int \<Rightarrow> ('w, unit, client_error) srv_prog" where
  "remove_client_socket E fd =
     and_then (map_err RegistryUpdate (on_registry (registry_remove fd))) (\<lambda>_.
     and_then get_server (\<lambda>srv.
     and_then (unwrap (srv_epoll_handle srv)) (\<lambda>epfd.
     and_then (map_err ClientPoll (on_snd (epoll_handle_remove E epfd fd))) (\<lambda>_.
     and_then (case position fd (srv_client_sockets srv) of
                 Some i \<Rightarrow> of_outcome (arrayvec_remove i (srv_client_sockets srv))
               | None \<Rightarrow> fail (InvalidClientSocketFd fd)) (\<lambda>clients.
     and_then (update_server (\<lambda>srv. srv\<lparr>srv_client_sockets := clients\<rparr>)) (\<lambda>_.
     and_then (map_err (CloseFailure fd) (on_snd (sys_close E fd))) (\<lambda>_. ok ())))))))"

section \<open>Signals\<close>

abbreviation SIZE_OF_SIGNALFD_SIGINFO :: nat where "SIZE_OF_SIGNALFD_SIGINFO \<equiv> 128"

text \<open>
  The loop over \<^verbatim>\<open>waitid(P_ALL, WEXITED | WNOHANG)\<close>: every terminated child is reported to the
  species; it ends when no child has terminated or none is left.
\<close>

fun reap_children :: "nat \<Rightarrow> 'w env \<Rightarrow> species_tag \<Rightarrow> ('w, int loop_control, signal_handler_error) prog" where
  "reap_children 0 E species = diverge"
| "reap_children (Suc n) E species =
     match_result (sys_waitid E All (WEXITED OR WNOHANG))
       (\<lambda>child. case child of
          Some siginfo \<Rightarrow>
            and_then (map_err ProcessAccounting (of_outcome (raw_status_from_siginfo siginfo))) (\<lambda>raw_status.
            and_then (handle_sigchld E species (si_pid siginfo) (si_uid siginfo) raw_status) (\<lambda>_.
              reap_children n E species))
        | None \<Rightarrow> ok Continue)
       (\<lambda>err. if err = Libc ECHILD then ok Continue else fail (ProcessAccounting err))"

definition handle_signal :: "'w env \<Rightarrow> outdata \<Rightarrow> ('w, int loop_control, signal_handler_error) srv_prog" where
  "handle_signal E siginfo =
     (let signo = si_signo (out_siginfo siginfo) in
      and_then get_server (\<lambda>srv.
        if signo = SIGCHLD then on_snd (reap_children (loop_fuel E) E (srv_species srv))
        else if signo = SIGINT then ok (Break SIGINT)
        else if signo = SIGTERM then ok (Break SIGTERM)
        else panic ''internal error: entered unreachable code: Unhandled signal received''))"

definition handle_signalfd_events :: "'w env \<Rightarrow> int \<Rightarrow> ('w, server_control, signal_handler_error) srv_prog" where
  "handle_signalfd_events E signalfd =
     and_then
       (try_until_would_block (loop_fuel E) SigRead
          (on_snd (sys_read_exact E signalfd SIZE_OF_SIGNALFD_SIGINFO)) (handle_signal E))
       (\<lambda>event_result. ok (case event_result of Early _ \<Rightarrow> Shutdown | WouldBlock \<Rightarrow> PollContinue))"

end
