(* ===== verification/Server_Loop.thy ===== *)
theory Server_Loop
  imports Server_Events
begin

unbundle bit_operations_syntax

text \<open>
  The event loop of the server, its construction and destruction, and the two ways the
  \<^verbatim>\<open>zygote\<close> program runs it. The loop takes fuel: a server that is never told to stop does not
  return.
\<close>

section \<open>One round of events\<close>

text \<open>\<^verbatim>\<open>event.check()\<close> fails with the error flags and the data of the event (\<open>epoll_event_check_eq\<close>).\<close>

definition epoll_check_error :: "sys_error \<Rightarrow> server_error" where
  "epoll_check_error e =
     (case e of
        EpollFailure flags data \<Rightarrow>
          (case epoll_data_try_from data of Ok d \<Rightarrow> EpollError d flags | Err err \<Rightarrow> err | _ \<Rightarrow> PollError e)
      | _ \<Rightarrow> PollError e)"

definition handle_input :: "'w env \<Rightarrow> host \<Rightarrow> epoll_data \<Rightarrow> ('w, server_control, server_error) srv_prog" where
  "handle_input E S event_data =
     (case ed_class event_data of
        ClientTag \<Rightarrow> map_err ClientFailure (handle_client_events E S (ed_fd event_data))
      | ServerTag \<Rightarrow> map_err ServerSocketFailure (handle_server_events E (ed_fd event_data))
      | SignalTag \<Rightarrow> map_err SignalHandlerFailure (handle_signalfd_events E (ed_fd event_data)))"

definition handle_hangup :: "'w env \<Rightarrow> epoll_event \<Rightarrow> epoll_data \<Rightarrow> ('w, unit, server_error) srv_prog" where
  "handle_hangup E event event_data =
     and_then (epoll_try_handle_event event EPOLLHUP (\<lambda>_.
       if ed_class event_data = ClientTag
       then map_err ClientFailure (remove_client_socket E (ed_fd event_data))
       else panic ''internal error: entered unreachable code: Listen sockets and signalfds can't hangup.''))
       (\<lambda>_. ok ())"

text \<open>
  One event: \<open>None\<close> when the round goes on, the control value when it returns from the round.
\<close>

definition handle_event :: "'w env \<Rightarrow> host \<Rightarrow> epoll_event \<Rightarrow> ('w, server_control option, server_error) srv_prog" where
  "handle_event E S event =
     and_then (match_result (of_outcome (epoll_event_check E event)) ok (\<lambda>e. fail (epoll_check_error e)))
       (\<lambda>checked_event.
     and_then (of_outcome (epoll_data_try_from (snd checked_event))) (\<lambda>event_data.
       match_result (epoll_try_handle_event checked_event EPOLLIN (\<lambda>_. handle_input E S event_data))
         (\<lambda>epollin_retval.
            if epollin_retval = None \<or> epollin_retval = Some PollContinue
            then and_then (handle_hangup E checked_event event_data) (\<lambda>_. ok None)
            else ok epollin_retval)
         (\<lambda>error. case error of
            ClientFailure _ \<Rightarrow>
              and_then (map_err ClientFailure (remove_client_socket E (ed_fd event_data))) (\<lambda>_. ok None)
          | ServerSocketFailure (TooManyClients _) \<Rightarrow> ok None
          | _ \<Rightarrow> fail error)))"

text \<open>Both with the tests for the events in front.\<close>

lemma match_result_retval:
  "match_result (and_then m (\<lambda>v. ok (Some v))) f g = match_result m (\<lambda>v. f (Some v)) g"
  by (rule ext) (simp add: match_result_def and_then_def ok_def split: outcome.splits prod.splits)

lemma handle_hangup_eq:
  "handle_hangup E event event_data =
     when_do (epoll_has_event event EPOLLHUP)
       (if ed_class event_data = ClientTag
        then map_err ClientFailure (remove_client_socket E (ed_fd event_data))
        else panic ''internal error: entered unreachable code: Listen sockets and signalfds can't hangup.'')"
  by (auto simp: handle_hangup_def epoll_try_handle_event_def epoll_has_event_def when_do_def and_then_def
      match_result_def ok_def fail_def panic_def fun_eq_iff split: outcome.splits prod.splits)

lemma handle_event_eq:
  "handle_event E S event =
     and_then (match_result (of_outcome (epoll_event_check E event)) ok (\<lambda>e. fail (epoll_check_error e)))
       (\<lambda>checked_event.
     and_then (of_outcome (epoll_data_try_from (snd checked_event))) (\<lambda>event_data.
       if epoll_has_event checked_event EPOLLIN then
         match_result (handle_input E S event_data)
           (\<lambda>control.
              if control = PollContinue
              then and_then (handle_hangup E checked_event event_data) (\<lambda>_. ok None)
              else ok (Some control))
           (\<lambda>error. case error of
              ClientFailure _ \<Rightarrow>
                and_then (map_err ClientFailure (remove_client_socket E (ed_fd event_data))) (\<lambda>_. ok None)
            | ServerSocketFailure (TooManyClients _) \<Rightarrow> ok None
            | _ \<Rightarrow> fail error)
       else and_then (handle_hangup E checked_event event_data) (\<lambda>_. ok None)))"
  unfolding handle_event_def epoll_try_handle_event_def epoll_has_event_def [symmetric]
  by (intro arg_cong2 [where f = and_then] refl ext)
     (simp_all add: match_result_retval match_result_Ok)

fun check_epoll_events ::
  "'w env \<Rightarrow> host \<Rightarrow> epoll_event list \<Rightarrow> ('w, server_control, server_error) srv_prog"
where
  "check_epoll_events E S [] = ok PollBreak"
| "check_epoll_events E S (event # events) =
     and_then (handle_event E S event) (\<lambda>result.
       case result of None \<Rightarrow> check_epoll_events E S events | Some control \<Rightarrow> ok control)"

section \<open>The loop\<close>

definition serve_round :: "'w env \<Rightarrow> host \<Rightarrow> ('w, server_control, server_error) srv_prog" where
  "serve_round E S =
     and_then get_server (\<lambda>srv.
     and_then (unwrap (srv_epoll_handle srv)) (\<lambda>epfd.
     and_then (map_err PollError (on_snd (epoll_handle_wait E epfd BUFFER_SIZE_EPOLL_EVENTS BLANK_EVENT (- 1))))
       (\<lambda>events. check_epoll_events E S events)))"

fun serve_loop :: "nat \<Rightarrow> 'w env \<Rightarrow> host \<Rightarrow> ('w, child_thunk option, server_error) srv_prog" where
  "serve_loop 0 E S = diverge"
| "serve_loop (Suc n) E S =
     and_then (serve_round E S) (\<lambda>control.
       case control of
         PollContinue \<Rightarrow> serve_loop n E S
       | PollBreak \<Rightarrow> serve_loop n E S
       | Shutdown \<Rightarrow> ok None
       | Trampoline thunk \<Rightarrow> ok (Some thunk))"

definition serve :: "'w env \<Rightarrow> host \<Rightarrow> ('w, child_thunk option, server_error) srv_prog" where
  "serve E S =
     and_then get_server (\<lambda>srv.
     and_then (on_snd (on_server_ready E (srv_species srv))) (\<lambda>_. serve_loop (loop_fuel E) E S))"

section \<open>Construction\<close>

definition BLOCKED_SIGNALS :: "int list" where "BLOCKED_SIGNALS = [SIGCHLD, SIGINT, SIGTERM]"

definition load_library :: "'w env \<Rightarrow> string \<Rightarrow> ('w, unit, 'e) prog" where
  "load_library E library_path = and_then (ext E (Ext_dlopen library_path)) (\<lambda>_. ok ())"

text \<open>Leaving the scope restores the effective ids; a failure to do so is a panic.\<close>

definition preload :: "'w env \<Rightarrow> server \<Rightarrow> string list \<Rightarrow> ('w, unit, server_error) prog" where
  "preload E srv libraries =
     and_then (map_err (EffectivePermissionsFailure (srv_preload_uid srv) (srv_preload_gid srv))
       (effective_id_enter E (srv_preload_uid srv) (srv_preload_gid srv))) (\<lambda>eid_context.
     and_then (for_each (load_library E) libraries) (\<lambda>_.
       effective_id_drop E False eid_context))"

text \<open>
  The descriptors of the server, made while the registry is a local variable: epoll handle,
  server socket with its path, signal descriptor.
\<close>

definition block_signals :: "'w env \<Rightarrow> ('w, int list, signal_handler_error) prog" where
  "block_signals E =
     and_then (map_err SigSetFailure (build_sigset E BLOCKED_SIGNALS)) (\<lambda>sigset.
     and_then (map_err SetMask (sys_sigprocmask E SIG_BLOCK sigset)) (\<lambda>_. ok sigset))"

definition register_descriptor :: "'w env \<Rightarrow> int \<Rightarrow> action \<Rightarrow> (registry \<times> 'w, unit, server_error) prog" where
  "register_descriptor E fd action = map_err FdRegistryFailure (register E fd action)"

definition new_descriptors ::
  "'w env \<Rightarrow> host \<Rightarrow> config \<Rightarrow>
    (registry \<times> 'w, int option \<times> int option \<times> string option \<times> int option, server_error) prog"
where
  "new_descriptors E S config =
     (if is_exec_spawning S then
        and_then (on_snd (map_err SignalHandlerFailure (block_signals E))) (\<lambda>_. ok (None, None, None, None))
      else
        and_then (on_snd (map_err PollError (epoll_handle_new E))) (\<lambda>epfd.
        and_then (register_descriptor E epfd Close) (\<lambda>_.
        and_then (on_snd (config_socket E config)) (\<lambda>socket_path_or_fd.
        and_then (on_snd (map_err ServerSocketFailure (get_server_socket E socket_path_or_fd)))
          (\<lambda>(server_socket, server_socket_path).
        and_then (register_descriptor E server_socket Close) (\<lambda>_.
        and_then (on_snd (map_err PollError (epoll_handle_add E epfd server_socket EPOLLIN
          (epoll_data_to_u64 (epoll_data_new server_socket ServerTag))))) (\<lambda>_.
        and_then (on_snd (map_err SignalHandlerFailure (block_signals E))) (\<lambda>sigset.
        and_then (on_snd (map_err (\<lambda>e. SignalHandlerFailure (SignalFdFailure e))
          (sys_signalfd E (- 1) sigset SFD_NONBLOCK))) (\<lambda>signal_fd.
        and_then (register_descriptor E signal_fd CloseUnlessSpawnSubspecies) (\<lambda>_.
        and_then (on_snd (map_err PollError (epoll_handle_add E epfd signal_fd EPOLLIN
          (epoll_data_to_u64 (epoll_data_new signal_fd SignalTag))))) (\<lambda>_.
          ok (Some epfd, Some server_socket, server_socket_path, Some signal_fd))))))))))))"

definition new_registry ::
  "'w env \<Rightarrow> host \<Rightarrow> config \<Rightarrow>
    (registry \<times> 'w, int option \<times> int option \<times> string option \<times> int option, server_error) prog"
where
  "new_registry E S config =
     and_then (new_descriptors E S config) (\<lambda>descriptors.
     and_then (map_err FdRegistryFailure (register_new E)) (\<lambda>_.
     and_then (gets fst) (\<lambda>reg.
     and_then (on_snd (map_err (\<lambda>e. FdRegistryFailure (AuditFailure e)) (audit E reg))) (\<lambda>_.
       ok descriptors))))"

section \<open>Destruction\<close>

text \<open>
  \<^verbatim>\<open>Drop\<close>: the server process closes what it registered and removes its socket file, whatever
  fails on the way; a forked child and an exec-spawned application carry out the registered
  actions and unblock the signals, and any failure is a panic.
\<close>

definition drop_in_server :: "'w env \<Rightarrow> ('w, unit, 'e) srv_prog" where
  "drop_in_server E =
     and_then get_server (\<lambda>srv.
     and_then (on_snd (on_server_destroy E (srv_species srv))) (\<lambda>_.
     and_then (match_result (on_registry (override_and_close E)) (\<lambda>_. ok ()) (\<lambda>_. ok ())) (\<lambda>_.
       case srv_server_socket_path srv of
         Some path \<Rightarrow> and_then (on_snd (invoke E (StdCall (Std_remove_file path)))) (\<lambda>_. ok ())
       | None \<Rightarrow> ok ())))"

definition drop_in_child :: "'w env \<Rightarrow> ('w, unit, 'e) srv_prog" where
  "drop_in_child E =
     and_then (expect ''Failed to execute file descriptor registry actions''
       (on_registry (execute_actions E Application))) (\<lambda>_.
     and_then (expect ''Failed to build signal set'' (on_snd (build_sigset E BLOCKED_SIGNALS))) (\<lambda>sigset.
     and_then (expect ''Failed to unset signal mask'' (on_snd (sys_sigprocmask E SIG_UNBLOCK sigset))) (\<lambda>_.
       ok ())))"

definition server_drop :: "'w env \<Rightarrow> host \<Rightarrow> ('w, unit, 'e) srv_prog" where
  "server_drop E S =
     and_then get_server (\<lambda>srv.
     and_then (on_snd (sys_getpid E)) (\<lambda>pid.
       if srv_pid srv = pid \<and> \<not> is_exec_spawning S then drop_in_server E else drop_in_child E))"

section \<open>\<^verbatim>\<open>Server::new\<close>\<close>

text \<open>A local variable \<open>x\<close> that \<open>m\<close> changes: its final value comes back with the result.\<close>

definition with_local :: "'x \<Rightarrow> ('x \<times> 'w, 'a, 'e) prog \<Rightarrow> ('w, 'a \<times> 'x, 'e) prog" where
  "with_local x m = (\<lambda>w. case m (x, w) of (r, (x', w')) \<Rightarrow> (bind_outcome r (\<lambda>y. Ok (y, x')), w'))"

text \<open>A value that is moved out on success and dropped on every other way out of the scope.\<close>

definition moved_or_dropped :: "'x \<Rightarrow> ('x \<times> 'w, unit, 'e) prog \<Rightarrow> ('x \<times> 'w, unit, 'e) prog \<Rightarrow> ('w, 'x, 'e) prog" where
  "moved_or_dropped x m d = (\<lambda>w. case m (x, w) of (r, (x', w')) \<Rightarrow>
     (case r of
        Ok _ \<Rightarrow> (Ok x', w')
      | Err e \<Rightarrow> (case d (x', w') of (Ok _, (_, w'')) \<Rightarrow> (Err e, w'') | (r', (_, w'')) \<Rightarrow> (bind_outcome r' (\<lambda>_. Err e), w''))
      | Panic p \<Rightarrow> (Panic p, snd (snd (d (x', w'))))
      | Diverges \<Rightarrow> (Diverges, w')))"

definition start_server :: "'w env \<Rightarrow> host \<Rightarrow> config \<Rightarrow> ('w, unit, server_error) srv_prog" where
  "start_server E S config =
     and_then get_server (\<lambda>srv.
     and_then (on_snd (sys_prctl_set_name E (srv_name srv))) (\<lambda>_.
     and_then (on_snd (map_err ProcessGroupFailure (sys_setpgid E 0 0))) (\<lambda>_.
     and_then (on_snd (preload E srv (cfg_preload_libraries config))) (\<lambda>_.
       when_do (target_android S) (on_snd (logging_errors (sys_mallopt E M_PURGE_ALL 0)))))))"

definition server_new :: "'w env \<Rightarrow> host \<Rightarrow> config \<Rightarrow> ('w, server, server_error) prog" where
  "server_new E S config =
     and_then (map_err FdRegistryFailure (registry_new E (cfg_species config))) (\<lambda>empty.
     and_then (with_local empty (new_registry E S config))
       (\<lambda>((epoll_handle, server_socket, server_socket_path, signal_fd), reg).
     and_then (sys_getpid E) (\<lambda>pid.
     and_then (of_outcome (config_to_spawn_params config)) (\<lambda>spawn_params.
       moved_or_dropped
         \<lparr>srv_name = cfg_name config, srv_species = cfg_species config, srv_pid = pid, srv_registry = reg,
          srv_epoll_handle = epoll_handle, srv_signal_fd = signal_fd, srv_server_socket = server_socket,
          srv_client_sockets = [], srv_server_socket_path = server_socket_path,
          srv_preload_uid = cfg_preload_uid config, srv_preload_gid = cfg_preload_gid config,
          srv_spawn_params = spawn_params\<rparr>
         (start_server E S config) (server_drop E S)))))"

section \<open>The program\<close>

definition handle_message_exec_spawn :: "'w env \<Rightarrow> host \<Rightarrow> string \<Rightarrow> ('w, child_thunk, client_error) srv_prog" where
  "handle_message_exec_spawn E S message_buffer =
     dropping
       (and_then (handle_message_spawn E S None message_buffer) (\<lambda>control.
          case control of
            Break (Inr (Trampoline thunk)) \<Rightarrow> ok thunk
          | Break (Inr _) \<Rightarrow> panic ''server control result in not Trampoline''
          | Break (Inl err) \<Rightarrow> fail err
          | Continue \<Rightarrow> panic ''handle_message_spawn returned Continue''))
       (server_drop E S)"

definition run_server :: "'w env \<Rightarrow> host \<Rightarrow> config \<Rightarrow> ('w, child_thunk option, server_error) prog" where
  "run_server E S config =
     and_then (on_start E S (cfg_species config)) (\<lambda>_.
     and_then (server_new E S config) (\<lambda>srv.
     and_then (with_local srv (dropping (serve E S) (server_drop E S))) (\<lambda>(thunk, _). ok thunk)))"

datatype main_error =
    ParseInt string
  | CommandIo int
  | CommandEof
  | MainServer server_error
  | MainClient client_error

text \<open>
  \<^verbatim>\<open>read_exact\<close> answers with -1 and the error of a failed read, or with the number of bytes it got:
  when that is less than what was asked for, the file ended, an error of its own without \<^verbatim>\<open>errno\<close>.
  The command of an exec-spawned application is \<^verbatim>\<open><descriptor>_<length>\<close>; the file made from the
  descriptor is closed at the end of the block.
\<close>

definition read_command_bytes :: "'w env \<Rightarrow> int \<Rightarrow> string \<Rightarrow> ('w, string, main_error) prog" where
  "read_command_bytes E cmd_fd len_arg =
     (case parse_u64 len_arg of
        None \<Rightarrow> fail (ParseInt len_arg)
      | Some cmd_fd_len \<Rightarrow>
          if MESSAGE_BUFFER_SIZE < cmd_fd_len then panic ''range end index out of range for slice of length 2048''
          else
            and_then (invoke E (StdCall (Std_read_exact cmd_fd cmd_fd_len))) (\<lambda>r.
              if retval r = - 1 then fail (CommandIo (errno_after r))
              else if retval r < int cmd_fd_len then fail CommandEof
              else ok (zero_padded MESSAGE_BUFFER_SIZE (take cmd_fd_len (out_bytes (outval r))))))"

definition read_command :: "'w env \<Rightarrow> string \<Rightarrow> ('w, string, main_error) prog" where
  "read_command E cmd_fd_arg =
     and_then (expect_some ''cmd_fd_arg separator is missing'' (split_once ''_'' cmd_fd_arg)) (\<lambda>(fd_arg, len_arg).
       case parse_i32 fd_arg of
         None \<Rightarrow> fail (ParseInt fd_arg)
       | Some cmd_fd \<Rightarrow>
           finally_do (read_command_bytes E cmd_fd len_arg)
             (\<lambda>w. snd (kernel E (StdCall (Std_close_file cmd_fd)) w)))"

text \<open>
  The exec-spawning flag is off until \<^verbatim>\<open>set_exec_spawning\<close>. The result is the exit status of the
  application, \<open>None\<close> after an orderly shutdown.
\<close>

definition zygote_main :: "'w env \<Rightarrow> host \<Rightarrow> config \<Rightarrow> ('w, int option, main_error) prog" where
  "zygote_main E S config =
     (case cfg_command_fd config of
        Some cmd_fd_arg \<Rightarrow>
          (let S = S\<lparr>is_exec_spawning := True\<rparr> in
           and_then (on_start E S (cfg_species config)) (\<lambda>_.
           and_then (read_command E cmd_fd_arg) (\<lambda>msg_bytes.
           and_then (map_err MainServer (server_new E S config)) (\<lambda>srv.
           and_then (map_err MainClient (with_local srv (handle_message_exec_spawn E S msg_bytes))) (\<lambda>(thunk, _).
           and_then (run_thunk E S thunk) (\<lambda>status. ok (Some status)))))))
      | None \<Rightarrow>
          (let S = S\<lparr>is_exec_spawning := False\<rparr> in
           and_then (map_err MainServer (run_server E S config)) (\<lambda>thunk.
             case thunk of
               Some thunk \<Rightarrow> and_then (run_thunk E S thunk) (\<lambda>status. ok (Some status))
             | None \<Rightarrow> ok None)))"

end
