(* ===== verification/Server_Invariant.thy ===== *)
theory Server_Invariant
  imports Server_Loop
begin

unbundle bit_operations_syntax

text \<open>
  What the server process keeps true from event to event. In the server process \<^verbatim>\<open>fork\<close> never
  answers 0; there the requests of clients leave the server record alone, connections and
  disconnections change the client sockets and the registry together, and the client sockets
  refine a set that only ever gains a new member while there is room or loses one.
\<close>

definition server_process :: "'w env \<Rightarrow> host \<Rightarrow> bool" where
  "server_process E S \<longleftrightarrow> (\<forall>w. retval (fst (kernel E (ProcCall Libc_fork) w)) \<noteq> 0) \<and> \<not> is_exec_spawning S"

section \<open>Client requests leave the server record alone\<close>

lemma preserves_server_unit [preserves_intros]:
  "preserves (\<lambda>s. fst s = srv) (on_snd m)"
  "preserves (\<lambda>s. fst s = srv) get_server"
  "preserves (\<lambda>s. fst s = srv) (expect_some msg x)"
  "preserves (\<lambda>s. fst s = srv) (unwrap x)"
  "preserves (\<lambda>s. fst s = srv) (parse_again S buf)"
  unfolding get_server_def unwrap_def expect_some_def parse_again_def
  by (auto intro!: preserves_on_snd preserves_intros split: option.splits)

lemma preserves_respond: "preserves (\<lambda>s. fst s = srv) (respond E S fd m ce)"
  unfolding respond_def by (intro preserves_intros)

lemma fork_in_server:
  assumes "server_process E S" and "fork_or_exec E S s = (r, t)"
  shows "fst t = fst s \<and> r \<noteq> Ok 0"
proof -
  obtain srv w where s: "s = (srv, w)" by fastforce
  from assms obtain x w' where "kernel E (ProcCall Libc_fork) w = (x, w')" "t = (srv, w')" "r = check_failure x"
    by (auto simp: s fork_or_exec_def server_process_def on_snd_eq_iff sys_fork_def checked_call_eq_iff)
  moreover have "retval (fst (kernel E (ProcCall Libc_fork) w)) \<noteq> 0"
    using assms(1) by (simp add: server_process_def)
  ultimately show ?thesis by (simp add: s check_failure_def)
qed

lemma preserves_handle_spawn:
  assumes server: "server_process E S"
  shows "preserves (\<lambda>s. fst s = srv) (handle_spawn E S fd buf k)"
proof -
  have fork: "preserves (\<lambda>s. fst s = srv) (match_result (fork_or_exec E S)
      (\<lambda>new_pid. if new_pid = 0 then child else parent new_pid) on_error)"
    if "\<And>p. preserves (\<lambda>s. fst s = srv) (parent p)" "\<And>e. preserves (\<lambda>s. fst s = srv) (on_error e)"
    for child :: "('a, control_result loop_control, client_error) srv_prog" and parent on_error
  proof (rule preservesI)
    fix s r t
    assume s: "fst s = srv" and run: "match_result (fork_or_exec E S)
      (\<lambda>new_pid. if new_pid = 0 then child else parent new_pid) on_error s = (r, t)"
    obtain r1 s1 where f: "fork_or_exec E S s = (r1, s1)" by (cases "fork_or_exec E S s")
    from fork_in_server [OF server f] s have s1: "fst s1 = srv" "r1 \<noteq> Ok 0" by auto
    show "fst t = srv"
    proof (cases r1)
      case (Ok p)
      with run f s1(2) have "parent p s1 = (r, t)" by (simp add: match_result_def)
      with that(1) s1(1) show ?thesis by (rule preservesD)
    next
      case (Err e)
      with run f have "on_error e s1 = (r, t)" by (simp add: match_result_def)
      with that(2) s1(1) show ?thesis by (rule preservesD)
    qed (use run f s1 in \<open>auto simp: match_result_def\<close>)
  qed
  have rest: "preserves (\<lambda>s. fst s = srv) (case get_spawn_params message of
      None \<Rightarrow> ok (Break (Inl MissingSpawnParams))
    | Some params \<Rightarrow> f params)" if "\<And>params. preserves (\<lambda>s. fst s = srv) (f params)" for message f
    using that by (cases "get_spawn_params message") (simp_all add: preserves_ok)
  have error: "preserves (\<lambda>s. fst s = srv) (case e of
      Libc errno \<Rightarrow> and_then (unwrap fd) (\<lambda>fd. ok (Break (Inl (ProcessCreationFailure fd (Libc errno)))))
    | _ \<Rightarrow> panic ''internal error: entered unreachable code'')" for e
    by (cases e) (simp_all add: preserves_and_then preserves_ok preserves_panic preserves_server_unit)
  show ?thesis
    unfolding handle_spawn_def
    by (intro preserves_and_then preserves_server_unit preserves_when_do preserves_expect rest
        preserves_of_outcome fork preserves_respond error)
qed

lemma preserves_dispatch:
  assumes "server_process E S"
  shows "preserves (\<lambda>s. fst s = srv) (dispatch_message_handler E S fd buf)"
  unfolding dispatch_message_handler_def handle_message_exit_def handle_message_identity_query_def
    handle_message_spawn_def handle_message_spawn_subspecies_def handle_message_stat_def
  using preserves_handle_spawn [OF assms]
  by (auto intro!: preserves_intros preserves_respond split: zygote_message.split)

lemma preserves_client_events:
  assumes "server_process E S"
  shows "preserves (\<lambda>s. fst s = srv) (handle_client_events E S fd)"
  unfolding handle_client_events_def handle_client_message_def
  using preserves_dispatch [OF assms]
  by (auto intro!: preserves_intros split: loop_control.split sum.split loop_exit.split)

lemma preserves_signalfd_events: "preserves (\<lambda>s. fst s = srv) (handle_signalfd_events E fd)"
  unfolding handle_signalfd_events_def handle_signal_def Let_def
  by (auto intro!: preserves_intros split: loop_exit.split)

section \<open>Connecting and disconnecting\<close>

definition clients :: "server \<Rightarrow> int set" where "clients srv = set (srv_client_sockets srv)"

text \<open>What the client sockets do, seen as a set: the specification of the table.\<close>

inductive client_step :: "int set \<Rightarrow> int set \<Rightarrow> bool" where
  connect: "fd \<notin> C \<Longrightarrow> card C < BUFFER_SIZE_CLIENT_SOCKETS \<Longrightarrow> client_step C (insert fd C)"
| disconnect: "fd \<in> C \<Longrightarrow> client_step C (C - {fd})"

inductive_cases client_stepE: "client_step C C'"

lemma client_step_bounded:
  assumes "client_step C C'" and "finite C" and "card C \<le> BUFFER_SIZE_CLIENT_SOCKETS"
  shows "finite C' \<and> card C' \<le> BUFFER_SIZE_CLIENT_SOCKETS"
  using assms by (auto elim!: client_stepE simp: card_insert_if intro: order_trans [OF card_Diff1_le])

text \<open>All fields but the registry and the client sockets.\<close>

definition same_service :: "server \<Rightarrow> server \<Rightarrow> bool" where
  "same_service srv srv' \<longleftrightarrow>
     srv' = srv\<lparr>srv_registry := srv_registry srv', srv_client_sockets := srv_client_sockets srv'\<rparr>"

lemma same_service_refl [simp]: "same_service srv srv"
  by (simp add: same_service_def)

lemma same_service_trans:
  assumes "same_service a b" and "same_service b c"
  shows "same_service a c"
proof -
  have "a\<lparr>srv_registry := srv_registry c, srv_client_sockets := srv_client_sockets c\<rparr> =
      (a\<lparr>srv_registry := srv_registry b, srv_client_sockets := srv_client_sockets b\<rparr>)
        \<lparr>srv_registry := srv_registry c, srv_client_sockets := srv_client_sockets c\<rparr>"
    by simp
  also have "\<dots> = b\<lparr>srv_registry := srv_registry c, srv_client_sockets := srv_client_sockets c\<rparr>"
    using assms(1) unfolding same_service_def by (rule arg_cong [OF sym])
  also have "\<dots> = c" using assms(2) unfolding same_service_def by (rule sym)
  finally show ?thesis by (simp add: same_service_def)
qed

lemma server_inv_connect:
  assumes inv: "server_inv srv" and room: "length (srv_client_sockets srv) < BUFFER_SIZE_CLIENT_SOCKETS"
    and reg: "register E fd Close (srv_registry srv, w) = (Ok (), (reg', w'))"
  shows "fd \<notin> clients srv
    \<and> server_inv (srv\<lparr>srv_client_sockets := srv_client_sockets srv @ [fd], srv_registry := reg'\<rparr>)"
proof -
  from inv have reg_inv: "reg_inv (srv_registry srv)" by (simp add: server_inv_def)
  from register_effect [OF this reg] obtain info where
    inv': "reg_inv reg'" and closed: "\<And>e. table_find (reg_data (srv_registry srv)) fd = Some e \<Longrightarrow> fd_entry_closed e"
    and find: "\<And>k. table_find (reg_data reg') k = (if k = fd then Some (fd_entry_new fd info Close)
        else table_find (reg_data (srv_registry srv)) k)"
    by blast
  from inv closed have new: "fd \<notin> clients srv" by (auto simp: server_inv_def clients_def)
  moreover have "\<not> fd_entry_closed (fd_entry_new fd info Close)"
    by (simp add: fd_entry_closed_def fd_entry_new_def)
  ultimately show ?thesis
    using inv inv' room by (auto simp: server_inv_def clients_def find)
qed

lemma position_Some: "position x xs = Some i \<Longrightarrow> i < length xs \<and> xs ! i = x"
  by (induction xs arbitrary: i) (auto split: if_splits)

lemma server_inv_disconnect:
  assumes inv: "server_inv srv" and i: "position fd (srv_client_sockets srv) = Some i"
    and reg: "registry_remove fd (srv_registry srv, w) = (Ok (), (reg', w'))"
  shows "fd \<in> clients srv
    \<and> server_inv (srv\<lparr>srv_registry := reg', srv_client_sockets := remove_at i (srv_client_sockets srv)\<rparr>)
    \<and> set (remove_at i (srv_client_sockets srv)) = clients srv - {fd}"
proof -
  from inv have reg_inv: "reg_inv (srv_registry srv)" and distinct: "distinct (srv_client_sockets srv)"
    by (simp_all add: server_inv_def)
  from position_Some [OF i] have idx: "i < length (srv_client_sockets srv)" "srv_client_sockets srv ! i = fd" by simp_all
  from set_remove_at_distinct [OF distinct idx(1)] idx(2)
  have set: "set (remove_at i (srv_client_sockets srv)) = clients srv - {fd}" by (simp add: clients_def)
  have "distinct (remove_at i (srv_client_sockets srv))"
    using distinct set_take_disj_set_drop_if_distinct [OF distinct, of i "Suc i"] by (simp add: remove_at_def)
  moreover from registry_remove_effect [OF reg_inv, of fd w] reg
  have reg': "reg' = srv_registry srv\<lparr>reg_data := table_del (reg_data (srv_registry srv)) fd\<rparr>"
    by (auto split: if_splits)
  moreover have "reg_inv reg'" and "table_find (reg_data reg') k =
      (if k = fd then None else table_find (reg_data (srv_registry srv)) k)" for k
    using registry_remove_effect [OF reg_inv, of fd w k] by (simp_all add: reg')
  ultimately show ?thesis
    using inv idx set by (auto simp: server_inv_def clients_def)
qed

text \<open>What a connection or disconnection that succeeds has done.\<close>

lemma add_client_Ok:
  assumes "add_client E fd (srv, w) = (Ok c, (srv', w'))"
  obtains w1 reg' w2 where "c = Continue" and "length (srv_client_sockets srv) < BUFFER_SIZE_CLIENT_SOCKETS"
    and "register E fd Close (srv_registry srv, w1) = (Ok (), (reg', w2))"
    and "srv' = srv\<lparr>srv_client_sockets := srv_client_sockets srv @ [fd], srv_registry := reg'\<rparr>"
  using assms
  by (auto simp: add_client_def and_then_eq_Ok_iff on_snd_eq_iff on_registry_eq_iff get_server_def
      arrayvec_push_def add_to_epoll_def expect_some_def unwrap_def split: if_splits option.splits)

lemma remove_client_socket_Ok:
  assumes "remove_client_socket E fd (srv, w) = (Ok (), (srv', w'))"
  obtains reg' w1 i where "registry_remove fd (srv_registry srv, w) = (Ok (), (reg', w1))"
    and "position fd (srv_client_sockets srv) = Some i"
    and "srv' = srv\<lparr>srv_registry := reg', srv_client_sockets := remove_at i (srv_client_sockets srv)\<rparr>"
  using assms
  by (auto simp: remove_client_socket_def and_then_eq_Ok_iff on_snd_eq_iff on_registry_eq_iff get_server_def
      arrayvec_remove_def expect_some_def unwrap_def split: if_splits option.splits)

lemma add_client_effect:
  assumes inv: "server_inv srv" and run: "add_client E fd (srv, w) = (r, (srv', w'))"
  shows "(r = Ok Continue \<longrightarrow> length (srv_client_sockets srv) < 16 \<and> fd \<notin> clients srv
        \<and> srv_client_sockets srv' = srv_client_sockets srv @ [fd] \<and> server_inv srv' \<and> same_service srv srv')
    \<and> (\<forall>creds. r = Err (TooManyClients creds) \<longrightarrow> length (srv_client_sockets srv) = 16 \<and> srv' = srv)
    \<and> r \<noteq> Ok (Break ())"
proof -
  have full: "srv' = srv" if "length (srv_client_sockets srv) = 16"
  proof -
    let ?refuse = "and_then (map_err Metadata (on_snd (sys_fcntl_setfl E fd O_NONBLOCK)))
        (\<lambda>_. and_then (on_snd (peer_credentials E fd)) (\<lambda>client_creds.
         and_then (on_snd (close_ignoring_result E fd)) (\<lambda>_. fail (TooManyClients client_creds))))"
    have keeps: "preserves (\<lambda>s. fst s = srv) ?refuse" by (intro preserves_intros)
    have "add_client E fd (srv, w) = ?refuse (srv, w)"
      unfolding add_client_def using that by (intro and_then_cong_run) (auto simp: on_snd_eq_iff)
    with run have "?refuse (srv, w) = (r, (srv', w'))" by simp
    from preservesD [OF keeps _ this] show ?thesis by simp
  qed
  have ok: "length (srv_client_sockets srv) < 16 \<and> fd \<notin> clients srv \<and> c = Continue
      \<and> srv_client_sockets srv' = srv_client_sockets srv @ [fd] \<and> server_inv srv' \<and> same_service srv srv'"
    if "r = Ok c" for c
  proof -
    from add_client_Ok [OF run [unfolded that]] obtain w1 reg' w2 where room: "length (srv_client_sockets srv) < BUFFER_SIZE_CLIENT_SOCKETS"
      and reg: "register E fd Close (srv_registry srv, w1) = (Ok (), (reg', w2))"
      and srv': "srv' = srv\<lparr>srv_client_sockets := srv_client_sockets srv @ [fd], srv_registry := reg'\<rparr>" "c = Continue"
      by metis
    from server_inv_connect [OF inv room reg] room show ?thesis by (simp add: srv' same_service_def)
  qed
  have err: "length (srv_client_sockets srv) = 16" if "r = Err (TooManyClients creds)" for creds
    using run that
    by (auto simp: add_client_def and_then_eq_Err_iff map_err_eq_Err_iff on_snd_eq_iff get_server_def
        arrayvec_push_def update_server_def split: if_splits)
  from full ok err show ?thesis by blast
qed

text \<open>
  The refusal, call by call: the descriptor is made non-blocking (the only step whose failure is
  reported), the credentials of the peer are asked for and the descriptor is closed, whatever
  closing answers; only an endless sequence of interruptions would keep it from returning.
\<close>

lemma fcntl_setfl_result: "sys_fcntl_setfl E fd flags w = (r, w') \<Longrightarrow> r = Ok () \<or> (\<exists>e. r = Err e)"
  by (auto simp: sys_fcntl_setfl_def checked_call_eq_iff check_defs)

lemma get_socket_creds_result:
  "sys_get_socket_creds E fd w = (r, w') \<Longrightarrow> (\<exists>c. r = Ok c) \<or> (\<exists>e. r = Err e)"
  by (auto simp: sys_get_socket_creds_def sys_getsockopt_def and_then_def match_result_def checked_call_def
      invoke_def of_outcome_def check_defs ok_def split: prod.splits if_splits)

lemma retry_eintr_outcome:
  assumes "\<And>s r t. m s = (r, t) \<Longrightarrow> (\<exists>x. r = Ok x) \<or> (\<exists>e. r = Err e)"
  shows "retry_eintr n m s = (r, t) \<Longrightarrow> (\<exists>x. r = Ok x) \<or> (\<exists>e. r = Err e) \<or> r = Diverges"
proof (induction n arbitrary: s)
  case (Suc n)
  obtain r1 u where first: "m s = (r1, u)" by fastforce
  from Suc.prems assms [OF first] have "r = r1 \<or> retry_eintr n m u = (r, t)"
    by (auto simp: match_result_def first ok_def fail_def split: sys_error.splits if_splits)
  with assms [OF first] Suc.IH show ?case by blast
qed (simp add: diverge_def)

lemma sys_close_result: "sys_close E fd w = (r, w') \<Longrightarrow> (\<exists>c. r = Ok c) \<or> (\<exists>e. r = Err e) \<or> r = Diverges"
  unfolding sys_close_def
  by (rule retry_eintr_outcome) (auto simp: checked_call_eq_iff check_failure_def)

definition refused :: "'w env \<Rightarrow> int \<Rightarrow> 'w \<Rightarrow> (unit loop_control, server_socket_error) outcome \<Rightarrow> 'w \<Rightarrow> bool" where
  "refused E fd w r w' \<longleftrightarrow>
     (\<exists>e. sys_fcntl_setfl E fd O_NONBLOCK w = (Err e, w') \<and> r = Err (Metadata e))
   \<or> (\<exists>w1 answer w2 closed. sys_fcntl_setfl E fd O_NONBLOCK w = (Ok (), w1)
        \<and> sys_get_socket_creds E fd w1 = (answer, w2) \<and> sys_close E fd w2 = (closed, w')
        \<and> r = (if closed = Diverges then Diverges
               else Err (TooManyClients (case answer of Ok creds \<Rightarrow> Some creds | _ \<Rightarrow> None))))"

lemma add_client_refused:
  assumes full: "length (srv_client_sockets srv) = 16" and run: "add_client E fd (srv, w) = (r, (srv', w'))"
  shows "srv' = srv \<and> refused E fd w r w'"
proof -
  obtain s w1 where set: "sys_fcntl_setfl E fd O_NONBLOCK w = (s, w1)" by fastforce
  obtain a w2 where peer: "sys_get_socket_creds E fd w1 = (a, w2)" by fastforce
  obtain c w3 where close: "sys_close E fd w2 = (c, w3)" by fastforce
  note results = fcntl_setfl_result [OF set] get_socket_creds_result [OF peer] sys_close_result [OF close]
  note definitions = add_client_def peer_credentials_def close_ignoring_result_def and_then_def match_result_def
    map_err_def on_snd_def get_server_def gets_def ok_def fail_def
  show ?thesis
  proof (cases s)
    case (Ok x)
    have "r = (if c = Diverges then Diverges
        else Err (TooManyClients (case a of Ok creds \<Rightarrow> Some creds | _ \<Rightarrow> None))) \<and> srv' = srv \<and> w' = w3"
      using run full results set peer close Ok by (auto simp: definitions)
    then show ?thesis using set peer close Ok by (auto simp: refused_def)
  qed (use run full results set in \<open>auto simp: definitions refused_def\<close>)
qed

text \<open>
  C22. A new connection, from a well-formed server: it is accepted only while fewer than 16
  clients are connected, and then exactly its descriptor is added to the client sockets, with
  an open entry in the registry, and the server is well-formed again. When 16 are connected it is
  refused: the server is exactly what it was, the descriptor is made non-blocking, the credentials
  of the peer are asked for, the descriptor is closed, and the answer is \<^verbatim>\<open>TooManyClients\<close> with
  those credentials. The two exceptions are a descriptor whose flags cannot be set, which is
  reported as such, and a call to \<^verbatim>\<open>close\<close> that is interrupted for ever. There is no panic, and no other
  connection is ever answered with \<^verbatim>\<open>TooManyClients\<close>.
\<close>

theorem add_client_functional:
  assumes inv: "server_inv srv" and run: "add_client E fd (srv, w) = (r, (srv', w'))"
  shows "(r = Ok Continue \<longrightarrow> length (srv_client_sockets srv) < 16 \<and> fd \<notin> clients srv
        \<and> srv_client_sockets srv' = srv_client_sockets srv @ [fd] \<and> server_inv srv' \<and> same_service srv srv')
    \<and> (\<forall>creds. r = Err (TooManyClients creds) \<longrightarrow> length (srv_client_sockets srv) = 16 \<and> srv' = srv)
    \<and> (length (srv_client_sockets srv) = 16 \<longrightarrow> srv' = srv \<and> refused E fd w r w')
    \<and> r \<noteq> Ok (Break ())"
  using add_client_effect [OF assms] add_client_refused [OF _ run] by blast

definition one_server :: "int list \<Rightarrow> registry \<Rightarrow> server" where
  "one_server socks reg = \<lparr>srv_name = ''z'', srv_species = LibApp, srv_pid = 7, srv_registry = reg,
     srv_epoll_handle = Some 3, srv_signal_fd = Some 4, srv_server_socket = Some 6, srv_client_sockets = socks,
     srv_server_socket_path = None, srv_preload_uid = None, srv_preload_gid = None, srv_spawn_params = no_params\<rparr>"

text \<open>A world in which every call but \<^verbatim>\<open>accept\<close> and \<^verbatim>\<open>fork\<close> succeeds and every descriptor is a pipe.\<close>

definition pipe_world :: "'w env \<Rightarrow> bool" where
  "pipe_world E \<longleftrightarrow> \<not> debug_assertions E \<and> loop_fuel E \<noteq> 0
     \<and> (\<forall>c w. (\<forall>fd. c \<noteq> SockCall (Libc_accept fd)) \<and> c \<noteq> ProcCall Libc_fork \<longrightarrow> kernel E c w =
          (\<lparr>retval = 0, errno_after = 0, outval = OutStat \<lparr>st_dev = 0, st_ino = 7, st_mode = S_IFIFO\<rparr>\<rparr>, w))"

lemma pipe_world_fifo: "pipe_world fifo_env"
  by (simp add: pipe_world_def) (simp add: fifo_env_def)

lemma pipe_kernel:
  "pipe_world E \<Longrightarrow> kernel E (FdCall fc) w =
     (\<lparr>retval = 0, errno_after = 0, outval = OutStat \<lparr>st_dev = 0, st_ino = 7, st_mode = S_IFIFO\<rparr>\<rparr>, w)"
  "pipe_world E \<Longrightarrow> kernel E (EventCall ec) w =
     (\<lparr>retval = 0, errno_after = 0, outval = OutStat \<lparr>st_dev = 0, st_ino = 7, st_mode = S_IFIFO\<rparr>\<rparr>, w)"
  by (simp_all add: pipe_world_def)

lemma pipe_calls:
  assumes "pipe_world E"
  shows "sys_fcntl_setfl E fd flags w = (Ok (), w)"
    "epoll_handle_add E epfd fd ev data w = (Ok (), w)"
    "epoll_handle_remove E epfd fd w = (Ok (), w)"
    "sys_close E fd w = (Ok 0, w)"
    "fd_info_try_from E fd w = (Ok Fifo, w)"
proof -
  from assms obtain n where "loop_fuel E = Suc n" by (auto simp: pipe_world_def gr0_conv_Suc)
  then show "sys_close E fd w = (Ok 0, w)"
    by (simp add: sys_close_def checked_call_run pipe_kernel [OF assms] check_defs match_result_def ok_def)
  show "sys_fcntl_setfl E fd flags w = (Ok (), w)" "epoll_handle_add E epfd fd ev data w = (Ok (), w)"
    "epoll_handle_remove E epfd fd w = (Ok (), w)"
    by (simp_all add: sys_fcntl_setfl_def epoll_handle_add_def epoll_handle_remove_def sys_epoll_ctl_def
        checked_call_run pipe_kernel [OF assms] check_defs)
  show "fd_info_try_from E fd w = (Ok Fifo, w)"
    by (simp add: fd_info_try_from_def sys_fstat_def checked_call_run and_then_def match_result_def map_err_def
        pipe_kernel [OF assms] check_defs get_file_type_def ok_def)
qed

lemma register_pipe:
  assumes "pipe_world E"
  shows "register E 5 Close (empty_registry LibApp, w) = (Ok (), (one_pipe, w))"
  using assms
  by (simp add: register_def and_then_def match_result_def on_snd_def map_err_def ok_def pipe_calls
      debug_assert_single_threaded_def when_do_def empty_registry_def find_fd_def binary_search_by_def get_data_def
      gets_def of_outcome_def arrayvec_insert_def insert_at_def set_data_run pipe_world_def)

lemma server_inv_empty: "server_inv (one_server [] (empty_registry LibApp))"
  by (simp add: server_inv_def one_server_def reg_inv_def empty_registry_def strict_by_def)

lemma add_client_run:
  "pipe_world E \<Longrightarrow>
    add_client E 5 (one_server [] (empty_registry LibApp), w) = (Ok Continue, (one_server [5] one_pipe, w))"
  by (simp add: add_client_def and_then_def match_result_def map_err_def on_snd_def ok_def pipe_calls get_server_def
      gets_def one_server_def arrayvec_push_def of_outcome_def update_server_def modify_def on_registry_def
      register_pipe add_to_epoll_def unwrap_def expect_some_def)

text \<open>A server with the given clients, and one with all its clients; the next connection has descriptor 21.\<close>

definition server_of :: "int list \<Rightarrow> server" where
  "server_of fds = one_server fds
     ((empty_registry LibApp)\<lparr>reg_data := map (\<lambda>fd. fd_entry_new fd Fifo Close) fds\<rparr>)"

lemma server_inv_of:
  assumes "sorted_wrt (<) fds" and "length fds \<le> 16"
  shows "server_inv (server_of fds)"
proof -
  let ?table = "map (\<lambda>fd. fd_entry_new fd Fifo Close) fds"
  have strict: "strict_by fde_fd ?table"
    using assms(1) by (simp add: strict_by_def fd_entry_new_def comp_def)
  have "table_find ?table fd = Some (fd_entry_new fd Fifo Close)" if "fd \<in> set fds" for fd
    unfolding table_find_iff [OF strict] using that by (auto simp: fd_entry_new_def)
  then show ?thesis
    using strict assms by (auto simp: server_of_def server_inv_def one_server_def reg_inv_def empty_registry_def
        fd_entry_closed_def fd_entry_new_def strict_sorted_iff)
qed

abbreviation full_server :: server where
  "full_server \<equiv> server_of [5..20]"

lemma server_inv_full: "server_inv full_server"
  by (rule server_inv_of) simp_all

theorem add_client_functional_witness:
  "server_inv (one_server [5] one_pipe) \<and> 5 \<in> clients (one_server [5] one_pipe)
    \<and> (\<exists>r. add_client fifo_env 21 (full_server, ()) = (r, (full_server, ())) \<and> refused fifo_env 21 () r ())"
proof -
  obtain r srv' where run: "add_client fifo_env 21 (full_server, ()) = (r, (srv', ()))" by (metis prod.exhaust old.unit.exhaust)
  have "length (srv_client_sockets full_server) = 16" by (simp add: server_of_def one_server_def)
  with add_client_functional [OF server_inv_full run] run
  have "\<exists>r. add_client fifo_env 21 (full_server, ()) = (r, (full_server, ())) \<and> refused fifo_env 21 () r ()" by auto
  then show ?thesis
    using add_client_functional [OF server_inv_empty add_client_run [OF pipe_world_fifo]]
    by (simp add: clients_def one_server_def)
qed

lemma remove_client_socket_effect:
  assumes inv: "server_inv srv" and run: "remove_client_socket E fd (srv, w) = (r, (srv', w'))"
  shows "(r = Ok () \<longrightarrow> fd \<in> clients srv \<and> clients srv' = clients srv - {fd}
        \<and> table_find (reg_data (srv_registry srv')) fd = None \<and> server_inv srv' \<and> same_service srv srv')
    \<and> (table_find (reg_data (srv_registry srv)) fd = None
        \<longrightarrow> r = Err (RegistryUpdate (UnregisteredFd fd)) \<and> srv' = srv \<and> w' = w)"
proof -
  from inv have reg_inv: "reg_inv (srv_registry srv)" by (simp add: server_inv_def)
  note removal = registry_remove_effect [OF reg_inv, of fd]
  have "fd \<in> clients srv \<and> clients srv' = clients srv - {fd}
        \<and> table_find (reg_data (srv_registry srv')) fd = None \<and> server_inv srv' \<and> same_service srv srv'"
    if "r = Ok ()"
  proof -
    from remove_client_socket_Ok [OF run [unfolded that]] obtain reg' w1 i where reg: "registry_remove fd (srv_registry srv, w) = (Ok (), (reg', w1))"
      and i: "position fd (srv_client_sockets srv) = Some i"
      and srv': "srv' = srv\<lparr>srv_registry := reg', srv_client_sockets := remove_at i (srv_client_sockets srv)\<rparr>"
      .
    from reg removal [of w fd] have "table_find (reg_data reg') fd = None" by (auto split: if_splits)
    with server_inv_disconnect [OF inv i reg] show ?thesis by (simp add: srv' clients_def same_service_def)
  qed
  moreover have "r = Err (RegistryUpdate (UnregisteredFd fd)) \<and> srv' = srv \<and> w' = w"
    if "table_find (reg_data (srv_registry srv)) fd = None"
    using run removal [of w fd] that
    by (simp add: remove_client_socket_def and_then_def match_result_def map_err_def on_registry_def fail_def)
  ultimately show ?thesis by blast
qed

text \<open>
  Dropping a client, from a well-formed server. On success the descriptor was a connected
  client, it is no longer one, every other client remains, the registry has no entry for it any
  more, and the server is well-formed again; a descriptor the registry does not know is reported
  and nothing changes.
\<close>

theorem remove_client_socket_functional:
  assumes inv: "server_inv srv" and run: "remove_client_socket E fd (srv, w) = (r, (srv', w'))"
  shows "(r = Ok () \<longrightarrow> fd \<in> clients srv \<and> clients srv' = clients srv - {fd}
        \<and> table_find (reg_data (srv_registry srv')) fd = None \<and> server_inv srv' \<and> same_service srv srv')
    \<and> (table_find (reg_data (srv_registry srv)) fd = None
        \<longrightarrow> r = Err (RegistryUpdate (UnregisteredFd fd)) \<and> srv' = srv \<and> w' = w)"
  using assms by (rule remove_client_socket_effect)

lemma remove_client_run:
  "remove_client_socket fifo_env 5 (one_server [5] one_pipe, ()) = (Ok (), (one_server [] (empty_registry LibApp), ()))"
proof -
  have "registry_remove 5 (one_pipe, ()) = (Ok (), (empty_registry LibApp, ()))"
    by (simp add: registry_remove_def find_fd_def binary_search_by_def bs_loop.simps cmp_def Let_def
        arrayvec_remove_def remove_at_def set_data_run empty_registry_def fd_entry_new_def)
  then show ?thesis
    by (simp add: remove_client_socket_def and_then_def match_result_def map_err_def on_snd_def ok_def
        pipe_calls [OF pipe_world_fifo]
        get_server_def gets_def one_server_def arrayvec_remove_def remove_at_def of_outcome_def update_server_def
        modify_def on_registry_def unwrap_def expect_some_def)
qed

theorem remove_client_socket_functional_witness:
  "server_inv (one_server [] (empty_registry LibApp)) \<and> 5 \<in> clients (one_server [5] one_pipe)"
proof -
  have inv: "server_inv (one_server [5] one_pipe)"
    using add_client_effect [OF server_inv_empty add_client_run [OF pipe_world_fifo]] by simp
  show ?thesis using remove_client_socket_functional [OF inv remove_client_run] by simp
qed

end
