(* ===== verification/Server_Signals.thy ===== *)
theory Server_Signals
  imports Server_Invariant "HOL-Library.Sublist"
begin

unbundle bit_operations_syntax

text \<open>
  The signal descriptor is emptied and every terminated child is reaped: one \<^verbatim>\<open>SIGCHLD\<close> may
  stand for several children, so the handler waits until no child is left to report. The kernel's
  side is a queue of signals on the descriptor and a queue of terminated children.
\<close>

section \<open>Signals and terminated children as the kernel hands them out\<close>

fun is_waitid :: "syscall \<Rightarrow> bool" where
  "is_waitid (ProcCall (Libc_waitid _ _ _)) = True"
| "is_waitid _ = False"

text \<open>
  \<^verbatim>\<open>signalfd(2)\<close>: a read takes the next pending signal or fails with \<^verbatim>\<open>EAGAIN\<close>. \<^verbatim>\<open>waitid(2)\<close> with
  \<^verbatim>\<open>WNOHANG\<close>: takes the next terminated child, else answers with pid 0 while there are children
  and \<^verbatim>\<open>ECHILD\<close> when there are none. No other call touches either queue.
\<close>

definition signal_world ::
  "'w env \<Rightarrow> int \<Rightarrow> ('w \<Rightarrow> siginfo list) \<Rightarrow> ('w \<Rightarrow> siginfo list) \<Rightarrow> bool"
where
  "signal_world E fd signals zombies \<longleftrightarrow>
     (\<forall>c w r w'. kernel E c w = (r, w') \<longrightarrow>
        signals w' = (if c = FdCall (Libc_read fd SIZE_OF_SIGNALFD_SIGINFO) then tl (signals w) else signals w)
      \<and> zombies w' = (if is_waitid c then tl (zombies w) else zombies w)
      \<and> (c = FdCall (Libc_read fd SIZE_OF_SIGNALFD_SIGINFO) \<longrightarrow>
          (case signals w of
             [] \<Rightarrow> retval r = - 1 \<and> errno_after r = EAGAIN
           | si # _ \<Rightarrow> retval r = int SIZE_OF_SIGNALFD_SIGINFO \<and> outval r = OutSiginfo si))
      \<and> (c = ProcCall (Libc_waitid P_ALL 0 (WEXITED OR WNOHANG)) \<longrightarrow>
          (case zombies w of
             [] \<Rightarrow> retval r = - 1 \<and> errno_after r = ECHILD \<or> retval r = 0 \<and> si_pid (out_siginfo (outval r)) = 0
           | si # _ \<Rightarrow> retval r = 0 \<and> outval r = OutSiginfo si)))"

text \<open>What the kernel reports of a terminated child: its id and a way to die.\<close>

definition terminated_child :: "siginfo \<Rightarrow> bool" where
  "terminated_child si \<longleftrightarrow> si_pid si \<noteq> 0 \<and> si_signo si = SIGCHLD \<and> si_code si \<in> {CLD_EXITED, CLD_KILLED, CLD_DUMPED}"

text \<open>The datagrams sent, in order, and the one that reports a child.\<close>

fun datagram :: "syscall \<Rightarrow> string option" where
  "datagram (StdCall (Std_datagram_send _ bytes)) = Some bytes"
| "datagram _ = None"

definition datagrams :: "(syscall \<times> int) list \<Rightarrow> string list" where
  "datagrams log = List.map_filter (\<lambda>p. datagram (fst p)) log"

definition child_report :: "siginfo \<Rightarrow> string" where
  "child_report si = sigchld_as_bytes \<lparr>um_typ = SIG_CHLD_TYPE, um_pid = word_of_int (si_pid si),
     um_uid = word_of_int (si_uid si),
     um_status = word_of_int (case raw_status_from_siginfo si of Ok st \<Rightarrow> st | _ \<Rightarrow> 0)\<rparr>"

text \<open>Every socket for reports can be made and connected.\<close>

definition reports_delivered :: "'w env \<Rightarrow> bool" where
  "reports_delivered E \<longleftrightarrow> (\<forall>w. retval (fst (kernel E (StdCall Std_datagram_unbound) w)) \<noteq> - 1)
     \<and> (\<forall>fd path w. retval (fst (kernel E (StdCall (Std_datagram_connect fd path)) w)) \<noteq> - 1)"

text \<open>
  The reports \<open>ds\<close> that a server of a species sends of reaped children: only the Android species
  reports; it sends reports of these children only, in order, each at most once, and all of them
  when the sockets can be made and connected.
\<close>

definition reported :: "'w env \<Rightarrow> species_tag \<Rightarrow> siginfo list \<Rightarrow> string list \<Rightarrow> bool" where
  "reported E species children ds \<longleftrightarrow> subseq ds (map child_report children)
     \<and> (species = AndroidNative \<and> reports_delivered E \<longrightarrow> ds = map child_report children)
     \<and> (species \<noteq> AndroidNative \<longrightarrow> ds = [])"

lemma reported_Nil [simp]: "reported E species [] ds \<longleftrightarrow> ds = []"
  by (auto simp: reported_def)

lemma reported_Cons:
  "ds = [] \<or> ds = [child_report z] \<and> species = AndroidNative \<Longrightarrow>
    (species = AndroidNative \<and> reports_delivered E \<longrightarrow> ds = [child_report z]) \<Longrightarrow>
    reported E species zs es \<Longrightarrow> reported E species (z # zs) (ds @ es)"
  by (auto simp: reported_def)

lemma datagrams_append [simp]: "datagrams (xs @ ys) = datagrams xs @ datagrams ys"
  by (simp add: datagrams_def List.map_filter_def)

lemma datagrams_Cons [simp]: "datagrams (p # log) = (case datagram (fst p) of Some b \<Rightarrow> b # datagrams log | None \<Rightarrow> datagrams log)"
  by (simp add: datagrams_def List.map_filter_def split: option.split)

lemma datagrams_Nil [simp]: "datagrams [] = []"
  by (simp add: datagrams_def List.map_filter_def)

section \<open>Reaping\<close>

lemma terminated_status: "terminated_child si \<Longrightarrow> \<exists>st. raw_status_from_siginfo si = Ok st"
  by (auto simp: terminated_child_def raw_status_from_siginfo_def)

lemma handle_sigchld_quiet:
  assumes world: "signal_world E fd signals zombies" and "species \<noteq> AndroidNative"
    and run: "(handle_sigchld (logged E) species pid uid st :: ('w logged_world, unit, 'e) prog) (w, log) = (r, (w', log'))"
  shows "r = Ok () \<and> w' = w \<and> log' = log"
  using assms by (auto simp: handle_sigchld_def ok_def)

lemma handle_sigchld_android:
  assumes world: "signal_world E fd signals zombies"
    and run: "(handle_sigchld (logged E) AndroidNative pid uid st :: ('w logged_world, unit, 'e) prog) (w, log) = (r, (w', log'))"
  shows "r = Ok () \<and> signals w' = signals w \<and> zombies w' = zombies w
    \<and> (\<exists>ds. datagrams log' = datagrams log @ ds
        \<and> (ds = [] \<and> \<not> reports_delivered E \<or> ds = [sigchld_as_bytes \<lparr>um_typ = SIG_CHLD_TYPE, um_pid = word_of_int pid,
             um_uid = word_of_int uid, um_status = word_of_int st\<rparr>]))"
proof -
  let ?send = "\<lambda>sock. StdCall (Std_datagram_send (retval sock) (sigchld_as_bytes
    \<lparr>um_typ = SIG_CHLD_TYPE, um_pid = word_of_int pid, um_uid = word_of_int uid, um_status = word_of_int st\<rparr>))"
  let ?drop = "\<lambda>sock. StdCall (Std_datagram_drop (retval sock))"
  have quiet: "signals v' = signals v \<and> zombies v' = zombies v" if "kernel E (StdCall c) v = (x, v')" for c v x v'
    using world that unfolding signal_world_def by fastforce
  obtain sock w1 where k1: "kernel E (StdCall Std_datagram_unbound) w = (sock, w1)" by fastforce
  obtain c w2 where k2: "kernel E (StdCall (Std_datagram_connect (retval sock) UNSOLICITED_ZYGOTE_SOCKET_PATH)) w1 = (c, w2)"
    by fastforce
  obtain s w3 where k3: "kernel E (?send sock) w2 = (s, w3)" by fastforce
  obtain d w4 where k4: "kernel E (?drop sock) w3 = (d, w4)" by fastforce
  obtain d' w5 where k5: "kernel E (?drop sock) w2 = (d', w5)" by fastforce
  note keeps = quiet [OF k1] quiet [OF k2] quiet [OF k3] quiet [OF k4] quiet [OF k5]
  show ?thesis
  proof (cases "retval sock = - 1 \<or> retval c = - 1")
    case True
    then have "\<not> reports_delivered E"
      using k1 k2 unfolding reports_delivered_def by (metis fst_conv)
    moreover from run True have "r = Ok () \<and> (w' = w1 \<or> w' = w5) \<and> datagrams log' = datagrams log"
      by (auto simp: handle_sigchld_def and_then_def match_result_def invoke_def kernel_logged k1 k2 k5 ok_def split: if_splits)
    ultimately show ?thesis using keeps by auto
  next
    case False
    with run have "r = Ok () \<and> w' = w4 \<and> datagrams log' = datagrams log @ [sigchld_as_bytes
        \<lparr>um_typ = SIG_CHLD_TYPE, um_pid = word_of_int pid, um_uid = word_of_int uid, um_status = word_of_int st\<rparr>]"
      by (auto simp: handle_sigchld_def and_then_def match_result_def invoke_def kernel_logged k1 k2 k3 k4 ok_def)
    with keeps show ?thesis by auto
  qed
qed

lemma handle_sigchld_report:
  assumes world: "signal_world E fd signals zombies"
    and st: "raw_status_from_siginfo z = Ok st"
    and run: "(handle_sigchld (logged E) species (si_pid z) (si_uid z) st :: ('w logged_world, unit, 'e) prog) (w, log)
      = (r, (w', log'))"
  shows "r = Ok () \<and> signals w' = signals w \<and> zombies w' = zombies w
    \<and> (\<exists>ds. datagrams log' = datagrams log @ ds
        \<and> (\<forall>zs es. reported E species zs es \<longrightarrow> reported E species (z # zs) (ds @ es)))"
proof (cases "species = AndroidNative")
  case True
  from handle_sigchld_android [OF world run [unfolded True]] obtain ds where
    "r = Ok ()" "signals w' = signals w" "zombies w' = zombies w" "datagrams log' = datagrams log @ ds"
    and "ds = [] \<and> \<not> reports_delivered E \<or> ds = [child_report z]"
    by (auto simp: child_report_def st)
  with True show ?thesis by (auto intro!: exI [of _ ds] reported_Cons)
next
  case False
  with handle_sigchld_quiet [OF world False run] show ?thesis
    by (auto intro!: exI [of _ "[]"] reported_Cons [of "[]", simplified])
qed

lemma reap_all_children:
  assumes world: "signal_world E fd signals zombies"
  shows "\<forall>z \<in> set (zombies w). terminated_child z \<Longrightarrow> length (zombies w) < n \<Longrightarrow> loop_fuel E \<noteq> 0 \<Longrightarrow>
    \<exists>w' log' ds. reap_children n (logged E) species (w, log) = (Ok Continue, (w', log'))
      \<and> zombies w' = [] \<and> signals w' = signals w
      \<and> datagrams log' = datagrams log @ ds \<and> reported E species (zombies w) ds"
proof (induction n arbitrary: w log)
  case (Suc n)
  from Suc.prems(3) obtain m where fuel: "loop_fuel E = Suc m" by (cases "loop_fuel E") auto
  let ?waitid = "ProcCall (Libc_waitid P_ALL 0 (WEXITED OR WNOHANG))"
  obtain r w1 where k: "kernel E ?waitid w = (r, w1)" by fastforce
  from world k have sig: "signals w1 = signals w" and zom: "zombies w1 = tl (zombies w)"
    and ans: "case zombies w of
             [] \<Rightarrow> retval r = - 1 \<and> errno_after r = ECHILD \<or> retval r = 0 \<and> si_pid (out_siginfo (outval r)) = 0
           | si # _ \<Rightarrow> retval r = 0 \<and> outval r = OutSiginfo si"
    unfolding signal_world_def by fastforce+
  have wait: "sys_waitid (logged E) All (WEXITED OR WNOHANG) (w, log) =
      (if retval r = - 1 then Err (Libc (errno_after r))
       else Ok (if si_pid (out_siginfo (outval r)) = 0 then None else Some (out_siginfo (outval r))),
       (w1, log @ [(?waitid, retval r)]))" if "errno_after r = EINTR \<longrightarrow> retval r \<noteq> - 1"
    using that k by (auto simp: sys_waitid_def and_then_def match_result_def fuel checked_call_def invoke_def kernel_logged
        check_defs of_outcome_def errno_is_def fail_def ok_def)
  show ?case
  proof (cases "zombies w")
    case Nil
    with ans wait zom sig show ?thesis
      by (auto simp: match_result_def ok_def)
  next
    case (Cons z zs)
    with ans have r: "retval r = 0" "out_siginfo (outval r) = z" by (auto simp: out_siginfo_def)
    from Cons Suc.prems(1) have z: "terminated_child z" and zs: "\<forall>z \<in> set (zombies w1). terminated_child z"
      using zom by auto
    from terminated_status [OF z] obtain st where st: "raw_status_from_siginfo z = Ok st" ..
    obtain r2 w2 log2 where report: "(handle_sigchld (logged E) species (si_pid z) (si_uid z) st
        :: ('a logged_world, unit, signal_handler_error) prog) (w1, log @ [(?waitid, retval r)]) = (r2, (w2, log2))"
      by (metis prod.exhaust)
    from handle_sigchld_report [OF world st report] zom Cons sig obtain ds where
      rep: "r2 = Ok ()" "signals w2 = signals w" "zombies w2 = zs" "datagrams log2 = datagrams log @ ds"
        "\<forall>zs es. reported E species zs es \<longrightarrow> reported E species (z # zs) (ds @ es)"
      by auto
    have step: "reap_children (Suc n) (logged E) species (w, log) = reap_children n (logged E) species (w2, log2)"
      using wait r z rep(1) report
      by (simp add: terminated_child_def match_result_def and_then_def map_err_def st ok_def of_outcome_def)
    from Suc.IH [of w2 log2] rep Suc.prems Cons zom zs
    obtain w' log' es where "reap_children n (logged E) species (w2, log2) = (Ok Continue, (w', log'))"
      "zombies w' = []" "signals w' = signals w2" "datagrams log' = datagrams log2 @ es" "reported E species zs es"
      by auto
    with step rep Cons show ?thesis by (intro exI [of _ w'] exI [of _ log'] exI [of _ "ds @ es"]) simp
  qed
qed simp

section \<open>Emptying the signal descriptor\<close>

lemma read_signal:
  assumes world: "signal_world E fd signals zombies" and fuel: "loop_fuel E \<noteq> 0"
  obtains w1 log1 where "zombies w1 = zombies w" "signals w1 = tl (signals w)" "datagrams log1 = datagrams log"
    "(sys_read_exact (logged E) fd SIZE_OF_SIGNALFD_SIGINFO) (w, log) =
      (case signals w of [] \<Rightarrow> Err (Libc EAGAIN) | si # _ \<Rightarrow> Ok (OutSiginfo si), (w1, log1))"
proof -
  from fuel obtain m where fuel: "loop_fuel E = Suc m" by (cases "loop_fuel E") auto
  let ?read = "FdCall (Libc_read fd SIZE_OF_SIGNALFD_SIGINFO)"
  obtain r w1 where k: "kernel E ?read w = (r, w1)" by fastforce
  from world k have "zombies w1 = zombies w" "signals w1 = tl (signals w)"
    and "case signals w of
             [] \<Rightarrow> retval r = - 1 \<and> errno_after r = EAGAIN
           | si # _ \<Rightarrow> retval r = int SIZE_OF_SIGNALFD_SIGINFO \<and> outval r = OutSiginfo si"
    unfolding signal_world_def by fastforce+
  with that [of w1 "log @ [(?read, retval r)]"] k show thesis
    by (auto simp: sys_read_exact_def sys_read_def fuel and_then_def match_result_def checked_call_def invoke_def
        kernel_logged check_defs of_outcome_def errno_is_def fail_def ok_def split: list.splits)
qed

text \<open>Whether a signal asks the server to stop.\<close>

definition stop_signal :: "siginfo \<Rightarrow> bool" where
  "stop_signal si \<longleftrightarrow> si_signo si = SIGINT \<or> si_signo si = SIGTERM"

text \<open>How the descriptor, the children and the reports stand after the signals of a queue.\<close>

definition signals_handled ::
  "'w env \<Rightarrow> species_tag \<Rightarrow> ('w \<Rightarrow> siginfo list) \<Rightarrow> 'w logged_world \<Rightarrow> 'w logged_world \<Rightarrow> siginfo list \<Rightarrow> bool"
where
  "signals_handled E species zombies s t queue \<longleftrightarrow>
     (if queue \<noteq> [] \<and> \<not> stop_signal (hd queue)
      then zombies (fst t) = [] \<and>
        (\<exists>ds. datagrams (snd t) = datagrams (snd s) @ ds \<and> reported E species (zombies (fst s)) ds)
      else zombies (fst t) = zombies (fst s) \<and> datagrams (snd t) = datagrams (snd s))"

lemma signal_loop:
  assumes world: "signal_world E fd signals zombies"
  shows "length (signals w) < n \<Longrightarrow> length (zombies w) < loop_fuel E \<Longrightarrow>
    \<forall>s \<in> set (signals w). si_signo s \<in> set BLOCKED_SIGNALS \<Longrightarrow> \<forall>z \<in> set (zombies w). terminated_child z \<Longrightarrow>
    \<exists>w' log' exit. try_until_would_block n SigRead
        (on_snd (sys_read_exact (logged E) fd SIZE_OF_SIGNALFD_SIGINFO)) (handle_signal (logged E)) (srv, (w, log))
      = (Ok exit, (srv, (w', log')))
      \<and> (exit = WouldBlock \<longleftrightarrow> (\<forall>s \<in> set (signals w). \<not> stop_signal s))
      \<and> signals_handled E (srv_species srv) zombies (w, log) (w', log') (signals w)"
proof (induction n arbitrary: w log)
  case (Suc n)
  from Suc.prems(2) have fuel: "loop_fuel E \<noteq> 0" by simp
  obtain w1 log1 where first: "zombies w1 = zombies w" "signals w1 = tl (signals w)" "datagrams log1 = datagrams log"
    and read: "(sys_read_exact (logged E) fd SIZE_OF_SIGNALFD_SIGINFO) (w, log) =
      (case signals w of [] \<Rightarrow> Err (Libc EAGAIN) | si # _ \<Rightarrow> Ok (OutSiginfo si), (w1, log1))"
    using read_signal [OF world fuel, of w log] by blast
  show ?case
  proof (cases "signals w")
    case Nil
    with first read show ?thesis
      by (auto simp: match_result_def on_snd_def blocks_def errno_is_def ok_def signals_handled_def)
  next
    case (Cons s ss)
    show ?thesis
    proof (cases "stop_signal s")
      case True
      with Cons first read show ?thesis
        by (auto simp: match_result_def on_snd_def handle_signal_def out_siginfo_def and_then_def ok_def
            stop_signal_def signals_handled_def get_server_def gets_def)
    next
      case False
      with Cons Suc.prems(3) have chld: "si_signo s = SIGCHLD" by (auto simp: BLOCKED_SIGNALS_def stop_signal_def)
      from reap_all_children [OF world, of w1 "loop_fuel E" "srv_species srv" log1] first Suc.prems Cons fuel
      obtain w2 log2 ds where reap: "reap_children (loop_fuel E) (logged E) (srv_species srv) (w1, log1) = (Ok Continue, (w2, log2))"
        and none: "zombies w2 = []" and sig2: "signals w2 = ss"
        and sent: "datagrams log2 = datagrams log @ ds" "reported E (srv_species srv) (zombies w) ds"
        by auto
      with Suc.IH [of w2 log2] Suc.prems Cons obtain w' log' exit where
        rest: "try_until_would_block n SigRead
            (on_snd (sys_read_exact (logged E) fd SIZE_OF_SIGNALFD_SIGINFO)) (handle_signal (logged E)) (srv, (w2, log2))
          = (Ok exit, (srv, (w', log')))"
          "exit = WouldBlock \<longleftrightarrow> (\<forall>s \<in> set ss. \<not> stop_signal s)"
          "signals_handled E (srv_species srv) zombies (w2, log2) (w', log') ss"
        by auto
      moreover have "try_until_would_block (Suc n) SigRead
            (on_snd (sys_read_exact (logged E) fd SIZE_OF_SIGNALFD_SIGINFO)) (handle_signal (logged E)) (srv, (w, log))
          = try_until_would_block n SigRead
            (on_snd (sys_read_exact (logged E) fd SIZE_OF_SIGNALFD_SIGINFO)) (handle_signal (logged E)) (srv, (w2, log2))"
        using Cons read chld reap
        by (simp add: match_result_def on_snd_def handle_signal_def out_siginfo_def and_then_def ok_def get_server_def gets_def)
      ultimately show ?thesis
        using Cons False none sent
        by (auto simp: signals_handled_def split: if_splits)
    qed
  qed
qed simp

text \<open>
  C14. Signals. Whatever is queued on the signal descriptor, a handler with enough fuel returns:
  with \<^verbatim>\<open>Shutdown\<close> exactly when one of the signals is \<^verbatim>\<open>SIGINT\<close> or \<^verbatim>\<open>SIGTERM\<close>. When the first is
  \<^verbatim>\<open>SIGCHLD\<close>, no terminated child is left over, however many one signal stands for and whatever the
  species of the server; otherwise no child is reaped. A server of the Android species reports the
  reaped children, and nothing else, at most once each, in the order in which the kernel hands them
  out, with id, user and raw status: all of them, if the sockets it opens for its reports can be
  made and connected. A server of another species sends no report. The server itself is unchanged.
\<close>

theorem signals_reap_children:
  assumes world: "signal_world E fd signals zombies"
    and fuel: "length (signals w) < loop_fuel E" "length (zombies w) < loop_fuel E"
    and mask: "\<forall>s \<in> set (signals w). si_signo s \<in> set BLOCKED_SIGNALS"
    and children: "\<forall>z \<in> set (zombies w). terminated_child z"
  shows "\<exists>w' log'. handle_signalfd_events (logged E) fd (srv, (w, log))
      = (Ok (if \<exists>s \<in> set (signals w). stop_signal s then Shutdown else PollContinue), (srv, (w', log')))
    \<and> (if signals w \<noteq> [] \<and> \<not> stop_signal (hd (signals w))
       then zombies w' = [] \<and> (\<exists>ds. datagrams log' = datagrams log @ ds
         \<and> subseq ds (map child_report (zombies w))
         \<and> (srv_species srv = AndroidNative \<and> reports_delivered E \<longrightarrow> ds = map child_report (zombies w))
         \<and> (srv_species srv \<noteq> AndroidNative \<longrightarrow> ds = []))
       else zombies w' = zombies w \<and> datagrams log' = datagrams log)"
proof -
  from signal_loop [OF world fuel(1,2) mask children, where srv = srv and log = log] obtain w' log' exit where
    "try_until_would_block (loop_fuel E) SigRead
        (on_snd (sys_read_exact (logged E) fd SIZE_OF_SIGNALFD_SIGINFO)) (handle_signal (logged E)) (srv, (w, log))
      = (Ok exit, (srv, (w', log')))"
    and exit: "exit = WouldBlock \<longleftrightarrow> (\<forall>s \<in> set (signals w). \<not> stop_signal s)"
    and handled: "signals_handled E (srv_species srv) zombies (w, log) (w', log') (signals w)" by blast
  then have "handle_signalfd_events (logged E) fd (srv, (w, log))
      = (Ok (case exit of Early _ \<Rightarrow> Shutdown | WouldBlock \<Rightarrow> PollContinue), (srv, (w', log')))"
    by (simp add: handle_signalfd_events_def and_then_def match_result_def ok_def)
  with exit handled show ?thesis
    by (cases exit) (auto simp: signals_handled_def reported_def)
qed

text \<open>A kernel with the two queues as its state, on descriptor 4.\<close>

definition queue_kernel :: "syscall \<Rightarrow> siginfo list \<times> siginfo list \<Rightarrow> sysret \<times> (siginfo list \<times> siginfo list)" where
  "queue_kernel c w =
     (let take = (\<lambda>n e q. case q of [] \<Rightarrow> \<lparr>retval = - 1, errno_after = e, outval = NoOut\<rparr>
                                  | si # _ \<Rightarrow> \<lparr>retval = n, errno_after = 0, outval = OutSiginfo si\<rparr>) in
      if c = FdCall (Libc_read 4 SIZE_OF_SIGNALFD_SIGINFO)
      then (take (int SIZE_OF_SIGNALFD_SIGINFO) EAGAIN (fst w), (tl (fst w), snd w))
      else if is_waitid c then (take 0 ECHILD (snd w), (fst w, tl (snd w)))
      else (\<lparr>retval = 0, errno_after = 0, outval = NoOut\<rparr>, w))"

definition queue_env :: "(siginfo list \<times> siginfo list) env" where
  "queue_env = \<lparr>kernel = queue_kernel, loop_fuel = 3, debug_assertions = False\<rparr>"

lemma queue_env_world: "signal_world queue_env 4 fst snd" and queue_env_delivers: "reports_delivered queue_env"
  by (auto simp: signal_world_def reports_delivered_def queue_env_def queue_kernel_def Let_def split: list.splits)

definition signal_info :: "int \<Rightarrow> int \<Rightarrow> siginfo" where
  "signal_info signo pid = \<lparr>si_signo = signo, si_code = CLD_EXITED, si_pid = pid, si_uid = 0, si_status = 0\<rparr>"

abbreviation queued :: "siginfo list \<times> siginfo list" where
  "queued \<equiv> ([signal_info SIGCHLD 8, signal_info SIGTERM 1], [signal_info SIGCHLD 8, signal_info SIGCHLD 9])"

abbreviation queue_server :: "species_tag \<Rightarrow> server" where
  "queue_server species \<equiv> (one_server [] (empty_registry species))\<lparr>srv_species := species\<rparr>"

theorem signals_reap_children_witness:
  "(\<exists>w' log'. handle_signalfd_events (logged queue_env) 4 (queue_server AndroidNative, (queued, []))
      = (Ok Shutdown, (queue_server AndroidNative, (w', log')))
    \<and> snd w' = [] \<and> datagrams log' = [child_report (signal_info SIGCHLD 8), child_report (signal_info SIGCHLD 9)])
   \<and> (\<exists>w' log'. handle_signalfd_events (logged queue_env) 4 (queue_server LibApp, (queued, []))
      = (Ok Shutdown, (queue_server LibApp, (w', log'))) \<and> snd w' = [] \<and> datagrams log' = [])"
  using signals_reap_children [OF queue_env_world, where srv = "queue_server AndroidNative" and log = "[]" and w = queued]
    signals_reap_children [OF queue_env_world, where srv = "queue_server LibApp" and log = "[]" and w = queued]
    queue_env_delivers
  by (simp add: queue_env_def signal_info_def stop_signal_def terminated_child_def BLOCKED_SIGNALS_def) blast

end
