(* ===== verification/Server_Steps.thy ===== *)
theory Server_Steps
  imports Server_Invariant
begin

unbundle bit_operations_syntax

text \<open>
  Runs of the event loop. \<open>serving\<close> is the step relation of the loop between two events;
  \<open>serves\<close> is the loop without fuel, and agrees with \<open>serve_loop\<close> at every fuel that is enough.
  In the server process every reachable state is well-formed and the client sockets follow the
  specification \<open>client_step\<close>.
\<close>

section \<open>Events refine steps of the client set\<close>

definition keeps_service :: "server \<times> 'w \<Rightarrow> server \<times> 'w \<Rightarrow> bool" where
  "keeps_service s t \<longleftrightarrow> (server_inv (fst s) \<longrightarrow> server_inv (fst t)
     \<and> client_step\<^sup>*\<^sup>* (clients (fst s)) (clients (fst t)) \<and> same_service (fst s) (fst t))"

lemma keeps_service_unchanged [intro]: "fst t = fst s \<Longrightarrow> keeps_service s t"
  by (simp add: keeps_service_def)

lemma keeps_service_trans: "keeps_service s t \<Longrightarrow> keeps_service t u \<Longrightarrow> keeps_service s u"
  unfolding keeps_service_def by (blast intro: rtranclp_trans same_service_trans)

text \<open>A relation that every call of the task and every good call of the handler stays in.\<close>

lemma try_until_would_block_within:
  assumes refl: "\<And>s. R s s" and trans: "\<And>s t u. R s t \<Longrightarrow> R t u \<Longrightarrow> R s u"
    and task: "\<And>s r t. task s = (r, t) \<Longrightarrow> R s t"
    and handler: "\<And>x s c t. handler x s = (Ok c, t) \<Longrightarrow> R s t"
    and failing: "\<And>x s e t. handler x s = (Err e, t) \<Longrightarrow> good e \<Longrightarrow> R s t"
    and run: "try_until_would_block n tf task handler s = (r, t)"
    and result: "(\<exists>c. r = Ok c) \<or> (\<exists>e. r = Err e \<and> good e)"
  shows "R s t"
  using run
proof (induction n arbitrary: s)
  case 0
  with result show ?case by auto
next
  case (Suc n)
  obtain r1 s1 where step: "task s = (r1, s1)" by fastforce
  then have first: "R s s1" by (rule task)
  show ?case
  proof (cases r1)
    case (Ok x)
    obtain r2 s2 where handled: "handler x s1 = (r2, s2)" by fastforce
    show ?thesis
    proof (cases r2)
      case (Ok c)
      with handled handler have second: "R s1 s2" by blast
      show ?thesis
      proof (cases c)
        case Continue
        with Suc.prems step \<open>r1 = Ok x\<close> handled Ok have "try_until_would_block n tf task handler s2 = (r, t)"
          by (simp add: match_result_def and_then_Ok)
        from Suc.IH [OF this] first second show ?thesis by (blast intro: trans)
      next
        case (Break v)
        with Suc.prems step \<open>r1 = Ok x\<close> handled Ok have "t = s2"
          by (simp add: match_result_def and_then_Ok ok_def)
        with first second show ?thesis by (blast intro: trans)
      qed
    next
      case (Err e)
      with Suc.prems step \<open>r1 = Ok x\<close> handled have "r = Err e" "t = s2"
        by (simp_all add: match_result_def and_then_Err)
      with result handled Err failing have "R s1 s2" by auto
      with first \<open>t = s2\<close> show ?thesis by (blast intro: trans)
    qed (use Suc.prems step \<open>r1 = Ok x\<close> handled result in
        \<open>auto simp: match_result_def and_then_Panic and_then_Diverges\<close>)
  next
    case (Err e)
    with Suc.prems step have "t = s1" by (simp add: match_result_def ok_def fail_def split: if_splits)
    with first show ?thesis by simp
  qed (use Suc.prems step result in \<open>auto simp: match_result_def\<close>)
qed

text \<open>
  What a relation between states must allow to hold between any two events of the loop: doing
  nothing, accepting a client or turning it away, dropping a client, and handling a message, unless
  the message ends with an error that is not \<open>good\<close>.
\<close>

locale loop_relation =
  fixes E :: "'w env" and S :: host and R :: "server \<times> 'w \<Rightarrow> server \<times> 'w \<Rightarrow> bool" and good :: "client_error \<Rightarrow> bool"
  assumes unchanged: "fst t = fst s \<Longrightarrow> R s t"
    and trans: "R s t \<Longrightarrow> R t u \<Longrightarrow> R s u"
    and accepts: "add_client E fd s = (r, t) \<Longrightarrow> (\<exists>c. r = Ok c) \<or> (\<exists>creds. r = Err (TooManyClients creds)) \<Longrightarrow> R s t"
    and removes: "remove_client_socket E fd s = (Ok (), t) \<Longrightarrow> R s t"
    and handles: "handle_client_message E S fd x s = (q, t) \<Longrightarrow> (\<exists>c. q = Ok c) \<or> (\<exists>e. q = Err e \<and> good e) \<Longrightarrow> R s t"
begin

lemma on_world: "on_snd m s = (r, t) \<Longrightarrow> R s t"
  by (cases s) (auto simp: on_snd_eq_iff intro: unchanged)

lemma server_events:
  assumes "handle_server_events E fd s = (r, t)" and "(\<exists>c. r = Ok c) \<or> (\<exists>creds. r = Err (TooManyClients creds))"
  shows "R s t"
proof -
  from assms obtain r1 where run: "try_until_would_block (loop_fuel E) Accept (on_snd (sys_accept E fd)) (add_client E) s = (r1, t)"
    and result: "(\<exists>c. r1 = Ok c) \<or> (\<exists>e. r1 = Err e \<and> (\<exists>creds. e = TooManyClients creds))"
    by (auto simp: handle_server_events_def and_then_eq_Ok_iff and_then_eq_Err_iff)
  show ?thesis
    by (rule try_until_would_block_within [where R = R, OF _ _ _ _ _ run result])
       (auto intro: unchanged trans on_world accepts)
qed

lemma client_events:
  assumes "handle_client_events E S fd s = (r, t)" and "(\<exists>c. r = Ok c) \<or> (\<exists>e. r = Err e \<and> good e)"
  shows "R s t"
proof -
  from assms obtain r1 where run: "try_until_would_block (loop_fuel E) ClientRead
      (on_snd (sys_recvmsg E fd MESSAGE_BUFFER_SIZE)) (handle_client_message E S fd) s = (r1, t)"
    and result: "(\<exists>c. r1 = Ok c) \<or> (\<exists>e. r1 = Err e \<and> good e)"
    by (auto simp: handle_client_events_def and_then_eq_Ok_iff and_then_eq_Err_iff)
  show ?thesis
    by (rule try_until_would_block_within [where R = R, OF _ _ _ _ _ run result])
       (auto intro: unchanged trans on_world handles)
qed

lemma hangup: "handle_hangup E event event_data s = (Ok (), t) \<Longrightarrow> R s t"
  by (auto simp: handle_hangup_eq when_do_def intro: removes unchanged split: if_splits)

lemma input:
  assumes run: "handle_input E S d s = (r, t)"
    and result: "(\<exists>c. r = Ok c) \<or> (\<exists>e. r = Err (ClientFailure e) \<and> (ed_class d = ClientTag \<longrightarrow> good e))
      \<or> (\<exists>creds. r = Err (ServerSocketFailure (TooManyClients creds)))"
  shows "R s t"
proof (cases "ed_class d")
  case ClientTag
  with run result obtain r1 where "handle_client_events E S (ed_fd d) s = (r1, t)"
    and "(\<exists>c. r1 = Ok c) \<or> (\<exists>e. r1 = Err e \<and> good e)"
    by (auto simp: handle_input_def map_err_eq_Err_iff)
  then show ?thesis by (rule client_events)
next
  case ServerTag
  with run result obtain r1 where "handle_server_events E (ed_fd d) s = (r1, t)"
    and "(\<exists>c. r1 = Ok c) \<or> (\<exists>creds. r1 = Err (TooManyClients creds))"
    by (auto simp: handle_input_def map_err_eq_Err_iff)
  then show ?thesis by (rule server_events)
next
  case SignalTag
  then have "preserves (\<lambda>u. fst u = fst s) (handle_input E S d)"
    by (auto simp: handle_input_def intro!: preserves_map_err preserves_signalfd_events)
  from preservesD [OF this _ run] show ?thesis by (simp add: unchanged)
qed

text \<open>An event whose handling is not an error of the loop, and not one of a message that is not \<open>good\<close>.\<close>

lemma event:
  assumes run: "handle_event E S event s = (Ok c, t)"
    and good: "\<And>d e u. epoll_data_try_from (snd event) = Ok d \<Longrightarrow> ed_class d = ClientTag \<Longrightarrow>
      handle_client_events E S (ed_fd d) s = (Err e, u) \<Longrightarrow> good e"
  shows "R s t"
proof -
  from run have "fst event AND EPOLL_ERROR_MASK = 0"
    by (cases "fst event AND EPOLL_ERROR_MASK = 0") (simp_all add: handle_event_eq epoll_event_check_eq)
  moreover from this run obtain d where d: "epoll_data_try_from (snd event) = Ok d"
    by (cases "epoll_data_try_from (snd event)") (simp_all add: handle_event_eq epoll_event_check_eq)
  ultimately have cases: "(if epoll_has_event event EPOLLIN then
         match_result (handle_input E S d)
           (\<lambda>control. if control = PollContinue
              then and_then (handle_hangup E event d) (\<lambda>_. ok None) else ok (Some control))
           (\<lambda>error. case error of
              ClientFailure _ \<Rightarrow> and_then (map_err ClientFailure (remove_client_socket E (ed_fd d))) (\<lambda>_. ok None)
            | ServerSocketFailure (TooManyClients _) \<Rightarrow> ok None
            | _ \<Rightarrow> fail error)
       else and_then (handle_hangup E event d) (\<lambda>_. ok None)) s = (Ok c, t)"
    using run by (simp add: handle_event_eq epoll_event_check_eq)
  show ?thesis
  proof (cases "epoll_has_event event EPOLLIN")
    case False
    with cases show ?thesis by (auto simp: and_then_eq_Ok_iff intro: hangup)
  next
    case True
    obtain r1 s1 where inp: "handle_input E S d s = (r1, s1)" by (cases "handle_input E S d s")
    have good_input: "good e" if "r1 = Err (ClientFailure e)" "ed_class d = ClientTag" for e
      using good [OF d that(2)] inp that by (auto simp: handle_input_def map_err_eq_Err_iff)
    show ?thesis
    proof (cases r1)
      case (Ok control)
      with cases True inp have "(if control = PollContinue
          then and_then (handle_hangup E event d) (\<lambda>_. ok None) else ok (Some control)) s1 = (Ok c, t)"
        by (simp add: match_result_def)
      then have "R s1 t" by (auto simp: and_then_eq_Ok_iff intro: hangup unchanged split: if_splits)
      moreover have "R s s1" using input [OF inp] Ok by simp
      ultimately show ?thesis by (blast intro: trans)
    next
      case (Err error)
      with cases True inp have handled: "(case error of
              ClientFailure _ \<Rightarrow> and_then (map_err ClientFailure (remove_client_socket E (ed_fd d))) (\<lambda>_. ok None)
            | ServerSocketFailure (TooManyClients _) \<Rightarrow> ok None
            | _ \<Rightarrow> fail error) s1 = (Ok c, t)"
        by (simp add: match_result_def)
      then have "R s1 t"
        by (auto simp: and_then_eq_Ok_iff intro: removes unchanged
            split: server_error.splits server_socket_error.splits)
      moreover have "R s s1"
        using input [OF inp] good_input Err handled
        by (auto split: server_error.splits server_socket_error.splits)
      ultimately show ?thesis by (blast intro: trans)
    qed (use cases True inp in \<open>auto simp: match_result_def\<close>)
  qed
qed

end

lemma add_client_keeps:
  assumes "add_client E fd s = (r, t)" and "(\<exists>c. r = Ok c) \<or> (\<exists>creds. r = Err (TooManyClients creds))"
  shows "keeps_service s t"
proof -
  obtain srv w srv' w' where st: "s = (srv, w)" "t = (srv', w')" by (metis prod.exhaust)
  show ?thesis
    unfolding keeps_service_def
  proof (rule impI)
    assume inv: "server_inv (fst s)"
    from add_client_effect [of srv E fd w r srv' w'] assms(1) inv have effect:
      "r = Ok Continue \<Longrightarrow> length (srv_client_sockets srv) < 16 \<and> fd \<notin> clients srv
        \<and> srv_client_sockets srv' = srv_client_sockets srv @ [fd] \<and> server_inv srv' \<and> same_service srv srv'"
      "r = Err (TooManyClients creds) \<Longrightarrow> srv' = srv" "r \<noteq> Ok (Break ())" for creds
      by (auto simp: st)
    consider "r = Ok Continue" | creds where "r = Err (TooManyClients creds)"
      using assms(2) effect(3) by (metis (full_types) loop_control.exhaust old.unit.exhaust)
    then show "server_inv (fst t) \<and> client_step\<^sup>*\<^sup>* (clients (fst s)) (clients (fst t)) \<and> same_service (fst s) (fst t)"
    proof cases
      case 1
      from inv have "card (clients srv) = length (srv_client_sockets srv)"
        by (simp add: st clients_def server_inv_def distinct_card)
      with effect(1) [OF 1] have "client_step (clients srv) (clients srv')"
        using client_step.connect [of fd "clients srv"] by (simp add: clients_def)
      with effect(1) [OF 1] show ?thesis by (auto simp: st)
    next
      case 2
      with effect(2) inv show ?thesis by (simp add: st)
    qed
  qed
qed

lemma remove_client_keeps:
  assumes "remove_client_socket E fd s = (Ok (), t)"
  shows "keeps_service s t"
proof -
  obtain srv w srv' w' where st: "s = (srv, w)" "t = (srv', w')" by (metis prod.exhaust)
  show ?thesis
    unfolding keeps_service_def
  proof (rule impI)
    assume inv: "server_inv (fst s)"
    from remove_client_socket_effect [of srv E fd w "Ok ()" srv' w'] assms inv
    have "fd \<in> clients srv \<and> clients srv' = clients srv - {fd} \<and> server_inv srv' \<and> same_service srv srv'"
      by (simp add: st)
    then show "server_inv (fst t) \<and> client_step\<^sup>*\<^sup>* (clients (fst s)) (clients (fst t)) \<and> same_service (fst s) (fst t)"
      using client_step.disconnect [of fd "clients srv"] by (auto simp: st)
  qed
qed

text \<open>The server process is one instance: messages leave its record as it was.\<close>

interpretation service: loop_relation E S "\<lambda>s t. server_process E S \<longrightarrow> keeps_service s t" "\<lambda>_. True" for E S
proof unfold_locales
  fix fd x s r t
  assume run: "handle_client_message E S fd x s = (r, t)"
  show "server_process E S \<longrightarrow> keeps_service s t"
  proof (rule impI)
    assume server: "server_process E S"
    have "preserves (\<lambda>u. fst u = fst s) (handle_client_message E S fd x)"
      unfolding handle_client_message_def using preserves_dispatch [OF server]
      by (cases x) (auto intro!: preserves_intros split: loop_control.split sum.split)
    from preservesD [OF this _ run] show "keeps_service s t" by auto
  qed
qed (auto intro: keeps_service_trans add_client_keeps remove_client_keeps)

lemma event_keeps: "server_process E S \<Longrightarrow> handle_event E S event s = (Ok c, t) \<Longrightarrow> keeps_service s t"
  using service.event by blast

section \<open>The server process never carries a child's closure\<close>

text \<open>\<open>yields m Q\<close>: whenever \<open>m\<close> returns \<^verbatim>\<open>Ok\<close>, the value satisfies \<open>Q\<close>.\<close>

definition yields :: "('s, 'a, 'e) prog \<Rightarrow> ('a \<Rightarrow> bool) \<Rightarrow> bool" where
  "yields m Q \<longleftrightarrow> (\<forall>s x t. m s = (Ok x, t) \<longrightarrow> Q x)"

named_theorems yields_intros \<open>what a program can return\<close>

lemma yieldsD: "yields m Q \<Longrightarrow> m s = (Ok x, t) \<Longrightarrow> Q x"
  unfolding yields_def by blast

lemma yields_ok [yields_intros]: "Q x \<Longrightarrow> yields (ok x) Q"
  by (simp add: yields_def)

lemma yields_never [yields_intros]: "yields (fail e) Q" "yields (panic p) Q" "yields diverge Q"
  by (simp_all add: yields_def)

lemma yields_and_then [yields_intros]: "(\<And>x. yields (f x) Q) \<Longrightarrow> yields (and_then m f) Q"
  by (auto simp: yields_def and_then_eq_Ok_iff)

lemma yields_match [yields_intros]:
  "(\<And>x. yields (f x) Q) \<Longrightarrow> (\<And>e. yields (g e) Q) \<Longrightarrow> yields (match_result m f g) Q"
  unfolding yields_def match_result_eq_Ok_iff by blast

lemma yields_and_then_with:
  "yields m P \<Longrightarrow> (\<And>x. P x \<Longrightarrow> yields (f x) Q) \<Longrightarrow> yields (and_then m f) Q"
  unfolding yields_def and_then_eq_Ok_iff by blast

lemma yields_match_with:
  "yields m P \<Longrightarrow> (\<And>x. P x \<Longrightarrow> yields (f x) Q) \<Longrightarrow> (\<And>e. yields (g e) Q) \<Longrightarrow> yields (match_result m f g) Q"
  unfolding yields_def match_result_eq_Ok_iff by blast

lemma yields_try_until_would_block:
  assumes "\<And>x. yields (handler x) (\<lambda>c. c = Continue \<or> (\<exists>v. c = Break v \<and> V v))"
  shows "yields (try_until_would_block n tf task handler) (\<lambda>e. e = WouldBlock \<or> (\<exists>v. e = Early v \<and> V v))"
proof (induction n)
  case (Suc n)
  then show ?case
    by (auto intro!: yields_match yields_and_then_with [OF assms] yields_ok yields_never)
qed (simp add: yields_never)

lemma yields_map_err [yields_intros]: "yields m Q \<Longrightarrow> yields (map_err g m) Q"
  by (simp add: yields_def)

lemma yields_if [yields_intros]:
  "(b \<Longrightarrow> yields m Q) \<Longrightarrow> (\<not> b \<Longrightarrow> yields m' Q) \<Longrightarrow> yields (if b then m else m') Q"
  by simp

lemma yields_respond: "yields (respond E S fd m ce) (\<lambda>c. c = Continue \<or> (\<exists>e. c = Break (Inl e)))"
  unfolding respond_def by (intro yields_intros) auto

lemma spawn_in_server:
  assumes server: "server_process E S"
  shows "yields (handle_spawn E S fd buf k) (\<lambda>c. c = Continue \<or> (\<exists>e. c = Break (Inl e)))" (is "yields _ ?Q")
proof -
  have fork: "yields (match_result (fork_or_exec E S)
      (\<lambda>new_pid. if new_pid = 0 then child else parent new_pid) on_error) ?Q"
    if "\<And>p. yields (parent p) ?Q" "\<And>e. yields (on_error e) ?Q"
    for child :: "('a, control_result loop_control, client_error) srv_prog" and parent on_error
    unfolding yields_def
  proof (intro allI impI)
    fix s x t
    assume "match_result (fork_or_exec E S) (\<lambda>new_pid. if new_pid = 0 then child else parent new_pid) on_error s = (Ok x, t)"
    then consider p s1 where "fork_or_exec E S s = (Ok p, s1)" "(if p = 0 then child else parent p) s1 = (Ok x, t)"
      | e s1 where "on_error e s1 = (Ok x, t)"
      unfolding match_result_eq_Ok_iff by blast
    then show "?Q x"
    proof cases
      case (1 p s1)
      with fork_in_server [OF server] have "p \<noteq> 0" by blast
      with 1 have "parent p s1 = (Ok x, t)" by simp
      with that(1) show ?thesis by (rule yieldsD)
    next
      case (2 e s1)
      with that(2) show ?thesis by (rule yieldsD)
    qed
  qed
  have rest: "yields (case get_spawn_params message of
      None \<Rightarrow> ok (Break (Inl MissingSpawnParams)) | Some params \<Rightarrow> f params) ?Q"
    if "\<And>params. yields (f params) ?Q" for message f
    using that by (cases "get_spawn_params message") (simp_all add: yields_ok)
  have error: "yields (case e of
      Libc errno \<Rightarrow> and_then (unwrap fd) (\<lambda>fd. ok (Break (Inl (ProcessCreationFailure fd (Libc errno)))))
    | _ \<Rightarrow> panic ''internal error: entered unreachable code'') ?Q" for e
    by (cases e) (simp_all add: yields_and_then yields_ok yields_never)
  show ?thesis
    unfolding handle_spawn_def
    by (intro yields_and_then rest fork yields_respond error)
qed

lemma dispatch_in_server:
  assumes server: "server_process E S"
  shows "yields (dispatch_message_handler E S fd buf)
    (\<lambda>c. c = Continue \<or> c = Break (Inr Shutdown) \<or> (\<exists>e. c = Break (Inl e)))" (is "yields _ ?Q")
proof -
  have weaker: "yields m (\<lambda>c. c = Continue \<or> (\<exists>e. c = Break (Inl e))) \<Longrightarrow> yields m ?Q" for m :: "'a handler"
    unfolding yields_def by blast
  note spawns = weaker [OF spawn_in_server [OF server]] and responds = weaker [OF yields_respond]
  have "yields (handle_message_exit E S fd) ?Q" "yields (handle_message_identity_query E S fd) ?Q"
    "yields (handle_message_stat E S fd) ?Q" "yields (handle_message_spawn E S fd' buf) ?Q"
    "yields (handle_message_spawn_subspecies E S fd path buf) ?Q" for fd' path
    unfolding handle_message_exit_def handle_message_identity_query_def handle_message_stat_def
      handle_message_spawn_def handle_message_spawn_subspecies_def
    by (intro yields_match yields_and_then yields_ok spawns responds; simp)+
  then show ?thesis
    unfolding dispatch_message_handler_def
    by (intro yields_match yields_and_then) (auto split: zygote_message.split intro!: yields_ok)
qed

lemma client_events_in_server:
  assumes server: "server_process E S"
  shows "yields (handle_client_events E S fd) (\<lambda>c. c = PollContinue \<or> c = Shutdown)"
proof -
  have handler: "yields (handle_client_message E S fd x) (\<lambda>c. c = Continue \<or> (\<exists>v. c = Break v \<and> (v = PollContinue \<or> v = Shutdown)))"
    for x
    unfolding handle_client_message_def
    by (cases x) (auto intro!: yields_if yields_match yields_ok yields_never
        yields_and_then_with [OF dispatch_in_server [OF server]] split: if_splits)
  then show ?thesis
    unfolding handle_client_events_def
    by (intro yields_and_then_with [OF yields_try_until_would_block
        [where V = "\<lambda>v. v = PollContinue \<or> v = Shutdown", OF handler]] yields_ok) auto
qed

lemma event_in_server:
  assumes server: "server_process E S"
  shows "yields (handle_event E S event) (\<lambda>c. c = None \<or> c = Some Shutdown)" (is "yields _ ?Q")
proof -
  have input: "yields (handle_input E S d) (\<lambda>c. c = PollContinue \<or> c = Shutdown)" for d
    unfolding handle_input_def handle_server_events_def handle_signalfd_events_def
    by (cases "ed_class d")
       (auto intro!: yields_map_err yields_and_then yields_ok client_events_in_server [OF server] split: loop_exit.split)
  have errors: "yields (case error of
        ClientFailure _ \<Rightarrow> and_then m (\<lambda>_. ok None)
      | ServerSocketFailure (TooManyClients _) \<Rightarrow> ok None
      | _ \<Rightarrow> fail error) ?Q" for error and m :: "('a, unit, server_error) srv_prog"
    by (auto intro!: yields_and_then yields_ok yields_never split: server_error.split server_socket_error.split)
  show ?thesis
    unfolding handle_event_eq
    by (intro yields_and_then yields_if yields_match_with [OF input] errors yields_ok) auto
qed

section \<open>The loop as a step relation\<close>

inductive serving :: "'w env \<Rightarrow> host \<Rightarrow> server \<times> 'w \<Rightarrow> server \<times> 'w \<Rightarrow> bool" for E S s where
  start: "serving E S s s"
| wait: "serving E S s (srv, w) \<Longrightarrow> srv_epoll_handle srv = Some epfd \<Longrightarrow>
    epoll_handle_wait E epfd BUFFER_SIZE_EPOLL_EVENTS BLANK_EVENT (- 1) w = (Ok events, w') \<Longrightarrow>
    serving E S s (srv, w')"
| event: "serving E S s t \<Longrightarrow> handle_event E S ev t = (Ok c, u) \<Longrightarrow> serving E S s u"

lemma serving_trans: "serving E S t u \<Longrightarrow> serving E S s t \<Longrightarrow> serving E S s u"
  by (induction rule: serving.induct) (auto intro: serving.intros)

lemma serving_keeps:
  assumes "server_process E S" and "serving E S s t"
  shows "keeps_service s t"
  using assms(2)
proof (induction rule: serving.induct)
  case (event t ev c u)
  with event_keeps [OF assms(1)] show ?case by (blast intro: keeps_service_trans)
qed (auto simp: keeps_service_def)

lemma check_events_serving: "check_epoll_events E S events s = (Ok c, t) \<Longrightarrow> serving E S s t"
proof (induction events arbitrary: s)
  case Nil
  then show ?case by (auto intro: serving.start)
next
  case (Cons event events)
  then obtain c1 s1 where step: "handle_event E S event s = (Ok c1, s1)"
    and rest: "(case c1 of None \<Rightarrow> check_epoll_events E S events | Some control \<Rightarrow> ok control) s1 = (Ok c, t)"
    by (auto simp: and_then_eq_Ok_iff)
  from serving.event [OF serving.start step] have first: "serving E S s s1" .
  show ?case
  proof (cases c1)
    case None
    with rest Cons.IH have "serving E S s1 t" by simp
    with first show ?thesis by (blast intro: serving_trans)
  next
    case (Some control)
    with rest first show ?thesis by simp
  qed
qed

lemma serve_round_serving:
  assumes "serve_round E S s = (Ok c, t)"
  shows "serving E S s t"
proof -
  obtain srv w where s: "s = (srv, w)" by fastforce
  from assms obtain epfd events w1 where "srv_epoll_handle srv = Some epfd"
    and "epoll_handle_wait E epfd BUFFER_SIZE_EPOLL_EVENTS BLANK_EVENT (- 1) w = (Ok events, w1)"
    and "check_epoll_events E S events (srv, w1) = (Ok c, t)"
    by (auto simp: s serve_round_def and_then_eq_Ok_iff get_server_def on_snd_eq_iff unwrap_def expect_some_def
        split: option.splits)
  with serving.wait [OF serving.start [of E S "(srv, w)"]] show ?thesis
    by (auto simp: s intro: serving_trans check_events_serving)
qed

lemma serve_loop_serving: "serve_loop n E S s = (Ok r, t) \<Longrightarrow> serving E S s t"
proof (induction n arbitrary: s)
  case (Suc n)
  then obtain c s1 where round: "serve_round E S s = (Ok c, s1)"
    and rest: "(case c of PollContinue \<Rightarrow> serve_loop n E S | PollBreak \<Rightarrow> serve_loop n E S
      | Shutdown \<Rightarrow> ok None | Trampoline thunk \<Rightarrow> ok (Some thunk)) s1 = (Ok r, t)"
    by (auto simp: and_then_eq_Ok_iff)
  from round have "serving E S s s1" by (rule serve_round_serving)
  moreover have "serving E S s1 t"
    using rest Suc.IH by (cases c) (auto intro: serving.start)
  ultimately show ?case by (blast intro: serving_trans)
qed simp

lemma serve_loop_in_server:
  assumes server: "server_process E S"
  shows "yields (serve_loop n E S) (\<lambda>r. r = None)"
proof (induction n)
  case (Suc n)
  have "yields (check_epoll_events E S events) (\<lambda>c. c = PollBreak \<or> c = Shutdown)" for events
    by (induction events) (auto intro!: yields_ok yields_and_then_with [OF event_in_server [OF server]])
  then have round: "yields (serve_round E S) (\<lambda>c. c = PollBreak \<or> c = Shutdown)"
    unfolding serve_round_def by (intro yields_and_then)
  from Suc show ?case by (auto intro!: yields_and_then_with [OF round] yields_ok)
qed (simp add: yields_never)

lemma serving_effect:
  assumes server: "server_process E S" and inv: "server_inv srv"
  shows "(serving E S (srv, w) (srv', w') \<longrightarrow>
        server_inv srv' \<and> client_step\<^sup>*\<^sup>* (clients srv) (clients srv') \<and> same_service srv srv')
    \<and> (serve E S (srv, w) = (Ok r, (srv', w')) \<longrightarrow>
        r = None \<and> server_inv srv' \<and> client_step\<^sup>*\<^sup>* (clients srv) (clients srv') \<and> same_service srv srv')"
proof -
  have reached: "server_inv srv' \<and> client_step\<^sup>*\<^sup>* (clients srv) (clients srv') \<and> same_service srv srv'"
    if "serving E S (srv, w1) (srv', w')" for w1
    using serving_keeps [OF server that] inv by (simp add: keeps_service_def)
  moreover have "r = None \<and> (\<exists>w1. serving E S (srv, w1) (srv', w'))"
    if run: "serve E S (srv, w) = (Ok r, (srv', w'))"
  proof -
    from run obtain w1 where loop: "serve_loop (loop_fuel E) E S (srv, w1) = (Ok r, (srv', w'))"
      by (auto simp: serve_def and_then_eq_Ok_iff on_snd_eq_iff)
    from serve_loop_serving [OF loop] yieldsD [OF serve_loop_in_server [OF server] loop] show ?thesis by blast
  qed
  ultimately show ?thesis by blast
qed

text \<open>
  C3. The server process. Where \<^verbatim>\<open>fork\<close> never answers 0, every state the loop reaches from a
  well-formed server is well-formed: the registry is sorted and within its size, and at most 16
  distinct clients are connected, each with an open entry in the registry. The connected clients
  change only as the specification \<open>client_step\<close> allows, everything else but the registry is
  what it was, and when the loop returns it is by a shutdown: the closure of a child never leaves
  the loop in this process.
\<close>

theorem server_process_serves:
  assumes server: "server_process E S" and inv: "server_inv srv"
  shows "(serving E S (srv, w) (srv', w') \<longrightarrow>
        server_inv srv' \<and> client_step\<^sup>*\<^sup>* (clients srv) (clients srv') \<and> same_service srv srv')
    \<and> (serve E S (srv, w) = (Ok r, (srv', w')) \<longrightarrow>
        r = None \<and> server_inv srv' \<and> client_step\<^sup>*\<^sup>* (clients srv) (clients srv') \<and> same_service srv srv')"
  using assms by (rule serving_effect)

text \<open>A server whose one pending connection is descriptor 5; the world counts it.\<close>

definition accept_env :: "nat env" where
  "accept_env = \<lparr>kernel = (\<lambda>c w. case c of
       SockCall (Libc_accept _) \<Rightarrow>
         if w = 0 then (\<lparr>retval = 5, errno_after = 0, outval = NoOut\<rparr>, 1)
         else (\<lparr>retval = - 1, errno_after = EAGAIN, outval = NoOut\<rparr>, w)
     | ProcCall Libc_fork \<Rightarrow> (\<lparr>retval = 9, errno_after = 0, outval = NoOut\<rparr>, w)
     | _ \<Rightarrow> (\<lparr>retval = 0, errno_after = 0, outval = OutStat \<lparr>st_dev = 0, st_ino = 7, st_mode = S_IFIFO\<rparr>\<rparr>, w)),
     loop_fuel = 2, debug_assertions = False\<rparr>"

lemma accept_env_pipe_world: "pipe_world accept_env"
  by (auto simp: pipe_world_def accept_env_def split: syscall.split sock_call.split proc_call.split)

lemma accept_env_server: "server_process accept_env quiet_host"
  by (simp add: server_process_def accept_env_def quiet_host_def)

lemma accept_run:
  "handle_server_events accept_env 6 (one_server [] (empty_registry LibApp), 0)
     = (Ok PollContinue, (one_server [5] one_pipe, 1))"
proof -
  have accept: "on_snd (sys_accept accept_env 6) (srv, w) =
      (if w = 0 then (Ok 5, (srv, 1)) else (Err (Libc EAGAIN), (srv, w)))" for srv :: server and w
    by (simp add: on_snd_def sys_accept_def checked_call_def and_then_def match_result_def invoke_def of_outcome_def
        accept_env_def check_failure_def)
  have "loop_fuel accept_env = Suc (Suc 0)" by (simp add: accept_env_def)
  then show ?thesis
    by (simp add: handle_server_events_def and_then_def match_result_def accept
        add_client_run [OF accept_env_pipe_world, unfolded One_nat_def] blocks_def errno_is_def ok_def)
qed

theorem server_process_serves_witness:
  "clients (one_server [5] one_pipe) = {5} \<and> server_inv (one_server [5] one_pipe)
   \<and> handle_event accept_env quiet_host (EPOLLIN, epoll_data_to_u64 (epoll_data_new 6 ServerTag))
       (one_server [] (empty_registry LibApp), 0) = (Ok None, (one_server [5] one_pipe, 1))"
proof -
  have data: "epoll_data_try_from (epoll_data_to_u64 (epoll_data_new 6 ServerTag)) = Ok (epoll_data_new 6 ServerTag)"
    by (simp add: epoll_data_try_from_def epoll_data_to_u64_def epoll_data_new_def)
  have input: "handle_input accept_env quiet_host (epoll_data_new 6 ServerTag) (one_server [] (empty_registry LibApp), 0)
      = (Ok PollContinue, (one_server [5] one_pipe, 1))"
    by (simp add: handle_input_def epoll_data_new_def map_err_Ok accept_run)
  have event: "handle_event accept_env quiet_host (EPOLLIN, epoll_data_to_u64 (epoll_data_new 6 ServerTag))
      (one_server [] (empty_registry LibApp), 0) = (Ok None, (one_server [5] one_pipe, 1))"
    using input
    by (simp add: handle_event_eq epoll_event_check_eq EPOLL_ERROR_MASK_def data epoll_has_event_def
        match_result_Ok handle_hangup_eq when_do_def)
  from server_process_serves [OF accept_env_server server_inv_empty] serving.event [OF serving.start event] event
  show ?thesis by (auto simp: clients_def one_server_def)
qed

section \<open>Fuel is only a bound\<close>

inductive serves ::
  "'w env \<Rightarrow> host \<Rightarrow> server \<times> 'w \<Rightarrow> (child_thunk option, server_error) outcome \<Rightarrow> server \<times> 'w \<Rightarrow> bool"
  for E S
where
  shutdown: "serve_round E S s = (Ok Shutdown, t) \<Longrightarrow> serves E S s (Ok None) t"
| child: "serve_round E S s = (Ok (Trampoline thunk), t) \<Longrightarrow> serves E S s (Ok (Some thunk)) t"
| failure: "serve_round E S s = (Err e, t) \<Longrightarrow> serves E S s (Err e) t"
| panicked: "serve_round E S s = (Panic p, t) \<Longrightarrow> serves E S s (Panic p) t"
| again: "serve_round E S s = (Ok c, t) \<Longrightarrow> c = PollContinue \<or> c = PollBreak \<Longrightarrow> serves E S t r u \<Longrightarrow> serves E S s r u"

lemma serve_loop_Suc:
  assumes "serve_round E S s = (r1, s1)"
  shows "serve_loop (Suc n) E S s = (case r1 of
      Ok PollContinue \<Rightarrow> serve_loop n E S s1 | Ok PollBreak \<Rightarrow> serve_loop n E S s1
    | Ok Shutdown \<Rightarrow> (Ok None, s1) | Ok (Trampoline thunk) \<Rightarrow> (Ok (Some thunk), s1)
    | Err e \<Rightarrow> (Err e, s1) | Panic p \<Rightarrow> (Panic p, s1) | Diverges \<Rightarrow> (Diverges, s1))"
  using assms by (auto simp: and_then_def match_result_def ok_def fail_def split: outcome.split server_control.split)

lemma serve_loop_mono: "serve_loop n E S s = (r, t) \<Longrightarrow> r \<noteq> Diverges \<Longrightarrow> serve_loop (n + k) E S s = (r, t)"
proof (induction n arbitrary: s)
  case (Suc n)
  obtain r1 s1 where round: "serve_round E S s = (r1, s1)" by (cases "serve_round E S s")
  from Suc show ?case
    by (auto simp: serve_loop_Suc [OF round] simp del: serve_loop.simps split: outcome.splits server_control.splits)
qed simp

text \<open>
  The fuel of the model only bounds the search: the loop with some fuel returns a result
  exactly when the loop without fuel does, with the same result and final state.
\<close>

theorem serve_loop_iff_serves:
  "(\<exists>n. serve_loop n E S s = (r, t) \<and> r \<noteq> Diverges) \<longleftrightarrow> serves E S s r t"
proof
  assume "\<exists>n. serve_loop n E S s = (r, t) \<and> r \<noteq> Diverges"
  then obtain n where "serve_loop n E S s = (r, t)" "r \<noteq> Diverges" by blast
  then show "serves E S s r t"
  proof (induction n arbitrary: s)
    case (Suc n)
    obtain r1 s1 where round: "serve_round E S s = (r1, s1)" by (cases "serve_round E S s")
    show ?case
    proof (cases "r1 = Ok PollContinue \<or> r1 = Ok PollBreak")
      case True
      with Suc.prems(1) have "serve_loop n E S s1 = (r, t)"
        by (auto simp: serve_loop_Suc [OF round] simp del: serve_loop.simps)
      from Suc.IH [OF this Suc.prems(2)] True round show ?thesis by (auto intro: serves.again)
    next
      case False
      with Suc.prems round show ?thesis
        by (auto simp: serve_loop_Suc [OF round] simp del: serve_loop.simps intro: serves.intros
            split: outcome.splits server_control.splits)
    qed
  qed simp
next
  assume "serves E S s r t"
  then show "\<exists>n. serve_loop n E S s = (r, t) \<and> r \<noteq> Diverges"
  proof (induction rule: serves.induct)
    case (again s c t r u)
    then obtain n where "serve_loop n E S t = (r, u)" "r \<noteq> Diverges" by blast
    with again.hyps(1,2) have "serve_loop (Suc n) E S s = (r, u) \<and> r \<noteq> Diverges"
      by (auto simp: serve_loop_Suc [OF again.hyps(1)] simp del: serve_loop.simps)
    then show ?case by blast
  qed (metis (lifting) serve_loop_Suc outcome.distinct outcome.case server_control.case)+
qed

end
