(* ===== verification/Server_Start.thy ===== *)
theory Server_Start
  imports Server_Steps Fd_Audit
begin

unbundle bit_operations_syntax

text \<open>
  What \<^verbatim>\<open>Server::new\<close> establishes, and the life of a server process from its construction to its
  destruction.
\<close>

section \<open>Entries that stay in the registry\<close>

text \<open>A fresh entry with a given action.\<close>

definition pending_entry :: "registry \<Rightarrow> int \<Rightarrow> action \<Rightarrow> bool" where
  "pending_entry reg fd action \<longleftrightarrow>
     (\<exists>e. table_find (reg_data reg) fd = Some e \<and> fde_action e = action \<and> \<not> fde_executed e)"

lemma pending_entry_open: "pending_entry reg fd action \<Longrightarrow> table_find (reg_data reg) fd = Some e \<Longrightarrow> \<not> fd_entry_closed e"
  by (auto simp: pending_entry_def fd_entry_closed_def split: action.split)

lemma register_keeps:
  assumes inv: "reg_inv reg" and run: "register E fd a (reg, w) = (Ok (), (reg', w'))"
  shows "reg_inv reg'" and "pending_entry reg' fd a" and "pending_entry reg k b \<Longrightarrow> pending_entry reg' k b"
proof -
  from register_effect [OF assms] obtain info where inv': "reg_inv reg'"
    and closed: "\<forall>e. table_find (reg_data reg) fd = Some e \<longrightarrow> fd_entry_closed e"
    and find: "table_find (reg_data reg') k =
      (if k = fd then Some (fd_entry_new fd info a) else table_find (reg_data reg) k)" for k
    by auto
  show "reg_inv reg'" by (rule inv')
  show "pending_entry reg' fd a" using find [of fd] by (simp add: pending_entry_def fd_entry_new_def)
  assume old: "pending_entry reg k b"
  with closed pending_entry_open have "k \<noteq> fd" unfolding pending_entry_def by blast
  with old find show "pending_entry reg' k b" by (simp add: pending_entry_def)
qed

lemma register_new_keeps:
  assumes inv: "reg_inv reg" and stable: "listing_stable E" and asc: "listing_ascending E"
    and run: "register_new E (reg, w) = (Ok (), (reg', w'))"
  shows "reg_inv reg'" and "pending_entry reg k b \<Longrightarrow> pending_entry reg' k b"
proof -
  from register_new_effect [OF assms] have inv': "reg_inv reg'" and sub: "set (reg_data reg) \<subseteq> set (reg_data reg')"
    by auto
  show "reg_inv reg'" by (rule inv')
  assume "pending_entry reg k b"
  with inv inv' sub show "pending_entry reg' k b"
    by (auto simp: pending_entry_def reg_inv_def table_find_iff)
qed

lemma registry_new_effect:
  assumes "registry_new E species w = (Ok reg, w')"
  shows "reg_inv reg \<and> reg_species reg = species \<and> (\<forall>fd \<in> {0, 1, 2}. pending_entry reg fd Ignore)"
proof -
  have inv: "reg_inv (empty_registry species)" by (simp add: reg_inv_def empty_registry_def strict_by_def)
  from assms obtain reg1 w1 reg2 w2 w3 where
    r0: "register E 0 Ignore (empty_registry species, w) = (Ok (), (reg1, w1))" and
    r1: "register E 1 Ignore (reg1, w1) = (Ok (), (reg2, w2))" and
    r2: "register E 2 Ignore (reg2, w2) = (Ok (), (reg, w3))"
    by (auto simp: registry_new_def returning_state_def and_then_eq_Ok_iff split: prod.splits outcome.splits)
  note k0 = register_keeps [OF inv r0]
  note k1 = register_keeps [OF k0(1) r1]
  note k2 = register_keeps [OF k1(1) r2]
  from register_effect [OF inv r0] register_effect [OF k0(1) r1] register_effect [OF k1(1) r2]
  have "reg_species reg = species" by (auto simp: empty_registry_def)
  with k0 k1 k2 show ?thesis by simp
qed

section \<open>Construction\<close>

text \<open>
  The descriptors the server keeps for itself: none of them is open in an exec-spawned
  application; in a server the epoll handle and the socket are closed in every child, the signal
  descriptor in every child but a subspecies.
\<close>

definition own_descriptors :: "bool \<Rightarrow> registry \<Rightarrow> int option \<Rightarrow> int option \<Rightarrow> int option \<Rightarrow> bool" where
  "own_descriptors exec reg epoll sock sig =
     (if exec then epoll = None \<and> sock = None \<and> sig = None
      else (\<exists>fd. epoll = Some fd \<and> pending_entry reg fd Close)
         \<and> (\<exists>fd. sock = Some fd \<and> pending_entry reg fd Close)
         \<and> (\<exists>fd. sig = Some fd \<and> pending_entry reg fd CloseUnlessSpawnSubspecies))"

definition stdio_ignored :: "registry \<Rightarrow> bool" where
  "stdio_ignored reg \<longleftrightarrow> (\<forall>fd \<in> {0, 1, 2}. pending_entry reg fd Ignore)"

lemma new_descriptors_effect:
  assumes inv: "reg_inv reg" and stdio: "stdio_ignored reg"
    and run: "new_descriptors E S config (reg, w) = (Ok (epoll, sock, path, sig), (reg', w'))"
  shows "reg_inv reg' \<and> stdio_ignored reg' \<and> own_descriptors (is_exec_spawning S) reg' epoll sock sig"
proof (cases "is_exec_spawning S")
  case True
  with run inv stdio show ?thesis
    by (auto simp: new_descriptors_def and_then_eq_Ok_iff on_snd_eq_iff own_descriptors_def)
next
  case False
  with run obtain epfd fd sfd reg1 reg2 w1 w2 w3 w4 w5 w6 where
    r1: "register E epfd Close (reg, w1) = (Ok (), (reg1, w2))" and
    r2: "register E fd Close (reg1, w3) = (Ok (), (reg2, w4))" and
    r3: "register E sfd CloseUnlessSpawnSubspecies (reg2, w5) = (Ok (), (reg', w6))" and
    out: "epoll = Some epfd" "sock = Some fd" "sig = Some sfd"
    by (auto simp: new_descriptors_def and_then_eq_Ok_iff on_snd_eq_iff register_descriptor_def split: prod.splits)
  note k1 = register_keeps [OF inv r1]
  note k2 = register_keeps [OF k1(1) r2]
  note k3 = register_keeps [OF k2(1) r3]
  from k1 k2 k3 stdio False show ?thesis by (auto simp: out own_descriptors_def stdio_ignored_def)
qed

lemma new_registry_effect:
  assumes stable: "listing_stable E" and asc: "listing_ascending E"
    and inv: "reg_inv reg" and stdio: "stdio_ignored reg"
    and run: "new_registry E S config (reg, w) = (Ok (epoll, sock, path, sig), (reg', w'))"
  shows "reg_inv reg' \<and> stdio_ignored reg' \<and> own_descriptors (is_exec_spawning S) reg' epoll sock sig
    \<and> (\<exists>w1. audit E reg' w1 = (Ok (), w'))"
proof -
  from run obtain reg1 w1 w2 where
    d: "new_descriptors E S config (reg, w) = (Ok (epoll, sock, path, sig), (reg1, w1))" and
    n: "register_new E (reg1, w1) = (Ok (), (reg', w2))" and
    a: "audit E reg' w2 = (Ok (), w')"
    by (auto simp: new_registry_def and_then_eq_Ok_iff on_snd_eq_iff)
  from new_descriptors_effect [OF inv stdio d] have
    d': "reg_inv reg1" "stdio_ignored reg1" "own_descriptors (is_exec_spawning S) reg1 epoll sock sig" by auto
  note k = register_new_keeps [OF d'(1) stable asc n]
  from k(1) k(2) d'(2,3) a show ?thesis by (auto simp: stdio_ignored_def own_descriptors_def split: if_splits)
qed

lemma with_local_eq_Ok_iff:
  "with_local x m w = (Ok (y, x'), w') \<longleftrightarrow> m (x, w) = (Ok y, (x', w'))"
  by (auto simp: with_local_def bind_outcome_def split: prod.splits outcome.splits)

lemma moved_or_dropped_Ok:
  "moved_or_dropped x m d w = (Ok x', w') \<Longrightarrow> m (x, w) = (Ok (), (x', w'))"
  by (auto simp: moved_or_dropped_def bind_outcome_def split: prod.splits outcome.splits)

lemma start_server_unchanged: "preserves (\<lambda>s. fst s = srv) (start_server E S config)"
  unfolding start_server_def get_server_def by (intro preserves_intros preserves_on_snd)

text \<open>What the configuration and the process fix for the life of a server.\<close>

definition configured :: "config \<Rightarrow> server \<Rightarrow> bool" where
  "configured config srv \<longleftrightarrow> srv_name srv = cfg_name config \<and> srv_species srv = cfg_species config
     \<and> srv_preload_uid srv = cfg_preload_uid config \<and> srv_preload_gid srv = cfg_preload_gid config
     \<and> config_to_spawn_params config = (Ok (srv_spawn_params srv) :: (spawn_params, server_error) outcome)"

lemma server_new_effect:
  assumes stable: "listing_stable E" and asc: "listing_ascending E"
    and run: "server_new E S config w = (Ok srv, w')"
  shows "server_inv srv \<and> clients srv = {} \<and> configured config srv \<and> stdio_ignored (srv_registry srv)
    \<and> own_descriptors (is_exec_spawning S) (srv_registry srv) (srv_epoll_handle srv) (srv_server_socket srv)
        (srv_signal_fd srv)
    \<and> (\<exists>w1 w2. audit E (srv_registry srv) w1 = (Ok (), w2))
    \<and> (\<exists>w3 w4. sys_getpid E w3 = ((Ok (srv_pid srv) :: (int, server_error) outcome), w4))"
proof -
  from run obtain reg0 w0 epoll sock path sig reg w1 pid w2 params where
    r0: "registry_new E (cfg_species config) w = (Ok reg0, w0)" and
    reg: "new_registry E S config (reg0, w0) = (Ok (epoll, sock, path, sig), (reg, w1))" and
    pid: "sys_getpid E w1 = ((Ok pid :: (int, server_error) outcome), w2)" and
    params: "(Ok params :: (spawn_params, server_error) outcome) = config_to_spawn_params config" and
    start: "moved_or_dropped
         \<lparr>srv_name = cfg_name config, srv_species = cfg_species config, srv_pid = pid, srv_registry = reg,
          srv_epoll_handle = epoll, srv_signal_fd = sig, srv_server_socket = sock,
          srv_client_sockets = [], srv_server_socket_path = path,
          srv_preload_uid = cfg_preload_uid config, srv_preload_gid = cfg_preload_gid config,
          srv_spawn_params = params\<rparr>
         (start_server E S config) (server_drop E S) w2 = (Ok srv, w')"
    by (auto simp: server_new_def and_then_eq_Ok_iff with_local_eq_Ok_iff split: prod.splits)
  from preservesD [OF start_server_unchanged _ moved_or_dropped_Ok [OF start]] have srv: "srv =
      \<lparr>srv_name = cfg_name config, srv_species = cfg_species config, srv_pid = pid, srv_registry = reg,
          srv_epoll_handle = epoll, srv_signal_fd = sig, srv_server_socket = sock,
          srv_client_sockets = [], srv_server_socket_path = path,
          srv_preload_uid = cfg_preload_uid config, srv_preload_gid = cfg_preload_gid config,
          srv_spawn_params = params\<rparr>"
    by simp
  from registry_new_effect [OF r0] have "reg_inv reg0" "stdio_ignored reg0" by (simp_all add: stdio_ignored_def)
  from new_registry_effect [OF stable asc this reg] params pid show ?thesis
    by (auto simp: srv server_inv_def clients_def configured_def)
qed

end
