(* ===== verification/Start_World.thy ===== *)
theory Start_World
  imports Server_Start
begin

unbundle bit_operations_syntax

text \<open>
  A world in which a server starts and sees one event, over and over: the theorems about whole
  runs are applied here. Its state is what is left to read of \<^verbatim>\<open>/proc/self/fd\<close>; every descriptor
  looks like a pipe, the epoll handle is 3, the signal descriptor 4, the server socket 6. With
  \<open>child\<close> set the world is the one a forked child sees. The event that stops the server is the
  arrival of a signal, which is \<^verbatim>\<open>SIGTERM\<close>.
\<close>

definition LISTING :: "string list" where
  "LISTING = [''.'', ''..'', ''0'', ''1'', ''2'', ''3'', ''4'', ''6'', ''9'']"

definition start_kernel :: "bool \<Rightarrow> epoll_event \<Rightarrow> syscall \<Rightarrow> string list \<Rightarrow> sysret \<times> string list" where
  "start_kernel child ev c w =
     (let answer = (\<lambda>v out. \<lparr>retval = v, errno_after = 0, outval = out\<rparr>) in
      case c of
        StdCall (Std_path_exists _) \<Rightarrow> (answer 1 NoOut, w)
      | FdCall (Libc_opendir _) \<Rightarrow> (answer 1 NoOut, LISTING)
      | FdCall (Libc_dirfd _) \<Rightarrow> (answer 9 NoOut, w)
      | FdCall (Libc_readdir _) \<Rightarrow>
          (case w of [] \<Rightarrow> (answer 0 NoOut, []) | name # names \<Rightarrow> (answer 1 (OutBytes name), names))
      | FdCall (Libc_fstat _) \<Rightarrow> (answer 0 (OutStat \<lparr>st_dev = 0, st_ino = 7, st_mode = S_IFIFO\<rparr>), w)
      | FdCall (Libc_read _ _) \<Rightarrow> (answer 128 (OutSiginfo
          \<lparr>si_signo = SIGTERM, si_code = 0, si_pid = 1, si_uid = 0, si_status = 0\<rparr>), w)
      | EventCall (Libc_epoll_create1 _) \<Rightarrow> (answer 3 NoOut, w)
      | EventCall (Libc_signalfd _ _ _) \<Rightarrow> (answer 4 NoOut, w)
      | EventCall (Libc_epoll_wait _ _ _) \<Rightarrow>
          (answer 1 (OutEvents [ev]), w)
      | SockCall (Libc_socket _ _ _) \<Rightarrow> (answer 6 NoOut, w)
      | EventCall (Libc_sigaddset sigset signal) \<Rightarrow> (answer 0 (OutInts (sigset @ [signal])), w)
      | ProcCall Libc_getpid \<Rightarrow> (answer (if child \<and> w = [''forked''] then 8 else 7) NoOut, w)
      | ExtCall (Ext_dlopen _) \<Rightarrow> (answer 1 NoOut, w)
      | ExtCall (Ext_dlsym _ _) \<Rightarrow> (answer 1 NoOut, w)
      | ProcCall Libc_fork \<Rightarrow> (if child then (answer 0 NoOut, [''forked'']) else (answer 8 NoOut, w))
      | SockCall (Libc_recvmsg _ _) \<Rightarrow> (answer 5 (OutBytes ''spawn''), w)
      | _ \<Rightarrow> (answer 0 NoOut, w))"

definition start_env :: "bool \<Rightarrow> epoll_event \<Rightarrow> string list env" where
  "start_env child ev = \<lparr>kernel = start_kernel child ev, loop_fuel = 8, debug_assertions = False\<rparr>"

lemma start_env_simps [simp]:
  "kernel (start_env child ev) = start_kernel child ev" "loop_fuel (start_env child ev) = Suc (Suc (Suc (Suc (Suc (Suc (Suc (Suc 0)))))))"
  "debug_assertions (start_env child ev) = False"
  by (simp_all add: start_env_def numeral_eq_Suc)

lemma start_queries: "info_query c \<Longrightarrow> start_kernel child ev c w = (fst (start_kernel child ev c []), w)"
  by (cases c rule: info_query.cases) (simp_all add: start_kernel_def Let_def)

lemma start_env_stable: "listing_stable (start_env child ev)"
proof -
  have "fst (start_kernel child ev c w) = fst (start_kernel child ev c w')" if "info_query c" for c w w'
    using start_queries [OF that, of child ev w] start_queries [OF that, of child ev w'] by simp
  moreover have "snd (start_kernel child ev c w) = w" if "info_query c" for c w
    using start_queries [OF that, of child ev w] by simp
  ultimately show ?thesis by (simp add: listing_stable_def queries_pure_def same_answers_def)
qed

abbreviation start_iter :: proc_fd_iterator where "start_iter \<equiv> \<lparr>iter_dir = 1, iter_dir_fd = 9\<rparr>"

lemma start_new: "proc_fd_iterator_new (start_env child ev) w = (Ok start_iter, LISTING)"
  by (simp add: proc_fd_iterator_new_def std_bool_def sys_opendir_def sys_dirfd_def checked_call_def and_then_def
      match_result_def map_err_def invoke_def of_outcome_def start_kernel_def check_defs ok_def)

lemma start_readdir:
  "sys_readdir (start_env child ev) d [] = (Ok None, [])" "sys_readdir (start_env child ev) d (name # names) = (Ok (Some name), names)"
  by (simp_all add: sys_readdir_def and_then_def match_result_def invoke_def start_kernel_def check_defs ok_def)

lemma start_next_fd:
  "next_fd start_iter ''.'' = Ok None" "next_fd start_iter ''..'' = Ok None" "next_fd start_iter ''0'' = Ok (Some 0)"
  "next_fd start_iter ''1'' = Ok (Some 1)" "next_fd start_iter ''2'' = Ok (Some 2)" "next_fd start_iter ''3'' = Ok (Some 3)"
  "next_fd start_iter ''4'' = Ok (Some 4)" "next_fd start_iter ''6'' = Ok (Some 6)" "next_fd start_iter ''9'' = Ok None"
  by (simp_all add: next_fd_def parse_i32_def parse_unsigned_def is_ascii_digit_def digit_value_def)

lemma start_proc_fd_next:
  "proc_fd_next (loop_fuel (start_env child ev)) (start_env child ev) start_iter [] = (Ok None, [])"
  "proc_fd_next (loop_fuel (start_env child ev)) (start_env child ev) start_iter LISTING =
     (Ok (Some 0), [''1'', ''2'', ''3'', ''4'', ''6'', ''9''])"
  "next_fd start_iter name = Ok (Some fd) \<Longrightarrow>
     proc_fd_next (loop_fuel (start_env child ev)) (start_env child ev) start_iter (name # names) = (Ok (Some fd), names)"
  "proc_fd_next (loop_fuel (start_env child ev)) (start_env child ev) start_iter [''9''] = (Ok None, [])"
  by (simp_all add: start_readdir start_next_fd LISTING_def and_then_def match_result_def of_outcome_def ok_def)

lemma start_list:
  "proc_fd_list (loop_fuel (start_env child ev)) (start_env child ev) start_iter LISTING = (Ok [0, 1, 2, 3, 4, 6], [])"
proof -
  note next_fds = start_proc_fd_next(3) [OF start_next_fd(4)] start_proc_fd_next(3) [OF start_next_fd(5)]
    start_proc_fd_next(3) [OF start_next_fd(6)] start_proc_fd_next(3) [OF start_next_fd(7)]
    start_proc_fd_next(3) [OF start_next_fd(8)]
  have "proc_fd_list (Suc (Suc (Suc (Suc (Suc (Suc (Suc (Suc 0)))))))) (start_env child ev) start_iter LISTING = (Ok [0, 1, 2, 3, 4, 6], [])"
    by (simp add: and_then_def match_result_def ok_def start_proc_fd_next(1,2,4) next_fds
        del: start_env_simps(2) proc_fd_next.simps)
  then show ?thesis by simp
qed

lemma proc_fd_list_mono: "proc_fd_list n E it w = (Ok fds, w') \<Longrightarrow> proc_fd_list (n + k) E it w = (Ok fds, w')"
  by (induction n arbitrary: w fds) (fastforce simp: and_then_eq_Ok_iff split: option.splits)+

lemma start_env_ascending: "listing_ascending (start_env child ev)"
proof -
  have "sorted_wrt (<) fds" if "proc_fd_list n (start_env child ev) start_iter LISTING = (Ok fds, w')" for n fds w'
  proof -
    from proc_fd_list_mono [OF that, of "loop_fuel (start_env child ev)"] proc_fd_list_mono [OF start_list, of child ev n]
    show ?thesis by (simp add: add.commute)
  qed
  then show ?thesis by (auto simp: listing_ascending_def start_new)
qed

section \<open>Starting\<close>

lemma start_info: "fd_info_try_from (start_env child ev) fd w = (Ok Fifo, w)"
  by (simp add: fd_info_try_from_def sys_fstat_def checked_call_def and_then_def match_result_def
      map_err_def invoke_def of_outcome_def check_defs get_file_type_def ok_def start_kernel_def)

lemma start_single [simp]: "debug_assert_single_threaded (start_env child ev) = ok ()"
  by (simp add: debug_assert_single_threaded_def when_do_def)

definition start_registry :: "fd_entry list \<Rightarrow> registry" where
  "start_registry data = (empty_registry LibApp)\<lparr>reg_data := data\<rparr>"

abbreviation stdio :: "fd_entry list" where
  "stdio \<equiv> [fd_entry_new 0 Fifo Ignore, fd_entry_new 1 Fifo Ignore, fd_entry_new 2 Fifo Ignore]"

lemma register_last:
  assumes "strict_by fde_fd data" and "\<forall>e \<in> set data. fde_fd e < fd" and "length data < REGISTRY_SIZE" and "action \<noteq> Reopen"
  shows "register (start_env child ev) fd action (start_registry data, w) =
    (Ok (), (start_registry (data @ [fd_entry_new fd Fifo action]), w))"
proof -
  have "find_fd data fd = Err (length data)"
    using assms(1,2) by (auto simp: find_fd_rank rank_def)
  with assms(3,4) show ?thesis
    by (simp add: register_def on_snd_def get_data_run start_registry_def and_then_def match_result_def map_err_def
        start_info ok_def of_outcome_def arrayvec_insert_def insert_at_def set_data_run)
qed

lemma strict_entries: "strict_by fde_fd (map (\<lambda>(fd, a). fd_entry_new fd Fifo a) ps) \<longleftrightarrow> sorted_wrt (<) (map fst ps)"
  by (simp add: strict_by_def comp_def case_prod_beta')

lemma start_registry_new: "registry_new (start_env child ev) LibApp w = (Ok (start_registry stdio), w)"
proof -
  have "register (start_env child ev) 0 Ignore (start_registry [], w) = (Ok (), (start_registry [fd_entry_new 0 Fifo Ignore], w))" for w
    using register_last [of "[]" 0 Ignore child ev w] by (simp add: strict_by_def)
  moreover have "register (start_env child ev) 1 Ignore (start_registry [fd_entry_new 0 Fifo Ignore], w)
      = (Ok (), (start_registry [fd_entry_new 0 Fifo Ignore, fd_entry_new 1 Fifo Ignore], w))" for w
    using register_last [of "[fd_entry_new 0 Fifo Ignore]" 1 Ignore child ev w] by (simp add: strict_by_def)
  moreover have "register (start_env child ev) 2 Ignore (start_registry [fd_entry_new 0 Fifo Ignore, fd_entry_new 1 Fifo Ignore], w)
      = (Ok (), (start_registry stdio, w))" for w
    using register_last [of "[fd_entry_new 0 Fifo Ignore, fd_entry_new 1 Fifo Ignore]" 2 Ignore child ev w] by (simp add: strict_by_def)
  moreover have "empty_registry LibApp = start_registry []" by (simp add: start_registry_def empty_registry_def)
  ultimately show ?thesis
    by (simp add: registry_new_def returning_state_def and_then_def match_result_def)
qed

definition start_config :: config where
  "start_config = \<lparr>cfg_command_fd = None, cfg_name = ''z'', cfg_preload_gid = None, cfg_preload_libraries = [],
     cfg_preload_uid = None, cfg_socket = Some ''@z'', cfg_species = LibApp, cfg_selinux_flags = None, cfg_uid = None,
     cfg_gid = None, cfg_process_name = None, cfg_priority_initial = None, cfg_priority_final = None,
     cfg_secondary_groups = []\<rparr>"

definition full_data :: "fd_entry list" where
  "full_data = stdio @ [fd_entry_new 3 Fifo Close, fd_entry_new 4 Fifo CloseUnlessSpawnSubspecies, fd_entry_new 6 Fifo Close]"

lemma full_data_strict: "strict_by fde_fd full_data"
  by (simp add: full_data_def strict_by_def)

lemma register_signal_fd:
  "register (start_env child ev) 4 CloseUnlessSpawnSubspecies
     (start_registry (stdio @ [fd_entry_new 3 Fifo Close, fd_entry_new 6 Fifo Close]), w)
   = (Ok (), (start_registry full_data, w))"
proof -
  have "find_fd (stdio @ [fd_entry_new 3 Fifo Close, fd_entry_new 6 Fifo Close]) 4 = Err 4"
    by (subst find_fd_rank) (auto simp: strict_by_def rank_def)
  then show ?thesis
    by (simp add: register_def on_snd_def get_data_run start_registry_def and_then_def match_result_def map_err_def
        start_info ok_def of_outcome_def arrayvec_insert_def insert_at_def set_data_run full_data_def)
qed

lemma start_socket: "get_server_socket (start_env child ev) ''@z'' w = (Ok (6, None), w)"
  by (simp add: get_server_socket_def parse_i32_def parse_unsigned_def is_ascii_digit_def
      create_abstract_socket_def sys_socket_def sys_bind_def sys_fcntl_setfl_def sys_listen_def abstract_socket_address_def
      checked_call_def and_then_def match_result_def map_err_def invoke_def of_outcome_def start_kernel_def check_defs ok_def)

lemma start_calls:
  "epoll_handle_new (start_env child ev) w = (Ok 3, w)"
  "epoll_handle_add (start_env child ev) epfd fd events data w = (Ok (), w)"
  "block_signals (start_env child ev) w = (Ok BLOCKED_SIGNALS, w)"
  "sys_signalfd (start_env child ev) fd sigset flags w = (Ok 4, w)"
  "sys_getpid (start_env child ev) w = (Ok (if child \<and> w = [''forked''] then 8 else 7), w)"
  by (simp_all add: epoll_handle_new_def epoll_handle_add_def sys_epoll_create1_def sys_epoll_ctl_def block_signals_def build_sigset_def
      sys_sigemptyset_def sys_sigaddset_def out_ints_def BLOCKED_SIGNALS_def sys_sigprocmask_def sys_signalfd_def sys_getpid_def checked_call_def and_then_def match_result_def
      map_err_def invoke_def of_outcome_def start_kernel_def check_defs ok_def)

lemma start_descriptors:
  "new_descriptors (start_env child ev) quiet_host start_config (start_registry stdio, w)
     = (Ok (Some 3, Some 6, None, Some 4), (start_registry full_data, w))"
proof -
  have r3: "register (start_env child ev) 3 Close (start_registry stdio, w)
      = (Ok (), (start_registry (stdio @ [fd_entry_new 3 Fifo Close]), w))" for w
    using register_last [of stdio 3 Close child ev w] by (simp add: strict_by_def)
  have r6: "register (start_env child ev) 6 Close (start_registry (stdio @ [fd_entry_new 3 Fifo Close]), w)
      = (Ok (), (start_registry (stdio @ [fd_entry_new 3 Fifo Close, fd_entry_new 6 Fifo Close]), w))" for w
    using register_last [of "stdio @ [fd_entry_new 3 Fifo Close]" 6 Close child ev w] by (simp add: strict_by_def)
  have socket: "config_socket (start_env child ev) start_config w = (Ok ''@z'', w)" for w
    by (simp add: config_socket_def start_config_def)
  note start_env_simps [simp del]
  show ?thesis
    by (simp add: new_descriptors_def register_descriptor_def on_snd_def and_then_def match_result_def map_err_def
        start_calls r3 [simplified] r6 [simplified] register_signal_fd [simplified] start_socket socket ok_def)
qed

lemma is_registered_head:
  "i < n \<Longrightarrow> fde_fd (data ! i) = fd \<Longrightarrow> is_registered data fd i n = (True, Suc i)"
  by (subst is_registered.simps) (simp add: cmp_def)

lemma start_register_new: "register_new (start_env child ev) (start_registry full_data, w) = (Ok (), (start_registry full_data, []))"
proof -
  note next_fds = start_proc_fd_next(3) [OF start_next_fd(4)] start_proc_fd_next(3) [OF start_next_fd(5)]
    start_proc_fd_next(3) [OF start_next_fd(6)] start_proc_fd_next(3) [OF start_next_fd(7)]
    start_proc_fd_next(3) [OF start_next_fd(8)]
  have fds: "fde_fd (full_data ! 0) = 0" "fde_fd (full_data ! Suc 0) = 1" "fde_fd (full_data ! Suc (Suc 0)) = 2"
    "fde_fd (full_data ! Suc (Suc (Suc 0))) = 3" "fde_fd (full_data ! Suc (Suc (Suc (Suc 0)))) = 4"
    "fde_fd (full_data ! Suc (Suc (Suc (Suc (Suc 0))))) = 6" "length full_data = 6"
    by (simp_all add: full_data_def)
  have data: "reg_data (start_registry full_data) = full_data" by (simp add: start_registry_def)
  have loop: "register_new_loop (Suc (Suc (Suc (Suc (Suc (Suc (Suc (Suc 0)))))))) (start_env child ev) start_iter 0 6
      (start_registry full_data, LISTING) = (Ok (), (start_registry full_data, []))"
    by (simp add: on_snd_def and_then_def match_result_def map_err_def get_data_run ok_def data fds
        start_proc_fd_next(1,2,4) next_fds is_registered_head numeral_eq_Suc
        del: start_env_simps(2) proc_fd_next.simps)
  have drop: "proc_fd_drop (start_env child ev) d w = w" for d w by (simp add: proc_fd_drop_def start_kernel_def)
  have "sorted (map fde_fd full_data)" using full_data_strict by (rule strict_by_imp_sorted)
  with loop show ?thesis
    by (simp add: register_new_def on_snd_def and_then_def match_result_def map_err_def start_new get_data_run data fds
        finally_do_def drop ok_def del: register_new_loop.simps)
qed

lemma start_audit: "audit (start_env child ev) (start_registry full_data) w = (Ok (), [])"
proof -
  have entries: "open_entries (start_registry full_data) = full_data"
    by (simp add: open_entries_def start_registry_def full_data_def fd_entry_new_def fd_entry_closed_def)
  have "fd_info_try_from (start_env child ev) fd w = (Ok Fifo, w)" for fd w by (rule start_info)
  then have "info_at (start_env child ev) fd w = Ok Fifo" for fd w by (simp add: info_at_def)
  moreover have "proc_fd_drop (start_env child ev) d w = w" for d w by (simp add: proc_fd_drop_def start_kernel_def)
  ultimately show ?thesis
    unfolding audit_effect [OF start_env_stable] entries
    using start_new [of child ev w] start_list [of child ev] by (simp add: full_data_def fd_entry_new_def del: proc_fd_list.simps start_env_simps)
qed

lemma start_new_registry:
  "new_registry (start_env child ev) quiet_host start_config (start_registry stdio, w)
     = (Ok (Some 3, Some 6, None, Some 4), (start_registry full_data, []))"
  by (simp add: new_registry_def and_then_def match_result_def map_err_def on_snd_def start_descriptors
      start_register_new start_audit gets_def ok_def del: start_env_simps)

definition start_server_record :: server where
  "start_server_record = \<lparr>srv_name = ''z'', srv_species = LibApp, srv_pid = 7, srv_registry = start_registry full_data,
     srv_epoll_handle = Some 3, srv_signal_fd = Some 4, srv_server_socket = Some 6, srv_client_sockets = [],
     srv_server_socket_path = None, srv_preload_uid = None, srv_preload_gid = None, srv_spawn_params = no_params\<rparr>"

lemma start_params: "config_to_spawn_params start_config = Ok no_params"
  by (simp add: config_to_spawn_params_def start_config_def arrayvec_collect_def no_params_def bind_outcome_def)

lemma start_start_server: "start_server (start_env child ev) quiet_host start_config (start_server_record, w) = (Ok (), (start_server_record, w))"
  by (simp add: start_server_def when_do_def and_then_def match_result_def map_err_def on_snd_def get_server_def gets_def ok_def
      sys_prctl_set_name_def sys_setpgid_def preload_def effective_id_enter_def effective_id_exit_def effective_id_drop_def sys_getuid_def sys_getgid_def
      start_server_record_def start_config_def expect_def logging_errors_def sys_mallopt_def checked_call_def invoke_def
      of_outcome_def start_kernel_def check_defs Let_def)

lemma start_server_new: "server_new (start_env child ev) quiet_host start_config w = (Ok start_server_record, [])"
proof -
  note start_env_simps [simp del]
  have "cfg_species start_config = LibApp" "cfg_name start_config = ''z''" "cfg_preload_uid start_config = None"
    "cfg_preload_gid start_config = None" by (simp_all add: start_config_def)
  then show ?thesis
    using start_start_server [of child ev "[]"]
    by (simp add: server_new_def and_then_def match_result_def map_err_def with_local_def bind_outcome_def ok_def
        start_registry_new [simplified] start_new_registry [simplified] start_calls start_params of_outcome_def
        moved_or_dropped_def start_server_record_def)
qed

section \<open>Stopping\<close>

definition term_event :: epoll_event where
  "term_event = (EPOLLIN, epoll_data_to_u64 (epoll_data_new 4 SignalTag))"

abbreviation server_world :: "string list env" where "server_world \<equiv> start_env False term_event"

lemma start_signal: "handle_signalfd_events (start_env child ev) 4 (srv, w) = (Ok Shutdown, (srv, w))"
  by (simp add: handle_signalfd_events_def sys_read_exact_def sys_read_def handle_signal_def out_siginfo_def on_snd_def
      get_server_def gets_def checked_call_def and_then_def match_result_def invoke_def of_outcome_def start_kernel_def
      check_defs ok_def)

lemma start_event: "handle_event (start_env child ev) S term_event (srv, w)
    = (Ok (Some Shutdown), (srv, w))"
proof -
  have data: "epoll_data_try_from (epoll_data_to_u64 (epoll_data_new 4 SignalTag)) = Ok (epoll_data_new 4 SignalTag)"
    by (simp add: epoll_data_try_from_def epoll_data_to_u64_def epoll_data_new_def)
  have "handle_input (start_env child ev) S (epoll_data_new 4 SignalTag) (srv, w) = (Ok Shutdown, (srv, w))"
    by (simp add: handle_input_def epoll_data_new_def map_err_Ok start_signal)
  then show ?thesis
    by (simp add: term_event_def handle_event_eq epoll_event_check_eq EPOLL_ERROR_MASK_def data epoll_has_event_def match_result_Ok)
qed

lemma start_serve: "serve server_world quiet_host (start_server_record, w) = (Ok None, (start_server_record, w))"
proof -
  have epoll: "srv_epoll_handle start_server_record = Some 3" "srv_species start_server_record = LibApp"
    by (simp_all add: start_server_record_def)
  have ready: "on_server_ready server_world LibApp = ok ()" by (simp add: on_server_ready_def)
  have wait: "epoll_handle_wait server_world 3 BUFFER_SIZE_EPOLL_EVENTS BLANK_EVENT (- 1) w
      = (Ok [term_event], w)"
    by (simp add: epoll_handle_wait_def sys_epoll_wait_def checked_call_def and_then_def match_result_def invoke_def
        of_outcome_def start_kernel_def check_defs ok_def out_events_def)
  have "serve_round server_world quiet_host (start_server_record, w) = (Ok Shutdown, (start_server_record, w))"
    by (simp add: serve_round_def epoll and_then_def match_result_def map_err_def on_snd_def get_server_def gets_def ok_def
        wait start_event)
  then have "serve_loop (Suc n) server_world quiet_host (start_server_record, w) = (Ok None, (start_server_record, w))" for n
    by (simp add: and_then_def match_result_def ok_def)
  then show ?thesis
    by (simp add: serve_def and_then_def match_result_def epoll ready on_snd_def get_server_def gets_def ok_def
        del: serve_loop.simps)
qed

lemma on_server_destroy_LibApp [simp]: "on_server_destroy E LibApp = ok ()"
  by (simp add: on_server_destroy_def)

lemma start_drop: "(server_drop server_world quiet_host :: (_, unit, server_error) srv_prog) (start_server_record, [])
    = (Ok (), (start_server_record, []))"
proof -
  have "override_and_close server_world (start_registry full_data, []) = (Ok (), (start_registry full_data, []))"
    by (simp add: override_and_close_def on_snd_def and_then_def match_result_def map_err_def get_data_run gets_def
        start_registry_def empty_registry_def full_data_def fd_entry_new_def fd_entry_override_and_close_def sys_close_def checked_call_def invoke_def of_outcome_def
        start_kernel_def check_defs ok_def)
  then show ?thesis
    by (simp add: server_drop_def drop_in_server_def get_server_def gets_def on_snd_def and_then_def match_result_def
        start_calls start_server_record_def on_registry_def ok_def del: start_env_simps)
qed

lemma start_species: "cfg_species start_config = LibApp"
  by (simp add: start_config_def)

lemma start_run_server: "run_server server_world quiet_host start_config [] = (Ok None, [])"
  by (simp add: run_server_def on_start_def start_species and_then_def match_result_def
      start_server_new with_local_def dropping_def start_serve start_drop bind_outcome_def of_outcome_def ok_def
      del: start_env_simps)

section \<open>Forking\<close>

text \<open>A client on descriptor 5 asks for the application of the library \<^verbatim>\<open>p\<close>; this is what its child does.\<close>

definition child_host :: host where
  "child_host = quiet_host\<lparr>fb_root := (\<lambda>_. Some (to_parcel (Spawn no_params (PayloadLibApp ''p'' []))))\<rparr>"

definition child_params :: spawn_params where
  "child_params = no_params\<lparr>sp_selinux_flags := Some 0, sp_no_new_privs := Some False, sp_process_name := Some '''',
     sp_se_info := Some ''''\<rparr>"

definition client_event :: epoll_event where
  "client_event = (EPOLLIN, epoll_data_to_u64 (epoll_data_new 5 ClientTag))"

abbreviation child_world :: "string list env" where "child_world \<equiv> start_env True client_event"

lemma child_host_simps [simp]: "is_exec_spawning child_host = False" "arg_capacity child_host = None"
  by (simp_all add: child_host_def)

lemma child_parse: "(try_from_parcel (fb_root child_host) (cap_all_flags child_host) buffer :: (zygote_message, message_error) outcome)
    = Ok (Spawn child_params (PayloadLibApp ''p'' []))"
  by (simp add: child_host_def try_from_parcel_def to_parcel_def message_from_parcel_def spawn_from_def expect_table_def
      common_from_table_def marshal_common_def no_params_def payload_from_def Let_def marshal_default_def bind_outcome_def
      unmarshal_secondary_groups_def unmarshal_rlimits_def arrayvec_collect_def unmarshal_valid_range_def
      unmarshal_string_def marshal_string_def unmarshal_capability_flags_def marshal_capability_flags_def in_nice_def in_positive_def
      unmarshal_libapp_args_def quiet_host_def child_params_def)

lemma child_params_or: "params_or child_params no_params = Ok child_params"
  by (simp add: params_or_def child_params_def no_params_def bind_outcome_def arrayvec_collect_def unique_def or_option_def)

definition forked_thunk :: "string \<Rightarrow> child_thunk" where
  "forked_thunk buffer = \<lparr>th_species = LibApp, th_re_init_data = ReInitLibApp, th_spawn_params = child_params, th_message = buffer\<rparr>"

lemma child_dispatch:
  "dispatch_message_handler child_world child_host 5 buffer (start_server_record, w)
     = (Ok (Break (Inr (Trampoline (forked_thunk buffer)))), (start_server_record, [''forked'']))"
proof -
  have srv: "srv_species start_server_record = LibApp" "srv_spawn_params start_server_record = no_params"
    by (simp_all add: start_server_record_def)
  have fork: "fork_or_exec child_world child_host (srv, w) = (Ok 0, (srv, [''forked'']))" for srv :: server and w
    by (simp add: fork_or_exec_def on_snd_def sys_fork_def checked_call_def and_then_def match_result_def invoke_def
        of_outcome_def start_kernel_def check_defs ok_def)
  have priority: "sp_priority_initial child_params = None" by (simp add: child_params_def no_params_def)
  show ?thesis
    by (simp add: dispatch_message_handler_def child_parse srv handle_message_spawn_def
        handle_spawn_def parse_again_def expect_def when_do_def child_params_or fork match_result_Ok and_then_Ok on_snd_def
        priority capture_run ok_def forked_thunk_def del: start_env_simps(1,2))
qed

definition child_buffer :: string where "child_buffer = zero_padded MESSAGE_BUFFER_SIZE ''spawn''"

lemma child_event:
  "handle_event child_world child_host client_event (start_server_record, w)
     = (Ok (Some (Trampoline (forked_thunk child_buffer))), (start_server_record, [''forked'']))"
proof -
  have recv: "sys_recvmsg child_world 5 MESSAGE_BUFFER_SIZE w = (Ok (5, child_buffer), w)" for w
    by (simp add: sys_recvmsg_def checked_call_def and_then_def match_result_def invoke_def of_outcome_def
        start_kernel_def check_defs ok_def child_buffer_def out_bytes_def)
  have "handle_client_events child_world child_host 5 (start_server_record, w)
      = (Ok (Trampoline (forked_thunk child_buffer)), (start_server_record, [''forked'']))"
    by (simp add: handle_client_events_def handle_client_message_def on_snd_def and_then_def match_result_def recv child_parse
        child_dispatch of_outcome_def ok_def del: start_env_simps(1))
  then have input: "handle_input child_world child_host (epoll_data_new 5 ClientTag) (start_server_record, w)
      = (Ok (Trampoline (forked_thunk child_buffer)), (start_server_record, [''forked'']))"
    by (simp add: handle_input_def epoll_data_new_def map_err_Ok)
  have data: "epoll_data_try_from (snd client_event) = Ok (epoll_data_new 5 ClientTag)"
    by (simp add: client_event_def epoll_data_try_from_def epoll_data_to_u64_def epoll_data_new_def)
  have "epoll_event_check child_world client_event = Ok client_event"
    by (simp add: client_event_def epoll_event_check_eq EPOLL_ERROR_MASK_def)
  moreover have "epoll_has_event client_event EPOLLIN" by (simp add: client_event_def epoll_has_event_def)
  ultimately show ?thesis by (simp add: handle_event_eq epoll_event_check_eq data input match_result_Ok)
qed

lemma child_serve: "serve child_world child_host (start_server_record, w)
    = (Ok (Some (forked_thunk child_buffer)), (start_server_record, [''forked'']))"
proof -
  have epoll: "srv_epoll_handle start_server_record = Some 3" "srv_species start_server_record = LibApp"
    by (simp_all add: start_server_record_def)
  have wait: "epoll_handle_wait child_world 3 BUFFER_SIZE_EPOLL_EVENTS BLANK_EVENT (- 1) w = (Ok [client_event], w)"
    by (simp add: epoll_handle_wait_def sys_epoll_wait_def checked_call_def and_then_def match_result_def invoke_def
        of_outcome_def start_kernel_def check_defs ok_def out_events_def)
  have "serve_round child_world child_host (start_server_record, w)
      = (Ok (Trampoline (forked_thunk child_buffer)), (start_server_record, [''forked'']))"
    by (simp add: serve_round_def epoll and_then_def match_result_def map_err_def on_snd_def get_server_def gets_def ok_def
        wait child_event del: start_env_simps)
  then have "serve_loop (Suc n) child_world child_host (start_server_record, w)
      = (Ok (Some (forked_thunk child_buffer)), (start_server_record, [''forked'']))" for n
    by (simp add: and_then_def match_result_def ok_def)
  moreover have "on_server_ready child_world LibApp = ok ()" by (simp add: on_server_ready_def)
  ultimately show ?thesis
    by (simp add: serve_def and_then_def match_result_def epoll on_snd_def get_server_def gets_def ok_def
        on_server_ready_def del: serve_loop.simps)
qed

definition executed_registry :: registry where
  "executed_registry = start_registry (map (executed_entry Application) full_data)"

lemma child_execute: "execute_actions child_world Application (start_registry full_data, w) = (Ok (), (executed_registry, w))"
proof -
  have close: "fd_entry_execute child_world 0 Application (fd_entry_new fd Fifo a) w
      = (Ok (executed_entry Application (fd_entry_new fd Fifo a), a \<noteq> Ignore), w)" if "a \<in> {Ignore, Close, CloseUnlessSpawnSubspecies}"
    for fd a w
    using that by (auto simp: fd_entry_execute_def fd_entry_new_def executed_entry_def acts_def sys_close_def checked_call_def
        and_then_def match_result_def map_err_def invoke_def of_outcome_def start_kernel_def check_defs ok_def)
  have null: "sys_open child_world DEV_NULL_PATH flags None w = (Ok 0, w)" for flags w
    by (simp add: sys_open_def checked_call_def and_then_def match_result_def invoke_def of_outcome_def start_kernel_def
        check_defs ok_def)
  have "[0..<length full_data] = [0, 1, 2, 3, 4, 5]" by (simp add: full_data_def upt_rec)
  then show ?thesis
    by (simp add: execute_actions_def execute_entry_def on_snd_def and_then_def match_result_def map_err_def get_data_run
        gets_def null close set_entry_def modify_def ok_def start_registry_def empty_registry_def full_data_def
        executed_registry_def del: start_env_simps)
qed

lemma child_drop: "(server_drop child_world child_host :: (_, unit, server_error) srv_prog) (start_server_record, [''forked''])
    = (Ok (), (start_server_record\<lparr>srv_registry := executed_registry\<rparr>, [''forked'']))"
proof -
  have sigset: "build_sigset child_world BLOCKED_SIGNALS w = (Ok BLOCKED_SIGNALS, w)"
    "\<exists>x. sys_sigprocmask child_world SIG_UNBLOCK sigset w = (Ok x, w)" for sigset w
    by (simp_all add: build_sigset_def sys_sigemptyset_def sys_sigaddset_def out_ints_def BLOCKED_SIGNALS_def
        sys_sigprocmask_def checked_call_def and_then_def match_result_def invoke_def of_outcome_def start_kernel_def
        check_defs ok_def)
  have srv: "srv_pid start_server_record = 7" "srv_registry start_server_record = start_registry full_data"
    by (simp_all add: start_server_record_def)
  obtain x where mask: "sys_sigprocmask child_world SIG_UNBLOCK BLOCKED_SIGNALS [''forked''] = (Ok x, [''forked''])"
    using sigset(2) by blast
  show ?thesis
    by (simp add: server_drop_def get_server_def gets_def on_snd_def and_then_def match_result_def start_calls srv
        drop_in_child_def expect_def on_registry_def child_execute sigset(1) mask ok_def del: start_env_simps)
qed

lemma child_run_thunk: "(run_thunk child_world child_host (forked_thunk buffer) :: (_, int, 'e) prog) w = (Ok 0, w)"
proof -
  have params: "sp_cap_permitted child_params = None" "sp_cap_bound child_params = None"
    "sp_secondary_groups child_params = []" "sp_rlimits child_params = []" "sp_gid child_params = None"
    "sp_uid child_params = None" "sp_process_name child_params = Some ''''" "sp_priority_final child_params = None"
    "sp_cap_effective child_params = None" "sp_cap_inheritable child_params = None"
    by (simp_all add: child_params_def no_params_def)
  show ?thesis
    by (simp add: run_thunk_def maybe_reset_stack_guards_def parse_again_def child_parse expect_some_def forked_thunk_def
        re_initialize_def set_new_process_name_def keep_capabilities_def params cstring_new_def gestate_lib_app_def std_bool_def
        sys_prctl_set_name_def sys_prctl_set_securebits_def ext_def ext_expect_def expect_def checked_call_def check_defs
        when_do_def and_then_def match_result_def invoke_def of_outcome_def start_kernel_def ok_def)
qed

lemma child_main: "zygote_main child_world child_host start_config [] = (Ok (Some 0), [''forked''])"
proof -
  have new: "server_new child_world child_host start_config w = (Ok start_server_record, [])" for w
  proof -
    have "server_new child_world child_host = server_new child_world quiet_host"
      by (simp add: fun_eq_iff server_new_def new_registry_def new_descriptors_def server_drop_def start_server_def
          child_host_def)
    then show ?thesis by (simp add: start_server_new)
  qed
  have exec: "child_host\<lparr>is_exec_spawning := False\<rparr> = child_host"
    by (simp add: child_host_def quiet_host_def)
  have cmd: "cfg_command_fd start_config = None" by (simp add: start_config_def)
  show ?thesis
    by (simp add: zygote_main_def cmd exec run_server_def on_start_def start_species and_then_def match_result_def map_err_def
        new with_local_def dropping_def child_serve child_drop bind_outcome_def of_outcome_def child_run_thunk ok_def
        del: start_env_simps)
qed

end
