(* ===== verification/Server_Runs.thy ===== *)
theory Server_Runs
  imports Start_World
begin

unbundle bit_operations_syntax

text \<open>
  Whole runs: a server that has been constructed, the life of a server process until an orderly
  shutdown, and what stands between the loop and the code of a forked child.
\<close>

section \<open>A constructed server\<close>

text \<open>
  C8. \<^verbatim>\<open>Server::new\<close> hands out only well-formed servers. When it returns \<^verbatim>\<open>Ok\<close>, the registry is
  sorted and within its size, no client is connected, the settings are those of the
  configuration, the three standard descriptors have an entry to be ignored, the epoll handle and
  the listening socket are registered to be closed in every child and the signal descriptor in
  every child but a subspecies (an exec-spawned application has none of the three), and an audit
  of exactly this registry has succeeded.
\<close>

theorem server_new_establishes:
  assumes stable: "listing_stable E" and asc: "listing_ascending E"
    and run: "server_new E S config w = (Ok srv, w')"
  shows "server_inv srv \<and> clients srv = {} \<and> configured config srv \<and> stdio_ignored (srv_registry srv)
    \<and> own_descriptors (is_exec_spawning S) (srv_registry srv) (srv_epoll_handle srv) (srv_server_socket srv)
        (srv_signal_fd srv)
    \<and> (\<exists>w1 w2. audit E (srv_registry srv) w1 = (Ok (), w2))"
  using server_new_effect [OF assms] by blast

theorem server_new_establishes_witness:
  "server_inv start_server_record \<and> clients start_server_record = {}"
  using server_new_establishes [OF start_env_stable start_env_ascending start_server_new] by blast

section \<open>The life of a server process\<close>

text \<open>\<^verbatim>\<open>getpid(2)\<close> in one process.\<close>

definition process_id :: "'w env \<Rightarrow> int \<Rightarrow> bool" where
  "process_id E pid \<longleftrightarrow> (\<forall>w. retval (fst (kernel E (ProcCall Libc_getpid) w)) = pid)"

lemma process_idD: "process_id E pid \<Longrightarrow> sys_getpid E w = (r, w') \<Longrightarrow> r = Ok pid"
  by (auto simp: process_id_def sys_getpid_def checked_call_eq_iff and_then_def match_result_def invoke_def ok_def
      split: prod.splits) (metis fst_conv)+

lemma dropping_eq_Ok_iff: "dropping m d s = (Ok x, t) \<longleftrightarrow> (\<exists>s'. m s = (Ok x, s') \<and> d s' = (Ok (), t))"
  by (auto simp: dropping_def and_then_eq_Ok_iff split: prod.splits outcome.splits)

text \<open>
  The destruction of the server in the server's own process: the species is told, then every
  descriptor of the registry that is not to be ignored is closed, a failure being logged only, then
  the socket file is removed.
\<close>

lemma drop_in_server_effect:
  assumes "(drop_in_server E :: (_, unit, server_error) srv_prog) (srv, w) = (Ok (), (srv', w'))"
  shows "\<exists>w1 closing reg w2.
      (on_server_destroy E (srv_species srv) :: ('w, unit, server_error) prog) w = (Ok (), w1)
    \<and> override_and_close E (srv_registry srv, w1) = (closing, (reg, w2)) \<and> (closing = Ok () \<or> (\<exists>e. closing = Err e))
    \<and> w' = (case srv_server_socket_path srv of
        Some path \<Rightarrow> snd (kernel E (StdCall (Std_remove_file path)) w2) | None \<Rightarrow> w2)"
proof -
  from assms obtain w1 t where destroy: "(on_server_destroy E (srv_species srv) :: ('w, unit, server_error) prog) w = (Ok (), w1)"
    and closing: "(match_result (on_registry (override_and_close E)) (\<lambda>_. ok ()) (\<lambda>_. ok ()) :: (_, unit, server_error) srv_prog) (srv, w1) = (Ok (), t)"
    and remove: "(case srv_server_socket_path srv of
         Some path \<Rightarrow> and_then (on_snd (invoke E (StdCall (Std_remove_file path)))) (\<lambda>_. ok ())
       | None \<Rightarrow> (ok () :: (_, unit, server_error) srv_prog)) t = (Ok (), (srv', w'))"
    by (auto simp: drop_in_server_def and_then_eq_Ok_iff on_snd_eq_iff get_server_def)
  from closing obtain r reg w2 where "override_and_close E (srv_registry srv, w1) = (r, (reg, w2))"
    "r = Ok () \<or> (\<exists>e. r = Err e)" "snd t = w2"
    by (auto simp: match_result_eq_Ok_iff on_registry_eq_iff)
  moreover from remove this(3) have "w' = (case srv_server_socket_path srv of
        Some path \<Rightarrow> snd (kernel E (StdCall (Std_remove_file path)) w2) | None \<Rightarrow> w2)"
    by (cases t) (auto simp: and_then_eq_Ok_iff on_snd_eq_iff split: option.splits)
  ultimately show ?thesis using destroy by blast
qed

lemma same_service_fields:
  assumes "same_service srv srv'"
  shows "srv_pid srv' = srv_pid srv" and "configured config srv' \<longleftrightarrow> configured config srv"
    and "srv_species srv' = srv_species srv"
  using assms by (cases srv; cases srv'; simp add: same_service_def configured_def)+

text \<open>
  C18. The life of a server process. Where \<^verbatim>\<open>fork\<close> never answers 0 and the process id is constant, a
  server that returns at all without an error returns no closure: the species was told of the start,
  the server has been constructed well-formed and empty, and its loop has gone from there to the end
  by waits and handled events; in every state such steps reach, the server is well-formed, its
  clients have come and gone as \<open>client_step\<close> says and the configuration is what it was. Then the
  loop has ended by a shutdown and the server has been destroyed as a server, in this order and with
  nothing after it: it asked for its process id, told the species of its end, closed the descriptors
  of its registry, a failure being logged only, and removed the socket file if it has made one.
\<close>

theorem server_lifetime:
  assumes stable: "listing_stable E" and asc: "listing_ascending E"
    and server: "server_process E S" and pid: "process_id E pid"
    and run: "run_server E S config w = (Ok r, w')"
  shows "r = None \<and> (\<exists>w0 srv w1 w2 srv' w3 w4 w5 closing reg' w6.
      (on_start E S (cfg_species config) :: ('w, unit, server_error) prog) w = (Ok (), w0)
    \<and> server_new E S config w0 = (Ok srv, w1) \<and> server_inv srv \<and> clients srv = {}
    \<and> serve E S (srv, w1) = (Ok None, (srv', w3))
    \<and> (on_server_ready E (srv_species srv) :: ('w, unit, server_error) prog) w1 = (Ok (), w2)
    \<and> serving E S (srv, w2) (srv', w3)
    \<and> (\<forall>state. serving E S (srv, w2) state \<longrightarrow>
         server_inv (fst state) \<and> client_step\<^sup>*\<^sup>* {} (clients (fst state)) \<and> configured config (fst state))
    \<and> (sys_getpid E :: ('w, int, server_error) prog) w3 = (Ok (srv_pid srv'), w4)
    \<and> (on_server_destroy E (srv_species srv') :: ('w, unit, server_error) prog) w4 = (Ok (), w5)
    \<and> override_and_close E (srv_registry srv', w5) = (closing, (reg', w6))
    \<and> (closing = Ok () \<or> (\<exists>e. closing = Err e))
    \<and> w' = (case srv_server_socket_path srv' of
         Some path \<Rightarrow> snd (kernel E (StdCall (Std_remove_file path)) w6) | None \<Rightarrow> w6))"
proof -
  from run obtain w0 srv w1 srv' w3 srv'' where
    start: "(on_start E S (cfg_species config) :: ('w, unit, server_error) prog) w = (Ok (), w0)"
    and new: "server_new E S config w0 = (Ok srv, w1)"
    and serve: "serve E S (srv, w1) = (Ok r, (srv', w3))"
    and drop: "(server_drop E S :: (_, unit, server_error) srv_prog) (srv', w3) = (Ok (), (srv'', w'))"
    by (auto simp: run_server_def and_then_eq_Ok_iff with_local_eq_Ok_iff dropping_eq_Ok_iff)
  from server_new_effect [OF stable asc new] obtain v v' where
    inv: "server_inv srv" "clients srv = {}" "configured config srv" and
    at: "sys_getpid E v = ((Ok (srv_pid srv) :: (int, server_error) outcome), v')" by blast
  from serve obtain w2 where ready: "(on_server_ready E (srv_species srv) :: ('w, unit, server_error) prog) w1 = (Ok (), w2)"
    and loop: "serve_loop (loop_fuel E) E S (srv, w2) = (Ok r, (srv', w3))"
    by (auto simp: serve_def and_then_eq_Ok_iff on_snd_eq_iff get_server_def)
  note steps = serve_loop_serving [OF loop]
  have reached: "server_inv (fst state) \<and> client_step\<^sup>*\<^sup>* {} (clients (fst state)) \<and> configured config (fst state)"
    if "serving E S (srv, w2) state" for state
    using serving_keeps [OF server that] inv same_service_fields(2) by (auto simp: keeps_service_def)
  have none: "r = None" by (rule yieldsD [OF serve_loop_in_server [OF server] loop])
  from serving_keeps [OF server steps] inv have "same_service srv srv'" by (simp add: keeps_service_def)
  with process_idD [OF pid at] have own: "srv_pid srv' = pid" by (simp add: same_service_fields)
  from drop obtain p w4 where p: "(sys_getpid E :: ('w, int, server_error) prog) w3 = (Ok p, w4)" and
    rest: "(if srv_pid srv' = p \<and> \<not> is_exec_spawning S then drop_in_server E else drop_in_child E) (srv', w4)
      = ((Ok () :: (unit, server_error) outcome), (srv'', w'))"
    by (auto simp: server_drop_def and_then_eq_Ok_iff on_snd_eq_iff get_server_def)
  from process_idD [OF pid p] own server have mine: "srv_pid srv' = p" "\<not> is_exec_spawning S"
    by (simp_all add: server_process_def)
  with rest have "(drop_in_server E :: (_, unit, server_error) srv_prog) (srv', w4) = (Ok (), (srv'', w'))" by simp
  from drop_in_server_effect [OF this] start new serve ready steps reached inv p none mine(1) show ?thesis by blast
qed

theorem server_lifetime_witness:
  "\<exists>w0 srv w1 srv' w3 w5 closing reg' w6.
      server_new server_world quiet_host start_config w0 = (Ok srv, w1) \<and> server_inv srv
    \<and> serve server_world quiet_host (srv, w1) = (Ok None, (srv', w3))
    \<and> override_and_close server_world (srv_registry srv', w5) = (closing, (reg', w6))
    \<and> (closing = Ok () \<or> (\<exists>e. closing = Err e))"
proof -
  have server: "server_process server_world quiet_host" by (simp add: server_process_def start_kernel_def)
  have pid: "process_id server_world 7" by (simp add: process_id_def start_kernel_def)
  show ?thesis
    using server_lifetime [OF start_env_stable start_env_ascending server pid start_run_server] by blast
qed

section \<open>Between the loop and the code of a child\<close>

text \<open>The destruction of the server in a process that is not the server's.\<close>

definition destroyed_in_child :: "'w env \<Rightarrow> server \<Rightarrow> 'w \<Rightarrow> server \<Rightarrow> 'w \<Rightarrow> bool" where
  "destroyed_in_child E srv w srv' w' \<longleftrightarrow> (\<exists>w1 w2 sigset x.
     execute_actions E Application (srv_registry srv, w) = (Ok (), (srv_registry srv', w1))
   \<and> (\<forall>entry \<in> set (open_entries (srv_registry srv')).
        fde_action entry = Ignore \<or> (fde_action entry \<in> {DupeNull, Reopen} \<and> fde_executed entry))
   \<and> build_sigset E [SIGCHLD, SIGINT, SIGTERM] w1 = (Ok sigset, w2)
   \<and> sys_sigprocmask E SIG_UNBLOCK sigset w2 = (Ok x, w'))"

lemma drop_in_child_effect:
  assumes "(drop_in_child E :: (_, unit, 'e) srv_prog) (srv, w) = (Ok (), (srv', w'))"
  shows "destroyed_in_child E srv w srv' w'"
proof -
  from assms obtain reg w1 sigset w2 x where
    act: "execute_actions E Application (srv_registry srv, w) = (Ok (), (reg, w1))" and
    "build_sigset E [SIGCHLD, SIGINT, SIGTERM] w1 = (Ok sigset, w2)" "sys_sigprocmask E SIG_UNBLOCK sigset w2 = (Ok x, w')"
    "srv' = srv\<lparr>srv_registry := reg\<rparr>"
    by (auto simp: drop_in_child_def and_then_eq_Ok_iff on_registry_eq_iff on_snd_eq_iff BLOCKED_SIGNALS_def)
  with application_open_effect [OF act] show ?thesis by (auto simp: destroyed_in_child_def)
qed

text \<open>
  C7. What a forked child has behind it when its own code begins. If \<^verbatim>\<open>main\<close>, started as a server,
  ends with the exit status of an application, then the loop returned its closure, the server was
  destroyed without a panic, and only then did the closure run. In a process that is not the
  server's, destruction means that the registered actions have been executed, so no descriptor
  marked for closing is open any more and those still open are to be ignored or have been
  replaced, and that after it \<^verbatim>\<open>SIGCHLD\<close>, \<^verbatim>\<open>SIGINT\<close> and \<^verbatim>\<open>SIGTERM\<close> have been unblocked, directly
  before the closure.
\<close>

theorem child_isolated:
  assumes cmd: "cfg_command_fd config = None"
    and run: "zygote_main E S config w = (Ok (Some status), w')"
  shows "\<exists>T srv0 w0 srv w1 pid w2 srv' w3 th. T = S\<lparr>is_exec_spawning := False\<rparr>
    \<and> serve E T (srv0, w0) = (Ok (Some th), (srv, w1))
    \<and> sys_getpid E w1 = ((Ok pid :: (int, server_error) outcome), w2)
    \<and> (pid \<noteq> srv_pid srv \<longrightarrow> destroyed_in_child E srv w2 srv' w3)
    \<and> run_thunk E T th w3 = ((Ok status :: (int, main_error) outcome), w')"
proof -
  let ?T = "S\<lparr>is_exec_spawning := False\<rparr>"
  from run cmd obtain th w3 where "run_server E ?T config w = (Ok (Some th), w3)" and
    thunk: "run_thunk E ?T th w3 = ((Ok status :: (int, main_error) outcome), w')"
    by (auto simp: zygote_main_def Let_def and_then_eq_Ok_iff split: option.splits)
  then obtain srv0 w0 srv w1 srv' where
    serve: "serve E ?T (srv0, w0) = (Ok (Some th), (srv, w1))" and
    drop: "(server_drop E ?T :: (_, unit, server_error) srv_prog) (srv, w1) = (Ok (), (srv', w3))"
    by (auto simp: run_server_def and_then_eq_Ok_iff with_local_eq_Ok_iff dropping_eq_Ok_iff)
  from drop obtain pid w2 where pid: "sys_getpid E w1 = ((Ok pid :: (int, server_error) outcome), w2)" and
    rest: "((if srv_pid srv = pid \<and> \<not> is_exec_spawning ?T then drop_in_server E else drop_in_child E) ::
        (_, unit, server_error) srv_prog) (srv, w2) = (Ok (), (srv', w3))"
    by (auto simp: server_drop_def and_then_eq_Ok_iff on_snd_eq_iff get_server_def)
  from rest drop_in_child_effect have "pid \<noteq> srv_pid srv \<longrightarrow> destroyed_in_child E srv w2 srv' w3" by auto
  with serve pid thunk show ?thesis by blast
qed

theorem child_isolated_witness:
  "\<exists>T srv0 w0 srv w1 th w3. serve child_world T (srv0, w0) = (Ok (Some th), (srv, w1))
     \<and> run_thunk child_world T th w3 = ((Ok 0 :: (int, main_error) outcome), [''forked''])"
proof -
  have "cfg_command_fd start_config = None" by (simp add: start_config_def)
  from child_isolated [OF this child_main] show ?thesis by blast
qed

end
