(* ===== verification/Server_Requests.thy ===== *)
theory Server_Requests
  imports Server_Runs Messages_Wire Call_Traces
begin

unbundle bit_operations_syntax

text \<open>
  Which requests make the server fork, and what each outcome of a fork leads to.
\<close>

section \<open>Programs that do not fork\<close>

fun is_fork :: "syscall \<Rightarrow> bool" where
  "is_fork (ProcCall Libc_fork) = True"
| "is_fork (ProcCall (Libc_clone3 _ _)) = True"
| "is_fork _ = False"

text \<open>\<open>silent\<close> for programs over the server: no call of the kind is made and the server is unchanged.\<close>

definition srv_silent :: "(syscall \<Rightarrow> bool) \<Rightarrow> (server \<times> 'w logged_world, 'a, 'e) prog \<Rightarrow> bool" where
  "srv_silent P m \<longleftrightarrow> (\<forall>srv cs. preserves (\<lambda>s. fst s = srv \<and> calls P (snd (snd s)) = cs) m)"

lemma srv_silentD:
  assumes "srv_silent P m" and "m (srv, (w, log)) = (r, (srv', (w', log')))"
  shows "calls P log' = calls P log \<and> srv' = srv"
proof -
  from assms(1) have "preserves (\<lambda>s. fst s = srv \<and> calls P (snd (snd s)) = calls P log) m"
    unfolding srv_silent_def by blast
  from preservesD [OF this _ assms(2)] show ?thesis by simp
qed

lemma srv_silent_on_snd: "silent P m \<Longrightarrow> srv_silent P (on_snd m)"
  unfolding srv_silent_def
  by (auto intro!: preservesI simp: on_snd_def split: prod.splits dest: silentD)

lemma srv_silent_intros:
  "srv_silent P (ok x)" "srv_silent P (fail e)" "srv_silent P (panic p)" "srv_silent P get_server"
  "srv_silent P (of_outcome r)"
  "srv_silent P m \<Longrightarrow> (\<And>x. srv_silent P (f x)) \<Longrightarrow> srv_silent P (and_then m f)"
  "srv_silent P m \<Longrightarrow> (\<And>x. srv_silent P (f' x)) \<Longrightarrow> (\<And>e. srv_silent P (g e)) \<Longrightarrow> srv_silent P (match_result m f' g)"
  unfolding srv_silent_def get_server_def by (intro allI preserves_intros; blast)+

lemma silent_sendmsg: "srv_silent is_fork (on_snd (sys_sendmsg (logged E) fd bytes))"
  unfolding sys_sendmsg_def by (intro srv_silent_on_snd silent_intros) simp

lemma silent_creds: "srv_silent is_fork (on_snd (sys_get_socket_creds (logged E) fd))"
  unfolding sys_get_socket_creds_def sys_getsockopt_def by (intro srv_silent_on_snd silent_intros) simp

lemma silent_proc_stat: "srv_silent is_fork (on_snd (proc_stat_get (logged E)))"
  unfolding proc_stat_get_def by (intro srv_silent_on_snd silent_intros) simp

lemma silent_respond: "srv_silent is_fork (respond (logged E) S fd m ce)"
  unfolding respond_def by (intro srv_silent_intros silent_sendmsg)

text \<open>A request that asks for a child of the species of the server.\<close>

definition spawn_request :: "host \<Rightarrow> species_tag \<Rightarrow> string \<Rightarrow> bool" where
  "spawn_request S species buffer \<longleftrightarrow>
     (\<exists>common payload. is_spawn_payload_type species payload
        \<and> (try_from_parcel (fb_root S) (cap_all_flags S) buffer = Ok (Spawn common payload)
           \<or> (\<exists>path. try_from_parcel (fb_root S) (cap_all_flags S) buffer = Ok (SpawnSubspecies common path payload))))"

lemma other_requests_silent:
  assumes other: "\<not> spawn_request S (srv_species srv) buffer"
    and run: "dispatch_message_handler (logged E) S fd buffer (srv, (w, log)) = (r, (srv', (w', log')))"
  shows "calls is_fork log' = calls is_fork log \<and> srv' = srv"
proof -
  note branches = silent_sendmsg silent_creds silent_proc_stat silent_respond
  have exit: "srv_silent is_fork (handle_message_exit (logged E) S fd)"
    unfolding handle_message_exit_def by (intro srv_silent_intros branches)
  have identity: "srv_silent is_fork (handle_message_identity_query (logged E) S fd)"
    unfolding handle_message_identity_query_def by (intro srv_silent_intros branches)
  have stat: "srv_silent is_fork (handle_message_stat (logged E) S fd)"
    unfolding handle_message_stat_def by (intro srv_silent_intros branches)
  have unparsed: "srv_silent is_fork (match_result (on_snd (sys_get_socket_creds (logged E) fd))
      (\<lambda>_. ok Continue) (\<lambda>_. ok Continue) :: ('a logged_world, control_result loop_control, client_error) srv_prog)"
    by (intro srv_silent_intros branches)
  show ?thesis
  proof (cases "try_from_parcel (fb_root S) (cap_all_flags S) buffer")
    case (Ok m)
    with run other show ?thesis
      by (cases m) (auto simp: dispatch_message_handler_def spawn_request_def
          dest: srv_silentD [OF exit] srv_silentD [OF identity] srv_silentD [OF stat] split: if_splits)
  next
    case (Err e)
    with run show ?thesis by (auto simp: dispatch_message_handler_def dest: srv_silentD [OF unparsed])
  qed (use run in \<open>auto simp: dispatch_message_handler_def\<close>)
qed

lemma other_requests_answer:
  assumes other: "\<not> spawn_request S (srv_species srv) buffer"
    and run: "dispatch_message_handler E S fd buffer (srv, w) = (Ok (Break (Inr c)), t)"
  shows "c = Shutdown \<and> try_from_parcel (fb_root S) (cap_all_flags S) buffer = Ok Exit"
proof (cases "try_from_parcel (fb_root S) (cap_all_flags S) buffer")
  case (Ok m)
  with run other show ?thesis
    by (cases m) (auto simp: dispatch_message_handler_def spawn_request_def handle_message_exit_def
        handle_message_identity_query_def handle_message_stat_def respond_def match_result_eq_Ok_iff and_then_eq_Ok_iff
        split: if_splits)
next
  case (Err e)
  with run show ?thesis by (auto simp: dispatch_message_handler_def match_result_eq_Ok_iff)
qed (use run in \<open>auto simp: dispatch_message_handler_def\<close>)

text \<open>
  C9. Nothing but a request for a child of its own species makes the server fork: for any other
  message (malformed bytes, a query, a response, a payload of another species) the handler makes
  no call of \<^verbatim>\<open>fork\<close>, leaves the server exactly as it was, starts no child, and stops the server
  only for \<^verbatim>\<open>Exit\<close>.
\<close>

theorem only_own_spawn_requests_fork:
  assumes other: "\<not> spawn_request S (srv_species srv) buffer"
    and run: "dispatch_message_handler (logged E) S fd buffer (srv, (w, log)) = (r, (srv', (w', log')))"
  shows "calls is_fork log' = calls is_fork log \<and> srv' = srv
    \<and> (\<forall>c. r = Ok (Break (Inr c)) \<longrightarrow>
          c = Shutdown \<and> try_from_parcel (fb_root S) (cap_all_flags S) buffer = Ok Exit)"
  using other_requests_silent [OF assms] run by (auto dest: other_requests_answer [OF other])

theorem only_own_spawn_requests_fork_witness:
  "\<exists>r w' log'. dispatch_message_handler (logged child_world) child_host 5 ''spawn''
        (start_server_record\<lparr>srv_species := Mock\<rparr>, ([], [])) = (r, (start_server_record\<lparr>srv_species := Mock\<rparr>, (w', log')))
      \<and> calls is_fork log' = []"
proof -
  obtain r srv' w' log' where run: "dispatch_message_handler (logged child_world) child_host 5 ''spawn''
        (start_server_record\<lparr>srv_species := Mock\<rparr>, ([], [])) = (r, (srv', (w', log')))"
    by (metis prod.exhaust)
  have "\<not> spawn_request child_host (srv_species (start_server_record\<lparr>srv_species := Mock\<rparr>)) ''spawn''"
    by (simp add: spawn_request_def child_parse)
  from only_own_spawn_requests_fork [OF this run] run show ?thesis by auto
qed

section \<open>The outcomes of a fork\<close>

lemma plain_programs: "on_snd (ok x) = ok x" "capture (ok x) = ok (Inr x)"
  by (simp_all add: fun_eq_iff on_snd_def capture_def) (simp_all add: ok_def)

text \<open>What the handler answers, from the state in which \<^verbatim>\<open>fork\<close> has returned.\<close>

definition after_fork ::
  "'w env \<Rightarrow> host \<Rightarrow> int \<Rightarrow> child_thunk \<Rightarrow> sysret \<Rightarrow> 'w handler"
where
  "after_fork E S fd thunk r =
     (if retval r = - 1 then ok (Break (Inl (ProcessCreationFailure fd (Libc (errno_after r)))))
      else if retval r = 0 then
        and_then
          (case sp_priority_initial (th_spawn_params thunk) of
             Some priority \<Rightarrow> on_snd (logging_errors (sys_setpriority E PRIO_PROCESS 0 priority))
           | None \<Rightarrow> ok ()) (\<lambda>_. ok (Break (Inr (Trampoline thunk))))
      else respond E S fd (SpawnResponse (retval r)) (SpawnResponseFailure fd))"

lemma spawn_effect:
  assumes build: "\<not> debug_assertions E" "\<not> is_exec_spawning S"
    and message: "try_from_parcel (fb_root S) (cap_all_flags S) buffer = Ok (Spawn common payload)"
    and species: "is_spawn_payload_type (srv_species srv) payload"
    and params: "params_or common (srv_spawn_params srv) = (Ok params :: (spawn_params, client_error) outcome)"
    and data: "gather_reinitialization_data E (srv_species srv) w = ((Ok d :: (reinit_data, client_error) outcome), w1)"
    and fork: "kernel E (ProcCall Libc_fork) w1 = (r, w2)"
  shows "dispatch_message_handler E S fd buffer (srv, w) =
    after_fork E S fd \<lparr>th_species = srv_species srv, th_re_init_data = d, th_spawn_params = params, th_message = buffer\<rparr>
      r (srv, w2)"
proof -
  have single: "debug_assert_single_threaded E = ok ()"
    using build by (simp add: debug_assert_single_threaded_def when_do_def)
  have gather: "on_snd (gather_reinitialization_data E (srv_species srv)) (srv, w)
      = ((Ok d :: (reinit_data, client_error) outcome), (srv, w1))"
    by (simp add: on_snd_def data)
  have forked: "fork_or_exec E S (srv, w1) = (check_failure r, (srv, w2))"
    using build by (simp add: fork_or_exec_def on_snd_def sys_fork_def checked_call_run [OF fork])
  have spawn: "handle_message_spawn E S (Some fd) buffer (srv, w) =
      handle_spawn E S (Some fd) buffer (\<lambda>spawn_params.
         ok (Trampoline \<lparr>th_species = srv_species srv, th_re_init_data = d,
               th_spawn_params = spawn_params, th_message = buffer\<rparr>)) (srv, w1)"
    by (simp add: handle_message_spawn_def and_then_def match_result_def get_server_def gets_def gather)
  show ?thesis
    using build message species params
    by (simp add: dispatch_message_handler_def spawn handle_spawn_def single parse_again_def expect_def
        when_do_def match_result_def [where m = "fork_or_exec E S"] forked check_failure_def after_fork_def plain_programs)
qed

text \<open>
  C17. A request for an application of the server's species, in a release build. The re-initialization
  data is gathered, then the process forks once, and the server record is untouched. Where \<^verbatim>\<open>fork\<close>
  fails, the client error carries its \<^verbatim>\<open>errno\<close>; in the parent the client is sent the id of the
  child; in the child the initial priority is set if one was asked for, and the loop is left with
  the closure for exactly the requested parameters, completed from those of the server.
\<close>

theorem spawn_outcomes:
  assumes build: "\<not> debug_assertions E" "\<not> is_exec_spawning S"
    and message: "try_from_parcel (fb_root S) (cap_all_flags S) buffer = Ok (Spawn common payload)"
    and species: "is_spawn_payload_type (srv_species srv) payload"
    and params: "params_or common (srv_spawn_params srv) = (Ok params :: (spawn_params, client_error) outcome)"
    and data: "gather_reinitialization_data E (srv_species srv) w = ((Ok d :: (reinit_data, client_error) outcome), w1)"
    and fork: "kernel E (ProcCall Libc_fork) w1 = (r, w2)"
  shows "dispatch_message_handler E S fd buffer (srv, w) =
    after_fork E S fd \<lparr>th_species = srv_species srv, th_re_init_data = d, th_spawn_params = params, th_message = buffer\<rparr>
      r (srv, w2)"
  by (rule spawn_effect [OF assms])

theorem spawn_outcomes_witness:
  "dispatch_message_handler child_world child_host 5 ''spawn'' (start_server_record, [])
     = (Ok (Break (Inr (Trampoline (forked_thunk ''spawn'')))), (start_server_record, [''forked'']))"
proof -
  let ?r = "\<lparr>retval = 0, errno_after = 0, outval = NoOut\<rparr>"
  have srv: "srv_species start_server_record = LibApp" "srv_spawn_params start_server_record = no_params"
    by (simp_all add: start_server_record_def)
  have gather: "gather_reinitialization_data child_world LibApp [] = ((Ok ReInitLibApp :: (reinit_data, client_error) outcome), [])"
    by simp
  have fork: "kernel child_world (ProcCall Libc_fork) [] = (?r, [''forked''])" by (simp add: start_kernel_def)
  have priority: "sp_priority_initial child_params = None" by (simp add: child_params_def no_params_def)
  have "dispatch_message_handler child_world child_host 5 ''spawn'' (start_server_record, []) =
      after_fork child_world child_host 5 (forked_thunk ''spawn'') ?r (start_server_record, [''forked''])"
    unfolding forked_thunk_def
    by (rule spawn_outcomes [where srv = start_server_record, unfolded srv, OF _ _ child_parse _ child_params_or gather fork])
       simp_all
  then show ?thesis by (simp add: after_fork_def forked_thunk_def priority)
qed

section \<open>The command of an exec-spawned application\<close>

text \<open>
  C37. The argument \<^verbatim>\<open><descriptor>_<length>\<close> names the descriptor and the length it was printed from.
  A length of at most 2048 reads exactly that many bytes into the zero-filled message buffer; a
  failure to read is reported with its \<^verbatim>\<open>errno\<close>, a file that ends too early as such; a greater
  length panics on the slice before anything is read; in every case the descriptor is closed.
\<close>

theorem command_argument_read:
  assumes fd: "- (2 ^ 31) \<le> fd" "fd < 2 ^ 31" and n: "n < 2 ^ 64"
  shows "read_command E (show_int fd @ ''_'' @ show_nat n) w =
    (let close = (\<lambda>w. snd (kernel E (StdCall (Std_close_file fd)) w)) in
     if 2048 < n then (Panic ''range end index out of range for slice of length 2048'', close w)
     else case kernel E (StdCall (Std_read_exact fd n)) w of (r, w1) \<Rightarrow>
       (if retval r = - 1 then Err (CommandIo (errno_after r))
        else if retval r < int n then Err CommandEof
        else Ok (zero_padded 2048 (take n (out_bytes (outval r)))),
        close w1))"
proof -
  have "CHR ''_'' \<notin> set (show_int fd)"
    using show_nat_digits [of "nat fd"] show_nat_digits [of "nat (- fd)"]
    by (auto simp: show_int_def is_ascii_digit_def)
  then have "split_once ''_'' (show_int fd @ ''_'' @ show_nat n) = Some (show_int fd, show_nat n)"
    using split_once_first [of "CHR ''_''" "show_int fd" "[]" "show_nat n"] by simp
  moreover have "parse_u64 (show_nat n) = Some n"
    using parse_unsigned_show_nat [of n "2 ^ 64 - 1"] n by (simp add: parse_u64_def)
  ultimately show ?thesis
    using parse_i32_show_int [OF fd]
    by (simp add: read_command_def expect_some_def read_command_bytes_def finally_do_def Let_def and_then_def
        match_result_def invoke_def ok_def fail_def panic_def split: prod.splits)
qed

theorem command_argument_read_witness:
  "read_command child_world (show_int 7 @ ''_'' @ show_nat 4000) []
     = (Panic ''range end index out of range for slice of length 2048'', [])"
  using command_argument_read [of 7 4000 child_world "[]"] by (simp add: start_kernel_def)

end
