(* ===== verification/Clone_Args.thy ===== *)
theory Clone_Args
  imports Sys_Core
begin

unbundle bit_operations_syntax

text \<open>
  The arguments of \<^verbatim>\<open>clone3\<close> in \<^verbatim>\<open>zygote-sys/src/libc_fill.rs\<close>: a structure of eleven 64-bit
  values that a chain of \<^verbatim>\<open>with_\<close> functions fills in, and the two wrappers around the call. A
  reference turned into a pointer is its address; a slice is the address of its first element
  and its number of elements.
\<close>

section \<open>The structure and its builder\<close>

record clone_args =
  ca_flags :: "64 word"
  ca_pidfd :: "64 word"
  ca_child_tid :: "64 word"
  ca_parent_tid :: "64 word"
  ca_exit_signal :: "64 word"
  ca_stack :: "64 word"
  ca_stack_size :: "64 word"
  ca_tls :: "64 word"
  ca_set_tid :: "64 word"
  ca_set_tid_size :: "64 word"
  ca_cgroup :: "64 word"

abbreviation CLONE_PIDFD :: "64 word" where "CLONE_PIDFD \<equiv> 0x1000"
abbreviation CLONE_SETTLS :: "64 word" where "CLONE_SETTLS \<equiv> 0x80000"
abbreviation CLONE_PARENT_SETTID :: "64 word" where "CLONE_PARENT_SETTID \<equiv> 0x100000"
abbreviation CLONE_CHILD_SETTID :: "64 word" where "CLONE_CHILD_SETTID \<equiv> 0x1000000"
abbreviation CLONE_INTO_CGROUP :: "64 word" where "CLONE_INTO_CGROUP \<equiv> 0x200000000"

definition clone_args_default :: clone_args where
  "clone_args_default =
     \<lparr>ca_flags = 0, ca_pidfd = 0, ca_child_tid = 0, ca_parent_tid = 0, ca_exit_signal = word_of_int SIGCHLD,
      ca_stack = 0, ca_stack_size = 0, ca_tls = 0, ca_set_tid = 0, ca_set_tid_size = 0, ca_cgroup = 0\<rparr>"

definition clone_args_new :: clone_args where "clone_args_new = clone_args_default"

definition with_flags :: "64 word \<Rightarrow> clone_args \<Rightarrow> clone_args" where
  "with_flags flags a = a\<lparr>ca_flags := ca_flags a OR flags\<rparr>"

definition with_pidfd :: "64 word \<Rightarrow> clone_args \<Rightarrow> clone_args" where
  "with_pidfd pidfd a = a\<lparr>ca_pidfd := pidfd, ca_flags := ca_flags a OR CLONE_PIDFD\<rparr>"

definition with_child_tid :: "64 word \<Rightarrow> clone_args \<Rightarrow> clone_args" where
  "with_child_tid child_tid a = a\<lparr>ca_child_tid := child_tid, ca_flags := ca_flags a OR CLONE_CHILD_SETTID\<rparr>"

definition with_parent_tid :: "64 word \<Rightarrow> clone_args \<Rightarrow> clone_args" where
  "with_parent_tid parent_tid a = a\<lparr>ca_parent_tid := parent_tid, ca_flags := ca_flags a OR CLONE_PARENT_SETTID\<rparr>"

text \<open>\<^verbatim>\<open>as u64\<close> of a C integer extends its sign.\<close>

definition with_exit_signal :: "int \<Rightarrow> clone_args \<Rightarrow> clone_args" where
  "with_exit_signal exit_signal a = a\<lparr>ca_exit_signal := word_of_int exit_signal\<rparr>"

text \<open>The pointer is taken from the last element of the slice.\<close>

definition with_stack :: "64 word \<times> nat \<Rightarrow> clone_args \<Rightarrow> (clone_args, string) outcome" where
  "with_stack stack a = (case stack of (base, len) \<Rightarrow>
     if len = 0 then Err ''Stack is empty''
     else Ok (a\<lparr>ca_stack := base + word_of_nat (len - 1), ca_stack_size := word_of_nat len\<rparr>))"

definition with_tls :: "64 word \<Rightarrow> clone_args \<Rightarrow> clone_args" where
  "with_tls tls a = a\<lparr>ca_tls := tls, ca_flags := ca_flags a OR CLONE_SETTLS\<rparr>"

definition with_set_tid :: "64 word \<times> nat \<Rightarrow> clone_args \<Rightarrow> clone_args" where
  "with_set_tid set_tid a = (case set_tid of (base, len) \<Rightarrow>
     a\<lparr>ca_set_tid := base, ca_set_tid_size := word_of_nat len\<rparr>)"

definition with_cgroup :: "int \<Rightarrow> clone_args \<Rightarrow> clone_args" where
  "with_cgroup cgroup_fd a = a\<lparr>ca_cgroup := word_of_int cgroup_fd, ca_flags := ca_flags a OR CLONE_INTO_CGROUP\<rparr>"

section \<open>The call\<close>

text \<open>The structure as the kernel reads it: its fields in the order of their declaration.\<close>

definition clone_words :: "clone_args \<Rightarrow> 64 word list" where
  "clone_words a = [ca_flags a, ca_pidfd a, ca_child_tid a, ca_parent_tid a, ca_exit_signal a, ca_stack a,
     ca_stack_size a, ca_tls a, ca_set_tid a, ca_set_tid_size a, ca_cgroup a]"

definition libc_clone3 :: "'w env \<Rightarrow> clone_args \<Rightarrow> ('w, sysret, 'e) prog" where
  "libc_clone3 E args = invoke E (ProcCall (Libc_clone3 (clone_words args) (8 * length (clone_words args))))"

text \<open>The wrapper narrows the \<^verbatim>\<open>c_long\<close> to a \<^verbatim>\<open>pid_t\<close> before it checks it.\<close>

definition sys_clone3 :: "'w env \<Rightarrow> clone_args \<Rightarrow> ('w, int, sys_error) prog" where
  "sys_clone3 E args = and_then (libc_clone3 E args) (\<lambda>r.
     of_outcome (check_failure (r\<lparr>retval := sint (word_of_int (retval r) :: 32 word)\<rparr>)))"

section \<open>What the arguments describe\<close>

text \<open>
  The memory that \<^verbatim>\<open>clone3(2)\<close> takes as the stack of the child: \<^verbatim>\<open>stack\<close> is the lowest byte of the
  area and \<^verbatim>\<open>stack_size\<close> its size.
\<close>

definition stack_area :: "clone_args \<Rightarrow> nat set" where
  "stack_area a = {unat (ca_stack a) ..< unat (ca_stack a) + unat (ca_stack_size a)}"

definition slice_area :: "64 word \<times> nat \<Rightarrow> nat set" where
  "slice_area s = (case s of (base, len) \<Rightarrow> {unat base ..< unat base + len})"

text \<open>
  C38. The stack given to \<^verbatim>\<open>with_stack\<close> is not the stack the call describes. A non-empty slice that
  does not wrap around the address space is turned into an area of the right size that begins at
  its last byte: the area has exactly this one byte in common with the slice, and all other bytes
  of it lie behind the slice. An empty slice is refused.
\<close>

theorem with_stack_area:
  assumes "unat base + len \<le> 2 ^ 64" and "len < 2 ^ 64"
  shows "case with_stack (base, len) a of
      Ok b \<Rightarrow> 0 < len \<and> card (stack_area b) = len \<and> stack_area b \<inter> slice_area (base, len) = {unat base + len - 1}
    | Err e \<Rightarrow> len = 0 \<and> e = ''Stack is empty''
    | _ \<Rightarrow> False"
proof (cases len)
  case (Suc m)
  have last: "unat (word_of_nat m :: 64 word) = m" and size: "unat (word_of_nat len :: 64 word) = len"
    using assms(2) by (simp_all add: Suc unat_of_nat del: of_nat_Suc)
  have "unat base + unat (word_of_nat m :: 64 word) < 2 ^ LENGTH(64)"
    using assms(1) by (simp add: last Suc)
  then have "unat (base + word_of_nat m) = unat base + m"
    by (simp add: unat_add_lem [THEN iffD1] last)
  moreover have "{unat base + m ..< unat base + m + len} \<inter> {unat base ..< unat base + len} = {unat base + m}"
    by (auto simp: Suc)
  ultimately show ?thesis using size by (simp add: with_stack_def stack_area_def slice_area_def Suc del: of_nat_Suc)
qed (simp add: with_stack_def)

theorem with_stack_area_witness:
  "case with_stack (4096, 2) clone_args_new of Ok b \<Rightarrow> stack_area b \<inter> slice_area (4096, 2) = {4097} | _ \<Rightarrow> False"
  using with_stack_area [of 4096 2 clone_args_new] by (simp split: outcome.splits)

end
