(* ===== verification/Sys_Errno.thy ===== *)
theory Sys_Errno
  imports Sys_Util
begin

text \<open>
  Error numbers as text: the wrappers of \<^verbatim>\<open>strerror_r\<close> and \<^verbatim>\<open>strerrorname_np\<close>, and the \<^verbatim>\<open>Display\<close>
  and \<^verbatim>\<open>Debug\<close> implementations of \<^verbatim>\<open>Errno\<close> on platforms that have both. How \<^verbatim>\<open>std\<close> renders a
  \<^verbatim>\<open>CStr\<close> for \<^verbatim>\<open>{:?}\<close> is a parameter.
\<close>

definition error_description :: "'w env \<Rightarrow> int \<Rightarrow> ('w, string, sys_error) prog" where
  "error_description E code =
     and_then (invoke E (ProcCall (Libc_strerror_r code BUFFER_SIZE_STRINGS))) (\<lambda>r.
       if retval r = 0 then ok (zero_padded BUFFER_SIZE_STRINGS (out_bytes (outval r)))
       else fail (Libc (retval r)))"

definition error_name :: "'w env \<Rightarrow> int \<Rightarrow> ('w, string, sys_error) prog" where
  "error_name E code =
     and_then (invoke E (ProcCall (Libc_strerrorname_np code))) (\<lambda>r.
       of_outcome (check_failure_with_ptr r (\<lambda>_. out_bytes (outval r))))"

text \<open>\<^verbatim>\<open>if let Ok(x) = m { .. }\<close>.\<close>

definition if_ok :: "('s, 'a, 'e) prog \<Rightarrow> ('s, 'a option, 'f) prog" where
  "if_ok m = match_result m (\<lambda>x. ok (Some x)) (\<lambda>_. ok None)"

definition error_text :: "'w env \<Rightarrow> int \<Rightarrow> ('w, string option, 'e) prog" where
  "error_text E code =
     and_then (if_ok (error_description E code)) (\<lambda>buffer.
       ok (case buffer of
             Some buffer \<Rightarrow> (case as_cstr buffer of Ok desc \<Rightarrow> Some desc | _ \<Rightarrow> None)
           | None \<Rightarrow> None))"

definition errno_display :: "'w env \<Rightarrow> (string \<Rightarrow> string) \<Rightarrow> int \<Rightarrow> ('w, string, 'e) prog" where
  "errno_display E debug_cstr code =
     and_then (if_ok (error_name E code)) (\<lambda>name.
     and_then (error_text E code) (\<lambda>desc.
       ok (''Errno'' @ (case name of Some name \<Rightarrow> '' ('' @ debug_cstr name @ '')'' | None \<Rightarrow> '''')
           @ (case desc of Some desc \<Rightarrow> '': '' @ debug_cstr desc | None \<Rightarrow> ''''))))"

text \<open>\<^verbatim>\<open>debug_struct\<close> in its one-line form.\<close>

definition errno_debug :: "'w env \<Rightarrow> (string \<Rightarrow> string) \<Rightarrow> int \<Rightarrow> ('w, string, 'e) prog" where
  "errno_debug E debug_cstr code =
     and_then (if_ok (error_name E code)) (\<lambda>name.
     and_then (error_text E code) (\<lambda>desc.
       ok (''Errno { code: '' @ show_int code
           @ (case name of Some name \<Rightarrow> '', name: '' @ debug_cstr name | None \<Rightarrow> '''')
           @ (case desc of Some desc \<Rightarrow> '', description: '' @ debug_cstr desc | None \<Rightarrow> '''') @ '' }'')))"

text \<open>A program that neither panics nor diverges.\<close>

definition returns :: "('s, 'a, 'e) prog \<Rightarrow> bool" where
  "returns m \<longleftrightarrow> (\<forall>s. (\<exists>x. fst (m s) = Ok x) \<or> (\<exists>e. fst (m s) = Err e))"

lemma if_ok_total:
  assumes "returns m"
  shows "\<exists>x t. if_ok m s = (Ok x, t)"
  using assms unfolding returns_def
  by (cases "m s") (auto simp: if_ok_def match_result_def ok_def dest!: spec [of _ s])

lemma returns_error_name: "returns (error_name E code)" and returns_error_description: "returns (error_description E code)"
  by (auto simp: returns_def error_name_def error_description_def and_then_def match_result_def invoke_def of_outcome_def
      check_failure_with_ptr_def ok_def fail_def split: prod.splits)

text \<open>An error number can always be printed, whatever the library answers.\<close>

lemma errno_display_total:
  "\<exists>text t. (errno_display E debug_cstr code :: (_, _, 'e) prog) s = (Ok (''Errno'' @ text), t)"
proof -
  have name: "\<exists>n t. (if_ok (error_name E code) :: (_, _, 'e) prog) s = (Ok n, t)" for s
    by (rule if_ok_total [OF returns_error_name])
  have desc: "\<exists>d t. (if_ok (error_description E code) :: (_, _, 'e) prog) s = (Ok d, t)" for s
    by (rule if_ok_total [OF returns_error_description])
  from name [of s] obtain n s1 where "(if_ok (error_name E code) :: (_, _, 'e) prog) s = (Ok n, s1)" by blast
  moreover from desc [of s1] obtain d s2 where "(if_ok (error_description E code) :: (_, _, 'e) prog) s1 = (Ok d, s2)"
    by blast
  ultimately show ?thesis
    by (simp add: errno_display_def error_text_def and_then_def match_result_def ok_def)
qed

end
