(* ===== verification/Macro_Syntax.thy ===== *)
theory Macro_Syntax
  imports Slices
begin

text \<open>
  What the derive macros of \<^verbatim>\<open>zygote-proc-macros\<close> read and write. They read a declaration as
  \<^verbatim>\<open>syn\<close> presents it: an identifier, attributes, and an enum or a struct. They write code with
  \<^verbatim>\<open>quote!\<close>; the code is a list of \<open>item\<close>s over the expressions, patterns and statements that
  occur in the templates. Lifetimes, generics and visibility are left out: they carry no
  behaviour. Of parameter types those the templates compute are kept, and calls check them. A
  panic of a macro, which the compiler reports, is \<open>Panic\<close>.

  The second half is \<^verbatim>\<open>utils.rs\<close>, the lookups shared by both directions.
\<close>

section \<open>Declarations\<close>

type_synonym ident = string

type_synonym path = "ident list"

text \<open>
  \<^verbatim>\<open>syn::Type\<close>: a path type by its segments (without their generic arguments), a reference, or
  another type.
\<close>

datatype syn_type = TypePath path | TypeRef syn_type | TypeOther

text \<open>\<^verbatim>\<open>syn::Expr\<close>, the forms used in attributes and in the generated code.\<close>

datatype expr =
    IntLit int
  | BoolLit bool
  | StrLit string
  | UnitLit
  | PathExpr path
  | FieldOf expr ident
  | MethodCall expr ident "expr list"
  | Call path "expr list"
  | TypeCall syn_type ident "expr list"
  | RefTo expr
  | RefMut expr
  | Deref expr
  | Range expr "expr option"
  | IfElse expr expr expr
  | Try expr
  | Return expr
  | StructLit path "(ident \<times> expr) list"

text \<open>
  The value after the \<^verbatim>\<open>=\<close> of a nested attribute, by what it parses as: an identifier is also an
  expression and a type, a type with several segments is not an identifier.
\<close>

datatype attr_value = ValIdent ident | ValType syn_type | ValExpr expr

fun parse_expr :: "attr_value \<Rightarrow> expr option" where
  "parse_expr (ValIdent x) = Some (PathExpr [x])"
| "parse_expr (ValExpr e) = Some e"
| "parse_expr (ValType t) = None"

fun parse_ident :: "attr_value \<Rightarrow> ident option" where
  "parse_ident (ValIdent x) = Some x"
| "parse_ident _ = None"

fun parse_type :: "attr_value \<Rightarrow> syn_type option" where
  "parse_type (ValIdent x) = Some (TypePath [x])"
| "parse_type (ValType t) = Some t"
| "parse_type (ValExpr e) = None"

text \<open>The tokens of \<^verbatim>\<open>#[path(..)]\<close>: a list of \<^verbatim>\<open>name\<close> or \<^verbatim>\<open>name = value\<close>, or a type.\<close>

datatype attr_tokens = NestedMetas "(path \<times> attr_value option) list" | TypeTokens syn_type

text \<open>\<^verbatim>\<open>syn::Attribute\<close>, by its \<^verbatim>\<open>meta\<close>.\<close>

datatype attribute =
    MetaPath path
  | MetaList path attr_tokens
  | MetaNameValue path expr

fun attr_path :: "attribute \<Rightarrow> path" where
  "attr_path (MetaPath p) = p"
| "attr_path (MetaList p _) = p"
| "attr_path (MetaNameValue p _) = p"

definition is_ident :: "path \<Rightarrow> ident \<Rightarrow> bool" where
  "is_ident p x \<longleftrightarrow> p = [x]"

record field =
  field_ident :: "ident option"
  field_attrs :: "attribute list"
  field_ty :: syn_type

datatype fields = NamedFields "field list" | UnnamedFields "field list" | UnitFields

record variant =
  variant_ident :: ident
  variant_attrs :: "attribute list"
  variant_fields :: fields

datatype data = DataEnum "variant list" | DataStruct fields | DataUnion

record derive_input =
  di_ident :: ident
  di_attrs :: "attribute list"
  di_data :: data

section \<open>Generated code\<close>

datatype pat =
    PatPath path
  | PatNamed path "ident list"
  | PatNamedRest path
  | PatTupleRest path
  | PatTuple path ident

datatype stmt =
    Assign expr expr
  | Let ident expr
  | Do expr

type_synonym arm = "pat \<times> stmt list \<times> expr"

text \<open>
  \<open>MatchThen e arms last\<close> is the template \<^verbatim>\<open>match e { #(#arms),* last }\<close>: no comma is written between
  the repetition and the last arm.
\<close>

datatype tail = Value expr | Match expr "arm list" | MatchThen expr "arm list" arm

text \<open>A function: its name, its parameters with their types, its statements and the value it ends with.\<close>

datatype fn_item = Fn ident "(ident \<times> syn_type) list" "stmt list" tail

definition SELF :: "ident \<times> syn_type" where "SELF = (''self'', TypeRef (TypePath [''Self'']))"

definition BUILDER_PARAM :: "ident \<times> syn_type" where
  "BUILDER_PARAM = (''builder'', TypeRef (TypePath [''flatbuffers'', ''FlatBufferBuilder'']))"

text \<open>
  \<^verbatim>\<open>impl Trait for Type\<close> with its associated types, \<^verbatim>\<open>impl Type\<close>, or the result of
  \<^verbatim>\<open>Error::to_compile_error\<close>.
\<close>

datatype item =
    Impl "ident option" ident "(ident \<times> path) list" "fn_item list"
  | CompileError string

type_synonym 'a macro = "('a, unit) outcome"

type_synonym token_stream = "item list"

primrec map_macro :: "('a \<Rightarrow> 'b macro) \<Rightarrow> 'a list \<Rightarrow> 'b list macro" where
  "map_macro f [] = Ok []"
| "map_macro f (x # xs) = bind_outcome (f x) (\<lambda>y. bind_outcome (map_macro f xs) (\<lambda>ys. Ok (y # ys)))"

definition expect_some :: "string \<Rightarrow> 'a option \<Rightarrow> 'a macro" where
  "expect_some msg x = (case x of Some v \<Rightarrow> Ok v | None \<Rightarrow> Panic msg)"

lemma expect_some_simps [simp]: "expect_some msg (Some v) = Ok v" "expect_some msg None = Panic msg"
  by (simp_all add: expect_some_def)

lemma map_macro_Ok: "(\<And>x. x \<in> set xs \<Longrightarrow> f x = Ok (g x)) \<Longrightarrow> map_macro f xs = Ok (map g xs)"
  by (induction xs) simp_all

lemma map_macro_length: "map_macro f xs = Ok ys \<Longrightarrow> length ys = length xs"
  by (induction xs arbitrary: ys) (auto simp: bind_outcome_eq_Ok_iff)

text \<open>\<^verbatim>\<open>iter().find_map(f)\<close> with an \<open>f\<close> that may panic.\<close>

primrec find_map_macro :: "('a \<Rightarrow> 'b option macro) \<Rightarrow> 'a list \<Rightarrow> 'b option macro" where
  "find_map_macro f [] = Ok None"
| "find_map_macro f (x # xs) =
     bind_outcome (f x) (\<lambda>r. case r of Some y \<Rightarrow> Ok (Some y) | None \<Rightarrow> find_map_macro f xs)"

text \<open>\<^verbatim>\<open>field.ident.as_ref().expect(..)\<close>\<close>

definition field_name :: "field \<Rightarrow> ident macro" where
  "field_name f = expect_some ''Field should have an identifier'' (field_ident f)"

section \<open>Lookups shared by both directions\<close>

definition attribute_ident_of :: "ident \<Rightarrow> attribute \<Rightarrow> ident option macro" where
  "attribute_ident_of attr_name attr =
     (case attr of
        MetaNameValue p value \<Rightarrow>
          if is_ident p attr_name
          then (case value of StrLit s \<Rightarrow> Ok (Some s) | _ \<Rightarrow> Panic (attr_name @ '' must be a literal string''))
          else Ok None
      | _ \<Rightarrow> Ok None)"

definition get_attribute_ident :: "attribute list \<Rightarrow> ident \<Rightarrow> ident option macro" where
  "get_attribute_ident attrs attr_name = find_map_macro (attribute_ident_of attr_name) attrs"

definition get_inner_type_ident :: "attribute list \<Rightarrow> ident option macro" where
  "get_inner_type_ident attrs = get_attribute_ident attrs ''inner_type_name''"

definition get_error_type_ident :: "attribute list \<Rightarrow> ident option macro" where
  "get_error_type_ident attrs = get_attribute_ident attrs ''error_type''"

definition unwrap_or_ident :: "ident \<Rightarrow> ident option \<Rightarrow> ident" where
  "unwrap_or_ident d x = (case x of Some y \<Rightarrow> y | None \<Rightarrow> d)"

definition get_inner_type_ident_from_variant :: "variant \<Rightarrow> ident macro" where
  "get_inner_type_ident_from_variant v =
     bind_outcome (get_inner_type_ident (variant_attrs v)) (\<lambda>x. Ok (unwrap_or_ident (variant_ident v) x))"

definition get_flatten_into_ident :: "attribute list \<Rightarrow> ident macro" where
  "get_flatten_into_ident attrs =
     bind_outcome (get_attribute_ident attrs ''flatten_into_type'')
       (expect_some ''should have a flatten_into attribute'')"

definition extract_inner_type_name :: "syn_type \<Rightarrow> ident option" where
  "extract_inner_type_name ty =
     (case ty of
        TypePath (seg # segments) \<Rightarrow>
          if seg = ''inner'' \<and> length (seg # segments) = 2 then Some ((seg # segments) ! 1) else None
      | _ \<Rightarrow> None)"

text \<open>\<^verbatim>\<open>format_ident!("{}Args", name)\<close>\<close>

definition args_ident :: "ident \<Rightarrow> ident" where
  "args_ident inner_type_name = inner_type_name @ ''Args''"

section \<open>Nested attributes\<close>

text \<open>
  \<^verbatim>\<open>Attribute::parse_nested_meta\<close> of \<^verbatim>\<open>syn\<close>: the callback sees each nested entry in turn and
  updates what it has collected; its first error ends the parse. Only the list form has entries.
\<close>

fun fold_metas :: "('s \<Rightarrow> path \<times> attr_value option \<Rightarrow> 's option) \<Rightarrow> 's \<Rightarrow> (path \<times> attr_value option) list \<Rightarrow> 's option" where
  "fold_metas logic s [] = Some s"
| "fold_metas logic s (m # ms) = (case logic s m of Some s' \<Rightarrow> fold_metas logic s' ms | None \<Rightarrow> None)"

definition parse_nested_meta ::
  "('s \<Rightarrow> path \<times> attr_value option \<Rightarrow> 's option) \<Rightarrow> 's \<Rightarrow> attribute \<Rightarrow> 's option"
where
  "parse_nested_meta logic s attr =
     (case attr of MetaList p (NestedMetas ms) \<Rightarrow> fold_metas logic s ms | _ \<Rightarrow> None)"

text \<open>\<^verbatim>\<open>meta.value()?.parse::<T>()?\<close>\<close>

definition meta_value :: "(attr_value \<Rightarrow> 'a option) \<Rightarrow> path \<times> attr_value option \<Rightarrow> 'a option" where
  "meta_value parse m = (case snd m of Some v \<Rightarrow> parse v | None \<Rightarrow> None)"

end
