(* ===== verification/Macro_Marshal.thy ===== *)
theory Macro_Marshal
  imports Macro_Syntax
begin

text \<open>
  The generator of marshalling code, \<^verbatim>\<open>marshal.rs\<close>: the attributes of a field decide how it is
  stored, a struct becomes a function that fills the arguments of its table, an enum a match
  with one arm for each variant.
\<close>

section \<open>Attributes of a field\<close>

datatype marshal_attr =
    MarshalDefault expr
  | MarshalFlatten
  | MarshalPacked
  | MarshalTable
  | MarshalUnion
  | MarshalMap ident

definition marshal_meta :: "marshal_attr option \<Rightarrow> path \<times> attr_value option \<Rightarrow> marshal_attr option option" where
  "marshal_meta ret meta =
     (if is_ident (fst meta) ''packed'' then Some (Some MarshalPacked)
      else if is_ident (fst meta) ''default'' then map_option (\<lambda>lit. Some (MarshalDefault lit)) (meta_value parse_expr meta)
      else if is_ident (fst meta) ''map'' then map_option (\<lambda>m. Some (MarshalMap m)) (meta_value parse_ident meta)
      else None)"

definition marshal_attr_from_attr :: "attribute \<Rightarrow> marshal_attr option macro" where
  "marshal_attr_from_attr attr =
     (if is_ident (attr_path attr) ''flatten'' then Ok (Some MarshalFlatten)
      else if is_ident (attr_path attr) ''union'' then Ok (Some MarshalUnion)
      else if is_ident (attr_path attr) ''table'' then Ok (Some MarshalTable)
      else if \<not> is_ident (attr_path attr) ''marshal'' then Ok None
      else expect_some ''error parsing marshal attribute'' (parse_nested_meta marshal_meta None attr))"

definition marshal_attr_new :: "field \<Rightarrow> marshal_attr option macro" where
  "marshal_attr_new field = find_map_macro marshal_attr_from_attr (field_attrs field)"

section \<open>One field\<close>

definition type_field_ident :: "ident \<Rightarrow> ident" where
  "type_field_ident name = name @ ''_type''"

text \<open>The template of each attribute; \<open>args\<close>, \<open>access\<close> and \<open>builder\<close> are the tokens passed in.\<close>

fun assignment_template :: "marshal_attr option \<Rightarrow> expr \<Rightarrow> ident \<Rightarrow> expr \<Rightarrow> expr \<Rightarrow> stmt list" where
  "assignment_template (Some (MarshalDefault lit)) args name access builder =
     [Assign (FieldOf args name) (MethodCall access ''unwrap_or'' [lit])]"
| "assignment_template (Some MarshalPacked) args name access builder =
     [Assign (FieldOf args name) (Call [''Some''] [MethodCall access ''to_packed'' [builder]])]"
| "assignment_template (Some MarshalTable) args name access builder =
     [Assign (FieldOf args name) (Call [''Some''] [MethodCall access ''marshal'' [builder]])]"
| "assignment_template (Some MarshalUnion) args name access builder =
     [Assign (FieldOf args (type_field_ident name)) (MethodCall access ''inner_type'' []),
      Assign (FieldOf args name) (Call [''Some''] [MethodCall access ''marshal'' [builder]])]"
| "assignment_template (Some MarshalFlatten) args name access builder =
     [Do (MethodCall access ''flatten'' [RefMut args, builder])]"
| "assignment_template (Some (MarshalMap m)) args name access builder =
     [Assign (FieldOf args name) (Call [m] [RefTo access, builder])]"
| "assignment_template None args name access builder =
     [Assign (FieldOf args name) (Deref access)]"

definition gen_field_assignment :: "expr \<Rightarrow> field \<Rightarrow> expr \<Rightarrow> expr \<Rightarrow> stmt list macro" where
  "gen_field_assignment args field access builder =
     bind_outcome (field_name field) (\<lambda>name.
     bind_outcome (marshal_attr_new field) (\<lambda>attr.
       Ok (assignment_template attr args name access builder)))"

section \<open>Structs\<close>

definition BUILDER :: expr where "BUILDER = PathExpr [''builder'']"

definition gen_assignments :: "expr \<Rightarrow> (ident \<Rightarrow> expr) \<Rightarrow> field list \<Rightarrow> stmt list macro" where
  "gen_assignments args access fs =
     bind_outcome (map_macro (\<lambda>field. bind_outcome (field_name field) (\<lambda>name.
         gen_field_assignment args field (access name) BUILDER)) fs)
       (\<lambda>assignments. Ok (concat assignments))"

definition self_field :: "ident \<Rightarrow> expr" where
  "self_field name = FieldOf (PathExpr [''self'']) name"

definition gen_marshal_struct :: "ident \<Rightarrow> ident \<Rightarrow> field list \<Rightarrow> token_stream macro" where
  "gen_marshal_struct name inner_type_name fs =
     bind_outcome (gen_assignments (PathExpr [''args'']) self_field fs) (\<lambda>assignments.
       Ok [Impl (Some ''MarshalParcel'') name
             [(''Inner'', [''()'']), (''Output'', [''inner'', inner_type_name])]
             [Fn ''inner_type'' [SELF] [] (Value UnitLit),
              Fn ''marshal'' [SELF, BUILDER_PARAM]
                (Let ''args'' (Call [''inner'', args_ident inner_type_name, ''default''] []) # assignments)
                (Value (Call [''inner'', inner_type_name, ''create''] [BUILDER, RefTo (PathExpr [''args''])]))]])"

section \<open>Enums\<close>

definition variant_pattern :: "ident \<Rightarrow> variant \<Rightarrow> pat" where
  "variant_pattern name v =
     (case variant_fields v of
        UnitFields \<Rightarrow> PatPath [name, variant_ident v]
      | NamedFields _ \<Rightarrow> PatNamedRest [name, variant_ident v]
      | UnnamedFields _ \<Rightarrow> PatTupleRest [name, variant_ident v])"

definition gen_inner_type_arm :: "ident \<Rightarrow> variant \<Rightarrow> arm macro" where
  "gen_inner_type_arm name v =
     bind_outcome (get_inner_type_ident_from_variant v) (\<lambda>inner_type_id.
       Ok (variant_pattern name v, [], PathExpr [''inner'', name, inner_type_id]))"

definition INNER_TYPE_ARGS :: ident where "INNER_TYPE_ARGS = ''inner_type_args''"

definition gen_marshal_arm :: "variant \<Rightarrow> ident \<Rightarrow> arm macro" where
  "gen_marshal_arm v enum_name =
     bind_outcome (get_inner_type_ident_from_variant v) (\<lambda>inner_type_id.
       case variant_fields v of
         UnitFields \<Rightarrow>
           Ok (PatPath [enum_name, variant_ident v], [],
               MethodCall (Call [''inner'', inner_type_id, ''create'']
                 [BUILDER, RefTo (StructLit [''inner'', args_ident inner_type_id] [])]) ''as_union_value'' [])
       | NamedFields fs \<Rightarrow>
           bind_outcome (gen_assignments (PathExpr [INNER_TYPE_ARGS]) (\<lambda>name. PathExpr [name]) fs) (\<lambda>assignments.
           bind_outcome (map_macro field_name fs) (\<lambda>field_names.
             Ok (PatNamed [enum_name, variant_ident v] field_names,
                 Let INNER_TYPE_ARGS (Call [''inner'', args_ident inner_type_id, ''default''] []) # assignments,
                 MethodCall (Call [''inner'', inner_type_id, ''create'']
                   [BUILDER, RefTo (PathExpr [INNER_TYPE_ARGS])]) ''as_union_value'' [])))
       | UnnamedFields _ \<Rightarrow>
           Ok (PatTupleRest [enum_name, variant_ident v], [],
               Return (MethodCall (Call [''Error'', ''new'']
                 [MethodCall (PathExpr [''variant_id'']) ''span'' [], StrLit ''Cannot marshal unnamed fields''])
                 ''to_compile_error'' [])))"

definition gen_marshal_enum :: "ident \<Rightarrow> variant list \<Rightarrow> token_stream macro" where
  "gen_marshal_enum name variants =
     bind_outcome (map_macro (gen_inner_type_arm name) variants) (\<lambda>inner_type_arms.
     bind_outcome (map_macro (\<lambda>v. gen_marshal_arm v name) variants) (\<lambda>marshal_arms.
       Ok [Impl (Some ''MarshalParcel'') name
             [(''Inner'', [''inner'', name]), (''Output'', [''flatbuffers'', ''UnionWIPOffset''])]
             [Fn ''inner_type'' [SELF] [] (Match (PathExpr [''self'']) inner_type_arms),
              Fn ''marshal'' [SELF, BUILDER_PARAM] [] (Match (PathExpr [''self'']) marshal_arms)]]))"

section \<open>The derive macros\<close>

definition gen_marshal_parcel :: "derive_input \<Rightarrow> token_stream macro" where
  "gen_marshal_parcel ast =
     (case di_data ast of
        DataEnum variants \<Rightarrow> gen_marshal_enum (di_ident ast) variants
      | DataStruct (NamedFields fs) \<Rightarrow>
          bind_outcome (get_inner_type_ident (di_attrs ast)) (\<lambda>x.
            gen_marshal_struct (di_ident ast) (unwrap_or_ident (di_ident ast) x) fs)
      | DataStruct _ \<Rightarrow> Ok [CompileError ''Parcelable can only be derived for structs with named fields'']
      | DataUnion \<Rightarrow> Ok [CompileError ''Parcelable can only be derived for enums or structs''])"

definition gen_flatten_marshal_parcel :: "derive_input \<Rightarrow> token_stream macro" where
  "gen_flatten_marshal_parcel ast =
     bind_outcome (get_flatten_into_ident (di_attrs ast)) (\<lambda>flatten_into.
       case di_data ast of
         DataStruct (NamedFields fs) \<Rightarrow>
           bind_outcome (gen_assignments (PathExpr [''args'']) self_field fs) (\<lambda>assignments.
             Ok [Impl None (di_ident ast) []
                   [Fn ''flatten''
                      [SELF, (''args'', TypeRef (TypePath [''inner'', args_ident flatten_into])), BUILDER_PARAM] assignments (Value UnitLit)]])
       | DataStruct _ \<Rightarrow> Ok [CompileError ''FlattenParcel can only be derived for structs with named fields.'']
       | _ \<Rightarrow> Ok [CompileError ''FlattenParcel can only be derived for structs.''])"

end
