(* ===== verification/Macro_Unmarshal.thy ===== *)
theory Macro_Unmarshal
  imports Macro_Marshal
begin

text \<open>
  The generator of unmarshalling code, \<^verbatim>\<open>unmarshal.rs\<close>, and the three derive macros of
  \<^verbatim>\<open>lib.rs\<close>. The snake-case conversion of the \<^verbatim>\<open>heck\<close> crate is the parameter \<open>snake\<close>.
\<close>

section \<open>Attributes of a field\<close>

datatype unmarshal_attr =
    ValidRange expr
  | UnmarshalMap ident
  | UnmarshalTable
  | UnmarshalUnion syn_type
  | UnmarshalFlatten

definition unmarshal_meta :: "unmarshal_attr option \<Rightarrow> path \<times> attr_value option \<Rightarrow> unmarshal_attr option option" where
  "unmarshal_meta ret meta =
     (if is_ident (fst meta) ''valid_range'' then map_option (\<lambda>e. Some (ValidRange e)) (meta_value parse_expr meta)
      else if is_ident (fst meta) ''map'' then map_option (\<lambda>m. Some (UnmarshalMap m)) (meta_value parse_ident meta)
      else None)"

text \<open>\<^verbatim>\<open>attr.parse_args::<Type>()\<close>: an identifier in parentheses is a type, too.\<close>

definition parse_args_type :: "attribute \<Rightarrow> syn_type option" where
  "parse_args_type attr =
     (case attr of
        MetaList p (TypeTokens t) \<Rightarrow> Some t
      | MetaList p (NestedMetas [(x, None)]) \<Rightarrow> Some (TypePath x)
      | _ \<Rightarrow> None)"

definition unmarshal_attr_from_attr :: "attribute \<Rightarrow> unmarshal_attr option macro" where
  "unmarshal_attr_from_attr attr =
     (if is_ident (attr_path attr) ''flatten'' then Ok (Some UnmarshalFlatten)
      else if is_ident (attr_path attr) ''table'' then Ok (Some UnmarshalTable)
      else if is_ident (attr_path attr) ''union'' then
        bind_outcome (expect_some ''The union attribute should be in the form of #[union(<Type>)]'' (parse_args_type attr))
          (\<lambda>inner_type. Ok (Some (UnmarshalUnion inner_type)))
      else if \<not> is_ident (attr_path attr) ''unmarshal'' then Ok None
      else expect_some ''error parsing unmarshal attribute'' (parse_nested_meta unmarshal_meta None attr))"

definition unmarshal_attr_new :: "field \<Rightarrow> unmarshal_attr option macro" where
  "unmarshal_attr_new field = find_map_macro unmarshal_attr_from_attr (field_attrs field)"

section \<open>One field\<close>

definition from_method_ident :: "(ident \<Rightarrow> ident) \<Rightarrow> ident \<Rightarrow> ident" where
  "from_method_ident snake inner_name = snake (''from_'' @ inner_name)"

definition NOT_INNER :: string where "NOT_INNER = ''should be inner::<Type>''"

definition gen_field_value :: "(ident \<Rightarrow> ident) \<Rightarrow> field \<Rightarrow> expr \<Rightarrow> (ident \<times> expr) macro" where
  "gen_field_value snake field source =
     bind_outcome (field_name field) (\<lambda>name.
     bind_outcome (unmarshal_attr_new field) (\<lambda>attr.
       let value = MethodCall source name []; ty = field_ty field in
       case attr of
         Some (ValidRange bounds) \<Rightarrow>
           Ok (name, IfElse (MethodCall bounds ''contains'' [RefTo value]) (Call [''Some''] [value]) (PathExpr [''None'']))
       | Some (UnmarshalMap m) \<Rightarrow> Ok (name, Call [m] [RefTo value])
       | Some UnmarshalTable \<Rightarrow>
           Ok (name, TypeCall ty ''from_table'' [MethodCall value ''expect'' [StrLit ''Missing table in flatbuffer'']])
       | Some UnmarshalFlatten \<Rightarrow> Ok (name, TypeCall ty ''unflatten'' [source])
       | Some (UnmarshalUnion source_type) \<Rightarrow>
           bind_outcome (expect_some NOT_INNER (extract_inner_type_name source_type)) (\<lambda>inner_name.
             Ok (name, Try (TypeCall ty (from_method_ident snake inner_name) [source])))
       | None \<Rightarrow> Ok (name, value)))"

section \<open>Structs\<close>

definition gen_unmarshal_struct :: "(ident \<Rightarrow> ident) \<Rightarrow> derive_input \<Rightarrow> token_stream macro" where
  "gen_unmarshal_struct snake ast =
     bind_outcome (get_inner_type_ident (di_attrs ast)) (\<lambda>inner_name.
       case di_data ast of
         DataStruct (NamedFields fs) \<Rightarrow>
           bind_outcome (map_macro (\<lambda>field. gen_field_value snake field (PathExpr [''source''])) fs) (\<lambda>field_values.
             Ok [Impl None (di_ident ast) []
                   [Fn ''from_table'' [(''source'', TypePath [''inner'', unwrap_or_ident (di_ident ast) inner_name])] [] (Value (StructLit [''Self''] field_values))]])
       | DataStruct _ \<Rightarrow> Ok [CompileError ''Unmarshalable can only be derived for structs with named fields.'']
       | _ \<Rightarrow> Ok [CompileError ''Unmarshalable can only be derived for structs.''])"

definition gen_flatten_unmarshal_parcel :: "(ident \<Rightarrow> ident) \<Rightarrow> derive_input \<Rightarrow> token_stream macro" where
  "gen_flatten_unmarshal_parcel snake ast =
     (case di_data ast of
        DataStruct (NamedFields fs) \<Rightarrow>
          bind_outcome (get_flatten_into_ident (di_attrs ast)) (\<lambda>flatten_into.
          bind_outcome (map_macro (\<lambda>field. gen_field_value snake field (PathExpr [''source''])) fs) (\<lambda>field_values.
            Ok [Impl None (di_ident ast) []
                  [Fn ''unflatten'' [(''source'', TypePath [''inner'', flatten_into])] [] (Value (StructLit [''Self''] field_values))]]))
      | DataStruct _ \<Rightarrow> Ok [CompileError ''FlattenParcel can only be derived for structs with named fields.'']
      | _ \<Rightarrow> Ok [CompileError ''FlattenParcel can only be derived for structs.''])"

section \<open>Enums\<close>

definition CAST_MESSAGE :: string where "CAST_MESSAGE = ''Unable to cast to #inner_type_snake_name''"

definition cast_method_ident :: "(ident \<Rightarrow> ident) \<Rightarrow> ident \<Rightarrow> ident \<Rightarrow> ident" where
  "cast_method_ident snake union_field inner_type_id = union_field @ ''_as_'' @ snake inner_type_id"

definition gen_unmarshal_arm :: "(ident \<Rightarrow> ident) \<Rightarrow> variant \<Rightarrow> ident \<Rightarrow> expr \<Rightarrow> ident \<Rightarrow> arm macro" where
  "gen_unmarshal_arm snake v enum_name source union_field =
     bind_outcome (get_inner_type_ident_from_variant v) (\<lambda>inner_type_id.
       case variant_fields v of
         UnitFields \<Rightarrow>
           Ok (PatPath [''inner'', enum_name, inner_type_id], [], Call [''Ok''] [PathExpr [enum_name, variant_ident v]])
       | NamedFields fs \<Rightarrow>
           (let parsed_variant = snake (variant_ident v) in
            bind_outcome (map_macro (\<lambda>field. gen_field_value snake field (PathExpr [parsed_variant])) fs) (\<lambda>field_values.
              Ok (PatPath [''inner'', enum_name, inner_type_id],
                  [Let parsed_variant
                     (MethodCall (MethodCall source (cast_method_ident snake union_field inner_type_id) [])
                        ''expect'' [StrLit CAST_MESSAGE])],
                  Call [''Ok''] [StructLit [enum_name, variant_ident v] field_values])))
       | UnnamedFields _ \<Rightarrow>
           Ok (PatTupleRest [enum_name, variant_ident v],
               [Do (Call [''todo!''] [StrLit ''marshal for this variant is not yet implemented''])], UnitLit))"

definition error_type_or_default :: "attribute list \<Rightarrow> ident macro" where
  "error_type_or_default attrs = bind_outcome (get_error_type_ident attrs) (\<lambda>x. Ok (unwrap_or_ident ''Error'' x))"

definition unknown_variant_arm :: "ident \<Rightarrow> ident \<Rightarrow> arm" where
  "unknown_variant_arm name error_type =
     (PatTuple [''inner'', name] ''tag'', [],
      Return (Call [''Err''] [Call [error_type, ''UnknownVariant''] [StrLit name, PathExpr [''tag'']]]))"

definition gen_from_parcel :: "(ident \<Rightarrow> ident) \<Rightarrow> derive_input \<Rightarrow> token_stream macro" where
  "gen_from_parcel snake ast =
     (case di_data ast of
        DataEnum variants \<Rightarrow>
          bind_outcome (error_type_or_default (di_attrs ast)) (\<lambda>error_type.
          bind_outcome (map_macro (\<lambda>v. gen_unmarshal_arm snake v (di_ident ast) (PathExpr [''parcel'']) ''message'') variants)
            (\<lambda>arms. Ok
              [Impl (Some ''FromParcel'') (di_ident ast) []
                 [Fn ''try_from_parcel'' [(''buffer'', TypeRef TypeOther)]
                    [Let ''parcel'' (Try (Call [''flatbuffers'', ''root''] [PathExpr [''buffer'']]))]
                    (MatchThen (MethodCall (PathExpr [''parcel'']) ''message_type'' []) arms
                       (unknown_variant_arm (di_ident ast) error_type))]]))
      | _ \<Rightarrow> Ok [CompileError ''Parcelable can only be derived for enums''])"

definition gen_unmarshal_from :: "(ident \<Rightarrow> ident) \<Rightarrow> derive_input \<Rightarrow> syn_type \<Rightarrow> ident \<Rightarrow> token_stream macro" where
  "gen_unmarshal_from snake ast source_type union_field =
     (case di_data ast of
        DataEnum variants \<Rightarrow>
          bind_outcome (expect_some NOT_INNER (extract_inner_type_name source_type)) (\<lambda>type_name.
          bind_outcome (error_type_or_default (di_attrs ast)) (\<lambda>error_type.
          bind_outcome (map_macro (\<lambda>v. gen_unmarshal_arm snake v (di_ident ast) (PathExpr [''source'']) union_field) variants)
            (\<lambda>arms. Ok
              [Impl None (di_ident ast) []
                 [Fn (from_method_ident snake type_name) [(''source'', source_type)] []
                    (MatchThen (MethodCall (PathExpr [''source'']) (type_field_ident union_field) []) arms
                       (unknown_variant_arm (di_ident ast) error_type))]])))
      | _ \<Rightarrow> Ok [CompileError ''Parcelable can only be derived for enums''])"

section \<open>The choice between the constructors\<close>

definition unmarshal_from_meta ::
  "syn_type option \<times> ident option \<Rightarrow> path \<times> attr_value option \<Rightarrow> (syn_type option \<times> ident option) option"
where
  "unmarshal_from_meta st meta =
     (if is_ident (fst meta) ''source_type'' then map_option (\<lambda>t. (Some t, snd st)) (meta_value parse_type meta)
      else if is_ident (fst meta) ''field'' then map_option (\<lambda>f. (fst st, Some f)) (meta_value parse_ident meta)
      else None)"

text \<open>\<^verbatim>\<open>.ok()?\<close> drops an attribute that does not parse.\<close>

definition unmarshal_from_of :: "attribute \<Rightarrow> (syn_type \<times> ident) option macro" where
  "unmarshal_from_of attr =
     (if \<not> is_ident (attr_path attr) ''unmarshal_from'' then Ok None
      else case parse_nested_meta unmarshal_from_meta (None, None) attr of
        None \<Rightarrow> Ok None
      | Some (source_type, union_field) \<Rightarrow>
          bind_outcome (expect_some ''source_type not found'' source_type) (\<lambda>ty.
          bind_outcome (expect_some ''field not found'' union_field) (\<lambda>f. Ok (Some (ty, f)))))"

definition get_unmarshal_from :: "derive_input \<Rightarrow> (syn_type \<times> ident) list macro" where
  "get_unmarshal_from ast =
     bind_outcome (map_macro unmarshal_from_of (di_attrs ast)) (\<lambda>found. Ok (List.map_filter (\<lambda>x. x) found))"

definition gen_unmarshal_parcel :: "(ident \<Rightarrow> ident) \<Rightarrow> derive_input \<Rightarrow> token_stream macro" where
  "gen_unmarshal_parcel snake ast =
     bind_outcome (get_unmarshal_from ast) (\<lambda>attrs.
       if attrs = [] then
         (case di_data ast of
            DataEnum _ \<Rightarrow> gen_from_parcel snake ast
          | DataStruct _ \<Rightarrow> gen_unmarshal_struct snake ast
          | DataUnion \<Rightarrow> Ok [CompileError ''Parcelable can only be derived for enums or structs''])
       else
         bind_outcome (map_macro (\<lambda>(ty, f). gen_unmarshal_from snake ast ty f) attrs) (\<lambda>items. Ok (concat items)))"

section \<open>The derive macros\<close>

definition marshal_parcel_derive :: "derive_input \<Rightarrow> token_stream macro" where
  "marshal_parcel_derive input = gen_marshal_parcel input"

definition unmarshal_parcel_derive :: "(ident \<Rightarrow> ident) \<Rightarrow> derive_input \<Rightarrow> token_stream macro" where
  "unmarshal_parcel_derive snake input = gen_unmarshal_parcel snake input"

definition flatten_marshal_parcel_derive :: "(ident \<Rightarrow> ident) \<Rightarrow> derive_input \<Rightarrow> token_stream macro" where
  "flatten_marshal_parcel_derive snake input =
     bind_outcome (gen_flatten_marshal_parcel input) (\<lambda>marshal.
     bind_outcome (gen_flatten_unmarshal_parcel snake input) (\<lambda>unmarshal. Ok (marshal @ unmarshal)))"

end
