(* ===== verification/Protocol_Decls.thy ===== *)
theory Protocol_Decls
  imports Macro_Unmarshal
begin

text \<open>
  The three declarations of \<^verbatim>\<open>zygote-messages\<close> that derive their wire code, as the macros see
  them: \<^verbatim>\<open>SpawnParamsCommon\<close>, \<^verbatim>\<open>Message\<close> and \<^verbatim>\<open>SpawnPayload\<close>, with every helper attribute of
  every field. Documentation comments, which no macro looks at, are left out.
\<close>

section \<open>Attributes\<close>

definition attr_marshal :: "ident \<Rightarrow> attr_value option \<Rightarrow> attribute" where
  "attr_marshal key v = MetaList [''marshal''] (NestedMetas [([key], v)])"

definition attr_unmarshal :: "ident \<Rightarrow> attr_value \<Rightarrow> attribute" where
  "attr_unmarshal key v = MetaList [''unmarshal''] (NestedMetas [([key], Some v)])"

definition marshal_default_attr :: "expr \<Rightarrow> attribute" where
  "marshal_default_attr e = attr_marshal ''default'' (Some (ValExpr e))"

definition marshal_map_attr :: "ident \<Rightarrow> attribute" where
  "marshal_map_attr f = attr_marshal ''map'' (Some (ValIdent f))"

definition packed_attr :: attribute where "packed_attr = attr_marshal ''packed'' None"

definition valid_range_attr :: "expr \<Rightarrow> attribute" where
  "valid_range_attr e = attr_unmarshal ''valid_range'' (ValExpr e)"

definition unmarshal_map_attr :: "ident \<Rightarrow> attribute" where
  "unmarshal_map_attr f = attr_unmarshal ''map'' (ValIdent f)"

definition table_attr :: attribute where "table_attr = MetaPath [''table'']"

definition union_attr :: "ident \<Rightarrow> attribute" where
  "union_attr t = MetaList [''union''] (TypeTokens (TypePath [''inner'', t]))"

definition inner_type_name_attr :: "ident \<Rightarrow> attribute" where
  "inner_type_name_attr t = MetaNameValue [''inner_type_name''] (StrLit t)"

definition unmarshal_from_attr :: "ident \<Rightarrow> ident \<Rightarrow> attribute" where
  "unmarshal_from_attr t f = MetaList [''unmarshal_from'']
     (NestedMetas [([''source_type''], Some (ValType (TypePath [''inner'', t]))), ([''field''], Some (ValIdent f))])"

lemmas attr_defs = attr_marshal_def attr_unmarshal_def marshal_default_attr_def marshal_map_attr_def
  packed_attr_def valid_range_attr_def unmarshal_map_attr_def table_attr_def union_attr_def
  inner_type_name_attr_def unmarshal_from_attr_def

definition declared :: "ident \<Rightarrow> syn_type \<Rightarrow> attribute list \<Rightarrow> field" where
  "declared name ty attrs = \<lparr>field_ident = Some name, field_attrs = attrs, field_ty = ty\<rparr>"

abbreviation ty_option :: syn_type where "ty_option \<equiv> TypePath [''Option'']"
abbreviation ty_array_vec :: syn_type where "ty_array_vec \<equiv> TypePath [''ArrayVec'']"

section \<open>SpawnParamsCommon\<close>

definition I32_MAX_EXPR :: expr where "I32_MAX_EXPR = PathExpr [''i32'', ''MAX'']"

definition spawn_params_fields :: "field list" where
  "spawn_params_fields =
     [declared ''selinux_flags'' ty_option
        [marshal_default_attr (IntLit 0), valid_range_attr (Range (IntLit 0) None)],
      declared ''no_new_privs'' ty_option
        [marshal_default_attr (BoolLit False), valid_range_attr (Range (BoolLit False) None)],
      declared ''uid'' ty_option
        [marshal_default_attr (IntLit (- 1)), valid_range_attr (Range (IntLit 1) None)],
      declared ''gid'' ty_option
        [marshal_default_attr (IntLit (- 1)), valid_range_attr (Range (IntLit 1) None)],
      declared ''process_name'' ty_option
        [marshal_map_attr ''marshal_string'', unmarshal_map_attr ''unmarshal_string''],
      declared ''priority_initial'' ty_option
        [marshal_default_attr I32_MAX_EXPR, valid_range_attr (Range (IntLit (- 20)) (Some (IntLit 20)))],
      declared ''priority_final'' ty_option
        [marshal_default_attr I32_MAX_EXPR, valid_range_attr (Range (IntLit (- 20)) (Some (IntLit 20)))],
      declared ''cap_effective'' ty_option
        [marshal_map_attr ''marshal_capability_flags'', unmarshal_map_attr ''unmarshal_capability_flags''],
      declared ''cap_permitted'' ty_option
        [marshal_map_attr ''marshal_capability_flags'', unmarshal_map_attr ''unmarshal_capability_flags''],
      declared ''cap_inheritable'' ty_option
        [marshal_map_attr ''marshal_capability_flags'', unmarshal_map_attr ''unmarshal_capability_flags''],
      declared ''cap_bound'' ty_option
        [marshal_map_attr ''marshal_capability_flags'', unmarshal_map_attr ''unmarshal_capability_flags''],
      declared ''se_info'' ty_option
        [marshal_map_attr ''marshal_string'', unmarshal_map_attr ''unmarshal_string''],
      declared ''secondary_groups'' ty_array_vec
        [packed_attr, unmarshal_map_attr ''unmarshal_secondary_groups''],
      declared ''rlimits'' ty_array_vec
        [packed_attr, unmarshal_map_attr ''unmarshal_rlimits'']]"

definition spawn_params_common_decl :: derive_input where
  "spawn_params_common_decl =
     \<lparr>di_ident = ''SpawnParamsCommon'', di_attrs = [inner_type_name_attr ''SpawnCommon''],
      di_data = DataStruct (NamedFields spawn_params_fields)\<rparr>"

section \<open>Message\<close>

definition unit_variant :: "ident \<Rightarrow> attribute list \<Rightarrow> variant" where
  "unit_variant name attrs = \<lparr>variant_ident = name, variant_attrs = attrs, variant_fields = UnitFields\<rparr>"

definition named_variant :: "ident \<Rightarrow> attribute list \<Rightarrow> field list \<Rightarrow> variant" where
  "named_variant name attrs fs = \<lparr>variant_ident = name, variant_attrs = attrs, variant_fields = NamedFields fs\<rparr>"

definition str_field :: "ident \<Rightarrow> field" where
  "str_field name = declared name TypeOther [packed_attr]"

definition plain_field :: "ident \<Rightarrow> ident \<Rightarrow> field" where
  "plain_field name ty = declared name (TypePath [ty]) []"

definition common_field :: field where
  "common_field = declared ''common'' (TypePath [''SpawnParamsCommon'']) [table_attr]"

definition payload_field :: "ident \<Rightarrow> field" where
  "payload_field source = declared ''payload'' (TypePath [''SpawnPayload'']) [union_attr source]"

definition message_variants :: "variant list" where
  "message_variants =
     [unit_variant ''AckResponse'' [inner_type_name_attr ''Ack''],
      unit_variant ''Exit'' [],
      unit_variant ''IdentityQuery'' [],
      named_variant ''IdentityQueryResponse'' [] [str_field ''name'', str_field ''species'', str_field ''arch''],
      named_variant ''Spawn'' [] [common_field, payload_field ''Spawn''],
      named_variant ''SpawnSubspecies'' []
        [common_field, str_field ''socket_path'', payload_field ''SpawnSubspecies''],
      named_variant ''SpawnResponse'' [] [plain_field ''pid'' ''i32''],
      unit_variant ''Stat'' [],
      named_variant ''StatResponse'' []
        [plain_field ''pid'' ''u32'', plain_field ''pgrp'' ''u32'', plain_field ''minflt'' ''u64'',
         plain_field ''cminflt'' ''u64'', plain_field ''majflt'' ''u64'', plain_field ''cmajflt'' ''u64'',
         plain_field ''utime'' ''u64'', plain_field ''stime'' ''u64'', plain_field ''num_threads'' ''u64'',
         plain_field ''vsize'' ''u64'', plain_field ''rss'' ''u64'']]"

definition message_decl :: derive_input where
  "message_decl = \<lparr>di_ident = ''Message'', di_attrs = [], di_data = DataEnum message_variants\<rparr>"

section \<open>SpawnPayload\<close>

definition payload_variants :: "variant list" where
  "payload_variants =
     [named_variant ''AndroidNative'' [inner_type_name_attr ''SpawnAndroidNative'']
        [declared ''preloading_cmd'' ty_option [packed_attr, unmarshal_map_attr ''unmarshal_preloading_cmd''],
         str_field ''package'', plain_field ''start_seq'' ''i64'', plain_field ''target_sdk_version'' ''i32'',
         plain_field ''runtime_flags'' ''u32'', plain_field ''top_app'' ''bool''],
      named_variant ''AndroidNativeSubspecies'' [inner_type_name_attr ''SpawnSubspeciesAndroidNative'']
        [plain_field ''target_sdk_version'' ''i32'', plain_field ''runtime_flags'' ''u32'',
         str_field ''library_path'', str_field ''library_dirs'', str_field ''permitted_library_paths'',
         plain_field ''shared'' ''bool'', str_field ''zip_path'', str_field ''native_shared_lib_path'',
         declared ''preload_func'' ty_option [packed_attr],
         plain_field ''uid_gid_min'' ''u32'', plain_field ''uid_gid_max'' ''u32''],
      named_variant ''LibApp'' [inner_type_name_attr ''SpawnLibApp'']
        [str_field ''path'', declared ''args'' ty_array_vec [packed_attr, unmarshal_map_attr ''unmarshal_libapp_args'']],
      named_variant ''Mock'' [inner_type_name_attr ''SpawnMock''] [str_field ''name'']]"

definition spawn_payload_decl :: derive_input where
  "spawn_payload_decl =
     \<lparr>di_ident = ''SpawnPayload'',
      di_attrs = [unmarshal_from_attr ''Spawn'' ''payload'', unmarshal_from_attr ''SpawnSubspecies'' ''payload''],
      di_data = DataEnum payload_variants\<rparr>"

section \<open>The generated code of the crate\<close>

text \<open>All three types derive \<^verbatim>\<open>MarshalParcel\<close> and \<^verbatim>\<open>UnmarshalParcel\<close>.\<close>

definition derive_both :: "(ident \<Rightarrow> ident) \<Rightarrow> derive_input \<Rightarrow> token_stream macro" where
  "derive_both snake input =
     bind_outcome (marshal_parcel_derive input) (\<lambda>marshal.
     bind_outcome (unmarshal_parcel_derive snake input) (\<lambda>unmarshal. Ok (marshal @ unmarshal)))"

definition protocol_code :: "(ident \<Rightarrow> ident) \<Rightarrow> token_stream macro" where
  "protocol_code snake =
     bind_outcome (derive_both snake spawn_params_common_decl) (\<lambda>params.
     bind_outcome (derive_both snake message_decl) (\<lambda>msg.
     bind_outcome (derive_both snake spawn_payload_decl) (\<lambda>payload. Ok (params @ msg @ payload))))"

end
