(* ===== verification/Derived_Code.thy ===== *)
theory Derived_Code
  imports Protocol_Decls
begin

text \<open>
  The code that the macros generate for the three declarations of the protocol. The attributes
  of a list of fields are read once into specifications; assignments and field values are then
  the templates of the specifications, and every function of the generated code is known.
\<close>

section \<open>Specifications of fields\<close>

definition marshal_spec :: "field \<Rightarrow> (ident \<times> marshal_attr option) macro" where
  "marshal_spec field =
     bind_outcome (field_name field) (\<lambda>name. bind_outcome (marshal_attr_new field) (\<lambda>attr. Ok (name, attr)))"

definition assignments_of :: "expr \<Rightarrow> (ident \<Rightarrow> expr) \<Rightarrow> (ident \<times> marshal_attr option) list \<Rightarrow> stmt list" where
  "assignments_of args access specs =
     concat (map (\<lambda>(name, attr). assignment_template attr args name (access name) BUILDER) specs)"

lemma gen_assignments_specs:
  assumes "map_macro marshal_spec fs = Ok specs"
  shows "gen_assignments args access fs = Ok (assignments_of args access specs)"
    and "map_macro field_name fs = Ok (map fst specs)"
proof -
  have "map_macro (\<lambda>field. bind_outcome (field_name field) (\<lambda>name.
           gen_field_assignment args field (access name) BUILDER)) fs
      = Ok (map (\<lambda>(name, attr). assignment_template attr args name (access name) BUILDER) specs)
      \<and> map_macro field_name fs = Ok (map fst specs)"
    using assms
  proof (induction fs arbitrary: specs)
    case (Cons f fs)
    then show ?case
      by (auto simp: marshal_spec_def gen_field_assignment_def bind_outcome_eq_Ok_iff)
  qed simp
  then show "gen_assignments args access fs = Ok (assignments_of args access specs)"
    and "map_macro field_name fs = Ok (map fst specs)"
    by (simp_all add: gen_assignments_def assignments_of_def)
qed

definition unmarshal_spec :: "field \<Rightarrow> (ident \<times> syn_type \<times> unmarshal_attr option) macro" where
  "unmarshal_spec field =
     bind_outcome (field_name field) (\<lambda>name. bind_outcome (unmarshal_attr_new field) (\<lambda>attr. Ok (name, field_ty field, attr)))"

text \<open>The value of a field whose union attribute, if it has one, names a type of \<^verbatim>\<open>inner\<close>.\<close>

fun value_template :: "(ident \<Rightarrow> ident) \<Rightarrow> expr \<Rightarrow> ident \<times> syn_type \<times> unmarshal_attr option \<Rightarrow> ident \<times> expr" where
  "value_template snake source (name, ty, attr) = (name,
     (let value = MethodCall source name [] in
      case attr of
        Some (ValidRange bounds) \<Rightarrow>
          IfElse (MethodCall bounds ''contains'' [RefTo value]) (Call [''Some''] [value]) (PathExpr [''None''])
      | Some (UnmarshalMap m) \<Rightarrow> Call [m] [RefTo value]
      | Some UnmarshalTable \<Rightarrow>
          TypeCall ty ''from_table'' [MethodCall value ''expect'' [StrLit ''Missing table in flatbuffer'']]
      | Some UnmarshalFlatten \<Rightarrow> TypeCall ty ''unflatten'' [source]
      | Some (UnmarshalUnion source_type) \<Rightarrow>
          Try (TypeCall ty (from_method_ident snake (unwrap_or_ident '''' (extract_inner_type_name source_type))) [source])
      | None \<Rightarrow> value))"

fun union_ok :: "ident \<times> syn_type \<times> unmarshal_attr option \<Rightarrow> bool" where
  "union_ok (name, ty, Some (UnmarshalUnion source_type)) \<longleftrightarrow> extract_inner_type_name source_type \<noteq> None"
| "union_ok _ \<longleftrightarrow> True"

lemma gen_field_value_spec:
  assumes "unmarshal_spec field = Ok spec" and "union_ok spec"
  shows "gen_field_value snake field source = Ok (value_template snake source spec)"
proof -
  from assms(1) obtain name attr where name: "field_name field = Ok name"
    and attr: "unmarshal_attr_new field = Ok attr" and spec: "spec = (name, field_ty field, attr)"
    by (auto simp: unmarshal_spec_def bind_outcome_eq_Ok_iff)
  show ?thesis
  proof (cases attr)
    case None
    then show ?thesis by (simp add: gen_field_value_def name attr spec Let_def)
  next
    case (Some a)
    then show ?thesis using assms(2)
      by (cases a) (auto simp: gen_field_value_def name attr spec Let_def unwrap_or_ident_def)
  qed
qed

lemma gen_field_values_specs:
  assumes "map_macro unmarshal_spec fs = Ok specs" and "list_all union_ok specs"
  shows "map_macro (\<lambda>field. gen_field_value snake field source) fs = Ok (map (value_template snake source) specs)"
  using assms
  by (induction fs arbitrary: specs) (auto simp: bind_outcome_eq_Ok_iff gen_field_value_spec)

section \<open>Reading the attributes\<close>

lemmas attr_reading = attr_defs declared_def marshal_attr_new_def marshal_attr_from_attr_def
  unmarshal_attr_new_def unmarshal_attr_from_attr_def is_ident_def parse_nested_meta_def marshal_meta_def
  unmarshal_meta_def meta_value_def parse_args_type_def field_name_def marshal_spec_def unmarshal_spec_def
  str_field_def plain_field_def common_field_def payload_field_def get_inner_type_ident_from_variant_def
  get_inner_type_ident_def get_error_type_ident_def get_attribute_ident_def attribute_ident_of_def
  unwrap_or_ident_def unit_variant_def named_variant_def

definition params_marshal_specs :: "(ident \<times> marshal_attr option) list" where
  "params_marshal_specs =
     [(''selinux_flags'', Some (MarshalDefault (IntLit 0))),
      (''no_new_privs'', Some (MarshalDefault (BoolLit False))),
      (''uid'', Some (MarshalDefault (IntLit (- 1)))),
      (''gid'', Some (MarshalDefault (IntLit (- 1)))),
      (''process_name'', Some (MarshalMap ''marshal_string'')),
      (''priority_initial'', Some (MarshalDefault I32_MAX_EXPR)),
      (''priority_final'', Some (MarshalDefault I32_MAX_EXPR)),
      (''cap_effective'', Some (MarshalMap ''marshal_capability_flags'')),
      (''cap_permitted'', Some (MarshalMap ''marshal_capability_flags'')),
      (''cap_inheritable'', Some (MarshalMap ''marshal_capability_flags'')),
      (''cap_bound'', Some (MarshalMap ''marshal_capability_flags'')),
      (''se_info'', Some (MarshalMap ''marshal_string'')),
      (''secondary_groups'', Some MarshalPacked),
      (''rlimits'', Some MarshalPacked)]"

definition params_unmarshal_specs :: "(ident \<times> syn_type \<times> unmarshal_attr option) list" where
  "params_unmarshal_specs =
     [(''selinux_flags'', ty_option, Some (ValidRange (Range (IntLit 0) None))),
      (''no_new_privs'', ty_option, Some (ValidRange (Range (BoolLit False) None))),
      (''uid'', ty_option, Some (ValidRange (Range (IntLit 1) None))),
      (''gid'', ty_option, Some (ValidRange (Range (IntLit 1) None))),
      (''process_name'', ty_option, Some (UnmarshalMap ''unmarshal_string'')),
      (''priority_initial'', ty_option, Some (ValidRange (Range (IntLit (- 20)) (Some (IntLit 20))))),
      (''priority_final'', ty_option, Some (ValidRange (Range (IntLit (- 20)) (Some (IntLit 20))))),
      (''cap_effective'', ty_option, Some (UnmarshalMap ''unmarshal_capability_flags'')),
      (''cap_permitted'', ty_option, Some (UnmarshalMap ''unmarshal_capability_flags'')),
      (''cap_inheritable'', ty_option, Some (UnmarshalMap ''unmarshal_capability_flags'')),
      (''cap_bound'', ty_option, Some (UnmarshalMap ''unmarshal_capability_flags'')),
      (''se_info'', ty_option, Some (UnmarshalMap ''unmarshal_string'')),
      (''secondary_groups'', ty_array_vec, Some (UnmarshalMap ''unmarshal_secondary_groups'')),
      (''rlimits'', ty_array_vec, Some (UnmarshalMap ''unmarshal_rlimits''))]"

lemma params_specs:
  "map_macro marshal_spec spawn_params_fields = Ok params_marshal_specs"
  "map_macro unmarshal_spec spawn_params_fields = Ok params_unmarshal_specs"
  by (simp_all add: spawn_params_fields_def params_marshal_specs_def params_unmarshal_specs_def attr_reading)

section \<open>Specifications of variants\<close>

text \<open>A variant: its name, the type it stands for in the schema, and the specifications of its fields.\<close>

type_synonym field_specs = "(ident \<times> marshal_attr option) list \<times> (ident \<times> syn_type \<times> unmarshal_attr option) list"

type_synonym variant_specs = "ident \<times> ident \<times> field_specs option"

definition variant_spec :: "variant \<Rightarrow> variant_specs macro" where
  "variant_spec v =
     bind_outcome (get_inner_type_ident_from_variant v) (\<lambda>inner_type_id.
       case variant_fields v of
         NamedFields fs \<Rightarrow>
           bind_outcome (map_macro marshal_spec fs) (\<lambda>ms.
           bind_outcome (map_macro unmarshal_spec fs) (\<lambda>us.
             if list_all union_ok us then Ok (variant_ident v, inner_type_id, Some (ms, us)) else Panic NOT_INNER))
       | UnitFields \<Rightarrow> Ok (variant_ident v, inner_type_id, None)
       | UnnamedFields _ \<Rightarrow> Panic ''unnamed fields'')"

fun inner_type_arm_of :: "ident \<Rightarrow> variant_specs \<Rightarrow> arm" where
  "inner_type_arm_of enum_name (v, t, specs) =
     (case specs of None \<Rightarrow> PatPath [enum_name, v] | Some _ \<Rightarrow> PatNamedRest [enum_name, v], [],
      PathExpr [''inner'', enum_name, t])"

fun marshal_arm_of :: "ident \<Rightarrow> variant_specs \<Rightarrow> arm" where
  "marshal_arm_of enum_name (v, t, None) =
     (PatPath [enum_name, v], [],
      MethodCall (Call [''inner'', t, ''create''] [BUILDER, RefTo (StructLit [''inner'', args_ident t] [])])
        ''as_union_value'' [])"
| "marshal_arm_of enum_name (v, t, Some (ms, us)) =
     (PatNamed [enum_name, v] (map fst ms),
      Let INNER_TYPE_ARGS (Call [''inner'', args_ident t, ''default''] []) #
        assignments_of (PathExpr [INNER_TYPE_ARGS]) (\<lambda>name. PathExpr [name]) ms,
      MethodCall (Call [''inner'', t, ''create''] [BUILDER, RefTo (PathExpr [INNER_TYPE_ARGS])]) ''as_union_value'' [])"

fun unmarshal_arm_of :: "(ident \<Rightarrow> ident) \<Rightarrow> ident \<Rightarrow> expr \<Rightarrow> ident \<Rightarrow> variant_specs \<Rightarrow> arm" where
  "unmarshal_arm_of snake enum_name source union_field (v, t, None) =
     (PatPath [''inner'', enum_name, t], [], Call [''Ok''] [PathExpr [enum_name, v]])"
| "unmarshal_arm_of snake enum_name source union_field (v, t, Some (ms, us)) =
     (PatPath [''inner'', enum_name, t],
      [Let (snake v) (MethodCall (MethodCall source (cast_method_ident snake union_field t) [])
          ''expect'' [StrLit CAST_MESSAGE])],
      Call [''Ok''] [StructLit [enum_name, v] (map (value_template snake (PathExpr [snake v])) us)])"

lemma variant_arms:
  assumes "variant_spec v = Ok spec"
  shows "gen_inner_type_arm name v = Ok (inner_type_arm_of name spec)"
    and "gen_marshal_arm v name = Ok (marshal_arm_of name spec)"
    and "gen_unmarshal_arm snake v name source union_field = Ok (unmarshal_arm_of snake name source union_field spec)"
proof -
  have "gen_inner_type_arm name v = Ok (inner_type_arm_of name spec)
      \<and> gen_marshal_arm v name = Ok (marshal_arm_of name spec)
      \<and> gen_unmarshal_arm snake v name source union_field = Ok (unmarshal_arm_of snake name source union_field spec)"
    using assms
    by (cases "variant_fields v")
      (auto simp: variant_spec_def gen_inner_type_arm_def gen_marshal_arm_def gen_unmarshal_arm_def
        variant_pattern_def bind_outcome_eq_Ok_iff gen_assignments_specs gen_field_values_specs Let_def
        split: if_splits)
  then show "gen_inner_type_arm name v = Ok (inner_type_arm_of name spec)"
    and "gen_marshal_arm v name = Ok (marshal_arm_of name spec)"
    and "gen_unmarshal_arm snake v name source union_field = Ok (unmarshal_arm_of snake name source union_field spec)"
    by simp_all
qed

lemma map_macro_specs:
  assumes "map_macro f xs = Ok specs" and "\<And>x spec. f x = Ok spec \<Longrightarrow> g x = Ok (h spec)"
  shows "map_macro g xs = Ok (map h specs)"
  using assms by (induction xs arbitrary: specs) (auto simp: bind_outcome_eq_Ok_iff)

lemmas variants_arms = variant_arms [THEN [2] map_macro_specs]

definition str_specs :: "ident list \<Rightarrow> field_specs" where
  "str_specs names = (map (\<lambda>n. (n, Some MarshalPacked)) names, map (\<lambda>n. (n, TypeOther, None)) names)"

definition plain_specs :: "(ident \<times> ident) list \<Rightarrow> field_specs" where
  "plain_specs fs = (map (\<lambda>(n, ty). (n, None)) fs, map (\<lambda>(n, ty). (n, TypePath [ty], None)) fs)"

fun append_specs :: "field_specs \<Rightarrow> field_specs \<Rightarrow> field_specs" where
  "append_specs (ms, us) (ms', us') = (ms @ ms', us @ us')"

definition common_specs :: field_specs where
  "common_specs =
     ([(''common'', Some MarshalTable)], [(''common'', TypePath [''SpawnParamsCommon''], Some UnmarshalTable)])"

definition payload_specs :: "ident \<Rightarrow> field_specs" where
  "payload_specs source =
     ([(''payload'', Some MarshalUnion)],
      [(''payload'', TypePath [''SpawnPayload''], Some (UnmarshalUnion (TypePath [''inner'', source])))])"

definition message_specs :: "variant_specs list" where
  "message_specs =
     [(''AckResponse'', ''Ack'', None),
      (''Exit'', ''Exit'', None),
      (''IdentityQuery'', ''IdentityQuery'', None),
      (''IdentityQueryResponse'', ''IdentityQueryResponse'', Some (str_specs [''name'', ''species'', ''arch''])),
      (''Spawn'', ''Spawn'', Some (append_specs common_specs (payload_specs ''Spawn''))),
      (''SpawnSubspecies'', ''SpawnSubspecies'',
        Some (append_specs common_specs (append_specs (str_specs [''socket_path'']) (payload_specs ''SpawnSubspecies'')))),
      (''SpawnResponse'', ''SpawnResponse'', Some (plain_specs [(''pid'', ''i32'')])),
      (''Stat'', ''Stat'', None),
      (''StatResponse'', ''StatResponse'', Some (plain_specs
        [(''pid'', ''u32''), (''pgrp'', ''u32''), (''minflt'', ''u64''), (''cminflt'', ''u64''), (''majflt'', ''u64''),
         (''cmajflt'', ''u64''), (''utime'', ''u64''), (''stime'', ''u64''), (''num_threads'', ''u64''),
         (''vsize'', ''u64''), (''rss'', ''u64'')]))]"

definition payload_variant_specs :: "variant_specs list" where
  "payload_variant_specs =
     [(''AndroidNative'', ''SpawnAndroidNative'', Some (append_specs
        ([(''preloading_cmd'', Some MarshalPacked)], [(''preloading_cmd'', ty_option, Some (UnmarshalMap ''unmarshal_preloading_cmd''))])
        (append_specs (str_specs [''package''])
        (plain_specs [(''start_seq'', ''i64''), (''target_sdk_version'', ''i32''), (''runtime_flags'', ''u32''), (''top_app'', ''bool'')])))),
      (''AndroidNativeSubspecies'', ''SpawnSubspeciesAndroidNative'', Some
        (append_specs (plain_specs [(''target_sdk_version'', ''i32''), (''runtime_flags'', ''u32'')])
        (append_specs (str_specs [''library_path'', ''library_dirs'', ''permitted_library_paths''])
        (append_specs (plain_specs [(''shared'', ''bool'')])
        (append_specs (str_specs [''zip_path'', ''native_shared_lib_path''])
        (append_specs ([(''preload_func'', Some MarshalPacked)], [(''preload_func'', ty_option, None)])
        (plain_specs [(''uid_gid_min'', ''u32''), (''uid_gid_max'', ''u32'')]))))))),
      (''LibApp'', ''SpawnLibApp'', Some (append_specs (str_specs [''path''])
        ([(''args'', Some MarshalPacked)], [(''args'', ty_array_vec, Some (UnmarshalMap ''unmarshal_libapp_args''))]))),
      (''Mock'', ''SpawnMock'', Some (str_specs [''name'']))]"

lemmas specs_defs = str_specs_def plain_specs_def common_specs_def payload_specs_def

lemma enum_specs:
  "map_macro variant_spec message_variants = Ok message_specs"
  "map_macro variant_spec payload_variants = Ok payload_variant_specs"
  by (simp_all add: message_variants_def payload_variants_def message_specs_def payload_variant_specs_def
      variant_spec_def specs_defs attr_reading extract_inner_type_name_def)

section \<open>The generated functions\<close>

definition params_marshal_fn :: fn_item where
  "params_marshal_fn = Fn ''marshal'' [SELF, BUILDER_PARAM]
     (Let ''args'' (Call [''inner'', args_ident ''SpawnCommon'', ''default''] []) #
        assignments_of (PathExpr [''args'']) self_field params_marshal_specs)
     (Value (Call [''inner'', ''SpawnCommon'', ''create''] [BUILDER, RefTo (PathExpr [''args''])]))"

definition params_from_table_fn :: "(ident \<Rightarrow> ident) \<Rightarrow> fn_item" where
  "params_from_table_fn snake = Fn ''from_table'' [(''source'', TypePath [''inner'', ''SpawnCommon''])] []
     (Value (StructLit [''Self''] (map (value_template snake (PathExpr [''source''])) params_unmarshal_specs)))"

definition enum_inner_type_fn :: "ident \<Rightarrow> variant_specs list \<Rightarrow> fn_item" where
  "enum_inner_type_fn name specs = Fn ''inner_type'' [SELF] []
     (Match (PathExpr [''self'']) (map (inner_type_arm_of name) specs))"

definition enum_marshal_fn :: "ident \<Rightarrow> variant_specs list \<Rightarrow> fn_item" where
  "enum_marshal_fn name specs = Fn ''marshal'' [SELF, BUILDER_PARAM] []
     (Match (PathExpr [''self'']) (map (marshal_arm_of name) specs))"

definition try_from_parcel_fn :: "(ident \<Rightarrow> ident) \<Rightarrow> fn_item" where
  "try_from_parcel_fn snake = Fn ''try_from_parcel'' [(''buffer'', TypeRef TypeOther)]
     [Let ''parcel'' (Try (Call [''flatbuffers'', ''root''] [PathExpr [''buffer'']]))]
     (MatchThen (MethodCall (PathExpr [''parcel'']) ''message_type'' [])
        (map (unmarshal_arm_of snake ''Message'' (PathExpr [''parcel'']) ''message'') message_specs)
        (unknown_variant_arm ''Message'' ''Error''))"

definition payload_from_fn :: "(ident \<Rightarrow> ident) \<Rightarrow> ident \<Rightarrow> fn_item" where
  "payload_from_fn snake source = Fn (from_method_ident snake source) [(''source'', TypePath [''inner'', source])] []
     (MatchThen (MethodCall (PathExpr [''source'']) ''payload_type'' [])
        (map (unmarshal_arm_of snake ''SpawnPayload'' (PathExpr [''source'']) ''payload'') payload_variant_specs)
        (unknown_variant_arm ''SpawnPayload'' ''Error''))"

definition protocol_items :: "(ident \<Rightarrow> ident) \<Rightarrow> token_stream" where
  "protocol_items snake =
     [Impl (Some ''MarshalParcel'') ''SpawnParamsCommon''
        [(''Inner'', [''()'']), (''Output'', [''inner'', ''SpawnCommon''])]
        [Fn ''inner_type'' [SELF] [] (Value UnitLit), params_marshal_fn],
      Impl None ''SpawnParamsCommon'' [] [params_from_table_fn snake],
      Impl (Some ''MarshalParcel'') ''Message''
        [(''Inner'', [''inner'', ''Message'']), (''Output'', [''flatbuffers'', ''UnionWIPOffset''])]
        [enum_inner_type_fn ''Message'' message_specs, enum_marshal_fn ''Message'' message_specs],
      Impl (Some ''FromParcel'') ''Message'' [] [try_from_parcel_fn snake],
      Impl (Some ''MarshalParcel'') ''SpawnPayload''
        [(''Inner'', [''inner'', ''SpawnPayload'']), (''Output'', [''flatbuffers'', ''UnionWIPOffset''])]
        [enum_inner_type_fn ''SpawnPayload'' payload_variant_specs, enum_marshal_fn ''SpawnPayload'' payload_variant_specs],
      Impl None ''SpawnPayload'' [] [payload_from_fn snake ''Spawn''],
      Impl None ''SpawnPayload'' [] [payload_from_fn snake ''SpawnSubspecies'']]"

lemma params_code:
  "derive_both snake spawn_params_common_decl = Ok (take 2 (protocol_items snake))"
  by (simp add: derive_both_def marshal_parcel_derive_def unmarshal_parcel_derive_def gen_marshal_parcel_def
      gen_unmarshal_parcel_def gen_marshal_struct_def gen_unmarshal_struct_def spawn_params_common_decl_def
      gen_assignments_specs [OF params_specs(1)] get_unmarshal_from_def unmarshal_from_of_def attr_reading
      map_filter_simps params_marshal_fn_def params_from_table_fn_def protocol_items_def
      gen_field_values_specs [OF params_specs(2)] params_unmarshal_specs_def)

lemma message_code:
  "derive_both snake message_decl = Ok (take 2 (drop 2 (protocol_items snake)))"
  by (simp add: derive_both_def marshal_parcel_derive_def unmarshal_parcel_derive_def gen_marshal_parcel_def
      gen_unmarshal_parcel_def gen_marshal_enum_def gen_from_parcel_def message_decl_def error_type_or_default_def
      variants_arms [OF enum_specs(1)] get_unmarshal_from_def attr_reading map_filter_simps
      enum_inner_type_fn_def enum_marshal_fn_def try_from_parcel_fn_def protocol_items_def)

lemma payload_code:
  "derive_both snake spawn_payload_decl = Ok (drop 4 (protocol_items snake))"
  by (simp add: derive_both_def marshal_parcel_derive_def unmarshal_parcel_derive_def gen_marshal_parcel_def
      gen_unmarshal_parcel_def gen_marshal_enum_def gen_unmarshal_from_def spawn_payload_decl_def error_type_or_default_def
      variants_arms [OF enum_specs(2)] get_unmarshal_from_def unmarshal_from_of_def unmarshal_from_meta_def
      attr_reading map_filter_simps extract_inner_type_name_def type_field_ident_def
      enum_inner_type_fn_def enum_marshal_fn_def payload_from_fn_def protocol_items_def)

text \<open>No macro panics or reports an error on the three declarations, whatever the case conversion does.\<close>

lemma protocol_code: "protocol_code snake = Ok (protocol_items snake)"
  by (simp add: protocol_code_def params_code message_code payload_code protocol_items_def)

end
