(* ===== verification/Macro_Eval.thy ===== *)
theory Macro_Eval
  imports Macro_Unmarshal "HOL-Library.AList"
begin

text \<open>
  What the generated code does: an evaluator for the expressions, statements and matches of
  \<^verbatim>\<open>Macro_Syntax\<close> over dynamically typed values, and the linking of the generated functions.
  References matter only where the templates dereference, so a reference is a value marked as
  one; a method call and a field access look through it. Code the compiler would refuse (a name
  that is not bound, a dereference of a plain value, two arms without a comma) evaluates to the
  panic \<open>NOT_RUST\<close>. \<^verbatim>\<open>return\<close> and \<^verbatim>\<open>?\<close> leave a function through \<open>Err\<close>.
\<close>

section \<open>Values\<close>

text \<open>
  \<open>VCon\<close> is a constructor of \<^verbatim>\<open>Option\<close>, \<^verbatim>\<open>Result\<close> or an error, \<open>VRec\<close> a struct, an enum variant, a
  table or the arguments of a table by its path, \<open>VTag\<close> the type byte of a union.
\<close>

datatype val =
    VInt int
  | VBool bool
  | VStr string
  | VVec "val list"
  | VCon ident "val list"
  | VRec path "(ident \<times> val) list"
  | VTag ident nat
  | VRange val "val option"
  | VRef val

type_synonym result = "(val, val) outcome"

type_synonym locals = "(ident \<times> val) list"

definition NOT_RUST :: string where "NOT_RUST = ''not a Rust program''"

abbreviation stuck :: "('a, val) outcome" where "stuck \<equiv> Panic NOT_RUST"

abbreviation VSome :: "val \<Rightarrow> val" where "VSome v \<equiv> VCon ''Some'' [v]"
abbreviation VNone :: val where "VNone \<equiv> VCon ''None'' []"
abbreviation VOk :: "val \<Rightarrow> val" where "VOk v \<equiv> VCon ''Ok'' [v]"
abbreviation VErr :: "val \<Rightarrow> val" where "VErr v \<equiv> VCon ''Err'' [v]"
abbreviation VUnit :: val where "VUnit \<equiv> VCon ''()'' []"

fun strip_ref :: "val \<Rightarrow> val" where
  "strip_ref (VRef v) = strip_ref v"
| "strip_ref v = v"

section \<open>Expressions\<close>

text \<open>What is outside the generated code: constants, functions, associated functions, methods.\<close>

record runtime =
  rt_self :: ident
  rt_const :: "path \<Rightarrow> val option"
  rt_call :: "path \<Rightarrow> val list \<Rightarrow> result"
  rt_type_call :: "ident \<Rightarrow> ident \<Rightarrow> val list \<Rightarrow> result"
  rt_method :: "ident \<Rightarrow> val \<Rightarrow> val list \<Rightarrow> result"

definition known :: "'a option \<Rightarrow> ('a, val) outcome" where
  "known x = (case x of Some v \<Rightarrow> Ok v | None \<Rightarrow> stuck)"

definition lookup_path :: "runtime \<Rightarrow> locals \<Rightarrow> path \<Rightarrow> result" where
  "lookup_path R env p =
     (case p of
        [x] \<Rightarrow> (case map_of env x of Some v \<Rightarrow> Ok v | None \<Rightarrow> known (rt_const R p))
      | _ \<Rightarrow> known (rt_const R p))"

definition field_value :: "ident \<Rightarrow> val \<Rightarrow> result" where
  "field_value f v = (case strip_ref v of VRec p fs \<Rightarrow> known (map_of fs f) | _ \<Rightarrow> stuck)"

definition deref_value :: "val \<Rightarrow> result" where
  "deref_value v = (case v of VRef u \<Rightarrow> Ok u | _ \<Rightarrow> stuck)"

definition try_value :: "val \<Rightarrow> result" where
  "try_value v =
     (case v of
        VCon c [x] \<Rightarrow> if c = ''Ok'' then Ok x else if c = ''Err'' then Err v else stuck
      | _ \<Rightarrow> stuck)"

definition struct_path :: "runtime \<Rightarrow> path \<Rightarrow> path" where
  "struct_path R p = (if p = [''Self''] then [rt_self R] else p)"

fun eval :: "runtime \<Rightarrow> locals \<Rightarrow> expr \<Rightarrow> result"
and eval_list :: "runtime \<Rightarrow> locals \<Rightarrow> expr list \<Rightarrow> (val list, val) outcome"
and eval_fields :: "runtime \<Rightarrow> locals \<Rightarrow> (ident \<times> expr) list \<Rightarrow> ((ident \<times> val) list, val) outcome" where
  "eval R env (IntLit i) = Ok (VInt i)"
| "eval R env (BoolLit b) = Ok (VBool b)"
| "eval R env (StrLit s) = Ok (VStr s)"
| "eval R env UnitLit = Ok VUnit"
| "eval R env (PathExpr p) = lookup_path R env p"
| "eval R env (FieldOf e f) = bind_outcome (eval R env e) (field_value f)"
| "eval R env (MethodCall e m es) =
     bind_outcome (eval R env e) (\<lambda>v. bind_outcome (eval_list R env es) (rt_method R m v))"
| "eval R env (Call f es) = bind_outcome (eval_list R env es) (rt_call R f)"
| "eval R env (TypeCall ty f es) =
     bind_outcome (eval_list R env es) (\<lambda>vs. case ty of TypePath (x # xs) \<Rightarrow> rt_type_call R (last (x # xs)) f vs | _ \<Rightarrow> stuck)"
| "eval R env (RefTo e) = bind_outcome (eval R env e) (\<lambda>v. Ok (VRef v))"
| "eval R env (RefMut e) = bind_outcome (eval R env e) (\<lambda>v. Ok (VRef v))"
| "eval R env (Deref e) = bind_outcome (eval R env e) deref_value"
| "eval R env (Range e None) = bind_outcome (eval R env e) (\<lambda>v. Ok (VRange v None))"
| "eval R env (Range e (Some e')) =
     bind_outcome (eval R env e) (\<lambda>v. bind_outcome (eval R env e') (\<lambda>v'. Ok (VRange v (Some v'))))"
| "eval R env (IfElse e e1 e2) =
     bind_outcome (eval R env e) (\<lambda>v. case v of VBool b \<Rightarrow> if b then eval R env e1 else eval R env e2 | _ \<Rightarrow> stuck)"
| "eval R env (Try e) = bind_outcome (eval R env e) try_value"
| "eval R env (Return e) = bind_outcome (eval R env e) Err"
| "eval R env (StructLit p fs) = bind_outcome (eval_fields R env fs) (\<lambda>vs. Ok (VRec (struct_path R p) vs))"
| "eval_list R env [] = Ok []"
| "eval_list R env (e # es) = bind_outcome (eval R env e) (\<lambda>v. bind_outcome (eval_list R env es) (\<lambda>vs. Ok (v # vs)))"
| "eval_fields R env [] = Ok []"
| "eval_fields R env ((f, e) # fs) =
     bind_outcome (eval R env e) (\<lambda>v. bind_outcome (eval_fields R env fs) (\<lambda>vs. Ok ((f, v) # vs)))"

section \<open>Statements and matches\<close>

text \<open>Assignment to a field of a local, through a mutable reference if it is one.\<close>

fun set_field :: "ident \<Rightarrow> val \<Rightarrow> val \<Rightarrow> result" where
  "set_field f v (VRef u) = bind_outcome (set_field f v u) (\<lambda>u'. Ok (VRef u'))"
| "set_field f v (VRec p fs) = (if f \<in> fst ` set fs then Ok (VRec p (AList.update f v fs)) else stuck)"
| "set_field f v _ = stuck"

fun exec_stmt :: "runtime \<Rightarrow> locals \<Rightarrow> stmt \<Rightarrow> (locals, val) outcome" where
  "exec_stmt R env (Let x e) = bind_outcome (eval R env e) (\<lambda>v. Ok ((x, v) # env))"
| "exec_stmt R env (Do e) = bind_outcome (eval R env e) (\<lambda>_. Ok env)"
| "exec_stmt R env (Assign (FieldOf (PathExpr [x]) f) e) =
     bind_outcome (eval R env e) (\<lambda>v. case map_of env x of
         Some u \<Rightarrow> bind_outcome (set_field f v u) (\<lambda>u'. Ok (AList.update x u' env))
       | None \<Rightarrow> stuck)"
| "exec_stmt R env (Assign _ e) = stuck"

primrec exec_stmts :: "runtime \<Rightarrow> stmt list \<Rightarrow> locals \<Rightarrow> (locals, val) outcome" where
  "exec_stmts R [] env = Ok env"
| "exec_stmts R (s # ss) env = bind_outcome (exec_stmt R env s) (exec_stmts R ss)"

text \<open>A binding is a reference where the scrutinee is one. A unit variant is the constant of its path.\<close>

definition bind_as :: "val \<Rightarrow> val \<Rightarrow> val" where
  "bind_as scrutinee v = (case scrutinee of VRef _ \<Rightarrow> VRef v | _ \<Rightarrow> v)"

fun match_pat :: "runtime \<Rightarrow> pat \<Rightarrow> val \<Rightarrow> locals option" where
  "match_pat R (PatPath p) v = (if rt_const R p = Some (strip_ref v) then Some [] else None)"
| "match_pat R (PatNamed p xs) v =
     (case strip_ref v of
        VRec p' fs \<Rightarrow>
          if p' = p \<and> map fst fs = xs then Some (map (\<lambda>(x, u). (x, bind_as v u)) fs) else None
      | _ \<Rightarrow> None)"
| "match_pat R (PatNamedRest p) v = (case strip_ref v of VRec p' fs \<Rightarrow> if p' = p then Some [] else None | _ \<Rightarrow> None)"
| "match_pat R (PatTupleRest p) v = None"
| "match_pat R (PatTuple p x) v =
     (case strip_ref v of VTag t n \<Rightarrow> if p = [''inner'', t] then Some [(x, VInt (int n))] else None | _ \<Rightarrow> None)"

fun eval_arms :: "runtime \<Rightarrow> locals \<Rightarrow> val \<Rightarrow> arm list \<Rightarrow> result" where
  "eval_arms R env v [] = stuck"
| "eval_arms R env v ((p, ss, e) # arms) =
     (case match_pat R p v of
        Some bindings \<Rightarrow> bind_outcome (exec_stmts R ss (bindings @ env)) (\<lambda>env'. eval R env' e)
      | None \<Rightarrow> eval_arms R env v arms)"

text \<open>An arm without statements is written without braces and needs a comma behind it.\<close>

definition ends_with_block :: "arm list \<Rightarrow> bool" where
  "ends_with_block arms \<longleftrightarrow> arms = [] \<or> fst (snd (last arms)) \<noteq> []"

fun eval_tail :: "runtime \<Rightarrow> locals \<Rightarrow> tail \<Rightarrow> result" where
  "eval_tail R env (Value e) = eval R env e"
| "eval_tail R env (Match e arms) = bind_outcome (eval R env e) (\<lambda>v. eval_arms R env v arms)"
| "eval_tail R env (MatchThen e arms last_arm) =
     (if ends_with_block arms
      then bind_outcome (eval R env e) (\<lambda>v. eval_arms R env v (arms @ [last_arm])) else stuck)"

definition returned :: "result \<Rightarrow> result" where
  "returned r = (case r of Err v \<Rightarrow> Ok v | _ \<Rightarrow> r)"

text \<open>An argument of a table type is a table of that type.\<close>

fun arg_ok :: "syn_type \<Rightarrow> val \<Rightarrow> bool" where
  "arg_ok (TypePath (x # p)) v \<longleftrightarrow>
     (if x = ''inner'' then (case strip_ref v of VRec p' fs \<Rightarrow> p' = x # p | _ \<Rightarrow> False) else True)"
| "arg_ok (TypePath []) v \<longleftrightarrow> False"
| "arg_ok (TypeRef t) v \<longleftrightarrow> arg_ok t v"
| "arg_ok TypeOther v \<longleftrightarrow> True"

fun call_fn :: "runtime \<Rightarrow> fn_item \<Rightarrow> val list \<Rightarrow> result" where
  "call_fn R (Fn name params ss t) vs =
     (if list_all2 (\<lambda>(x, ty) v. arg_ok ty v) params vs
      then returned (bind_outcome (exec_stmts R ss (zip (map fst params) vs)) (\<lambda>env. eval_tail R env t)) else stuck)"

section \<open>Linking\<close>

fun fn_name :: "fn_item \<Rightarrow> ident" where
  "fn_name (Fn name _ _ _) = name"

fun item_fns :: "ident \<Rightarrow> item \<Rightarrow> fn_item list" where
  "item_fns ty (Impl tr name assoc fns) = (if name = ty then fns else [])"
| "item_fns ty (CompileError msg) = []"

definition find_fn :: "token_stream \<Rightarrow> ident \<Rightarrow> ident \<Rightarrow> fn_item option" where
  "find_fn items ty f = find (\<lambda>fn. fn_name fn = f) (concat (map (item_fns ty) items))"

text \<open>The library of a linked program: everything that is not generated.\<close>

record library =
  lib_const :: "path \<Rightarrow> val option"
  lib_call :: "path \<Rightarrow> val list \<Rightarrow> result"
  lib_method :: "ident \<Rightarrow> val \<Rightarrow> val list \<Rightarrow> result"

definition value_type :: "val \<Rightarrow> ident option" where
  "value_type v = (case strip_ref v of VRec (x # xs) fs \<Rightarrow> Some x | _ \<Rightarrow> None)"

definition generated_methods :: "ident list" where
  "generated_methods = [''inner_type'', ''marshal'']"

text \<open>The fuel bounds the depth of calls among generated functions.\<close>

fun link :: "library \<Rightarrow> token_stream \<Rightarrow> nat \<Rightarrow> ident \<Rightarrow> runtime"
and link_call :: "library \<Rightarrow> token_stream \<Rightarrow> nat \<Rightarrow> ident \<Rightarrow> ident \<Rightarrow> val list \<Rightarrow> result" where
  "link L items n self =
     \<lparr>rt_self = self, rt_const = lib_const L, rt_call = lib_call L,
      rt_type_call = (\<lambda>ty f vs. link_call L items n ty f vs),
      rt_method = (\<lambda>m recv vs.
        if m \<in> set generated_methods
        then (case value_type recv of Some ty \<Rightarrow> link_call L items n ty m (VRef (strip_ref recv) # vs) | None \<Rightarrow> stuck)
        else lib_method L m recv vs)\<rparr>"
| "link_call L items 0 ty f vs = Diverges"
| "link_call L items (Suc n) ty f vs =
     (case find_fn items ty f of Some fn \<Rightarrow> call_fn (link L items n ty) fn vs | None \<Rightarrow> stuck)"

end
