(* ===== verification/Protocol_Library.thy ===== *)
theory Protocol_Library
  imports Macro_Eval Messages
begin

text \<open>
  What the generated code of the protocol is linked with: the tables of \<^verbatim>\<open>schemas/messages.fbs\<close>,
  the functions named in the \<^verbatim>\<open>map\<close> attributes, \<^verbatim>\<open>to_packed\<close>, and the few methods of
  \<^verbatim>\<open>Option\<close> and ranges that the templates call. A table in construction is its \<^verbatim>\<open>Args\<close> struct;
  an offset stands for what it points to. The same protocol as typed functions is in \<^verbatim>\<open>Messages\<close>:
  \<open>enc_message\<close>, \<open>enc_params\<close> and their kin give the dynamic value of a typed one.
\<close>

section \<open>Values of typed data\<close>

definition enc_opt :: "('a \<Rightarrow> val) \<Rightarrow> 'a option \<Rightarrow> val" where
  "enc_opt enc x = (case x of Some v \<Rightarrow> VSome (enc v) | None \<Rightarrow> VNone)"

lemma enc_opt_simps [simp]: "enc_opt enc (Some v) = VSome (enc v)" "enc_opt enc None = VNone"
  by (simp_all add: enc_opt_def)

definition enc_word :: "'a::len word \<Rightarrow> val" where
  "enc_word w = VInt (uint w)"

definition enc_nat :: "nat \<Rightarrow> val" where
  "enc_nat n = VInt (int n)"

definition enc_rlimit :: "path \<Rightarrow> rlimit_data \<Rightarrow> val" where
  "enc_rlimit p r = VRec p
     [(''resource'', enc_word (rl_resource r)), (''hard'', enc_word (rl_hard r)), (''soft'', enc_word (rl_soft r))]"

definition enc_params :: "spawn_params \<Rightarrow> val" where
  "enc_params p = VRec [''SpawnParamsCommon'']
     [(''selinux_flags'', enc_opt enc_word (sp_selinux_flags p)),
      (''no_new_privs'', enc_opt VBool (sp_no_new_privs p)),
      (''uid'', enc_opt VInt (sp_uid p)),
      (''gid'', enc_opt VInt (sp_gid p)),
      (''process_name'', enc_opt VStr (sp_process_name p)),
      (''priority_initial'', enc_opt VInt (sp_priority_initial p)),
      (''priority_final'', enc_opt VInt (sp_priority_final p)),
      (''cap_effective'', enc_opt enc_word (sp_cap_effective p)),
      (''cap_permitted'', enc_opt enc_word (sp_cap_permitted p)),
      (''cap_inheritable'', enc_opt enc_word (sp_cap_inheritable p)),
      (''cap_bound'', enc_opt enc_word (sp_cap_bound p)),
      (''se_info'', enc_opt VStr (sp_se_info p)),
      (''secondary_groups'', VVec (map VInt (sp_secondary_groups p))),
      (''rlimits'', VVec (map (enc_rlimit [''RLimitData'']) (sp_rlimits p)))]"

definition enc_common :: "spawn_common_table \<Rightarrow> val" where
  "enc_common t = VRec [''inner'', ''SpawnCommon'']
     [(''selinux_flags'', enc_word (sc_selinux_flags t)),
      (''no_new_privs'', VBool (sc_no_new_privs t)),
      (''uid'', VInt (sc_uid t)),
      (''gid'', VInt (sc_gid t)),
      (''process_name'', enc_opt VStr (sc_process_name t)),
      (''priority_initial'', VInt (sc_priority_initial t)),
      (''priority_final'', VInt (sc_priority_final t)),
      (''cap_effective'', enc_word (sc_cap_effective t)),
      (''cap_permitted'', enc_word (sc_cap_permitted t)),
      (''cap_inheritable'', enc_word (sc_cap_inheritable t)),
      (''cap_bound'', enc_word (sc_cap_bound t)),
      (''se_info'', enc_opt VStr (sc_se_info t)),
      (''secondary_groups'', enc_opt (\<lambda>gs. VVec (map VInt gs)) (sc_secondary_groups t)),
      (''rlimits'', VVec (map (enc_rlimit [''inner'', ''RLimitData'']) (sc_rlimits t)))]"

definition enc_android_native :: "path \<Rightarrow> android_native \<Rightarrow> val" where
  "enc_android_native p d = VRec p
     [(''preloading_cmd'', enc_opt VStr (an_preloading_cmd d)),
      (''package'', VStr (an_package d)),
      (''start_seq'', VInt (an_start_seq d)),
      (''target_sdk_version'', VInt (an_target_sdk_version d)),
      (''runtime_flags'', VInt (an_runtime_flags d)),
      (''top_app'', VBool (an_top_app d))]"

definition enc_subspecies :: "path \<Rightarrow> android_native_subspecies \<Rightarrow> val" where
  "enc_subspecies p d = VRec p
     [(''target_sdk_version'', VInt (ans_target_sdk_version d)),
      (''runtime_flags'', VInt (ans_runtime_flags d)),
      (''library_path'', VStr (ans_library_path d)),
      (''library_dirs'', VStr (ans_library_dirs d)),
      (''permitted_library_paths'', VStr (ans_permitted_library_paths d)),
      (''shared'', VBool (ans_shared d)),
      (''zip_path'', VStr (ans_zip_path d)),
      (''native_shared_lib_path'', VStr (ans_native_shared_lib_path d)),
      (''preload_func'', enc_opt VStr (ans_preload_func d)),
      (''uid_gid_min'', VInt (ans_uid_gid_min d)),
      (''uid_gid_max'', VInt (ans_uid_gid_max d))]"

definition enc_lib_app :: "path \<Rightarrow> string \<Rightarrow> string list \<Rightarrow> val" where
  "enc_lib_app p lib_path args = VRec p [(''path'', VStr lib_path), (''args'', VVec (map VStr args))]"

definition enc_mock :: "path \<Rightarrow> string \<Rightarrow> val" where
  "enc_mock p name = VRec p [(''name'', VStr name)]"

fun enc_payload :: "spawn_payload \<Rightarrow> val" where
  "enc_payload (PayloadAndroidNative d) = enc_android_native [''SpawnPayload'', ''AndroidNative''] d"
| "enc_payload (PayloadAndroidNativeSubspecies d) = enc_subspecies [''SpawnPayload'', ''AndroidNativeSubspecies''] d"
| "enc_payload (PayloadLibApp lib_path args) = enc_lib_app [''SpawnPayload'', ''LibApp''] lib_path args"
| "enc_payload (PayloadMock name) = enc_mock [''SpawnPayload'', ''Mock''] name"

fun enc_payload_table :: "payload_table \<Rightarrow> val" where
  "enc_payload_table (SpawnAndroidNativeTable d) = enc_android_native [''inner'', ''SpawnAndroidNative''] d"
| "enc_payload_table (SpawnSubspeciesAndroidNativeTable d) = enc_subspecies [''inner'', ''SpawnSubspeciesAndroidNative''] d"
| "enc_payload_table (SpawnLibAppTable lib_path args) = enc_lib_app [''inner'', ''SpawnLibApp''] lib_path args"
| "enc_payload_table (SpawnMockTable name) = enc_mock [''inner'', ''SpawnMock''] name"

definition enc_identity :: "path \<Rightarrow> string \<Rightarrow> string \<Rightarrow> string \<Rightarrow> val" where
  "enc_identity p name species arch = VRec p [(''name'', VStr name), (''species'', VStr species), (''arch'', VStr arch)]"

definition enc_stat :: "path \<Rightarrow> stat_response \<Rightarrow> val" where
  "enc_stat p d = VRec p
     [(''pid'', enc_nat (sr_pid d)), (''pgrp'', enc_nat (sr_pgrp d)), (''minflt'', enc_nat (sr_minflt d)),
      (''cminflt'', enc_nat (sr_cminflt d)), (''majflt'', enc_nat (sr_majflt d)), (''cmajflt'', enc_nat (sr_cmajflt d)),
      (''utime'', enc_nat (sr_utime d)), (''stime'', enc_nat (sr_stime d)),
      (''num_threads'', enc_nat (sr_num_threads d)), (''vsize'', enc_nat (sr_vsize d)), (''rss'', enc_nat (sr_rss d))]"

fun enc_message :: "zygote_message \<Rightarrow> val" where
  "enc_message AckResponse = VRec [''Message'', ''AckResponse''] []"
| "enc_message Exit = VRec [''Message'', ''Exit''] []"
| "enc_message IdentityQuery = VRec [''Message'', ''IdentityQuery''] []"
| "enc_message (IdentityQueryResponse name species arch) = enc_identity [''Message'', ''IdentityQueryResponse''] name species arch"
| "enc_message (Spawn common payload) =
     VRec [''Message'', ''Spawn''] [(''common'', enc_params common), (''payload'', enc_payload payload)]"
| "enc_message (SpawnSubspecies common socket_path payload) =
     VRec [''Message'', ''SpawnSubspecies'']
       [(''common'', enc_params common), (''socket_path'', VStr socket_path), (''payload'', enc_payload payload)]"
| "enc_message (SpawnResponse pid) = VRec [''Message'', ''SpawnResponse''] [(''pid'', VInt pid)]"
| "enc_message Stat = VRec [''Message'', ''Stat''] []"
| "enc_message (StatResponse d) = enc_stat [''Message'', ''StatResponse''] d"

definition enc_spawn_table :: "spawn_table \<Rightarrow> val" where
  "enc_spawn_table t = VRec [''inner'', ''Spawn'']
     [(''common'', enc_opt enc_common (st_common t)),
      (''payload_type'', VTag ''SpawnPayload'' (st_payload_type t)),
      (''payload'', enc_opt enc_payload_table (st_payload t))]"

definition enc_spawn_subspecies_table :: "spawn_subspecies_table \<Rightarrow> val" where
  "enc_spawn_subspecies_table t = VRec [''inner'', ''SpawnSubspecies'']
     [(''common'', enc_opt enc_common (sst_common t)),
      (''socket_path'', VStr (sst_socket_path t)),
      (''payload_type'', VTag ''SpawnPayload'' (sst_payload_type t)),
      (''payload'', enc_opt enc_payload_table (sst_payload t))]"

fun enc_message_table :: "message_table \<Rightarrow> val" where
  "enc_message_table AckTable = VRec [''inner'', ''Ack''] []"
| "enc_message_table ExitTable = VRec [''inner'', ''Exit''] []"
| "enc_message_table IdentityQueryTable = VRec [''inner'', ''IdentityQuery''] []"
| "enc_message_table (IdentityQueryResponseTable name species arch) = enc_identity [''inner'', ''IdentityQueryResponse''] name species arch"
| "enc_message_table (SpawnTable t) = enc_spawn_table t"
| "enc_message_table (SpawnSubspeciesTable t) = enc_spawn_subspecies_table t"
| "enc_message_table (SpawnResponseTable pid) = VRec [''inner'', ''SpawnResponse''] [(''pid'', VInt pid)]"
| "enc_message_table StatTable = VRec [''inner'', ''Stat''] []"
| "enc_message_table (StatResponseTable d) = enc_stat [''inner'', ''StatResponse''] d"

definition enc_parcel :: "parcel \<Rightarrow> val" where
  "enc_parcel p = VRec [''inner'', ''Parcel'']
     [(''message_type'', VTag ''Message'' (message_type p)), (''message'', enc_opt enc_message_table (message p))]"

fun enc_error :: "message_error \<Rightarrow> val" where
  "enc_error InvalidFlatBuffer = VCon ''InvalidFlatBuffer'' []"
| "enc_error (UnknownVariant s n) = VCon ''UnknownVariant'' [VStr s, VInt (int n)]"

definition enc_result :: "('a \<Rightarrow> val) \<Rightarrow> ('a, message_error) outcome \<Rightarrow> result" where
  "enc_result enc r =
     (case r of Ok x \<Rightarrow> Ok (VOk (enc x)) | Err e \<Rightarrow> Ok (VErr (enc_error e)) | Panic p \<Rightarrow> Panic p | Diverges \<Rightarrow> Diverges)"

section \<open>The schema\<close>

text \<open>
  A field of a table: a scalar with its default, an offset that is \<^verbatim>\<open>(required)\<close>, an offset that
  may be absent, or the table of a union next to its type byte.
\<close>

datatype fb_field = FbScalar val | FbRequired | FbOptional | FbUnion ident

abbreviation fb_zero :: fb_field where "fb_zero \<equiv> FbScalar (VInt 0)"
abbreviation fb_bool :: fb_field where "fb_bool \<equiv> FbScalar (VBool False)"

definition tables :: "(ident \<times> (ident \<times> fb_field) list) list" where
  "tables =
    [(''Ack'', []), (''Exit'', []), (''IdentityQuery'', []), (''Stat'', []),
     (''IdentityQueryResponse'', [(''name'', FbRequired), (''species'', FbRequired), (''arch'', FbRequired)]),
     (''SpawnAndroidNative'',
       [(''preloading_cmd'', FbOptional), (''package'', FbRequired), (''start_seq'', fb_zero),
        (''target_sdk_version'', fb_zero), (''runtime_flags'', fb_zero), (''top_app'', fb_bool)]),
     (''SpawnSubspeciesAndroidNative'',
       [(''target_sdk_version'', fb_zero), (''runtime_flags'', fb_zero), (''library_path'', FbRequired),
        (''library_dirs'', FbRequired), (''permitted_library_paths'', FbRequired), (''shared'', fb_bool),
        (''zip_path'', FbRequired), (''native_shared_lib_path'', FbRequired), (''preload_func'', FbOptional),
        (''uid_gid_min'', fb_zero), (''uid_gid_max'', fb_zero)]),
     (''SpawnMock'', [(''name'', FbRequired)]),
     (''SpawnLibApp'', [(''path'', FbRequired), (''args'', FbRequired)]),
     (''SpawnCommon'',
       [(''selinux_flags'', fb_zero), (''no_new_privs'', fb_bool), (''uid'', fb_zero), (''gid'', fb_zero),
        (''process_name'', FbOptional), (''priority_initial'', fb_zero), (''priority_final'', fb_zero),
        (''cap_effective'', fb_zero), (''cap_permitted'', fb_zero), (''cap_inheritable'', fb_zero),
        (''cap_bound'', fb_zero), (''se_info'', FbOptional), (''secondary_groups'', FbOptional),
        (''rlimits'', FbRequired)]),
     (''Spawn'',
       [(''common'', FbOptional), (''payload_type'', FbScalar (VTag ''SpawnPayload'' 0)), (''payload'', FbUnion ''SpawnPayload'')]),
     (''SpawnSubspecies'',
       [(''common'', FbOptional), (''socket_path'', FbRequired),
        (''payload_type'', FbScalar (VTag ''SpawnPayload'' 0)), (''payload'', FbUnion ''SpawnPayload'')]),
     (''SpawnResponse'', [(''pid'', fb_zero)]),
     (''StatResponse'',
       [(''pid'', fb_zero), (''pgrp'', fb_zero), (''minflt'', fb_zero), (''cminflt'', fb_zero), (''majflt'', fb_zero),
        (''cmajflt'', fb_zero), (''utime'', fb_zero), (''stime'', fb_zero), (''num_threads'', fb_zero),
        (''vsize'', fb_zero), (''rss'', fb_zero)])]"

text \<open>The members of a union in order, each with its name in the accessors; type bytes count from 1.\<close>

definition unions :: "(ident \<times> (ident \<times> ident) list) list" where
  "unions =
    [(''SpawnPayload'',
       [(''SpawnAndroidNative'', ''spawn_android_native''),
        (''SpawnSubspeciesAndroidNative'', ''spawn_subspecies_android_native''),
        (''SpawnLibApp'', ''spawn_lib_app''), (''SpawnMock'', ''spawn_mock'')]),
     (''Message'',
       [(''Ack'', ''ack''), (''Exit'', ''exit''), (''IdentityQuery'', ''identity_query''),
        (''IdentityQueryResponse'', ''identity_query_response''), (''Spawn'', ''spawn''),
        (''SpawnSubspecies'', ''spawn_subspecies''), (''SpawnResponse'', ''spawn_response''),
        (''Stat'', ''stat''), (''StatResponse'', ''stat_response'')])]"

text \<open>The field of the root table and of the two spawn tables that holds a union.\<close>

definition union_fields :: "(ident \<times> ident \<times> ident) list" where
  "union_fields =
    [(''Parcel'', ''message'', ''Message''), (''Spawn'', ''payload'', ''SpawnPayload''),
     (''SpawnSubspecies'', ''payload'', ''SpawnPayload'')]"

section \<open>Tables\<close>

fun fb_default_field :: "fb_field \<Rightarrow> val" where
  "fb_default_field (FbScalar v) = v"
| "fb_default_field _ = VNone"

text \<open>\<^verbatim>\<open>inner::TArgs::default()\<close>: scalars as the schema says, no offsets.\<close>

definition fb_default :: "ident \<Rightarrow> (ident \<times> fb_field) list \<Rightarrow> val" where
  "fb_default t fs = VRec [''inner'', t] (map (\<lambda>(f, k). (f, fb_default_field k)) fs)"

definition FIELD_REQUIRED :: string where "FIELD_REQUIRED = ''required field missing''"

definition fb_store_field :: "fb_field \<Rightarrow> val \<Rightarrow> result" where
  "fb_store_field k v =
     (case k of
        FbScalar _ \<Rightarrow> Ok v
      | FbOptional \<Rightarrow> Ok v
      | FbRequired \<Rightarrow> (case v of VCon c [u] \<Rightarrow> Ok u | _ \<Rightarrow> Panic FIELD_REQUIRED)
      | FbUnion _ \<Rightarrow> (case v of VCon c [u] \<Rightarrow> Ok v | _ \<Rightarrow> Panic FIELD_REQUIRED))"

text \<open>\<^verbatim>\<open>inner::T::create(builder, &args)\<close>: an absent required offset panics.\<close>

primrec fb_store :: "(ident \<times> fb_field) list \<Rightarrow> (ident \<times> val) list \<Rightarrow> ((ident \<times> val) list, val) outcome" where
  "fb_store [] fs = Ok []"
| "fb_store (d # ds) fs =
     bind_outcome (known (map_of fs (fst d))) (\<lambda>v.
     bind_outcome (fb_store_field (snd d) v) (\<lambda>v'.
     bind_outcome (fb_store ds fs) (\<lambda>rest. Ok ((fst d, v') # rest))))"

definition fb_create :: "ident \<Rightarrow> (ident \<times> fb_field) list \<Rightarrow> val \<Rightarrow> result" where
  "fb_create t ds args =
     (case strip_ref args of
        VRec p fs \<Rightarrow> bind_outcome (fb_store ds fs) (\<lambda>fs'. Ok (VRec [''inner'', t] fs'))
      | _ \<Rightarrow> stuck)"

text \<open>\<^verbatim>\<open>TArgs\<close> belongs to the table \<^verbatim>\<open>T\<close>.\<close>

definition args_tables :: "(ident \<times> (ident \<times> fb_field) list) list" where
  "args_tables = map (\<lambda>(t, ds). (args_ident t, ds)) tables"

definition table_call :: "ident \<Rightarrow> ident \<Rightarrow> val list \<Rightarrow> result" where
  "table_call t f vs =
     (if f = ''default'' \<and> vs = [] then
        (case map_of args_tables t of Some ds \<Rightarrow> Ok (fb_default t ds) | None \<Rightarrow> stuck)
      else if f = ''create'' then
        (case (map_of tables t, vs) of (Some ds, [builder, args]) \<Rightarrow> fb_create t ds args | _ \<Rightarrow> stuck)
      else stuck)"

text \<open>The accessors of a table: its fields, and \<^verbatim>\<open>field_as_member()\<close> for the field of a union.\<close>

definition cast_methods :: "ident \<Rightarrow> (ident \<times> ident \<times> ident) list" where
  "cast_methods t =
     (case map_of union_fields t of
        Some (f, u) \<Rightarrow>
          (case map_of unions u of
             Some ms \<Rightarrow> map (\<lambda>(member, name). (f @ ''_as_'' @ name, (f, member))) ms | None \<Rightarrow> [])
      | None \<Rightarrow> [])"

definition union_as :: "ident \<Rightarrow> val option \<Rightarrow> val" where
  "union_as member v =
     (case v of
        Some (VCon c [VRec p fs]) \<Rightarrow> if p = [''inner'', member] then VSome (VRec p fs) else VNone
      | _ \<Rightarrow> VNone)"

definition table_method :: "ident \<Rightarrow> val \<Rightarrow> result" where
  "table_method m v =
     (case strip_ref v of
        VRec p fs \<Rightarrow>
          (case map_of fs m of
             Some u \<Rightarrow> Ok u
           | None \<Rightarrow>
               (case map_of (cast_methods (last p)) m of
                  Some (f, member) \<Rightarrow> Ok (union_as member (map_of fs f)) | None \<Rightarrow> stuck))
      | _ \<Rightarrow> stuck)"

definition type_byte :: "ident \<Rightarrow> ident \<Rightarrow> nat option" where
  "type_byte u member =
     (case map_of unions u of
        Some ms \<Rightarrow> map_of (zip (map fst ms) [1..<Suc (length ms)]) member | None \<Rightarrow> None)"

section \<open>Functions on typed arguments\<close>

fun dec_int :: "val \<Rightarrow> int option" where
  "dec_int (VInt i) = Some i" | "dec_int _ = None"

fun dec_str :: "val \<Rightarrow> string option" where
  "dec_str (VStr s) = Some s" | "dec_str _ = None"

fun dec_word :: "val \<Rightarrow> 'a::len word option" where
  "dec_word (VInt i) = Some (word_of_int i)" | "dec_word _ = None"

fun dec_opt :: "(val \<Rightarrow> 'a option) \<Rightarrow> val \<Rightarrow> 'a option option" where
  "dec_opt dec (VCon c []) = Some None"
| "dec_opt dec (VCon c [v]) = map_option Some (dec v)"
| "dec_opt dec _ = None"

primrec dec_list :: "(val \<Rightarrow> 'a option) \<Rightarrow> val list \<Rightarrow> 'a list option" where
  "dec_list dec [] = Some []"
| "dec_list dec (v # vs) =
     (case dec v of Some x \<Rightarrow> map_option ((#) x) (dec_list dec vs) | None \<Rightarrow> None)"

fun dec_vec :: "(val \<Rightarrow> 'a option) \<Rightarrow> val \<Rightarrow> 'a list option" where
  "dec_vec dec (VVec vs) = dec_list dec vs" | "dec_vec dec _ = None"

fun dec_rlimit :: "val \<Rightarrow> rlimit_data option" where
  "dec_rlimit (VRec p [(_, VInt r), (_, VInt h), (_, VInt s)]) =
     Some \<lparr>rl_resource = word_of_int r, rl_hard = word_of_int h, rl_soft = word_of_int s\<rparr>"
| "dec_rlimit _ = None"

lemma dec_enc_word [simp]: "dec_word (enc_word w) = Some w"
  by (simp add: enc_word_def)

lemma dec_enc_rlimit [simp]: "dec_rlimit (enc_rlimit p r) = Some r"
  by (simp add: enc_rlimit_def enc_word_def)

lemma dec_enc_opt [simp]: "(\<And>x. dec (enc x) = Some x) \<Longrightarrow> dec_opt dec (enc_opt enc x) = Some x"
  by (cases x) simp_all

lemma dec_enc_list [simp]: "(\<And>x. dec (enc x) = Some x) \<Longrightarrow> dec_list dec (map enc xs) = Some xs"
  by (induction xs) simp_all

text \<open>A function of one typed argument, applied to its value behind references.\<close>

definition typed :: "(val \<Rightarrow> 'a option) \<Rightarrow> ('a \<Rightarrow> result) \<Rightarrow> val \<Rightarrow> result" where
  "typed dec f v = (case dec (strip_ref v) of Some x \<Rightarrow> f x | None \<Rightarrow> stuck)"

definition enc_outcome :: "('a \<Rightarrow> val) \<Rightarrow> ('a, val) outcome \<Rightarrow> result" where
  "enc_outcome enc r = bind_outcome r (\<lambda>x. Ok (enc x))"

text \<open>The functions named by \<^verbatim>\<open>#[marshal(map = ..)]\<close> and \<^verbatim>\<open>#[unmarshal(map = ..)]\<close>.\<close>

definition map_functions :: "64 word \<Rightarrow> (ident \<times> (val \<Rightarrow> result)) list" where
  "map_functions all_flags =
    [(''marshal_string'', typed (dec_opt dec_str) (\<lambda>s. Ok (enc_opt VStr (marshal_string s)))),
     (''marshal_capability_flags'', typed (dec_opt dec_word) (\<lambda>c. Ok (enc_word (marshal_capability_flags c)))),
     (''unmarshal_string'', typed (dec_opt dec_str) (\<lambda>s. Ok (enc_opt VStr (unmarshal_string s)))),
     (''unmarshal_capability_flags'',
        typed dec_word (\<lambda>c. Ok (enc_opt enc_word (unmarshal_capability_flags all_flags c)))),
     (''unmarshal_secondary_groups'',
        typed (dec_opt (dec_vec dec_int)) (\<lambda>gs. enc_outcome (\<lambda>xs. VVec (map VInt xs)) (unmarshal_secondary_groups gs))),
     (''unmarshal_rlimits'',
        typed (dec_vec dec_rlimit)
          (\<lambda>rs. enc_outcome (\<lambda>xs. VVec (map (enc_rlimit [''RLimitData'']) xs)) (unmarshal_rlimits rs))),
     (''unmarshal_preloading_cmd'', typed (dec_opt dec_str) (\<lambda>c. Ok (enc_opt VStr (unmarshal_preloading_cmd c)))),
     (''unmarshal_libapp_args'',
        typed (dec_vec dec_str) (\<lambda>args. enc_outcome (\<lambda>xs. VVec (map VStr xs)) (unmarshal_libapp_args args)))]"

section \<open>Methods\<close>

text \<open>\<^verbatim>\<open>ToPacked\<close>: strings, an absent string as the empty one, vectors with their limits converted.\<close>

fun pack_element :: "val \<Rightarrow> val" where
  "pack_element (VRec p fs) = VRec (''inner'' # p) fs"
| "pack_element v = v"

fun to_packed_value :: "val \<Rightarrow> result" where
  "to_packed_value (VStr s) = Ok (VStr s)"
| "to_packed_value (VVec vs) = Ok (VVec (map pack_element vs))"
| "to_packed_value (VCon c vs) =
     typed (dec_opt dec_str) (\<lambda>x. Ok (VStr (to_packed_default x))) (VCon c vs)"
| "to_packed_value _ = stuck"

fun range_contains :: "val \<Rightarrow> val \<Rightarrow> result" where
  "range_contains (VRange (VInt lo) None) (VInt i) = Ok (VBool (lo \<le> i))"
| "range_contains (VRange (VInt lo) (Some (VInt hi))) (VInt i) = Ok (VBool (lo \<le> i \<and> i < hi))"
| "range_contains (VRange (VBool lo) None) (VBool b) = Ok (VBool (lo \<le> b))"
| "range_contains _ _ = stuck"

definition std_method :: "ident \<Rightarrow> val \<Rightarrow> val list \<Rightarrow> result option" where
  "std_method m recv vs =
     (if m = ''unwrap_or'' then Some
        (case (recv, vs) of (VCon c [v], [d]) \<Rightarrow> Ok v | (VCon c [], [d]) \<Rightarrow> Ok d | _ \<Rightarrow> stuck)
      else if m = ''expect'' then Some
        (case (recv, vs) of (VCon c [v], [VStr msg]) \<Rightarrow> Ok v | (VCon c [], [VStr msg]) \<Rightarrow> Panic msg | _ \<Rightarrow> stuck)
      else if m = ''contains'' then Some (case vs of [v] \<Rightarrow> range_contains recv (strip_ref v) | _ \<Rightarrow> stuck)
      else if m = ''to_packed'' then Some (to_packed_value recv)
      else if m = ''as_union_value'' then Some (Ok recv)
      else None)"

definition protocol_method :: "ident \<Rightarrow> val \<Rightarrow> val list \<Rightarrow> result" where
  "protocol_method m recv vs =
     (case std_method m (strip_ref recv) vs of Some r \<Rightarrow> r | None \<Rightarrow> if vs = [] then table_method m recv else stuck)"

section \<open>The library\<close>

definition unit_variants :: "path list" where
  "unit_variants = [[''Message'', ''AckResponse''], [''Message'', ''Exit''], [''Message'', ''IdentityQuery''], [''Message'', ''Stat'']]"

definition protocol_const :: "path \<Rightarrow> val option" where
  "protocol_const p =
     (if p = [''None''] then Some VNone
      else if p = [''i32'', ''MAX''] then Some (VInt I32_MAX)
      else if p \<in> set unit_variants then Some (VRec p [])
      else case p of [m, u, member] \<Rightarrow> if m = ''inner'' then map_option (VTag u) (type_byte u member) else None
        | _ \<Rightarrow> None)"

text \<open>\<open>root\<close> is \<^verbatim>\<open>flatbuffers::root\<close>, with the conversion of its error that \<^verbatim>\<open>?\<close> applies.\<close>

definition root_call :: "(string \<Rightarrow> parcel option) \<Rightarrow> val list \<Rightarrow> result" where
  "root_call root vs =
     (case vs of
        [VStr buffer] \<Rightarrow>
          Ok (case root buffer of Some p \<Rightarrow> VOk (enc_parcel p) | None \<Rightarrow> VErr (enc_error InvalidFlatBuffer))
      | _ \<Rightarrow> stuck)"

definition simple_call :: "64 word \<Rightarrow> ident \<Rightarrow> val list \<Rightarrow> result" where
  "simple_call all_flags f vs =
     (if f \<in> {''Some'', ''Ok'', ''Err''} then Ok (VCon f vs)
      else if f = ''todo!'' then Panic ''not yet implemented''
      else case (map_of (map_functions all_flags) f, vs) of (Some g, v # _) \<Rightarrow> g v | _ \<Rightarrow> stuck)"

definition protocol_call :: "(string \<Rightarrow> parcel option) \<Rightarrow> 64 word \<Rightarrow> path \<Rightarrow> val list \<Rightarrow> result" where
  "protocol_call root all_flags p vs =
     (case p of
        [f] \<Rightarrow> simple_call all_flags f vs
      | [m, f] \<Rightarrow> if m = ''flatbuffers'' then root_call root vs else if m = ''Error'' then Ok (VCon f vs) else stuck
      | [m, t, f] \<Rightarrow> table_call t f vs
      | _ \<Rightarrow> stuck)"

definition protocol_library :: "(string \<Rightarrow> parcel option) \<Rightarrow> 64 word \<Rightarrow> library" where
  "protocol_library root all_flags =
     \<lparr>lib_const = protocol_const, lib_call = protocol_call root all_flags, lib_method = protocol_method\<rparr>"

end
