(* ===== verification/Derived_Marshal.thy ===== *)
theory Derived_Marshal
  imports Derived_Code Protocol_Library
begin

text \<open>
  The generated code does what the typed model of the protocol says: running the functions that
  the macros derive, linked with each other and with \<^verbatim>\<open>protocol_library\<close>, marshals every message
  into the table of \<open>marshal_message\<close> and reads every buffer as \<open>try_from_parcel\<close> does.
\<close>

section \<open>The linked program\<close>

lemma link_simps [simp]:
  "rt_self (link L items n self) = self"
  "rt_const (link L items n self) = lib_const L"
  "rt_call (link L items n self) = lib_call L"
  "rt_type_call (link L items n self) ty f vs = link_call L items n ty f vs"
  "rt_method (link L items n self) m recv vs =
     (if m \<in> set generated_methods
      then (case value_type recv of Some ty \<Rightarrow> link_call L items n ty m (VRef (strip_ref recv) # vs) | None \<Rightarrow> stuck)
      else lib_method L m recv vs)"
  by simp_all

declare link.simps [simp del]

lemma library_simps [simp]:
  "lib_const (protocol_library root all_flags) = protocol_const"
  "lib_call (protocol_library root all_flags) = protocol_call root all_flags"
  "lib_method (protocol_library root all_flags) = protocol_method"
  by (simp_all add: protocol_library_def)

section \<open>Parameters\<close>

lemma pack_rlimits [simp]:
  "pack_element (enc_rlimit [''RLimitData''] r) = enc_rlimit [''inner'', ''RLimitData''] r"
  "pack_element (VInt i) = VInt i" "pack_element (VStr s) = VStr s"
  by (simp_all add: enc_rlimit_def)

lemma pack_map [simp]:
  "map (pack_element \<circ> enc_rlimit [''RLimitData'']) rs = map (enc_rlimit [''inner'', ''RLimitData'']) rs"
  "map (pack_element \<circ> VInt) is = map VInt is" "map (pack_element \<circ> VStr) ss = map VStr ss"
  by (simp_all add: comp_def)

lemma strip_enc [simp]:
  "strip_ref (enc_opt enc x) = enc_opt enc x" "strip_ref (enc_word w) = enc_word w"
  by (cases x) (simp_all add: enc_word_def)

lemma unwrap_or_value [simp]:
  "std_method ''unwrap_or'' (enc_opt enc x) [enc d] = Some (Ok (enc (marshal_default d x)))"
  "std_method ''unwrap_or'' (enc_opt enc_word x') [VInt 0] = Some (Ok (enc_word (marshal_default 0 x')))"
  by (cases x; cases x'; simp add: std_method_def marshal_default_def enc_word_def)+

lemma to_packed_value_simps [simp]:
  "std_method ''to_packed'' (VVec vs) as = Some (Ok (VVec (map pack_element vs)))"
  "std_method ''to_packed'' (VStr s) as = Some (Ok (VStr s))"
  "std_method ''to_packed'' (enc_opt VStr x) as = Some (Ok (VStr (to_packed_default x)))"
  by (cases x; simp add: std_method_def typed_def)+

lemma map_function_calls [simp]:
  "simple_call all_flags ''marshal_string'' [VRef (enc_opt VStr s), b] = Ok (enc_opt VStr (marshal_string s))"
  "simple_call all_flags ''marshal_capability_flags'' [VRef (enc_opt enc_word c), b]
   = Ok (enc_word (marshal_capability_flags c))"
  "simple_call all_flags ''unmarshal_string'' [VRef (enc_opt VStr s)] = Ok (enc_opt VStr (unmarshal_string s))"
  "simple_call all_flags ''unmarshal_capability_flags'' [VRef (enc_word w)]
   = Ok (enc_opt enc_word (unmarshal_capability_flags all_flags w))"
  "simple_call all_flags ''unmarshal_preloading_cmd'' [VRef (enc_opt VStr s)]
   = Ok (enc_opt VStr (unmarshal_preloading_cmd s))"
  by (simp_all add: simple_call_def map_functions_def typed_def)

lemma constructor_calls [simp]:
  "simple_call all_flags ''Some'' vs = Ok (VCon ''Some'' vs)"
  "simple_call all_flags ''Ok'' vs = Ok (VCon ''Ok'' vs)"
  "simple_call all_flags ''Err'' vs = Ok (VCon ''Err'' vs)"
  by (simp_all add: simple_call_def)

lemma returned_simps [simp]:
  "returned (Ok v) = Ok v" "returned (Err v) = Ok v" "returned (Panic p) = Panic p" "returned Diverges = Diverges"
  by (simp_all add: returned_def)

lemmas evaluation = lookup_path_def known_def protocol_call_def protocol_method_def protocol_const_def
  generated_methods_def field_value_def BUILDER_def self_field_def assignments_of_def I32_MAX_EXPR_def SELF_def BUILDER_PARAM_def

lemmas table_evaluation = table_call_def args_tables_def tables_def fb_default_def args_ident_def
  fb_create_def fb_store_field_def

lemma params_marshal:
  "call_fn (link (protocol_library root all_flags) items n ty) params_marshal_fn [VRef (enc_params p), b]
   = Ok (enc_common (marshal_common p))"
  apply (simp add: params_marshal_fn_def params_marshal_specs_def enc_params_def evaluation table_evaluation)
  apply (simp add: enc_common_def marshal_common_def)
  done

lemma dec_enc_groups [simp]:
  "dec_opt (dec_vec dec_int) (enc_opt (\<lambda>gs. VVec (map VInt gs)) x) = Some x"
  by (cases x) simp_all

lemma strip_vec [simp]: "strip_ref (VVec vs) = VVec vs" by simp

lemma vector_calls [simp]:
  "simple_call all_flags ''unmarshal_secondary_groups'' [VRef (enc_opt (\<lambda>gs. VVec (map VInt gs)) groups)]
   = enc_outcome (\<lambda>xs. VVec (map VInt xs)) (unmarshal_secondary_groups groups)"
  "simple_call all_flags ''unmarshal_rlimits'' [VRef (VVec (map (enc_rlimit p) rs))]
   = enc_outcome (\<lambda>xs. VVec (map (enc_rlimit [''RLimitData'']) xs)) (unmarshal_rlimits rs)"
  "simple_call all_flags ''unmarshal_libapp_args'' [VRef (VVec (map VStr args))]
   = enc_outcome (\<lambda>xs. VVec (map VStr xs)) (unmarshal_libapp_args args)"
  by (simp_all add: simple_call_def map_functions_def typed_def)

lemma contains_value [simp]:
  "std_method ''contains'' (VRange (VInt lo) None) [VRef (VInt v)] = Some (Ok (VBool (lo \<le> v)))"
  "std_method ''contains'' (VRange (VInt lo) (Some (VInt hi))) [VRef (VInt v)] = Some (Ok (VBool (lo \<le> v \<and> v < hi)))"
  "std_method ''contains'' (VRange (VBool lob) None) [VRef (VBool vb)] = Some (Ok (VBool (lob \<le> vb)))"
  "std_method ''contains'' (VRange (VInt 0) None) [VRef (enc_word w)] = Some (Ok (VBool True))"
  by (simp_all add: std_method_def enc_word_def)

lemma option_methods [simp]:
  "std_method ''as_union_value'' v [] = Some (Ok v)"
  "std_method ''expect'' (VCon c [u]) [VStr msg] = Some (Ok u)"
  "std_method ''expect'' (VCon c []) [VStr msg] = Some (Panic msg)"
  by (simp_all add: std_method_def)

lemma std_method_None [simp]:
  "m \<notin> {''unwrap_or'', ''expect'', ''contains'', ''to_packed'', ''as_union_value''} \<Longrightarrow> std_method m recv vs = None"
  by (simp add: std_method_def)

lemma accessor [simp]:
  "map_of fs m = Some v \<Longrightarrow> table_method m (VRec p fs) = Ok v"
  "map_of fs m = Some v \<Longrightarrow> table_method m (VRef (VRec p fs)) = Ok v"
  by (simp_all add: table_method_def)

lemma if_Ok: "(if c then Ok x else Ok y) = Ok (if c then x else y)"
  by simp

lemma enc_valid_range:
  "enc_opt enc (unmarshal_valid_range P v) = (if P v then VSome (enc v) else VNone)"
  by (simp add: unmarshal_valid_range_def)

lemma bind_outcome_assoc: "bind_outcome (bind_outcome r f) g = bind_outcome r (\<lambda>x. bind_outcome (f x) g)"
  by (cases r) simp_all

lemma enc_outcome_simps [simp]:
  "enc_outcome enc (Ok x) = Ok (enc x)" "enc_outcome enc (Panic p) = Panic p"
  by (simp_all add: enc_outcome_def)

text \<open>Collecting into a vector of fixed capacity succeeds or panics.\<close>

lemma collect_total:
  "(\<exists>xs. unmarshal_secondary_groups groups = (Ok xs :: (int list, 'e) outcome)
      \<and> unmarshal_secondary_groups groups = (Ok xs :: (int list, 'f) outcome))
   \<or> (\<exists>p. unmarshal_secondary_groups groups = (Panic p :: (int list, 'e) outcome)
      \<and> unmarshal_secondary_groups groups = (Panic p :: (int list, 'f) outcome))"
  "(\<exists>xs. unmarshal_rlimits limits = (Ok xs :: (rlimit_data list, 'e) outcome)
      \<and> unmarshal_rlimits limits = (Ok xs :: (rlimit_data list, 'f) outcome))
   \<or> (\<exists>p. unmarshal_rlimits limits = (Panic p :: (rlimit_data list, 'e) outcome)
      \<and> unmarshal_rlimits limits = (Panic p :: (rlimit_data list, 'f) outcome))"
  by (simp_all add: unmarshal_secondary_groups_def unmarshal_rlimits_def arrayvec_collect_def split: option.split)

lemma common_arg [simp]: "arg_ok (TypePath [''inner'', ''SpawnCommon'']) (enc_common t)"
  by (simp add: enc_common_def)

lemma params_from_table:
  "call_fn (link (protocol_library root all_flags) items n ''SpawnParamsCommon'') (params_from_table_fn snake) [enc_common t]
   = enc_outcome enc_params (common_from_table all_flags t)"
proof -
  let ?R = "link (protocol_library root all_flags) items n ''SpawnParamsCommon''"
  let ?env = "[(''source'', enc_common t)]"
  have fields: "eval_fields ?R ?env (map (value_template snake (PathExpr [''source''])) params_unmarshal_specs)
    = bind_outcome (enc_outcome (\<lambda>xs. VVec (map VInt xs)) (unmarshal_secondary_groups (sc_secondary_groups t))) (\<lambda>gs.
      bind_outcome (enc_outcome (\<lambda>xs. VVec (map (enc_rlimit [''RLimitData'']) xs)) (unmarshal_rlimits (sc_rlimits t))) (\<lambda>rs.
        Ok [(''selinux_flags'', enc_opt enc_word (unmarshal_valid_range (\<lambda>v. 0 \<le> v) (sc_selinux_flags t))),
          (''no_new_privs'', enc_opt VBool (unmarshal_valid_range (\<lambda>v. False \<le> v) (sc_no_new_privs t))),
          (''uid'', enc_opt VInt (unmarshal_valid_range in_positive (sc_uid t))),
          (''gid'', enc_opt VInt (unmarshal_valid_range in_positive (sc_gid t))),
          (''process_name'', enc_opt VStr (unmarshal_string (sc_process_name t))),
          (''priority_initial'', enc_opt VInt (unmarshal_valid_range in_nice (sc_priority_initial t))),
          (''priority_final'', enc_opt VInt (unmarshal_valid_range in_nice (sc_priority_final t))),
          (''cap_effective'', enc_opt enc_word (unmarshal_capability_flags all_flags (sc_cap_effective t))),
          (''cap_permitted'', enc_opt enc_word (unmarshal_capability_flags all_flags (sc_cap_permitted t))),
          (''cap_inheritable'', enc_opt enc_word (unmarshal_capability_flags all_flags (sc_cap_inheritable t))),
          (''cap_bound'', enc_opt enc_word (unmarshal_capability_flags all_flags (sc_cap_bound t))),
          (''se_info'', enc_opt VStr (unmarshal_string (sc_se_info t))),
          (''secondary_groups'', gs), (''rlimits'', rs)]))"
    by (simp add: params_unmarshal_specs_def enc_common_def evaluation Let_def if_Ok enc_valid_range bind_outcome_assoc
        in_positive_def in_nice_def)
  show ?thesis
    using collect_total(1) [of "sc_secondary_groups t", where 'e = val and 'f = val]
      collect_total(2) [of "sc_rlimits t", where 'e = val and 'f = val]
    by (auto simp: params_from_table_fn_def fields struct_path_def common_from_table_def enc_params_def
        simp del: value_template.simps arg_ok.simps)
qed

section \<open>Linking by name\<close>

text \<open>What the generated code relies on of \<^verbatim>\<open>heck\<close>: the snake case of the names it forms methods of.\<close>

definition snake_names :: "(ident \<times> ident) list" where
  "snake_names =
     [(''from_Spawn'', ''from_spawn''), (''from_SpawnSubspecies'', ''from_spawn_subspecies''),
      (''IdentityQueryResponse'', ''identity_query_response''), (''Spawn'', ''spawn''),
      (''SpawnSubspecies'', ''spawn_subspecies''), (''SpawnResponse'', ''spawn_response''),
      (''StatResponse'', ''stat_response''), (''SpawnAndroidNative'', ''spawn_android_native''),
      (''SpawnSubspeciesAndroidNative'', ''spawn_subspecies_android_native''),
      (''SpawnLibApp'', ''spawn_lib_app''), (''SpawnMock'', ''spawn_mock'')]"

definition snake_case :: "(ident \<Rightarrow> ident) \<Rightarrow> bool" where
  "snake_case snake \<longleftrightarrow> (\<forall>(x, y) \<in> set snake_names. snake x = y)"

lemma snake_caseD:
  assumes "snake_case snake"
  shows "snake ''from_Spawn'' = ''from_spawn''" "snake ''from_SpawnSubspecies'' = ''from_spawn_subspecies''"
    "snake ''IdentityQueryResponse'' = ''identity_query_response''" "snake ''Spawn'' = ''spawn''"
    "snake ''SpawnSubspecies'' = ''spawn_subspecies''" "snake ''SpawnResponse'' = ''spawn_response''"
    "snake ''StatResponse'' = ''stat_response''" "snake ''SpawnAndroidNative'' = ''spawn_android_native''"
    "snake ''SpawnSubspeciesAndroidNative'' = ''spawn_subspecies_android_native''"
    "snake ''SpawnLibApp'' = ''spawn_lib_app''" "snake ''SpawnMock'' = ''spawn_mock''"
  using assms by (simp_all add: snake_case_def snake_names_def)

lemma fn_names [simp]:
  "fn_name params_marshal_fn = ''marshal''" "fn_name (params_from_table_fn snake) = ''from_table''"
  "fn_name (enum_inner_type_fn name specs) = ''inner_type''" "fn_name (enum_marshal_fn name specs) = ''marshal''"
  "fn_name (try_from_parcel_fn snake) = ''try_from_parcel''"
  "fn_name (payload_from_fn snake source) = snake (''from_'' @ source)"
  by (simp_all add: params_marshal_fn_def params_from_table_fn_def enum_inner_type_fn_def enum_marshal_fn_def
      try_from_parcel_fn_def payload_from_fn_def from_method_ident_def)

lemma linked_fns [simp]:
  "find_fn (protocol_items snake) ''SpawnParamsCommon'' ''marshal'' = Some params_marshal_fn"
  "find_fn (protocol_items snake) ''SpawnParamsCommon'' ''from_table'' = Some (params_from_table_fn snake)"
  "find_fn (protocol_items snake) ''Message'' ''inner_type'' = Some (enum_inner_type_fn ''Message'' message_specs)"
  "find_fn (protocol_items snake) ''Message'' ''marshal'' = Some (enum_marshal_fn ''Message'' message_specs)"
  "find_fn (protocol_items snake) ''Message'' ''try_from_parcel'' = Some (try_from_parcel_fn snake)"
  "find_fn (protocol_items snake) ''SpawnPayload'' ''inner_type'' = Some (enum_inner_type_fn ''SpawnPayload'' payload_variant_specs)"
  "find_fn (protocol_items snake) ''SpawnPayload'' ''marshal'' = Some (enum_marshal_fn ''SpawnPayload'' payload_variant_specs)"
  by (simp_all add: find_fn_def protocol_items_def)

lemma linked_from_fns:
  assumes "snake_case snake"
  shows "find_fn (protocol_items snake) ''SpawnPayload'' ''from_spawn'' = Some (payload_from_fn snake ''Spawn'')"
    and "find_fn (protocol_items snake) ''SpawnPayload'' ''from_spawn_subspecies'' = Some (payload_from_fn snake ''SpawnSubspecies'')"
  by (simp_all add: find_fn_def protocol_items_def snake_caseD [OF assms])

section \<open>Enums\<close>

lemmas enum_evaluation = evaluation table_evaluation specs_defs bind_as_def deref_value_def INNER_TYPE_ARGS_def
  unit_variants_def struct_path_def type_byte_def unions_def type_field_ident_def

lemma payload_inner_type:
  "call_fn (link (protocol_library root all_flags) items n ty) (enum_inner_type_fn ''SpawnPayload'' payload_variant_specs)
     [VRef (enc_payload p)] = Ok (VTag ''SpawnPayload'' (payload_type p))"
  by (cases p) (simp_all add: enum_inner_type_fn_def payload_variant_specs_def enum_evaluation
      enc_android_native_def enc_subspecies_def enc_lib_app_def enc_mock_def)

lemma payload_marshal:
  "call_fn (link (protocol_library root all_flags) items n ty) (enum_marshal_fn ''SpawnPayload'' payload_variant_specs)
     [VRef (enc_payload p), b] = Ok (enc_payload_table (marshal_payload p))"
proof (cases p)
  case (PayloadAndroidNative d)
  then show ?thesis by (simp add: enum_marshal_fn_def payload_variant_specs_def enum_evaluation enc_android_native_def)
next
  case (PayloadAndroidNativeSubspecies d)
  then show ?thesis by (simp add: enum_marshal_fn_def payload_variant_specs_def enum_evaluation enc_subspecies_def)
qed (simp_all add: enum_marshal_fn_def payload_variant_specs_def enum_evaluation enc_lib_app_def enc_mock_def)

lemma strip_enc_types [simp]:
  "strip_ref (enc_params p) = enc_params p" "strip_ref (enc_payload q) = enc_payload q"
  "strip_ref (enc_message m) = enc_message m"
  by (cases q; cases m; simp add: enc_params_def enc_android_native_def enc_subspecies_def enc_lib_app_def enc_mock_def
      enc_identity_def enc_stat_def)+

lemma value_types [simp]:
  "value_type (VRef (enc_params p)) = Some ''SpawnParamsCommon''"
  "value_type (VRef (enc_payload q)) = Some ''SpawnPayload''"
  by (cases q; simp add: value_type_def enc_params_def enc_android_native_def enc_subspecies_def enc_lib_app_def enc_mock_def)+

lemmas nested_functions = params_marshal payload_marshal payload_inner_type

lemma message_inner_type:
  "link_call (protocol_library root all_flags) (protocol_items snake) (Suc n) ''Message'' ''inner_type'' [VRef (enc_message m)]
   = Ok (VTag ''Message'' (inner_type m))"
  by (cases m) (simp_all add: enum_inner_type_fn_def message_specs_def enum_evaluation enc_identity_def enc_stat_def)

lemma message_marshal:
  "link_call (protocol_library root all_flags) (protocol_items snake) (Suc (Suc n)) ''Message'' ''marshal'' [VRef (enc_message m), b]
   = Ok (enc_message_table (marshal_message m))"
proof (cases m)
  case (StatResponse d)
  then show ?thesis by (simp add: enum_marshal_fn_def [of "''Message''"] message_specs_def enum_evaluation enc_stat_def enc_nat_def)
qed (simp_all add: enum_marshal_fn_def [of "''Message''"] message_specs_def enum_evaluation enc_identity_def enc_spawn_table_def
      enc_spawn_subspecies_table_def nested_functions)

end
