(* ===== verification/Derived_Protocol.thy ===== *)
theory Derived_Protocol
  imports Derived_Marshal
begin

text \<open>
  The reading direction of the generated code, and the two statements about the whole of it.
\<close>

section \<open>Payloads\<close>

text \<open>What the code needs of the table that holds a payload.\<close>

definition payload_source :: "val \<Rightarrow> nat \<Rightarrow> payload_table option \<Rightarrow> bool" where
  "payload_source src tag t \<longleftrightarrow>
     table_method ''payload_type'' src = Ok (VTag ''SpawnPayload'' tag)
     \<and> table_method ''payload_as_spawn_android_native'' src
         = Ok (union_as ''SpawnAndroidNative'' (Some (enc_opt enc_payload_table t)))
     \<and> table_method ''payload_as_spawn_subspecies_android_native'' src
         = Ok (union_as ''SpawnSubspeciesAndroidNative'' (Some (enc_opt enc_payload_table t)))
     \<and> table_method ''payload_as_spawn_lib_app'' src = Ok (union_as ''SpawnLibApp'' (Some (enc_opt enc_payload_table t)))
     \<and> table_method ''payload_as_spawn_mock'' src = Ok (union_as ''SpawnMock'' (Some (enc_opt enc_payload_table t)))"

lemma payload_sources:
  "payload_source (enc_spawn_table s) (st_payload_type s) (st_payload s)"
  "payload_source (enc_spawn_subspecies_table u) (sst_payload_type u) (sst_payload u)"
  by (simp_all add: payload_source_def enc_spawn_table_def enc_spawn_subspecies_table_def table_method_def
      cast_methods_def union_fields_def unions_def)

lemma payload_source_types:
  "arg_ok (TypePath [''inner'', ''Spawn'']) (enc_spawn_table s)"
  "arg_ok (TypePath [''inner'', ''SpawnSubspecies'']) (enc_spawn_subspecies_table u)"
  by (simp_all add: enc_spawn_table_def enc_spawn_subspecies_table_def)

text \<open>The cast to a member of the union finds a table of that member only.\<close>

lemma union_as_payload:
  "union_as ''SpawnAndroidNative'' (Some (enc_opt enc_payload_table t)) =
     enc_opt (enc_android_native [''inner'', ''SpawnAndroidNative''])
       (case t of Some (SpawnAndroidNativeTable d) \<Rightarrow> Some d | _ \<Rightarrow> None)"
  "union_as ''SpawnSubspeciesAndroidNative'' (Some (enc_opt enc_payload_table t)) =
     enc_opt (enc_subspecies [''inner'', ''SpawnSubspeciesAndroidNative''])
       (case t of Some (SpawnSubspeciesAndroidNativeTable d) \<Rightarrow> Some d | _ \<Rightarrow> None)"
  "union_as ''SpawnLibApp'' (Some (enc_opt enc_payload_table t)) =
     enc_opt (\<lambda>(p, args). enc_lib_app [''inner'', ''SpawnLibApp''] p args)
       (case t of Some (SpawnLibAppTable p args) \<Rightarrow> Some (p, args) | _ \<Rightarrow> None)"
  "union_as ''SpawnMock'' (Some (enc_opt enc_payload_table t)) =
     enc_opt (enc_mock [''inner'', ''SpawnMock'']) (case t of Some (SpawnMockTable name) \<Rightarrow> Some name | _ \<Rightarrow> None)"
  by (auto simp: union_as_def enc_android_native_def enc_subspecies_def enc_lib_app_def enc_mock_def enc_opt_def
      split: option.split payload_table.split)

lemma payload_from_tags:
  "payload_from 1 t = (case (case t of Some (SpawnAndroidNativeTable d) \<Rightarrow> Some d | _ \<Rightarrow> None) of
       Some d \<Rightarrow> Ok (PayloadAndroidNative (d\<lparr>an_preloading_cmd := unmarshal_preloading_cmd (an_preloading_cmd d)\<rparr>))
     | None \<Rightarrow> Panic CAST_FAILED)"
  "payload_from 2 t = (case (case t of Some (SpawnSubspeciesAndroidNativeTable d) \<Rightarrow> Some d | _ \<Rightarrow> None) of
       Some d \<Rightarrow> Ok (PayloadAndroidNativeSubspecies d) | None \<Rightarrow> Panic CAST_FAILED)"
  "payload_from 3 t = (case (case t of Some (SpawnLibAppTable p args) \<Rightarrow> Some (p, args) | _ \<Rightarrow> None) of
       Some (p, args) \<Rightarrow> bind_outcome (unmarshal_libapp_args args) (\<lambda>args. Ok (PayloadLibApp p args))
     | None \<Rightarrow> Panic CAST_FAILED)"
  "payload_from 4 t = (case (case t of Some (SpawnMockTable name) \<Rightarrow> Some name | _ \<Rightarrow> None) of
       Some name \<Rightarrow> Ok (PayloadMock name) | None \<Rightarrow> Panic CAST_FAILED)"
  by (auto simp: payload_from_def split: option.split payload_table.split)

lemma payload_from_other:
  "\<lbrakk>tag \<noteq> 1; tag \<noteq> 2; tag \<noteq> 3; tag \<noteq> 4\<rbrakk> \<Longrightarrow> payload_from tag t = Err (UnknownVariant ''SpawnPayload'' tag)"
  by (simp add: payload_from_def)

lemma enc_result_simps [simp]:
  "enc_result enc (Ok x) = Ok (VOk (enc x))" "enc_result enc (Err e) = Ok (VErr (enc_error e))"
  "enc_result enc (Panic p) = Panic p"
  by (simp_all add: enc_result_def)

lemma collect_args_total:
  "(\<exists>xs. unmarshal_libapp_args args = (Ok xs :: (string list, 'e) outcome)
      \<and> unmarshal_libapp_args args = (Ok xs :: (string list, 'f) outcome))
   \<or> (\<exists>p. unmarshal_libapp_args args = (Panic p :: (string list, 'e) outcome)
      \<and> unmarshal_libapp_args args = (Panic p :: (string list, 'f) outcome))"
  by (simp add: unmarshal_libapp_args_def arrayvec_collect_def)

lemma cast_messages: "CAST_MESSAGE = CAST_FAILED"
  by (simp add: CAST_MESSAGE_def CAST_FAILED_def)

lemma payload_from_generated:
  assumes snake: "snake_case snake" and src: "payload_source src tag t"
    and typed: "arg_ok (TypePath [''inner'', source]) src"
  shows "call_fn (link (protocol_library root all_flags) items n ''SpawnPayload'') (payload_from_fn snake source) [src]
       = enc_result enc_payload (payload_from tag t)"
proof -
  note eval_payload = payload_from_fn_def payload_variant_specs_def ends_with_block_def unknown_variant_arm_def
    enum_evaluation cast_method_ident_def snake_caseD [OF snake] src [unfolded payload_source_def] typed [simplified] union_as_payload
    cast_messages Let_def
  consider "tag = 1" | "tag = 2" | "tag = 3" | "tag = 4" | (other) "tag \<noteq> 1" "tag \<noteq> 2" "tag \<noteq> 3" "tag \<noteq> 4" by blast
  then show ?thesis
  proof cases
    case 1
    show ?thesis
      by (cases "case t of Some (SpawnAndroidNativeTable d) \<Rightarrow> Some d | _ \<Rightarrow> None")
        (simp_all add: 1 eval_payload payload_from_tags(1) [unfolded One_nat_def] enc_android_native_def)
  next
    case 2
    show ?thesis
      by (cases "case t of Some (SpawnSubspeciesAndroidNativeTable d) \<Rightarrow> Some d | _ \<Rightarrow> None")
        (simp_all add: 2 eval_payload payload_from_tags enc_subspecies_def)
  next
    case 3
    show ?thesis
    proof (cases "case t of Some (SpawnLibAppTable p args) \<Rightarrow> Some (p, args) | _ \<Rightarrow> None")
      case (Some pa)
      obtain p args where pa: "pa = (p, args)" by (cases pa)
      show ?thesis
        using collect_args_total [of args, where 'e = val and 'f = message_error]
        by (auto simp: 3 eval_payload payload_from_tags Some pa enc_lib_app_def)
    qed (simp_all add: 3 eval_payload payload_from_tags)
  next
    case 4
    show ?thesis
      by (cases "case t of Some (SpawnMockTable name) \<Rightarrow> Some name | _ \<Rightarrow> None")
        (simp_all add: 4 eval_payload payload_from_tags enc_mock_def)
  next
    case other
    then show ?thesis by (simp add: eval_payload payload_from_other)
  qed
qed

section \<open>Messages\<close>

lemma parcel_methods:
  "table_method ''message_type'' (enc_parcel p) = Ok (VTag ''Message'' (message_type p))"
  "table_method ''message_as_identity_query_response'' (enc_parcel p)
   = Ok (union_as ''IdentityQueryResponse'' (Some (enc_opt enc_message_table (message p))))"
  "table_method ''message_as_spawn'' (enc_parcel p) = Ok (union_as ''Spawn'' (Some (enc_opt enc_message_table (message p))))"
  "table_method ''message_as_spawn_subspecies'' (enc_parcel p)
   = Ok (union_as ''SpawnSubspecies'' (Some (enc_opt enc_message_table (message p))))"
  "table_method ''message_as_spawn_response'' (enc_parcel p)
   = Ok (union_as ''SpawnResponse'' (Some (enc_opt enc_message_table (message p))))"
  "table_method ''message_as_stat_response'' (enc_parcel p)
   = Ok (union_as ''StatResponse'' (Some (enc_opt enc_message_table (message p))))"
  by (simp_all add: enc_parcel_def table_method_def cast_methods_def union_fields_def unions_def)

lemmas enc_tables = enc_identity_def enc_spawn_table_def enc_spawn_subspecies_table_def enc_stat_def

lemma union_as_message:
  "union_as ''IdentityQueryResponse'' (Some (enc_opt enc_message_table t)) =
     enc_opt (\<lambda>(name, species, arch). enc_identity [''inner'', ''IdentityQueryResponse''] name species arch)
       (case t of Some (IdentityQueryResponseTable name species arch) \<Rightarrow> Some (name, species, arch) | _ \<Rightarrow> None)"
  "union_as ''Spawn'' (Some (enc_opt enc_message_table t)) =
     enc_opt enc_spawn_table (case t of Some (SpawnTable s) \<Rightarrow> Some s | _ \<Rightarrow> None)"
  "union_as ''SpawnSubspecies'' (Some (enc_opt enc_message_table t)) =
     enc_opt enc_spawn_subspecies_table (case t of Some (SpawnSubspeciesTable s) \<Rightarrow> Some s | _ \<Rightarrow> None)"
  "union_as ''SpawnResponse'' (Some (enc_opt enc_message_table t)) =
     enc_opt (\<lambda>pid. VRec [''inner'', ''SpawnResponse''] [(''pid'', VInt pid)])
       (case t of Some (SpawnResponseTable pid) \<Rightarrow> Some pid | _ \<Rightarrow> None)"
  "union_as ''StatResponse'' (Some (enc_opt enc_message_table t)) =
     enc_opt (enc_stat [''inner'', ''StatResponse'']) (case t of Some (StatResponseTable d) \<Rightarrow> Some d | _ \<Rightarrow> None)"
  by (auto simp: union_as_def enc_tables enc_opt_def split: option.split message_table.split)

lemma common_total:
  "(\<exists>p. common_from_table all_flags c = (Ok p :: (spawn_params, val) outcome)
      \<and> common_from_table all_flags c = (Ok p :: (spawn_params, message_error) outcome))
   \<or> (\<exists>msg. common_from_table all_flags c = (Panic msg :: (spawn_params, val) outcome)
      \<and> common_from_table all_flags c = (Panic msg :: (spawn_params, message_error) outcome))"
  using collect_total(1) [of "sc_secondary_groups c", where 'e = val and 'f = message_error]
    collect_total(2) [of "sc_rlimits c", where 'e = val and 'f = message_error]
  by (auto simp: common_from_table_def)

lemma payload_total: "payload_from tag t \<noteq> Diverges"
  by (auto simp: payload_from_def unmarshal_libapp_args_def arrayvec_collect_def split: option.split payload_table.split)

lemma try_value_simps [simp]: "try_value (VOk v) = Ok v" "try_value (VErr v) = Err (VErr v)"
  by (simp_all add: try_value_def)

lemma accessor_common [simp]:
  "table_method ''common'' (enc_spawn_table s) = Ok (enc_opt enc_common (st_common s))"
  "table_method ''common'' (enc_spawn_subspecies_table u) = Ok (enc_opt enc_common (sst_common u))"
  "table_method ''socket_path'' (enc_spawn_subspecies_table u) = Ok (VStr (sst_socket_path u))"
  by (simp_all add: enc_tables)

lemma message_from_tags:
  assumes "message_type p = tag"
  shows "tag = 4 \<Longrightarrow> message_from_parcel all_flags p =
      (case (case message p of Some (IdentityQueryResponseTable name species arch) \<Rightarrow> Some (name, species, arch) | _ \<Rightarrow> None) of
         Some (name, species, arch) \<Rightarrow> Ok (IdentityQueryResponse name species arch) | None \<Rightarrow> Panic CAST_FAILED)"
    and "tag = 5 \<Longrightarrow> message_from_parcel all_flags p =
      (case (case message p of Some (SpawnTable s) \<Rightarrow> Some s | _ \<Rightarrow> None) of
         Some s \<Rightarrow> spawn_from all_flags s | None \<Rightarrow> Panic CAST_FAILED)"
    and "tag = 6 \<Longrightarrow> message_from_parcel all_flags p =
      (case (case message p of Some (SpawnSubspeciesTable s) \<Rightarrow> Some s | _ \<Rightarrow> None) of
         Some s \<Rightarrow> spawn_subspecies_from all_flags s | None \<Rightarrow> Panic CAST_FAILED)"
    and "tag = 7 \<Longrightarrow> message_from_parcel all_flags p =
      (case (case message p of Some (SpawnResponseTable pid) \<Rightarrow> Some pid | _ \<Rightarrow> None) of
         Some pid \<Rightarrow> Ok (SpawnResponse pid) | None \<Rightarrow> Panic CAST_FAILED)"
    and "tag = 9 \<Longrightarrow> message_from_parcel all_flags p =
      (case (case message p of Some (StatResponseTable d) \<Rightarrow> Some d | _ \<Rightarrow> None) of
         Some d \<Rightarrow> Ok (StatResponse d) | None \<Rightarrow> Panic CAST_FAILED)"
  using assms by (auto simp: message_from_parcel_def Let_def split: option.split message_table.split)

text \<open>The two fields of a spawn request that are unmarshalled by other generated functions.\<close>

definition spawn_parts ::
  "64 word \<Rightarrow> spawn_common_table option \<Rightarrow> nat \<Rightarrow> payload_table option \<Rightarrow> (spawn_params \<times> spawn_payload, message_error) outcome"
where
  "spawn_parts all_flags common tag payload =
     bind_outcome (expect_table common) (\<lambda>c.
     bind_outcome (common_from_table all_flags c) (\<lambda>params.
     bind_outcome (payload_from tag payload) (\<lambda>q. Ok (params, q))))"

lemma spawn_from_parts:
  "spawn_from all_flags s = bind_outcome (spawn_parts all_flags (st_common s) (st_payload_type s) (st_payload s))
     (\<lambda>(params, payload). Ok (Spawn params payload))"
  "spawn_subspecies_from all_flags u = bind_outcome (spawn_parts all_flags (sst_common u) (sst_payload_type u) (sst_payload u))
     (\<lambda>(params, payload). Ok (SpawnSubspecies params (sst_socket_path u) payload))"
  by (simp_all add: spawn_from_def spawn_subspecies_from_def spawn_parts_def bind_outcome_assoc)

text \<open>The same parts as the generated code computes them, through values.\<close>

definition spawn_parts_values :: "64 word \<Rightarrow> spawn_common_table option \<Rightarrow> nat \<Rightarrow> payload_table option \<Rightarrow> (val \<times> val, val) outcome" where
  "spawn_parts_values all_flags common tag payload =
     bind_outcome (case common of Some c \<Rightarrow> Ok c | None \<Rightarrow> Panic ''Missing table in flatbuffer'') (\<lambda>c.
     bind_outcome (enc_outcome enc_params (common_from_table all_flags c)) (\<lambda>params.
     bind_outcome (bind_outcome (enc_result enc_payload (payload_from tag payload)) try_value) (\<lambda>q. Ok (params, q))))"

lemma spawn_parts_agree:
  "returned (bind_outcome (spawn_parts_values all_flags common tag payload) (\<lambda>(params, q). Ok (VOk (f params q))))
   = enc_result (\<lambda>(params, q). f (enc_params params) (enc_payload q)) (spawn_parts all_flags common tag payload)"
proof (cases common)
  case (Some c)
  show ?thesis
    using common_total [of all_flags c] payload_total [of tag payload]
    by (cases "payload_from tag payload") (auto simp: spawn_parts_values_def spawn_parts_def Some expect_table_def)
qed (simp add: spawn_parts_values_def spawn_parts_def expect_table_def)

lemma enc_result_pair:
  "enc_result enc (bind_outcome r (\<lambda>(x, y). Ok (g x y))) = enc_result (\<lambda>(x, y). enc (g x y)) r"
  by (cases r) (auto simp: enc_result_def)

lemma spawn_parts_messages:
  "enc_result enc_message (spawn_from all_flags s) =
     returned (bind_outcome (spawn_parts_values all_flags (st_common s) (st_payload_type s) (st_payload s))
       (\<lambda>(params, q). Ok (VOk (VRec [''Message'', ''Spawn''] [(''common'', params), (''payload'', q)]))))"
  "enc_result enc_message (spawn_subspecies_from all_flags u) =
     returned (bind_outcome (spawn_parts_values all_flags (sst_common u) (sst_payload_type u) (sst_payload u))
       (\<lambda>(params, q). Ok (VOk (VRec [''Message'', ''SpawnSubspecies'']
          [(''common'', params), (''socket_path'', VStr (sst_socket_path u)), (''payload'', q)]))))"
  by (simp_all add: spawn_from_parts spawn_parts_agree enc_result_pair)

lemma expect_common [simp]:
  "std_method ''expect'' (enc_opt enc_common common) [VStr ''Missing table in flatbuffer''] =
     Some (bind_outcome (case common of Some c \<Rightarrow> Ok c | None \<Rightarrow> Panic ''Missing table in flatbuffer'') (\<lambda>c. Ok (enc_common c)))"
  by (cases common) simp_all

lemma message_from_generated:
  assumes snake: "snake_case snake"
  shows "link_call (protocol_library root all_flags) (protocol_items snake) (Suc (Suc n)) ''Message'' ''try_from_parcel'' [VStr buffer]
       = enc_result enc_message (try_from_parcel root all_flags buffer)"
proof (cases "root buffer")
  case None
  then show ?thesis
    by (simp add: try_from_parcel_fn_def enum_evaluation root_call_def try_from_parcel_def)
next
  case (Some p)
  note eval_message = try_from_parcel_fn_def message_specs_def ends_with_block_def unknown_variant_arm_def
    enum_evaluation cast_method_ident_def snake_caseD [OF snake] parcel_methods union_as_message cast_messages Let_def
    root_call_def try_from_parcel_def Some
  note calls = params_from_table payload_from_generated [OF snake payload_sources(1) payload_source_types(1)]
    payload_from_generated [OF snake payload_sources(2) payload_source_types(2)] linked_from_fns [OF snake] extract_inner_type_name_def
    from_method_ident_def unwrap_or_ident_def bind_outcome_assoc spawn_parts_messages spawn_parts_values_def
  let ?tag = "message_type p"
  note from_tags = message_from_tags [OF refl, of p]
  consider (unit) "?tag \<in> {1, 2, 3, 8}" | (identity) "?tag = 4" | (spawn) "?tag = 5" | (subspecies) "?tag = 6"
    | (response) "?tag = 7" | (stat) "?tag = 9" | (other) "?tag \<notin> {1, 2, 3, 4, 5, 6, 7, 8, 9}" by blast
  then show ?thesis
  proof cases
    case unit
    then show ?thesis by (auto simp: eval_message message_from_parcel_def Let_def)
  next
    case identity
    show ?thesis
      by (cases "case message p of Some (IdentityQueryResponseTable name species arch) \<Rightarrow> Some (name, species, arch) | _ \<Rightarrow> None")
        (auto simp: identity eval_message from_tags(1) enc_identity_def)
  next
    case spawn
    show ?thesis
      by (cases "case message p of Some (SpawnTable s) \<Rightarrow> Some s | _ \<Rightarrow> None")
        (simp_all add: spawn eval_message from_tags(2) calls)
  next
    case subspecies
    show ?thesis
      by (cases "case message p of Some (SpawnSubspeciesTable s) \<Rightarrow> Some s | _ \<Rightarrow> None")
        (simp_all add: subspecies eval_message from_tags(3) calls)
  next
    case response
    show ?thesis
      by (cases "case message p of Some (SpawnResponseTable pid) \<Rightarrow> Some pid | _ \<Rightarrow> None")
        (simp_all add: response eval_message from_tags(4))
  next
    case stat
    show ?thesis
      by (cases "case message p of Some (StatResponseTable d) \<Rightarrow> Some d | _ \<Rightarrow> None")
        (simp_all add: stat eval_message from_tags(5) enc_stat_def)
  next
    case other
    then show ?thesis by (simp add: eval_message message_from_parcel_def Let_def)
  qed
qed

end
