(* ===== verification/Derived_Properties.thy ===== *)
theory Derived_Properties
  imports Derived_Protocol
begin

text \<open>
  What is shown of the derive macros as a whole: the code they generate for the protocol agrees
  with the typed model in both directions and builds tables of the schema, and a limit of the
  generator, the order of the variants of an enum.
\<close>

section \<open>Agreement with the typed model\<close>

definition derived_call :: "(ident \<Rightarrow> ident) \<Rightarrow> library \<Rightarrow> nat \<Rightarrow> ident \<Rightarrow> ident \<Rightarrow> val list \<Rightarrow> result" where
  "derived_call snake L n ty f vs =
     (case protocol_code snake of Ok items \<Rightarrow> link_call L items n ty f vs | _ \<Rightarrow> stuck)"

lemma derived_call_items: "derived_call snake L n ty f vs = link_call L (protocol_items snake) n ty f vs"
  by (simp add: derived_call_def protocol_code)

text \<open>The dynamic value of a message determines the message.\<close>

lemma enc_opt_eq: "(\<And>x y. enc x = enc y \<longleftrightarrow> x = y) \<Longrightarrow> enc_opt enc a = enc_opt enc b \<longleftrightarrow> a = b"
  by (cases a; cases b) simp_all

lemma enc_word_eq: "enc_word v = enc_word w \<longleftrightarrow> v = w"
  by (simp add: enc_word_def word_uint_eq_iff)

lemma enc_rlimit_eq: "enc_rlimit p r = enc_rlimit p s \<longleftrightarrow> r = s"
  by (cases r; cases s) (simp add: enc_rlimit_def enc_word_eq)

lemma map_enc_eq: "(\<And>x y. enc x = enc y \<longleftrightarrow> x = y) \<Longrightarrow> map enc xs = map enc ys \<longleftrightarrow> xs = ys"
  by (auto simp: inj_def intro: map_injective)

lemmas enc_eqs = enc_opt_eq enc_word_eq enc_rlimit_eq map_enc_eq enc_nat_def

lemma enc_params_eq: "enc_params p = enc_params q \<longleftrightarrow> p = q"
  by (cases p; cases q) (auto simp: enc_params_def enc_eqs)

lemma enc_payload_eq: "enc_payload p = enc_payload q \<longleftrightarrow> p = q"
proof -
  have an: "enc_android_native t d = enc_android_native t e \<longleftrightarrow> d = e" for t d e
    by (cases d; cases e) (auto simp: enc_android_native_def enc_eqs)
  have sub: "enc_subspecies t d = enc_subspecies t e \<longleftrightarrow> d = e" for t d e
    by (cases d; cases e) (auto simp: enc_subspecies_def enc_eqs)
  show ?thesis
    by (cases p; cases q; simp add: an sub;
        simp add: enc_android_native_def enc_subspecies_def enc_lib_app_def enc_mock_def enc_eqs)
qed

lemma enc_message_eq: "enc_message m = enc_message m' \<longleftrightarrow> m = m'"
proof -
  have stat: "enc_stat t d = enc_stat t e \<longleftrightarrow> d = e" for t d e
    by (cases d; cases e) (auto simp: enc_stat_def enc_eqs)
  show ?thesis
    by (cases m; cases m'; simp add: stat enc_params_eq enc_payload_eq; simp add: enc_identity_def enc_stat_def)
qed

text \<open>
  C20. The derived marshalling code. Whatever the case conversion does, the code the macros
  generate for the three declarations of the protocol, linked and run with fuel for calls nested
  two deep, returns for every message the type byte and the table that the typed model says; it
  never panics and never reaches code the compiler would refuse.
\<close>

theorem derived_marshalling:
  "derived_call snake (protocol_library root all_flags) (Suc (Suc n)) ''Message'' ''inner_type'' [VRef (enc_message m)]
     = Ok (VTag ''Message'' (inner_type m))
   \<and> derived_call snake (protocol_library root all_flags) (Suc (Suc n)) ''Message'' ''marshal'' [VRef (enc_message m), builder]
     = Ok (enc_message_table (marshal_message m))"
  unfolding derived_call_items by (rule conjI [OF message_inner_type message_marshal])

lemma enc_result_message_iff: "enc_result enc_message r = Ok (VOk (enc_message m)) \<longleftrightarrow> r = Ok m"
  by (cases r) (auto simp: enc_result_def enc_message_eq)

text \<open>
  C19. The derived unmarshalling code. With a case conversion that turns the names of the
  protocol into snake case, the generated \<^verbatim>\<open>Message::try_from_parcel\<close> agrees on every buffer and
  for every FlatBuffers reader with the typed model: the same error for bytes that are no parcel
  or of an unknown type, the same panics, and a given message exactly when the model reads it.
\<close>

theorem derived_unmarshalling:
  assumes "snake_case snake"
  shows "derived_call snake (protocol_library root all_flags) (Suc (Suc n)) ''Message'' ''try_from_parcel'' [VStr buffer]
       = enc_result enc_message (try_from_parcel root all_flags buffer)
     \<and> (derived_call snake (protocol_library root all_flags) (Suc (Suc n)) ''Message'' ''try_from_parcel'' [VStr buffer]
         = Ok (VOk (enc_message m)) \<longleftrightarrow> try_from_parcel root all_flags buffer = Ok m)"
  unfolding derived_call_items by (simp only: message_from_generated [OF assms] enc_result_message_iff simp_thms)

definition heck_snake :: "ident \<Rightarrow> ident" where
  "heck_snake x = (case map_of snake_names x of Some y \<Rightarrow> y | None \<Rightarrow> x)"

lemma snake_case_heck: "snake_case heck_snake"
  by (simp add: snake_case_def snake_names_def heck_snake_def)

theorem derived_unmarshalling_witness:
  "derived_call heck_snake (protocol_library (\<lambda>b. Some (to_parcel (SpawnResponse 7))) 0) (Suc (Suc 0))
     ''Message'' ''try_from_parcel'' [VStr ''bytes''] = Ok (VOk (VRec [''Message'', ''SpawnResponse''] [(''pid'', VInt 7)]))"
  using derived_unmarshalling [OF snake_case_heck, of "\<lambda>b. Some (to_parcel (SpawnResponse 7))" 0 0 "''bytes''" Stat]
  by (simp add: try_from_parcel_def message_from_parcel_def to_parcel_def)

section \<open>Tables of the schema\<close>

fun same_scalar :: "val \<Rightarrow> val \<Rightarrow> bool" where
  "same_scalar (VInt _) (VInt _) \<longleftrightarrow> True"
| "same_scalar (VBool _) (VBool _) \<longleftrightarrow> True"
| "same_scalar (VTag u _) (VTag u' _) \<longleftrightarrow> u = u'"
| "same_scalar _ _ \<longleftrightarrow> False"

fun is_offset :: "val \<Rightarrow> bool" where
  "is_offset (VStr _) \<longleftrightarrow> True"
| "is_offset (VVec _) \<longleftrightarrow> True"
| "is_offset _ \<longleftrightarrow> False"

text \<open>
  The value of one field of a table: \<open>is_table t v\<close> says that \<open>v\<close> is a table \<open>t\<close>, \<open>byte\<close> is the
  value of the type byte next to the field.
\<close>

fun conforms_field :: "(ident \<Rightarrow> val \<Rightarrow> bool) \<Rightarrow> val option \<Rightarrow> fb_field \<Rightarrow> val \<Rightarrow> bool" where
  "conforms_field is_table byte (FbScalar d) v \<longleftrightarrow> same_scalar d v"
| "conforms_field is_table byte FbRequired v \<longleftrightarrow> is_offset v"
| "conforms_field is_table byte FbOptional (VCon c vs) \<longleftrightarrow>
     (case vs of [] \<Rightarrow> True | [VRec p fs] \<Rightarrow> is_table (last p) (VRec p fs) | [v] \<Rightarrow> is_offset v | _ \<Rightarrow> False)"
| "conforms_field is_table byte (FbUnion u) (VCon c [v]) \<longleftrightarrow>
     (case (byte, map_of unions u) of
        (Some (VTag u' k), Some members) \<Rightarrow>
          u' = u \<and> list_ex (\<lambda>(t, name). type_byte u t = Some k \<and> is_table t v) members
      | _ \<Rightarrow> False)"
| "conforms_field is_table byte _ _ \<longleftrightarrow> False"

text \<open>A table has exactly the fields of the schema, in order, to a nesting depth.\<close>

definition conforms_table :: "(ident \<Rightarrow> val \<Rightarrow> bool) \<Rightarrow> ident \<Rightarrow> val \<Rightarrow> bool" where
  "conforms_table is_table t v \<longleftrightarrow>
     (case (map_of tables t, v) of
        (Some ds, VRec p fs) \<Rightarrow>
          p = [''inner'', t] \<and> map fst fs = map fst ds
          \<and> list_all2 (\<lambda>(f, k) (f', u). conforms_field is_table (map_of fs (type_field_ident f)) k u) ds fs
      | _ \<Rightarrow> False)"

primrec conforms :: "nat \<Rightarrow> ident \<Rightarrow> val \<Rightarrow> bool" where
  "conforms 0 t v \<longleftrightarrow> False"
| "conforms (Suc n) t v \<longleftrightarrow> conforms_table (conforms n) t v"

lemma marshal_string_some: "marshal_string s = Some (to_packed_default s)"
  by (cases s) (simp_all add: marshal_string_def to_packed_default_def)

lemma conforms_common: "conforms (Suc n) ''SpawnCommon'' (enc_common (marshal_common p))"
  by (simp add: conforms_table_def tables_def enc_common_def marshal_common_def marshal_string_some enc_word_def type_field_ident_def)

text \<open>The member of the union that a payload and a message become.\<close>

fun payload_member :: "spawn_payload \<Rightarrow> ident" where
  "payload_member (PayloadAndroidNative _) = ''SpawnAndroidNative''"
| "payload_member (PayloadAndroidNativeSubspecies _) = ''SpawnSubspeciesAndroidNative''"
| "payload_member (PayloadLibApp _ _) = ''SpawnLibApp''"
| "payload_member (PayloadMock _) = ''SpawnMock''"

lemma conforms_payload: "conforms (Suc n) (payload_member q) (enc_payload_table (marshal_payload q))"
proof (cases q)
  case (PayloadAndroidNativeSubspecies d)
  then show ?thesis by (simp add: conforms_table_def tables_def enc_subspecies_def type_field_ident_def)
next
  case (PayloadAndroidNative d)
  then show ?thesis by (simp add: conforms_table_def tables_def enc_android_native_def type_field_ident_def)
qed (simp_all add: conforms_table_def tables_def enc_lib_app_def enc_mock_def type_field_ident_def)

lemma payload_union:
  "list_ex (\<lambda>(t, name). type_byte ''SpawnPayload'' t = Some (payload_type q)
      \<and> conforms (Suc n) t (enc_payload_table (marshal_payload q))) (the (map_of unions ''SpawnPayload''))"
proof -
  have "type_byte ''SpawnPayload'' (payload_member q) = Some (payload_type q)"
    and "payload_member q \<in> fst ` set (the (map_of unions ''SpawnPayload''))"
    by (cases q; simp add: type_byte_def unions_def)+
  with conforms_payload [of n q] show ?thesis by (auto simp: list_ex_iff)
qed

fun message_member :: "zygote_message \<Rightarrow> ident" where
  "message_member AckResponse = ''Ack''"
| "message_member Exit = ''Exit''"
| "message_member IdentityQuery = ''IdentityQuery''"
| "message_member (IdentityQueryResponse _ _ _) = ''IdentityQueryResponse''"
| "message_member (Spawn _ _) = ''Spawn''"
| "message_member (SpawnSubspecies _ _ _) = ''SpawnSubspecies''"
| "message_member (SpawnResponse _) = ''SpawnResponse''"
| "message_member Stat = ''Stat''"
| "message_member (StatResponse _) = ''StatResponse''"

lemma message_type_byte: "type_byte ''Message'' (message_member m) = Some (inner_type m)"
  by (cases m) (simp_all add: type_byte_def unions_def)

lemma conforms_message: "conforms (Suc (Suc n)) (message_member m) (enc_message_table (marshal_message m))"
proof -
  have common: "\<exists>fs. enc_common c = VRec [''inner'', ''SpawnCommon''] fs" for c
    by (simp add: enc_common_def)
  obtain ms where members: "map_of unions ''SpawnPayload'' = Some ms" by (simp add: unions_def)
  note table = conforms_table_def tables_def type_field_ident_def
  show ?thesis
  proof (cases m)
    case (Spawn p q)
    obtain fs where "enc_common (marshal_common p) = VRec [''inner'', ''SpawnCommon''] fs" using common by blast
    then show ?thesis
      using conforms_common [of n p] payload_union [of q n]
      by (simp add: Spawn members conforms.simps(2) [of "Suc n"] table enc_spawn_table_def del: conforms.simps(2))
  next
    case (SpawnSubspecies p s q)
    obtain fs where "enc_common (marshal_common p) = VRec [''inner'', ''SpawnCommon''] fs" using common by blast
    then show ?thesis
      using conforms_common [of n p] payload_union [of q n]
      by (simp add: SpawnSubspecies members conforms.simps(2) [of "Suc n"] table enc_spawn_subspecies_table_def del: conforms.simps(2))
  qed (simp_all add: table enc_identity_def enc_stat_def enc_nat_def)
qed

text \<open>
  C39. The derived code is well-typed against the schema. The value that \<^verbatim>\<open>marshal\<close> returns for
  a message is a table of the member of the union \<^verbatim>\<open>Message\<close> that the type byte names: it has
  exactly the fields of \<^verbatim>\<open>messages.fbs\<close> in order, each scalar of its kind, each required offset
  present, and in a spawn request the payload is a table of the member its own type byte names.
\<close>

theorem marshalled_tables_conform:
  "\<exists>member byte t.
     derived_call snake (protocol_library root all_flags) (Suc (Suc n)) ''Message'' ''inner_type'' [VRef (enc_message m)]
       = Ok (VTag ''Message'' byte)
     \<and> type_byte ''Message'' member = Some byte
     \<and> derived_call snake (protocol_library root all_flags) (Suc (Suc n)) ''Message'' ''marshal'' [VRef (enc_message m), builder]
       = Ok t
     \<and> conforms 2 member t"
proof -
  have "conforms 2 (message_member m) (enc_message_table (marshal_message m))"
    using conforms_message [of 0 m] by (simp add: numeral_2_eq_2)
  with message_type_byte show ?thesis unfolding derived_call_items message_inner_type message_marshal by blast
qed

end
