(* ===== verification/Macro_Limits.thy ===== *)
theory Macro_Limits
  imports Macro_Eval Derived_Code
begin

text \<open>
  What the generators cannot be used for: an enum whose last variant has no fields, a struct
  with a field that has no attribute, and a misspelt \<^verbatim>\<open>#[unmarshal_from(..)]\<close>.
\<close>

section \<open>The last variant of an enum\<close>

lemma map_macro_last: "map_macro f xs = Ok ys \<Longrightarrow> xs \<noteq> [] \<Longrightarrow> ys \<noteq> [] \<and> f (last xs) = Ok (last ys)"
  by (induction xs arbitrary: ys) (auto simp: bind_outcome_eq_Ok_iff)

lemma unmarshal_arm_block:
  "gen_unmarshal_arm snake v name source union_field = Ok arm \<Longrightarrow> fst (snd arm) = [] \<longleftrightarrow> variant_fields v = UnitFields"
  by (cases "variant_fields v") (auto simp: gen_unmarshal_arm_def bind_outcome_eq_Ok_iff Let_def)

text \<open>
  C40. The arms of the generated match are separated by commas, but none is written between the
  last of them and the arm for unknown variants. So the code generated for an enum is a Rust
  match exactly when the last variant has fields, whose arm is a block; when it has none, the
  match is refused whatever it is applied to.
\<close>

theorem last_variant_needs_fields:
  assumes code: "gen_from_parcel snake ast = Ok code" and enum: "di_data ast = DataEnum vs" and vs: "vs \<noteq> []"
  shows "\<exists>ss e arms last_arm.
      code = [Impl (Some ''FromParcel'') (di_ident ast) []
        [Fn ''try_from_parcel'' [(''buffer'', TypeRef TypeOther)] ss (MatchThen e arms last_arm)]]
    \<and> length arms = length vs
    \<and> (ends_with_block arms \<longleftrightarrow> variant_fields (last vs) \<noteq> UnitFields)
    \<and> (variant_fields (last vs) = UnitFields \<longrightarrow> (\<forall>R env. eval_tail R env (MatchThen e arms last_arm) = stuck))"
proof -
  from code enum obtain err arms where
    arms: "map_macro (\<lambda>v. gen_unmarshal_arm snake v (di_ident ast) (PathExpr [''parcel'']) ''message'') vs = Ok arms"
    and "code = [Impl (Some ''FromParcel'') (di_ident ast) []
        [Fn ''try_from_parcel'' [(''buffer'', TypeRef TypeOther)]
           [Let ''parcel'' (Try (Call [''flatbuffers'', ''root''] [PathExpr [''buffer'']]))]
           (MatchThen (MethodCall (PathExpr [''parcel'']) ''message_type'' []) arms (unknown_variant_arm (di_ident ast) err))]]"
    by (auto simp: gen_from_parcel_def bind_outcome_eq_Ok_iff)
  moreover have "ends_with_block arms \<longleftrightarrow> variant_fields (last vs) \<noteq> UnitFields"
    using map_macro_last [OF arms vs]
      unmarshal_arm_block [of snake "last vs" "di_ident ast" "PathExpr [''parcel'']" "''message''" "last arms"]
    by (simp add: ends_with_block_def)
  ultimately show ?thesis using map_macro_length [OF arms] by auto
qed

definition short_message_decl :: derive_input where
  "short_message_decl = message_decl\<lparr>di_data := DataEnum (butlast message_variants)\<rparr>"

theorem last_variant_needs_fields_witness:
  "variant_fields (last (butlast message_variants)) = UnitFields
   \<and> (\<exists>ss e arms last_arm.
        gen_from_parcel (\<lambda>x. x) short_message_decl
          = Ok [Impl (Some ''FromParcel'') ''Message'' [] [Fn ''try_from_parcel'' [(''buffer'', TypeRef TypeOther)] ss (MatchThen e arms last_arm)]]
        \<and> \<not> ends_with_block arms)"
proof -
  have unit: "variant_fields (last (butlast message_variants)) = UnitFields" "butlast message_variants \<noteq> []"
    by (simp_all add: message_variants_def unit_variant_def)
  have "map_macro variant_spec (butlast message_variants) = Ok (butlast message_specs)"
    by (simp add: message_variants_def message_specs_def variant_spec_def specs_defs attr_reading extract_inner_type_name_def)
  then obtain code where code: "gen_from_parcel (\<lambda>x. x) short_message_decl = Ok code"
    by (auto simp: gen_from_parcel_def short_message_decl_def message_decl_def error_type_or_default_def variants_arms
        get_error_type_ident_def get_attribute_ident_def unwrap_or_ident_def)
  have "di_data short_message_decl = DataEnum (butlast message_variants)" "di_ident short_message_decl = ''Message''"
    by (simp_all add: short_message_decl_def message_decl_def)
  from last_variant_needs_fields [OF code this(1) unit(2)] this(2) unit(1) code show ?thesis by auto
qed

section \<open>Fields without an attribute\<close>

text \<open>
  The template of a field without an attribute dereferences it. In an arm the field is bound by
  reference; in a struct it is \<^verbatim>\<open>self.field\<close>, and only a field that is itself a reference can be
  dereferenced.
\<close>

lemma plain_struct_field:
  assumes "map_of env ''self'' = Some (VRef (VRec p fs))" and "map_of fs name = Some v" and "\<forall>u. v \<noteq> VRef u"
  shows "exec_stmts R (assignment_template None (PathExpr [x]) name (self_field name) BUILDER) env = stuck"
  using assms by (cases v) (simp_all add: self_field_def lookup_path_def field_value_def known_def deref_value_def)

text \<open>The example of the documentation of \<^verbatim>\<open>gen_flatten_marshal_parcel\<close>.\<close>

definition outer_decl :: derive_input where
  "outer_decl = \<lparr>di_ident = ''Outer'', di_attrs = [MetaNameValue [''flatten_into_type''] (StrLit ''Inner'')],
     di_data = DataStruct (NamedFields [plain_field ''field1'' ''i32'', plain_field ''field2'' ''i32''])\<rparr>"

lemma outer_flatten:
  "gen_flatten_marshal_parcel outer_decl = Ok [Impl None ''Outer'' []
     [Fn ''flatten'' [SELF, (''args'', TypeRef (TypePath [''inner'', ''InnerArgs''])), BUILDER_PARAM]
        [Assign (FieldOf (PathExpr [''args'']) ''field1'') (Deref (self_field ''field1'')),
         Assign (FieldOf (PathExpr [''args'']) ''field2'') (Deref (self_field ''field2''))] (Value UnitLit)]]"
  by (simp add: gen_flatten_marshal_parcel_def outer_decl_def gen_assignments_def gen_field_assignment_def
      get_flatten_into_ident_def args_ident_def attr_reading)

lemma outer_flatten_refused:
  "call_fn R (Fn ''flatten'' [SELF, (''args'', TypeRef (TypePath [''inner'', ''InnerArgs''])), BUILDER_PARAM]
        [Assign (FieldOf (PathExpr [''args'']) ''field1'') (Deref (self_field ''field1'')),
         Assign (FieldOf (PathExpr [''args'']) ''field2'') (Deref (self_field ''field2''))] (Value UnitLit))
     [VRef (VRec [''Outer''] [(''field1'', VInt i), (''field2'', VInt j)]), args, builder] = stuck"
  by (simp add: returned_def SELF_def BUILDER_PARAM_def self_field_def lookup_path_def field_value_def known_def deref_value_def)

section \<open>A misspelt attribute\<close>

text \<open>An attribute that does not parse counts as absent, and another function is generated.\<close>

lemma misspelt_unmarshal_from:
  assumes "di_attrs ast = [attr]" and "attr_path attr = [''unmarshal_from'']"
    and "parse_nested_meta unmarshal_from_meta (None, None) attr = None" and "di_data ast = DataEnum vs"
  shows "gen_unmarshal_parcel snake ast = gen_from_parcel snake ast"
  using assms
  by (simp add: gen_unmarshal_parcel_def get_unmarshal_from_def unmarshal_from_of_def is_ident_def map_filter_simps)

end
