(* ===== verification/Client_Server.thy ===== *)
theory Client_Server
  imports Server_Requests Config
begin

unbundle bit_operations_syntax

text \<open>
  A client and the server together: \<^verbatim>\<open>zygote_cli\<close> sends one message and reads one response, the
  server reads the message and sends the response. What connects them is bytes, so the two ends
  meet only through the wire format of the messages.
\<close>

section \<open>The specification\<close>

text \<open>
  The response that a request deserves, with the world in which the server sends it: who it is,
  what \<^verbatim>\<open>/proc/self/stat\<close> says, an acknowledgement, or the id of the child. A request that gets
  no response has none.
\<close>

fun answer :: "'w env \<Rightarrow> host \<Rightarrow> server \<Rightarrow> zygote_message \<Rightarrow> 'w \<Rightarrow> (zygote_message \<times> 'w) option" where
  "answer E S srv IdentityQuery w =
     Some (IdentityQueryResponse (srv_name srv) (species_name (srv_species srv)) (host_arch S), w)"
| "answer E S srv Exit w = Some (AckResponse, w)"
| "answer E S srv Stat w =
     (case proc_stat_get E w of (Ok p, w') \<Rightarrow> Some (StatResponse (stat_response_of p), w') | _ \<Rightarrow> None)"
| "answer E S srv (Spawn common payload) w =
     (case (params_or (wire_params (cap_all_flags S) common) (srv_spawn_params srv) :: (spawn_params, client_error) outcome,
            gather_reinitialization_data E (srv_species srv) w :: (reinit_data, client_error) outcome \<times> 'w) of
        (Ok _, (Ok _, w')) \<Rightarrow>
          (case kernel E (ProcCall Libc_fork) w' of (r, w'') \<Rightarrow>
             if is_spawn_payload_type (srv_species srv) payload \<and> 0 < retval r
             then Some (SpawnResponse (retval r), w'') else None)
      | _ \<Rightarrow> None)"
| "answer E S srv _ w = None"

text \<open>What a response that cannot be sent is reported as.\<close>

fun reply_failure :: "zygote_message \<Rightarrow> int \<Rightarrow> sys_error \<Rightarrow> client_error" where
  "reply_failure IdentityQuery fd e = IdentityQueryResponseFailure fd e"
| "reply_failure Stat fd e = StatResponseFailure fd e"
| "reply_failure _ fd e = SpawnResponseFailure fd e"

section \<open>The server answers\<close>

text \<open>
  The control that follows the attempt to send the response \<open>a\<close> to the request \<open>q\<close>: the server
  goes on, or stops for \<^verbatim>\<open>Exit\<close>, whether the acknowledgement arrived or not.
\<close>

fun after_reply :: "zygote_message \<Rightarrow> int \<Rightarrow> (int, sys_error) outcome \<Rightarrow> (server_control loop_control, client_error) outcome" where
  "after_reply Exit fd (Ok _) = Ok (Break Shutdown)"
| "after_reply Exit fd (Err _) = Ok (Break Shutdown)"
| "after_reply q fd (Ok _) = Ok Continue"
| "after_reply q fd (Err e) = Err (reply_failure q fd e)"
| "after_reply q fd (Panic p) = Panic p"
| "after_reply q fd Diverges = Diverges"

lemma respond_run:
  "sys_sendmsg E fd (fb_finished_data S (to_parcel a)) w = (rs, w') \<Longrightarrow>
   respond E S fd a failure (srv, w) =
     (case rs of Ok _ \<Rightarrow> Ok Continue | Err e \<Rightarrow> Ok (Break (Inl (failure e))) | Panic p \<Rightarrow> Panic p | Diverges \<Rightarrow> Diverges,
      (srv, w'))"
  by (simp add: respond_def match_result_def on_snd_def ok_def split: outcome.splits)

lemma wire_payload_type [simp]: "is_spawn_payload_type species (wire_payload p) = is_spawn_payload_type species p"
  by (cases p; cases species) simp_all

lemma dispatch_answers:
  assumes build: "\<not> debug_assertions E" "\<not> is_exec_spawning S"
    and answer: "answer E S srv q w = Some (a, w1)"
    and parsed: "try_from_parcel (fb_root S) (cap_all_flags S) buffer = Ok (wire_message (cap_all_flags S) q)"
    and sent: "sys_sendmsg E fd (fb_finished_data S (to_parcel a)) w1 = (rs, w2)"
  shows "dispatch_message_handler E S fd buffer (srv, w) =
     (case rs of
        Ok _ \<Rightarrow> Ok (if q = Exit then Break (Inr Shutdown) else Continue)
      | Err e \<Rightarrow> Ok (Break (if q = Exit then Inr Shutdown else Inl (reply_failure q fd e)))
      | Panic p \<Rightarrow> Panic p | Diverges \<Rightarrow> Diverges, (srv, w2))"
proof (cases q)
  case (Spawn common payload)
  let ?params = "params_or (wire_params (cap_all_flags S) common) (srv_spawn_params srv) :: (spawn_params, client_error) outcome"
  from answer Spawn obtain p d w' r where params: "?params = Ok p"
    and gather: "gather_reinitialization_data E (srv_species srv) w = ((Ok d :: (reinit_data, client_error) outcome), w')"
    and fork: "kernel E (ProcCall Libc_fork) w' = (r, w1)"
    and child: "is_spawn_payload_type (srv_species srv) payload" "0 < retval r" "a = SpawnResponse (retval r)"
    by (auto split: outcome.splits prod.splits if_splits)
  have "dispatch_message_handler E S fd buffer (srv, w) =
      respond E S fd (SpawnResponse (retval r)) (SpawnResponseFailure fd) (srv, w1)"
    using spawn_effect [OF build parsed [unfolded Spawn wire_message.simps] _ params gather fork] child
    by (simp add: after_fork_def)
  with respond_run [OF sent] child Spawn show ?thesis by (simp split: outcome.splits)
qed (use answer parsed sent in \<open>auto simp: dispatch_message_handler_def handle_message_exit_def
      handle_message_identity_query_def handle_message_stat_def respond_run match_result_def and_then_def
      get_server_def gets_def on_snd_def ok_def split: outcome.splits prod.splits\<close>)

lemma client_message_answers:
  assumes build: "\<not> debug_assertions E" "\<not> is_exec_spawning S"
    and answer: "answer E S srv q w = Some (a, w1)"
    and parsed: "try_from_parcel (fb_root S) (cap_all_flags S) buffer = Ok (wire_message (cap_all_flags S) q)"
    and sent: "sys_sendmsg E fd (fb_finished_data S (to_parcel a)) w1 = (rs, w2)" and arrived: "readlen \<noteq> 0"
  shows "handle_client_message E S fd (readlen, buffer) (srv, w) = (after_reply q fd rs, (srv, w2))"
proof -
  note dispatch = dispatch_answers [OF build answer parsed sent]
  have "handle_client_message E S fd (readlen, buffer) (srv, w)
    = and_then (dispatch_message_handler E S fd buffer) (\<lambda>control.
            case control of
              Continue \<Rightarrow> ok Continue
            | Break (Inr v) \<Rightarrow> ok (Break v)
            | Break (Inl e) \<Rightarrow> fail e) (srv, w)"
    using arrived by (simp add: handle_client_message_def parsed match_result_Ok)
  then show ?thesis
    by (cases q; cases rs) (simp_all add: dispatch and_then_Ok and_then_def match_result_def ok_def fail_def)
qed

lemma answers_are_responses: "answer E S srv q w = Some (a, w1) \<Longrightarrow> message_fits a \<and> wire_message fl a = a"
  by (cases q) (auto split: outcome.splits prod.splits if_splits)

lemma transaction_reads:
  assumes fb: "fb_root S (zero_padded MESSAGE_BUFFER_SIZE (fb_finished_data S (to_parcel a))) = Some (to_parcel a)"
    and a: "message_fits a" "wire_message (cap_all_flags S) a = a"
    and send: "sys_sendmsg E fd bytes v = (Ok n, v1)"
    and read: "sys_recvmsg E fd MESSAGE_BUFFER_SIZE v1
      = (Ok (m, zero_padded MESSAGE_BUFFER_SIZE (fb_finished_data S (to_parcel a))), v2)"
  shows "handle_command_transaction E S bytes fd v = (Ok a, v2)"
  using message_trip [where root = "fb_root S", OF fb a(1), where all_flags = "cap_all_flags S"] a(2) send read
  by (simp add: handle_command_transaction_def map_err_def and_then_def match_result_def of_outcome_def ok_def)

text \<open>
  C10. A request and its answer, from the client to the server and back. The bytes that the client
  sends arrive in the zero-filled buffer of the server, which answers a query with its identity, a
  request for statistics with the fields of \<^verbatim>\<open>/proc/self/stat\<close>, a request to stop with an
  acknowledgement, and a request for a child, in the parent, with the id that \<^verbatim>\<open>fork\<close> returned
  for the parameters that survived the wire. The server record is not changed. It goes on after
  the response was sent and shuts down after \<^verbatim>\<open>Exit\<close> even when nobody takes the
  acknowledgement; any other response that cannot be sent is the client error of that request.
  When the bytes reach the client, its transaction returns exactly the answer.
\<close>

theorem transaction_answered:
  assumes build: "\<not> debug_assertions E" "\<not> is_exec_spawning S"
    and answer: "answer E S srv q w = Some (a, w1)" and fits: "message_fits q"
    and flatbuffers: "\<forall>m\<in>{q, a}. fb_root S (zero_padded MESSAGE_BUFFER_SIZE (fb_finished_data S (to_parcel m))) = Some (to_parcel m)"
    and arrived: "readlen \<noteq> 0" and sent: "sys_sendmsg E fd (fb_finished_data S (to_parcel a)) w1 = (rs, w2)"
    and client_sends: "sys_sendmsg C cfd (fb_finished_data S (to_parcel q)) v = (Ok n, v1)"
    and client_reads: "sys_recvmsg C cfd MESSAGE_BUFFER_SIZE v1
      = (Ok (m, zero_padded MESSAGE_BUFFER_SIZE (fb_finished_data S (to_parcel a))), v2)"
  shows "handle_client_message E S fd
        (readlen, zero_padded MESSAGE_BUFFER_SIZE (fb_finished_data S (to_parcel q))) (srv, w)
      = (after_reply q fd rs, (srv, w2))
    \<and> handle_command_transaction C S (fb_finished_data S (to_parcel q)) cfd v = (Ok a, v2)"
proof
  let ?buffer = "zero_padded MESSAGE_BUFFER_SIZE (fb_finished_data S (to_parcel q))"
  show "handle_client_message E S fd (readlen, ?buffer) (srv, w) = (after_reply q fd rs, (srv, w2))"
    by (rule client_message_answers [OF build answer _ sent arrived], rule message_trip) (use flatbuffers fits in auto)
  show "handle_command_transaction C S (fb_finished_data S (to_parcel q)) cfd v = (Ok a, v2)"
    using answers_are_responses [OF answer] flatbuffers
    by (intro transaction_reads [OF _ _ _ client_sends client_reads]) auto
qed

text \<open>A client asks for a child of the library species; \<open>fork\<close> answers 8.\<close>

definition asked :: zygote_message where "asked = Spawn no_params (PayloadLibApp ''p'' [])"

definition pair_host :: host where
  "pair_host = quiet_host
     \<lparr>fb_root := (\<lambda>bytes. Some (to_parcel (if take 3 bytes = ''ask'' then asked else SpawnResponse 8))),
      fb_finished_data := (\<lambda>p. if p = to_parcel asked then ''ask'' else ''child'')\<rparr>"

definition client_side :: "unit env" where
  "client_side = \<lparr>kernel = (\<lambda>c w. (\<lparr>retval = 5, errno_after = 0, outval = OutBytes ''child''\<rparr>, w)),
     loop_fuel = 1, debug_assertions = False\<rparr>"

theorem transaction_answered_witness:
  "handle_client_message (start_env False client_event) pair_host 5 (3, zero_padded MESSAGE_BUFFER_SIZE ''ask'') (start_server_record, [])
      = (Ok Continue, (start_server_record, []))
   \<and> handle_command_transaction client_side pair_host ''ask'' 4 () = (Ok (SpawnResponse 8), ())"
proof -
  let ?E = "start_env False client_event"
  have bytes: "fb_finished_data pair_host (to_parcel asked) = ''ask''"
    "fb_finished_data pair_host (to_parcel (SpawnResponse 8)) = ''child''"
    by (simp_all add: pair_host_def asked_def to_parcel_def)
  have srv: "srv_species start_server_record = LibApp" "srv_spawn_params start_server_record = no_params"
    by (simp_all add: start_server_record_def)
  have wire: "wire_params (cap_all_flags pair_host) no_params = child_params"
    by (simp add: wire_params_def no_params_def child_params_def norm_some_def norm_range_def norm_caps_def)
  have build: "\<not> debug_assertions ?E" "\<not> is_exec_spawning pair_host" by (simp_all add: pair_host_def)
  have answer: "answer ?E pair_host start_server_record asked [] = Some (SpawnResponse 8, [])"
    by (simp add: asked_def wire srv child_params_or ok_def) (simp add: start_kernel_def srv)
  have fits: "message_fits asked" by (simp add: asked_def params_fit_def no_params_def)
  have fb: "\<forall>m\<in>{asked, SpawnResponse 8}. fb_root pair_host
      (zero_padded MESSAGE_BUFFER_SIZE (fb_finished_data pair_host (to_parcel m))) = Some (to_parcel m)"
    by (simp add: bytes) (simp add: pair_host_def take_zero_padded)
  have sent: "sys_sendmsg ?E 5 (fb_finished_data pair_host (to_parcel (SpawnResponse 8))) [] = (Ok 0, [])"
    by (simp add: sys_sendmsg_def checked_call_def and_then_def match_result_def invoke_def of_outcome_def
        start_kernel_def check_defs ok_def)
  have sends: "sys_sendmsg client_side 4 (fb_finished_data pair_host (to_parcel asked)) () = (Ok 5, ())"
    by (simp add: sys_sendmsg_def checked_call_def and_then_def match_result_def invoke_def of_outcome_def
        client_side_def check_defs ok_def)
  have reads: "sys_recvmsg client_side 4 MESSAGE_BUFFER_SIZE ()
      = (Ok (5, zero_padded MESSAGE_BUFFER_SIZE (fb_finished_data pair_host (to_parcel (SpawnResponse 8)))), ())"
    by (simp add: sys_recvmsg_def checked_call_def and_then_def match_result_def invoke_def of_outcome_def
        client_side_def check_defs ok_def bytes out_bytes_def)
  have "after_reply asked 5 (Ok 0) = Ok Continue" by (simp add: asked_def)
  with transaction_answered [OF build answer fits fb _ sent sends reads, of 3] show ?thesis
    by (simp add: bytes)
qed

end
