(* ===== verification/Argument_Region.thy ===== *)
theory Argument_Region
  imports Child_Process
begin

text \<open>
  \<^verbatim>\<open>zygote/src/arguments.rs\<close> and the unsafe half of \<^verbatim>\<open>set_new_process_name\<close>: the C runtime hands the
  argument vector over before \<^verbatim>\<open>main\<close>, its size in memory is computed once, and a renamed
  process overwrites it. Memory is a function from addresses to bytes; what a write leaves
  alone is part of what is shown.
\<close>

section \<open>Memory\<close>

type_synonym memory = "int \<Rightarrow> char"

definition holds_at :: "memory \<Rightarrow> int \<Rightarrow> string \<Rightarrow> bool" where
  "holds_at mem p bs \<longleftrightarrow> (\<forall>i<length bs. mem (p + int i) = bs ! i)"

lemma holds_at_append: "holds_at mem p (bs @ cs) \<longleftrightarrow> holds_at mem p bs \<and> holds_at mem (p + int (length bs)) cs"
proof
  assume all: "holds_at mem p (bs @ cs)"
  have "mem (p + int i) = bs ! i" if "i < length bs" for i
    using all [unfolded holds_at_def, rule_format, of i] that by (simp add: nth_append)
  moreover have "mem (p + int (length bs) + int i) = cs ! i" if "i < length cs" for i
    using all [unfolded holds_at_def, rule_format, of "length bs + i"] that by (simp add: nth_append add.assoc)
  ultimately show "holds_at mem p bs \<and> holds_at mem (p + int (length bs)) cs" by (simp add: holds_at_def)
next
  assume parts: "holds_at mem p bs \<and> holds_at mem (p + int (length bs)) cs"
  show "holds_at mem p (bs @ cs)" unfolding holds_at_def
  proof (intro allI impI)
    fix i assume i: "i < length (bs @ cs)"
    show "mem (p + int i) = (bs @ cs) ! i"
    proof (cases "i < length bs")
      case True with parts show ?thesis by (simp add: holds_at_def nth_append)
    next
      case False
      then obtain j where j: "i = length bs + j" by (metis le_add_diff_inverse not_less)
      with i have "j < length cs" by simp
      with parts j show ?thesis by (simp add: holds_at_def nth_append add.assoc)
    qed
  qed
qed

lemma holds_at_Nil [simp]: "holds_at mem p []"
  by (simp add: holds_at_def)

lemma holds_at_Cons: "holds_at mem p (b # bs) \<longleftrightarrow> mem p = b \<and> holds_at mem (p + 1) bs"
proof -
  have "holds_at mem p [b] \<longleftrightarrow> mem p = b" by (simp add: holds_at_def)
  with holds_at_append [of mem p "[b]" bs] show ?thesis by (simp only: append.simps length_Cons list.size) simp
qed

text \<open>\<^verbatim>\<open>CStr::from_ptr(p).count_bytes()\<close>; memory without a NUL from \<open>p\<close> on has no such string.\<close>

partial_function (option) count_bytes :: "memory \<Rightarrow> int \<Rightarrow> nat option" where
  "count_bytes mem p =
     (if mem p = NUL then Some 0 else Option.bind (count_bytes mem (p + 1)) (\<lambda>n. Some (Suc n)))"

lemma count_bytes_string: "NUL \<notin> set s \<Longrightarrow> holds_at mem p (s @ [NUL]) \<Longrightarrow> count_bytes mem p = Some (length s)"
proof (induction s arbitrary: p)
  case Nil
  then show ?case by (subst count_bytes.simps) (simp add: holds_at_Cons)
next
  case (Cons c s)
  then have "mem p = c" "count_bytes mem (p + 1) = Some (length s)" by (simp_all add: holds_at_Cons)
  with Cons.prems show ?case by (subst count_bytes.simps) auto
qed

text \<open>\<^verbatim>\<open>copy_nonoverlapping\<close> and \<^verbatim>\<open>write_bytes\<close>.\<close>

definition copy_bytes :: "string \<Rightarrow> int \<Rightarrow> nat \<Rightarrow> memory \<Rightarrow> memory" where
  "copy_bytes src p n mem = (\<lambda>a. if p \<le> a \<and> a < p + int n then src ! nat (a - p) else mem a)"

definition write_bytes :: "int \<Rightarrow> char \<Rightarrow> nat \<Rightarrow> memory \<Rightarrow> memory" where
  "write_bytes p c n mem = (\<lambda>a. if p \<le> a \<and> a < p + int n then c else mem a)"

section \<open>The argument region\<close>

record argument_region =
  ar_argv0 :: int
  ar_capacity :: nat

text \<open>Arithmetic on \<^verbatim>\<open>usize\<close>: checked in a debug build, wrapping in a release build.\<close>

definition usize :: "bool \<Rightarrow> string \<Rightarrow> int \<Rightarrow> (int, 'e) outcome" where
  "usize overflow_checks msg v =
     (if 0 \<le> v \<and> v < 2 ^ 64 then Ok v else if overflow_checks then Panic msg else Ok (v mod 2 ^ 64))"

lemma usize_Ok: "0 \<le> v \<Longrightarrow> v < 2 ^ 64 \<Longrightarrow> usize checks msg v = Ok v"
  by (simp add: usize_def)

text \<open>\<open>argv\<close> is the vector the runtime passes: one address for each argument.\<close>

definition args_initializer :: "bool \<Rightarrow> memory \<Rightarrow> int \<Rightarrow> int list \<Rightarrow> (argument_region, 'e) outcome" where
  "args_initializer overflow_checks mem argc argv =
     (if argc \<le> 0 then Panic ''assertion failed: argc > 0''
      else
        let argv_first_ptr = argv ! 0; argv_last_ptr = argv ! nat (argc - 1) in
        case count_bytes mem argv_last_ptr of
          None \<Rightarrow> Diverges
        | Some last_len \<Rightarrow>
            bind_outcome (usize overflow_checks ''attempt to add with overflow'' (int last_len + 1)) (\<lambda>last_arg_size.
            bind_outcome (usize overflow_checks ''attempt to add with overflow'' (argv_last_ptr + last_arg_size)) (\<lambda>last_end.
            bind_outcome (usize overflow_checks ''attempt to subtract with overflow'' (last_end - argv_first_ptr)) (\<lambda>capacity.
              if capacity = 0 then Panic ''assertion failed: capacity > 0''
              else if argv_first_ptr = 0 then Panic ''assertion failed: !argv_first_ptr.is_null()''
              else Ok \<lparr>ar_argv0 = argv_first_ptr, ar_capacity = nat capacity\<rparr>))))"

text \<open>What renaming does to memory; \<open>argv0_contents\<close> are the bytes it leaves in the region.\<close>

definition rewrite_argv0 :: "argument_region \<Rightarrow> string \<Rightarrow> memory \<Rightarrow> memory" where
  "rewrite_argv0 arg new_name mem =
     (let len_to_copy = min (length new_name) (ar_capacity arg - 1) in
      write_bytes (ar_argv0 arg + int len_to_copy) NUL (ar_capacity arg - len_to_copy)
        (copy_bytes new_name (ar_argv0 arg) len_to_copy mem))"

lemma rewrite_argv0_region:
  "holds_at (rewrite_argv0 arg name mem) (ar_argv0 arg) (argv0_contents (ar_capacity arg) name)"
  by (auto simp: holds_at_def rewrite_argv0_def argv0_contents_def write_bytes_def copy_bytes_def Let_def nth_append)

lemma rewrite_argv0_frame:
  "a < ar_argv0 arg \<or> ar_argv0 arg + int (ar_capacity arg) \<le> a \<Longrightarrow> rewrite_argv0 arg name mem a = mem a"
  by (auto simp: rewrite_argv0_def write_bytes_def copy_bytes_def Let_def)

section \<open>The arguments in memory\<close>

text \<open>Where the runtime puts the arguments: one after the other, each with its NUL.\<close>

fun argv_at :: "int \<Rightarrow> string list \<Rightarrow> int list" where
  "argv_at p [] = []"
| "argv_at p (arg # args) = p # argv_at (p + int (length arg) + 1) args"

definition arg_block :: "string list \<Rightarrow> string" where
  "arg_block args = concat (map (\<lambda>arg. arg @ [NUL]) args)"

lemma length_argv_at [simp]: "length (argv_at p args) = length args"
  by (induction args arbitrary: p) simp_all

lemma argv_at_last:
  "args \<noteq> [] \<Longrightarrow> argv_at p (arg # args) ! (length (arg # args) - 1)
    = argv_at (p + int (length arg) + 1) args ! (length args - 1)"
  by (cases args) simp_all

lemma arg_block_Cons: "arg_block (arg # args) = arg @ NUL # arg_block args"
  by (simp add: arg_block_def)

lemma last_argument_end:
  "args \<noteq> [] \<Longrightarrow>
   argv_at p args ! (length args - 1) + int (length (last args)) + 1 = p + int (length (arg_block args))"
proof (induction args arbitrary: p)
  case (Cons arg args)
  show ?case
  proof (cases "args = []")
    case False
    with Cons.IH [OF False, of "p + int (length arg) + 1"] show ?thesis
      by (simp only: argv_at_last [OF False] arg_block_Cons) simp
  qed (simp add: arg_block_def)
qed simp

lemma last_argument_held:
  "args \<noteq> [] \<Longrightarrow> holds_at mem p (arg_block args) \<Longrightarrow>
   holds_at mem (argv_at p args ! (length args - 1)) (last args @ [NUL])"
proof (induction args arbitrary: p)
  case (Cons arg args)
  show ?case
  proof (cases "args = []")
    case False
    have "holds_at mem (p + int (length arg) + 1) (arg_block args)"
      using Cons.prems(2) by (simp add: arg_block_Cons holds_at_append holds_at_Cons)
    with Cons.IH [OF False] False show ?thesis by (simp only: argv_at_last [OF False]) simp
  qed (use Cons.prems in \<open>simp add: arg_block_Cons arg_block_def\<close>)
qed simp

lemma last_argument_short: "args \<noteq> [] \<Longrightarrow> length (last args) < length (arg_block args)"
  by (induction args) (auto simp: arg_block_def)

lemma args_initializer_region:
  assumes args: "args \<noteq> []" "\<forall>arg\<in>set args. NUL \<notin> set arg" and mem: "holds_at mem base (arg_block args)"
    and space: "0 < base" "base + int (length (arg_block args)) < 2 ^ 64"
  shows "args_initializer checks mem (int (length args)) (argv_at base args)
    = Ok \<lparr>ar_argv0 = base, ar_capacity = length (arg_block args)\<rparr>"
proof -
  obtain q where q: "argv_at base args ! (length args - 1) = q" by simp
  have index: "nat (int (length args) - 1) = length args - 1" by simp
  have first: "argv_at base args ! 0 = base" using args(1) by (cases args) simp_all
  have last: "count_bytes mem q = Some (length (last args))"
    using last_argument_held [OF args(1) mem] args unfolding q by (intro count_bytes_string) auto
  have q_eq: "q = base + int (length (arg_block args)) - int (length (last args)) - 1"
    using last_argument_end [OF args(1), of base] unfolding q by simp
  let ?len = "length (last args)" and ?n = "length (arg_block args)"
  have len: "?len < ?n" by (rule last_argument_short [OF args(1)])
  have sizes: "usize checks msg (int ?len + 1) = Ok (int ?len + 1)"
    "usize checks msg (q + (int ?len + 1)) = Ok (base + int ?n)"
    "usize checks msg (base + int ?n - base) = Ok (int ?n)" for msg
    using space len by (auto simp only: usize_Ok q_eq)
  have "\<not> int (length args) \<le> 0" "int ?n \<noteq> 0" "base \<noteq> 0" using args(1) space len by auto
  then show ?thesis
    by (simp only: args_initializer_def Let_def index q first last option.case sizes bind_outcome_simps nat_int if_False)
qed

section \<open>Renaming\<close>

text \<open>
  C25. Renaming a process stays inside its arguments. Where the runtime has laid the arguments out one
  after the other, \<^verbatim>\<open>args_initializer\<close> finds the whole block, from the first byte of the first
  argument to the last NUL. Renaming then changes no byte outside of that block (the
  environment that follows it is intact); in it, the new name is what a reader of \<^verbatim>\<open>argv[0]\<close>
  sees, cut to leave its NUL, and nothing of the old arguments is left. The bytes are those
  that \<^verbatim>\<open>set_new_process_name\<close> writes.
\<close>

theorem renaming_stays_in_region:
  assumes args: "args \<noteq> []" "\<forall>arg\<in>set args. NUL \<notin> set arg" and mem: "holds_at mem base (arg_block args)"
    and space: "0 < base" "base + int (length (arg_block args)) < 2 ^ 64" and name: "NUL \<notin> set name"
  shows "\<exists>region. args_initializer checks mem (int (length args)) (argv_at base args) = Ok region
    \<and> ar_capacity region = length (arg_block args)
    \<and> holds_at (rewrite_argv0 region name mem) base (argv0_contents (ar_capacity region) name)
    \<and> count_bytes (rewrite_argv0 region name mem) base = Some (min (length name) (ar_capacity region - 1))
    \<and> (\<forall>a. a < base \<or> base + int (length (arg_block args)) \<le> a \<longrightarrow> rewrite_argv0 region name mem a = mem a)"
proof -
  let ?n = "length (arg_block args)"
  let ?region = "\<lparr>ar_argv0 = base, ar_capacity = ?n\<rparr>"
  let ?cut = "take (?n - 1) name"
  have pos: "0 < ?n" using last_argument_short [OF args(1)] by auto
  have held: "holds_at (rewrite_argv0 ?region name mem) base (argv0_contents ?n name)"
    using rewrite_argv0_region [of ?region] by simp
  have "argv0_contents ?n name = (?cut @ [NUL]) @ replicate (?n - min (length name) (?n - 1) - 1) NUL"
  proof -
    obtain k where k: "?n = Suc k" using pos by (cases ?n) simp_all
    have "Suc k - min (length name) k = Suc (k - min (length name) k)" by (simp add: Suc_diff_le)
    moreover have "take (min (length name) k) name = take k name" by (simp add: min_def)
    ultimately show ?thesis by (simp add: k argv0_contents_def Let_def)
  qed
  with held have "holds_at (rewrite_argv0 ?region name mem) base (?cut @ [NUL])"
    by (simp only: holds_at_append)
  moreover have "NUL \<notin> set ?cut" using name by (auto dest: in_set_takeD)
  ultimately have "count_bytes (rewrite_argv0 ?region name mem) base = Some (min (length name) (?n - 1))"
    using count_bytes_string [of ?cut] by (simp add: min.commute)
  with held show ?thesis
    using args_initializer_region [OF args mem space] rewrite_argv0_frame [of _ ?region]
    by (intro exI [of _ ?region]) simp
qed

text \<open>Two arguments at address 16, and a memory that holds nothing else.\<close>

definition small_memory :: memory where
  "small_memory a = (if 16 \<le> a \<and> a < 26 then arg_block [''zygote'', ''-v''] ! nat (a - 16) else CHR ''E'')"

theorem renaming_stays_in_region_witness:
  "\<exists>region. args_initializer True small_memory 2 [16, 23] = (Ok region :: (argument_region, unit) outcome)
     \<and> ar_capacity region = 10
     \<and> count_bytes (rewrite_argv0 region ''application'' small_memory) 16 = Some 9
     \<and> rewrite_argv0 region ''application'' small_memory 26 = CHR ''E''"
proof -
  let ?args = "[''zygote'', ''-v'']"
  have block: "arg_block ?args = ''zygote'' @ NUL # ''-v'' @ [NUL]" by (simp add: arg_block_def)
  then have len: "length (arg_block ?args) = 10" by simp
  have "holds_at small_memory 16 (arg_block ?args)"
    unfolding holds_at_def by (simp add: small_memory_def block)
  from renaming_stays_in_region [of ?args small_memory 16 "''application''" True, OF _ _ this]
  obtain region where "args_initializer True small_memory (int (length ?args)) (argv_at 16 ?args)
      = (Ok region :: (argument_region, unit) outcome)" "ar_capacity region = length (arg_block ?args)"
    "count_bytes (rewrite_argv0 region ''application'' small_memory) 16
      = Some (min (length ''application'') (ar_capacity region - 1))"
    "\<forall>a. a < 16 \<or> 16 + int (length (arg_block ?args)) \<le> a
      \<longrightarrow> rewrite_argv0 region ''application'' small_memory a = small_memory a"
    by (auto simp: len)
  then show ?thesis by (intro exI [of _ region]) (simp add: small_memory_def len)
qed

end
