(* ===== verification/Subspecies_World.thy ===== *)
theory Subspecies_World
  imports Server_Start Start_World Messages_Wire
begin

unbundle bit_operations_syntax

text \<open>
  The world of a forked child in which 0, 1, 2 and 4 stay open; a new socket is 3, a new epoll
  handle 5, and the process id 8. Everything else is as in the world in which a server starts. Here
  a server with one client becomes the server of a subspecies.
\<close>

section \<open>Listing\<close>

definition sub_kernel :: "syscall \<Rightarrow> string list \<Rightarrow> sysret \<times> string list" where
  "sub_kernel c w =
     (case c of
        FdCall (Libc_opendir _) \<Rightarrow> (\<lparr>retval = 1, errno_after = 0, outval = NoOut\<rparr>, [''.'', ''..'', ''0'', ''1'', ''2'', ''4'', ''9''])
      | SockCall (Libc_socket _ _ _) \<Rightarrow> (\<lparr>retval = 3, errno_after = 0, outval = NoOut\<rparr>, w)
      | EventCall (Libc_epoll_create1 _) \<Rightarrow> (\<lparr>retval = 5, errno_after = 0, outval = NoOut\<rparr>, w)
      | ProcCall Libc_getpid \<Rightarrow> (\<lparr>retval = 8, errno_after = 0, outval = NoOut\<rparr>, w)
      | _ \<Rightarrow> start_kernel True client_event c w)"

definition sub_env :: "string list env" where
  "sub_env = \<lparr>kernel = sub_kernel, loop_fuel = 8, debug_assertions = False\<rparr>"

lemma sub_env_simps [simp]:
  "kernel sub_env = sub_kernel" "loop_fuel sub_env = Suc (Suc (Suc (Suc (Suc (Suc (Suc (Suc 0)))))))"
  "debug_assertions sub_env = False"
  by (simp_all add: sub_env_def numeral_eq_Suc)

lemmas sub_run = checked_call_def and_then_def match_result_def map_err_def invoke_def of_outcome_def check_defs ok_def
  sub_kernel_def start_kernel_def

abbreviation SUB_LISTING :: "string list" where "SUB_LISTING \<equiv> [''.'', ''..'', ''0'', ''1'', ''2'', ''4'', ''9'']"

lemma sub_queries: "info_query c \<Longrightarrow> sub_kernel c w = (fst (sub_kernel c []), w)"
  by (cases c rule: info_query.cases) (simp_all add: sub_kernel_def start_kernel_def Let_def)

lemma sub_env_stable: "listing_stable sub_env"
proof -
  have "fst (sub_kernel c w) = fst (sub_kernel c w')" if "info_query c" for c w w'
    using sub_queries [OF that, of w] sub_queries [OF that, of w'] by simp
  moreover have "snd (sub_kernel c w) = w" if "info_query c" for c w
    using sub_queries [OF that, of w] by simp
  ultimately show ?thesis by (simp add: listing_stable_def queries_pure_def same_answers_def)
qed

lemma sub_new: "proc_fd_iterator_new sub_env w = (Ok start_iter, SUB_LISTING)"
  by (simp add: proc_fd_iterator_new_def std_bool_def sys_opendir_def sys_dirfd_def sub_run)

lemma sub_readdir:
  "sys_readdir sub_env d [] = (Ok None, [])" "sys_readdir sub_env d (name # names) = (Ok (Some name), names)"
  by (simp_all add: sys_readdir_def sub_run)

lemma sub_next:
  "proc_fd_next (loop_fuel sub_env) sub_env start_iter SUB_LISTING = (Ok (Some 0), [''1'', ''2'', ''4'', ''9''])"
  "next_fd start_iter name = Ok (Some fd) \<Longrightarrow>
     proc_fd_next (loop_fuel sub_env) sub_env start_iter (name # names) = (Ok (Some fd), names)"
  "proc_fd_next (loop_fuel sub_env) sub_env start_iter [''9''] = (Ok None, [])"
  by (simp_all add: sub_readdir start_next_fd and_then_def match_result_def of_outcome_def ok_def)

lemmas sub_next_fds = sub_next(2) [OF start_next_fd(4)] sub_next(2) [OF start_next_fd(5)] sub_next(2) [OF start_next_fd(7)]

lemma sub_list: "proc_fd_list (loop_fuel sub_env) sub_env start_iter SUB_LISTING = (Ok [0, 1, 2, 4], [])"
proof -
  have "proc_fd_list (Suc (Suc (Suc (Suc (Suc (Suc (Suc (Suc 0)))))))) sub_env start_iter SUB_LISTING = (Ok [0, 1, 2, 4], [])"
    by (simp add: and_then_def match_result_def ok_def sub_next(1,3) sub_next_fds del: sub_env_simps(2) proc_fd_next.simps)
  then show ?thesis by simp
qed

lemma sub_env_ascending: "listing_ascending sub_env"
proof -
  have "sorted_wrt (<) fds" if "proc_fd_list n sub_env start_iter SUB_LISTING = (Ok fds, w')" for n fds w'
  proof -
    from proc_fd_list_mono [OF that, of "loop_fuel sub_env"] proc_fd_list_mono [OF sub_list, of n]
    show ?thesis by (simp add: add.commute)
  qed
  then show ?thesis by (auto simp: listing_ascending_def sub_new)
qed

section \<open>Resetting the registry\<close>

definition busy_data :: "fd_entry list" where
  "busy_data = stdio @ [fd_entry_new 3 Fifo Close, fd_entry_new 4 Fifo CloseUnlessSpawnSubspecies, fd_entry_new 5 Fifo Close,
     fd_entry_new 6 Fifo Close]"

definition sub_data :: "fd_entry list" where
  "sub_data = stdio @ [(fd_entry_new 3 Fifo Close)\<lparr>fde_executed := True\<rparr>, fd_entry_new 4 Fifo CloseUnlessSpawnSubspecies,
     (fd_entry_new 5 Fifo Close)\<lparr>fde_executed := True\<rparr>, (fd_entry_new 6 Fifo Close)\<lparr>fde_executed := True\<rparr>]"

definition again_data :: "fd_entry list" where
  "again_data = stdio @ [fd_entry_new 3 Fifo Close, fd_entry_new 4 Fifo CloseUnlessSpawnSubspecies, fd_entry_new 5 Fifo Close,
     (fd_entry_new 6 Fifo Close)\<lparr>fde_executed := True\<rparr>]"

lemma sub_data_eq: "map (executed_entry Subspecies) busy_data = sub_data"
  by (simp add: busy_data_def sub_data_def executed_entry_def acts_def fd_entry_new_def)

lemma sub_single [simp]: "debug_assert_single_threaded sub_env = ok ()"
  by (simp add: debug_assert_single_threaded_def when_do_def)

lemma sub_info: "fd_info_try_from sub_env fd w = (Ok Fifo, w)"
  by (simp add: fd_info_try_from_def sys_fstat_def get_file_type_def sub_run)

lemma sub_drop: "proc_fd_drop sub_env d w = w"
  by (simp add: proc_fd_drop_def sub_kernel_def start_kernel_def)

lemma sub_execute: "execute_actions sub_env Subspecies (start_registry busy_data, w) = (Ok (), (start_registry sub_data, w))"
proof -
  have entry: "fd_entry_execute sub_env 0 Subspecies (fd_entry_new fd Fifo a) w
      = (Ok (executed_entry Subspecies (fd_entry_new fd Fifo a), a = Close), w)" if "a \<in> {Ignore, Close, CloseUnlessSpawnSubspecies}"
    for fd a w
    using that by (auto simp: fd_entry_execute_def fd_entry_new_def executed_entry_def acts_def sys_close_def sub_run)
  have null: "sys_open sub_env DEV_NULL_PATH flags None w = (Ok 0, w)" for flags w
    by (simp add: sys_open_def sub_run)
  have "[0..<length busy_data] = [0, 1, 2, 3, 4, 5, 6]" by (simp add: busy_data_def upt_rec)
  then show ?thesis
    unfolding sub_data_eq [symmetric]
    by (simp add: execute_actions_def execute_entry_def on_snd_def and_then_def match_result_def map_err_def get_data_run
        gets_def null entry set_entry_def modify_def ok_def start_registry_def empty_registry_def busy_data_def
        del: sub_env_simps)
qed

lemma sub_register_new: "register_new sub_env (start_registry sub_data, w) = (Ok (), (start_registry sub_data, []))"
proof -
  have data: "reg_data (start_registry sub_data) = sub_data" by (simp add: start_registry_def)
  have fds: "fde_fd (sub_data ! 0) = 0" "fde_fd (sub_data ! Suc 0) = 1" "fde_fd (sub_data ! Suc (Suc 0)) = 2"
    "fde_fd (sub_data ! Suc (Suc (Suc 0))) = 3" "fde_fd (sub_data ! Suc (Suc (Suc (Suc 0)))) = 4" "length sub_data = 7"
    by (simp_all add: sub_data_def fd_entry_new_def)
  have skip: "is_registered sub_data 4 (Suc (Suc (Suc 0))) (Suc (Suc (Suc (Suc (Suc (Suc (Suc 0)))))))
      = (True, Suc (Suc (Suc (Suc (Suc 0)))))"
    by (subst is_registered.simps) (simp add: cmp_def fds is_registered_head)
  have loop: "register_new_loop (Suc (Suc (Suc (Suc (Suc (Suc (Suc (Suc 0)))))))) sub_env start_iter 0 7
      (start_registry sub_data, SUB_LISTING) = (Ok (), (start_registry sub_data, []))"
    by (simp add: on_snd_def and_then_def match_result_def map_err_def get_data_run ok_def data fds
        sub_next(1,3) sub_next_fds is_registered_head skip numeral_eq_Suc del: sub_env_simps(2) proc_fd_next.simps)
  have "sorted (map fde_fd sub_data)" by (simp add: sub_data_def fd_entry_new_def)
  with loop show ?thesis
    by (simp add: register_new_def on_snd_def and_then_def match_result_def map_err_def sub_new get_data_run data fds
        finally_do_def sub_drop ok_def del: register_new_loop.simps)
qed

lemma sub_audit: "audit sub_env (start_registry sub_data) w = (Ok (), [])"
proof -
  have entries: "open_entries (start_registry sub_data) = stdio @ [fd_entry_new 4 Fifo CloseUnlessSpawnSubspecies]"
    by (simp add: open_entries_def start_registry_def sub_data_def fd_entry_new_def fd_entry_closed_def)
  have "info_at sub_env fd w = Ok Fifo" for fd w by (simp add: info_at_def sub_info)
  then show ?thesis
    unfolding audit_effect [OF sub_env_stable] entries
    using sub_new [of w] sub_list by (simp add: sub_drop fd_entry_new_def del: proc_fd_list.simps sub_env_simps)
qed

lemma sub_reset: "reset_for_subspecies sub_env (start_registry busy_data, w) = (Ok (), (start_registry sub_data, []))"
proof -
  have log: "log_info sub_env message v = (Ok (), v)" for message v by (simp add: log_info_def sub_run)
  show ?thesis
    by (simp add: reset_for_subspecies_def and_then_def match_result_def map_err_def on_snd_def gets_def sub_execute
        log sub_register_new sub_audit ok_def del: sub_env_simps)
qed

section \<open>The request\<close>

definition sub_host :: host where
  "sub_host = quiet_host\<lparr>fb_root := (\<lambda>_. Some (to_parcel (SpawnSubspecies no_params ''@s'' (PayloadLibApp ''p'' []))))\<rparr>"

lemma sub_host_simps [simp]: "is_exec_spawning sub_host = False" "arg_capacity sub_host = None"
  by (simp_all add: sub_host_def)

lemma sub_parse: "try_from_parcel (fb_root sub_host) (cap_all_flags sub_host) buffer
    = Ok (SpawnSubspecies child_params ''@s'' (PayloadLibApp ''p'' []))"
proof -
  have "message_fits (SpawnSubspecies no_params ''@s'' (PayloadLibApp ''p'' []))" by (simp add: params_fit_def no_params_def)
  from message_trip [where root = "fb_root sub_host", OF _ this] show ?thesis
    by (simp add: sub_host_def wire_params_def no_params_def child_params_def norm_some_def norm_range_def norm_caps_def)
qed

definition busy_server :: server where
  "busy_server = start_server_record\<lparr>srv_client_sockets := [5], srv_registry := start_registry busy_data\<rparr>"

lemma busy_strict: "strict_by fde_fd busy_data"
  by (simp add: busy_data_def strict_by_def)

lemma busy_fields: "reg_data (srv_registry busy_server) = busy_data" "srv_client_sockets busy_server = [5]"
  "srv_epoll_handle busy_server = Some 3" "srv_server_socket busy_server = Some 6" "srv_signal_fd busy_server = Some 4"
  by (simp_all add: busy_server_def start_registry_def start_server_record_def)

lemma busy_pending: "fd_entry_new fd Fifo a \<in> set busy_data \<Longrightarrow> pending_entry (srv_registry busy_server) fd a"
  by (auto simp: pending_entry_def busy_fields table_find_iff [OF busy_strict] intro!: exI [of _ "fd_entry_new fd Fifo a"])
    (simp_all add: fd_entry_new_def)

lemma busy_entries: "fd_entry_new 4 Fifo CloseUnlessSpawnSubspecies \<in> set busy_data"
  "fd \<in> {3, 5, 6} \<Longrightarrow> fd_entry_new fd Fifo Close \<in> set busy_data" "fd \<in> {0, 1, 2} \<Longrightarrow> fd_entry_new fd Fifo Ignore \<in> set busy_data"
  by (auto simp: busy_data_def)

lemma busy_inv: "server_inv busy_server"
proof -
  from busy_pending [OF busy_entries(2), of 5] have "\<exists>e. table_find busy_data 5 = Some e \<and> \<not> fd_entry_closed e"
    by (auto simp: pending_entry_def busy_fields fd_entry_closed_def split: action.split)
  with busy_strict show ?thesis by (simp add: server_inv_def reg_inv_def busy_fields) (simp add: busy_data_def)
qed

lemma busy_stdio: "stdio_ignored (srv_registry busy_server)"
  unfolding stdio_ignored_def using busy_pending busy_entries(3) by blast

definition subspecies_server :: server where
  "subspecies_server = start_server_record\<lparr>srv_client_sockets := [], srv_server_socket := Some 3,
     srv_server_socket_path := None, srv_epoll_handle := Some 5, srv_pid := 8, srv_registry := start_registry again_data\<rparr>"

lemma sub_re_initialize: "re_initialize sub_env sub_host LibApp ReInitLibApp child_params payload w = (Ok (), w)"
proof -
  have params: "sp_cap_permitted child_params = None" "sp_cap_bound child_params = None"
    "sp_secondary_groups child_params = []" "sp_rlimits child_params = []" "sp_gid child_params = None"
    "sp_uid child_params = None" "sp_process_name child_params = Some ''''" "sp_priority_final child_params = None"
    "sp_cap_effective child_params = None" "sp_cap_inheritable child_params = None"
    by (simp_all add: child_params_def no_params_def)
  show ?thesis
    by (simp add: re_initialize_def set_new_process_name_def keep_capabilities_def params cstring_new_def
        sys_prctl_set_name_def sys_prctl_set_securebits_def ext_def ext_expect_def expect_def when_do_def sub_run)
qed

lemma sub_registers:
  "register sub_env 3 Close (start_registry sub_data, w) = (Ok (), (start_registry (sub_data[3 := fd_entry_new 3 Fifo Close]), w))"
  "register sub_env 5 Close (start_registry (sub_data[3 := fd_entry_new 3 Fifo Close]), w)
    = (Ok (), (start_registry again_data, w))"
proof -
  have strict: "strict_by fde_fd sub_data" "strict_by fde_fd (sub_data[3 := fd_entry_new 3 Fifo Close])"
    by (simp_all add: sub_data_def strict_by_def fd_entry_new_def)
  have found: "find_fd sub_data 3 = Ok 3" "find_fd (sub_data[3 := fd_entry_new 3 Fifo Close]) 5 = Ok 5"
    by (simp_all add: find_fd_rank [OF strict(1)] find_fd_rank [OF strict(2)])
      (auto simp: sub_data_def rank_def fd_entry_new_def)
  show "register sub_env 3 Close (start_registry sub_data, w)
      = (Ok (), (start_registry (sub_data[3 := fd_entry_new 3 Fifo Close]), w))"
    by (simp add: register_def on_snd_def get_data_run start_registry_def and_then_def match_result_def map_err_def
        sub_info ok_def of_outcome_def set_data_run found(1))
      (simp add: sub_data_def fd_entry_closed_def fd_entry_new_def)
  show "register sub_env 5 Close (start_registry (sub_data[3 := fd_entry_new 3 Fifo Close]), w)
    = (Ok (), (start_registry again_data, w))"
    by (simp add: register_def on_snd_def get_data_run start_registry_def and_then_def match_result_def map_err_def
        sub_info ok_def of_outcome_def set_data_run found(2))
      (simp add: sub_data_def again_data_def fd_entry_closed_def fd_entry_new_def)
qed

lemma sub_re_initialize_as_subspecies:
  "re_initialize_as_subspecies sub_env ''@s'' (busy_server, w) = (Ok (), (subspecies_server, []))"
proof -
  have socket: "get_server_socket sub_env ''@s'' w = (Ok (3, None), w)" for w
    by (simp add: get_server_socket_def parse_i32_def parse_unsigned_def is_ascii_digit_def
      create_abstract_socket_def sys_socket_def sys_bind_def sys_fcntl_setfl_def sys_listen_def abstract_socket_address_def
      sub_run)
  have epoll: "epoll_handle_new sub_env w = (Ok 5, w)" "epoll_handle_add sub_env epfd fd events data w = (Ok (), w)"
    "(sys_getpid sub_env :: (_, int, server_error) prog) [] = (Ok 8, [])" for w epfd fd events data
    by (simp_all add: epoll_handle_new_def epoll_handle_add_def sys_epoll_create1_def sys_epoll_ctl_def sys_getpid_def sub_run)
  have srv: "srv_registry busy_server = start_registry busy_data" "srv_signal_fd busy_server = Some 4"
    by (simp_all add: busy_server_def start_server_record_def)
  show ?thesis
    by (simp add: re_initialize_as_subspecies_def add_to_epoll_def and_then_def match_result_def map_err_def on_registry_def
        on_snd_def srv sub_reset socket epoll sub_registers update_server_def modify_def get_server_def gets_def ok_def
        subspecies_server_def del: sub_env_simps)
      (simp add: busy_server_def)
qed

lemma sub_dispatch: "dispatch_message_handler sub_env sub_host 5 buffer (busy_server, []) =
    (Ok (Break (Inr PollBreak)), (subspecies_server, []))"
proof -
  have srv: "srv_species busy_server = LibApp" "srv_spawn_params busy_server = no_params"
    by (simp_all add: busy_server_def start_server_record_def)
  have fork: "fork_or_exec sub_env sub_host (srv, w) = (Ok 0, (srv, [''forked'']))" for srv :: server and w
    by (simp add: fork_or_exec_def on_snd_def sys_fork_def sub_run)
  have priority: "sp_priority_initial child_params = None" by (simp add: child_params_def no_params_def)
  show ?thesis
    by (simp add: dispatch_message_handler_def sub_parse srv handle_message_spawn_subspecies_def
        handle_spawn_def parse_again_def expect_def when_do_def child_params_or fork match_result_Ok and_then_Ok on_snd_def
        priority capture_run ok_def sub_re_initialize sub_re_initialize_as_subspecies map_err_Ok del: sub_env_simps(1,2))
qed

text \<open>The whole event.\<close>

lemma client_event_data: "epoll_data_try_from (snd client_event) = Ok (epoll_data_new 5 ClientTag)"
  "ed_class (epoll_data_new 5 ClientTag) = ClientTag" "ed_fd (epoll_data_new 5 ClientTag) = 5"
  "fst client_event AND EPOLL_ERROR_MASK = 0" "epoll_has_event client_event EPOLLIN"
  by (simp_all add: client_event_def epoll_data_try_from_def epoll_data_to_u64_def epoll_data_new_def
      EPOLL_ERROR_MASK_def epoll_has_event_def)

lemma sub_client_events:
  "handle_client_events sub_env sub_host 5 (busy_server, []) = (Ok PollBreak, (subspecies_server, []))"
proof -
  have recv: "sys_recvmsg sub_env 5 MESSAGE_BUFFER_SIZE w = (Ok (5, child_buffer), w)" for w
    by (simp add: sys_recvmsg_def sub_run child_buffer_def out_bytes_def)
  show ?thesis
    by (simp add: handle_client_events_def handle_client_message_def on_snd_def and_then_def match_result_def recv
        sub_parse sub_dispatch of_outcome_def ok_def del: sub_env_simps(1))
qed

lemma sub_event:
  "handle_event sub_env sub_host client_event (busy_server, []) = (Ok (Some PollBreak), (subspecies_server, []))"
  by (simp add: handle_event_eq epoll_event_check_eq client_event_data handle_input_def sub_client_events map_err_Ok
      match_result_Ok)

end
