(* ===== verification/Server_Subspecies.thy ===== *)
theory Server_Subspecies
  imports Server_Requests Subspecies_World
begin

unbundle bit_operations_syntax

text \<open>
  A server that becomes the server of a subspecies. The forked child carries out the registered
  actions, rebuilds its registry from what is open and gives itself a new socket and a new epoll
  handle; then its loop goes on with the same record.
\<close>

section \<open>Resetting the registry\<close>

lemma execute_actions_Ok:
  assumes "execute_actions E ft (reg, w) = (Ok (), (reg', w'))"
  shows "reg' = reg\<lparr>reg_data := map (executed_entry ft) (reg_data reg)\<rparr>"
proof -
  from execute_actions_split [OF assms] obtain dn w2 wc where
    "for_each (execute_entry E dn ft) [0..<length (reg_data reg)] (reg, w2) = (Ok (), (reg', wc))"
    by (auto split: if_splits)
  from for_each_execute [OF this] show ?thesis by auto
qed

lemma reg_inv_executed: "reg_inv reg \<Longrightarrow> reg_inv (reg\<lparr>reg_data := map (executed_entry ft) (reg_data reg)\<rparr>)"
  by (simp add: reg_inv_def strict_by_def sorted_wrt_map)

lemma reset_split:
  assumes inv: "reg_inv reg" and stable: "listing_stable E" and asc: "listing_ascending E"
    and run: "reset_for_subspecies E (reg, w) = (Ok (), (reg', w'))"
  obtains w1 where "reg_inv reg'" and "executed_entry Subspecies ` set (reg_data reg) \<subseteq> set (reg_data reg')"
    and "audit E reg' w1 = (Ok (), w')"
proof -
  let ?reg1 = "reg\<lparr>reg_data := map (executed_entry Subspecies) (reg_data reg)\<rparr>"
  from run obtain w0 w1 where n: "register_new E (?reg1, w0) = (Ok (), (reg', w1))" and a: "audit E reg' w1 = (Ok (), w')"
    by (auto simp: reset_for_subspecies_def log_info_def and_then_eq_Ok_iff on_snd_eq_iff dest!: execute_actions_Ok)
  from register_new_effect [OF reg_inv_executed [OF inv] stable asc n]
  have "reg_inv reg'" "executed_entry Subspecies ` set (reg_data reg) \<subseteq> set (reg_data reg')" by auto
  from that [OF this a] show thesis .
qed

text \<open>What the child still has of an entry.\<close>

lemma closed_in_subspecies:
  "fd_entry_closed (executed_entry Subspecies e) \<longleftrightarrow> fd_entry_closed e \<or> fde_action e = Close"
  by (cases "fde_action e") (auto simp: fd_entry_closed_def executed_entry_def acts_def)

lemma find_in_reset:
  assumes inv: "reg_inv reg" "reg_inv reg'" and sub: "executed_entry Subspecies ` set (reg_data reg) \<subseteq> set (reg_data reg')"
    and find: "table_find (reg_data reg) fd = Some e"
  shows "table_find (reg_data reg') fd = Some (executed_entry Subspecies e)"
  using assms by (auto simp: reg_inv_def table_find_iff)

text \<open>
  C12. What a successful reset of the registry for a subspecies certifies. The last listing of
  \<^verbatim>\<open>/proc/self/fd\<close>, with which the reset ends, has none of the descriptors that were to be closed, not even under a
  number that another descriptor has taken in the meantime, and it has every other descriptor of
  the old registry with the very information recorded before the fork, those that were just
  replaced by the null device included.
\<close>

theorem subspecies_reset_certifies:
  assumes inv: "reg_inv reg" and stable: "listing_stable E" and asc: "listing_ascending E"
    and run: "reset_for_subspecies E (reg, w) = (Ok (), (reg', w'))"
  shows "\<exists>v0 it v fds v'. proc_fd_iterator_new E v0 = (Ok it, v)
    \<and> proc_fd_list (loop_fuel E) E it v = (Ok fds, v') \<and> w' = proc_fd_drop E (iter_dir it) v'
    \<and> (\<forall>e \<in> set (reg_data reg).
         if fd_entry_closed e \<or> fde_action e = Close then fde_fd e \<notin> set fds
         else fde_fd e \<in> set fds \<and> info_at E (fde_fd e) v = Ok (fde_info e))"
proof -
  from reset_split [OF assms] obtain w1 where inv': "reg_inv reg'"
    and sub: "executed_entry Subspecies ` set (reg_data reg) \<subseteq> set (reg_data reg')"
    and audit: "audit E reg' w1 = (Ok (), w')" .
  from audit [unfolded audit_effect [OF stable]] obtain v0 it v v' where
    list: "proc_fd_iterator_new E v0 = (Ok it, v)" "proc_fd_list (loop_fuel E) E it v = (Ok (map fde_fd (open_entries reg')), v')"
      "w' = proc_fd_drop E (iter_dir it) v'"
    and info: "\<forall>entry \<in> set (open_entries reg'). info_at E (fde_fd entry) v = Ok (fde_info entry)" by auto
  have "if fd_entry_closed e \<or> fde_action e = Close then fde_fd e \<notin> set (map fde_fd (open_entries reg'))
      else fde_fd e \<in> set (map fde_fd (open_entries reg')) \<and> info_at E (fde_fd e) v = Ok (fde_info e)"
    if e: "e \<in> set (reg_data reg)" for e
  proof -
    let ?e = "executed_entry Subspecies e"
    from e sub have mem: "?e \<in> set (reg_data reg')" by auto
    have "inj_on fde_fd (set (reg_data reg'))"
      using inv' strict_by_distinct [of fde_fd "reg_data reg'"] by (simp add: reg_inv_def distinct_map)
    with mem have unique: "x = ?e" if "x \<in> set (reg_data reg')" "fde_fd x = fde_fd e" for x
      using that by (simp add: inj_on_def)
    show ?thesis
    proof (cases "fd_entry_closed ?e")
      case True
      with unique have "fde_fd e \<notin> set (map fde_fd (open_entries reg'))" by (force simp: open_entries_def)
      with True show ?thesis by (simp add: closed_in_subspecies)
    next
      case False
      with mem have still: "?e \<in> set (open_entries reg')" by (simp add: open_entries_def)
      with imageI [OF still, of fde_fd] bspec [OF info still] False show ?thesis
        by (simp add: closed_in_subspecies)
    qed
  qed
  with list show ?thesis by blast
qed

theorem subspecies_reset_certifies_witness:
  "\<exists>it v fds v'. proc_fd_list 8 sub_env it v = (Ok fds, v') \<and> 3 \<notin> set fds \<and> 4 \<in> set fds"
proof -
  have "reg_inv (start_registry busy_data)"
    using busy_strict by (simp add: reg_inv_def start_registry_def) (simp add: busy_data_def)
  from subspecies_reset_certifies [OF this sub_env_stable sub_env_ascending sub_reset]
  obtain it v fds v' where "proc_fd_list (loop_fuel sub_env) sub_env it v = (Ok fds, v')"
    and all: "\<forall>e \<in> set busy_data. if fd_entry_closed e \<or> fde_action e = Close then fde_fd e \<notin> set fds
         else fde_fd e \<in> set fds \<and> info_at sub_env (fde_fd e) v = Ok (fde_info e)"
    by (auto simp: start_registry_def)
  moreover from all have "3 \<notin> set fds" "4 \<in> set fds"
    by (simp_all add: busy_data_def fd_entry_new_def fd_entry_closed_def)
  ultimately show ?thesis by (intro exI conjI) (simp_all add: numeral_eq_Suc)
qed

section \<open>Becoming a server again\<close>

text \<open>What the registry says of the old server's descriptors when a subspecies starts.\<close>

definition given_up :: "registry \<Rightarrow> registry \<Rightarrow> int set \<Rightarrow> bool" where
  "given_up reg reg' new \<longleftrightarrow>
     (\<forall>fd e. table_find (reg_data reg) fd = Some e \<longrightarrow> fde_action e = Close \<longrightarrow> fd \<notin> new \<longrightarrow>
        (\<exists>e'. table_find (reg_data reg') fd = Some e' \<and> fd_entry_closed e'))"

lemma register_keeps_given_up:
  assumes inv: "reg_inv reg1" and run: "register E fd a (reg1, w) = (Ok (), (reg2, w'))"
    and old: "given_up reg reg1 new"
  shows "given_up reg reg2 (insert fd new)"
proof -
  from register_effect [OF inv run] obtain info where "table_find (reg_data reg2) k =
      (if k = fd then Some (fd_entry_new fd info a) else table_find (reg_data reg1) k)" for k
    by auto
  with old show ?thesis by (auto simp: given_up_def)
qed

lemma re_initialized_server:
  assumes stable: "listing_stable E" and asc: "listing_ascending E"
    and inv: "server_inv srv" and stdio: "stdio_ignored (srv_registry srv)"
    and sig: "srv_signal_fd srv = Some sfd" "pending_entry (srv_registry srv) sfd CloseUnlessSpawnSubspecies"
    and run: "re_initialize_as_subspecies E path (srv, w) = (Ok (), (srv', w'))"
  shows "\<exists>epfd sock sockpath reg' pid w1.
      srv' = srv\<lparr>srv_client_sockets := [], srv_server_socket := Some sock, srv_server_socket_path := sockpath,
        srv_epoll_handle := Some epfd, srv_registry := reg', srv_pid := pid\<rparr>
    \<and> reg_inv reg' \<and> stdio_ignored reg' \<and> own_descriptors False reg' (Some epfd) (Some sock) (Some sfd)
    \<and> given_up (srv_registry srv) reg' {epfd, sock}
    \<and> sys_getpid E w1 = ((Ok pid :: (int, server_error) outcome), w')"
proof -
  let ?reg = "srv_registry srv"
  from run sig(1) obtain reg1 reg2 reg3 sock sockpath epfd pid w1 w2 w3 w4 w5 w6 where
    reset: "reset_for_subspecies E (?reg, w) = (Ok (), (reg1, w1))" and
    r1: "register E sock Close (reg1, w2) = (Ok (), (reg2, w3))" and
    r2: "register E epfd Close (reg2, w4) = (Ok (), (reg3, w5))" and
    pid: "sys_getpid E w6 = ((Ok pid :: (int, server_error) outcome), w')" and
    srv': "srv' = srv\<lparr>srv_client_sockets := [], srv_server_socket := Some sock, srv_server_socket_path := sockpath,
        srv_epoll_handle := Some epfd, srv_registry := reg3, srv_pid := pid\<rparr>"
    by (auto simp: re_initialize_as_subspecies_def add_to_epoll_def and_then_eq_Ok_iff on_registry_eq_iff on_snd_eq_iff
        get_server_def split: prod.splits)
  from inv have inv0: "reg_inv ?reg" by (simp add: server_inv_def)
  from reset_split [OF inv0 stable asc reset] obtain inv1: "reg_inv reg1"
    and sub: "executed_entry Subspecies ` set (reg_data ?reg) \<subseteq> set (reg_data reg1)" .
  note found = find_in_reset [OF inv0 inv1 sub]
  note k1 = register_keeps [OF inv1 r1]
  note k2 = register_keeps [OF k1(1) r2]
  have kept: "pending_entry reg1 fd a" if "pending_entry ?reg fd a" "a = Ignore \<or> a = CloseUnlessSpawnSubspecies" for fd a
    using that found by (fastforce simp: pending_entry_def executed_entry_def acts_def)
  have "given_up ?reg reg1 {}"
    using found by (fastforce simp: given_up_def closed_in_subspecies)
  from register_keeps_given_up [OF k1(1) r2 register_keeps_given_up [OF inv1 r1 this]]
  have "given_up ?reg reg3 {epfd, sock}" .
  moreover have "stdio_ignored reg3" using kept k1(3) k2(3) stdio by (auto simp: stdio_ignored_def)
  moreover have "own_descriptors False reg3 (Some epfd) (Some sock) (Some sfd)"
    using kept [OF sig(2)] k1(2,3) k2(2,3) by (auto simp: own_descriptors_def)
  ultimately show ?thesis using k2(1) pid srv' by blast
qed

text \<open>Only the child of a subspecies request goes on with the loop from there.\<close>

lemma capture_eq_Inr_iff: "capture m s = (Ok (Inr x), t) \<longleftrightarrow> m s = (Ok x, t)"
  by (auto simp: capture_def match_result_eq_Ok_iff)

lemma capture_eq_Inl_iff: "capture m s = (Ok (Inl e), t) \<longleftrightarrow> m s = (Err e, t)"
  by (auto simp: capture_def match_result_eq_Ok_iff)

text \<open>
  \<open>stops_as srv Q m\<close>: a handler started with \<open>srv\<close> that stops the round does so as \<open>Q\<close> says; one
  that does not, or that fails, leaves \<open>srv\<close> as it was.
\<close>

definition stops_as :: "server \<Rightarrow> (client_error + server_control \<Rightarrow> server \<times> 'w \<Rightarrow> bool) \<Rightarrow> 'w handler \<Rightarrow> bool" where
  "stops_as srv Q m \<longleftrightarrow> (\<forall>w r t. m (srv, w) = (r, t) \<longrightarrow>
     (case r of Ok (Break v) \<Rightarrow> Q v t | Ok Continue \<Rightarrow> fst t = srv | Err _ \<Rightarrow> fst t = srv | _ \<Rightarrow> True))"

lemma stops_asD:
  assumes "stops_as srv Q m" and "fst s = srv" and "m s = (r, t)"
  shows "r = Ok (Break v) \<Longrightarrow> Q v t" and "r = Ok Continue \<Longrightarrow> fst t = srv" and "r = Err e \<Longrightarrow> fst t = srv"
proof -
  from assms(2) obtain w where "s = (srv, w)" by (cases s) simp
  with assms(1,3) have "case r of Ok (Break v) \<Rightarrow> Q v t | Ok Continue \<Rightarrow> fst t = srv | Err _ \<Rightarrow> fst t = srv | _ \<Rightarrow> True"
    unfolding stops_as_def by blast
  then show "r = Ok (Break v) \<Longrightarrow> Q v t" "r = Ok Continue \<Longrightarrow> fst t = srv" "r = Err e \<Longrightarrow> fst t = srv" by simp_all
qed

lemma stops_as_match:
  assumes m: "preserves (\<lambda>s. fst s = srv) m"
    and f: "\<And>x w s. m (srv, w) = (Ok x, s) \<Longrightarrow> stops_as srv Q (f x)" and g: "\<And>e. stops_as srv Q (g e)"
  shows "stops_as srv Q (match_result m f g)"
  unfolding stops_as_def
proof (intro allI impI)
  fix w r t assume run: "match_result m f g (srv, w) = (r, t)"
  obtain r1 w1 where m1: "m (srv, w) = (r1, (srv, w1))"
    using preservesD [OF m, of "(srv, w)"] by (metis fst_conv prod.collapse)
  show "case r of Ok (Break v) \<Rightarrow> Q v t | Ok Continue \<Rightarrow> fst t = srv | Err _ \<Rightarrow> fst t = srv | _ \<Rightarrow> True"
  proof (cases r1)
    case (Ok x)
    with run m1 have "f x (srv, w1) = (r, t)" by (simp add: match_result_def)
    with f m1 Ok show ?thesis unfolding stops_as_def by blast
  next
    case (Err e)
    with run m1 have "g e (srv, w1) = (r, t)" by (simp add: match_result_def)
    with g show ?thesis unfolding stops_as_def by blast
  qed (use run m1 in \<open>auto simp: match_result_def\<close>)
qed

lemma stops_as_simple:
  "stops_as srv Q (ok Continue)" "stops_as srv Q (panic p)" "stops_as srv Q (fail e)"
  "(\<And>w. Q v (srv, w)) \<Longrightarrow> stops_as srv Q (ok (Break v))"
  by (simp_all add: stops_as_def)

lemma stops_as_and_then:
  assumes "preserves (\<lambda>s. fst s = srv) m" and "\<And>x. stops_as srv Q (f x)"
  shows "stops_as srv Q (and_then m f)"
  unfolding and_then_def using assms by (intro stops_as_match stops_as_simple)

lemma preserves_fork: "preserves (\<lambda>s. fst s = srv) (fork_or_exec E S)"
  by (auto simp: fork_or_exec_def intro: preserves_intros)

text \<open>
  What stops the round is either an error of the parent or what the child returns, for which
  \<^verbatim>\<open>fork\<close> returned 0 and which has the server as it was.
\<close>

definition stopped_by_child ::
  "'w env \<Rightarrow> host \<Rightarrow> server \<Rightarrow> (spawn_params \<Rightarrow> ('w, server_control, client_error) srv_prog)
    \<Rightarrow> client_error + server_control \<Rightarrow> server \<times> 'w \<Rightarrow> bool"
where
  "stopped_by_child E S srv k v t \<longleftrightarrow>
     (\<exists>w0 w1. fork_or_exec E S (srv, w0) = (Ok 0, (srv, w1)))
     \<and> (\<exists>params w. capture (k params) (srv, w) = ((Ok v :: (_, client_error) outcome), t))"

definition stopped_by_parent :: "server \<Rightarrow> client_error + server_control \<Rightarrow> server \<times> 'w \<Rightarrow> bool" where
  "stopped_by_parent srv v t \<longleftrightarrow> (\<exists>e. v = Inl e \<and> e \<noteq> Reinitialization) \<and> fst t = srv"

lemma capture_stops:
  assumes "\<And>w v t. capture m (srv, w) = ((Ok v :: (_, client_error) outcome), t) \<Longrightarrow> Q v t"
  shows "stops_as srv Q (and_then (capture m) (\<lambda>result. ok (Break result)))"
  unfolding stops_as_def
proof (intro allI impI)
  fix w and r :: "(control_result loop_control, client_error) outcome" and t
  assume run: "and_then (capture m) (\<lambda>result. ok (Break result)) (srv, w) = (r, t)"
  obtain r1 t1 where c: "capture m (srv, w) = ((r1 :: (_, client_error) outcome), t1)" by (metis prod.exhaust)
  then have no_err: "r1 \<noteq> Err e" for e
    by (auto simp: capture_def match_result_def ok_def split: outcome.splits prod.splits)
  from run have "(r, t) = (case r1 of Ok v \<Rightarrow> Ok (Break v) | Err e \<Rightarrow> Err e | Panic p \<Rightarrow> Panic p | Diverges \<Rightarrow> Diverges, t1)"
    by (cases r1) (simp_all add: and_then_def match_result_def fail_def ok_def c)
  with assms [of w] c no_err show "case r of Ok (Break v) \<Rightarrow> Q v t | Ok Continue \<Rightarrow> fst t = srv | Err _ \<Rightarrow> fst t = srv | _ \<Rightarrow> True"
    by (cases r1) auto
qed

lemma handle_spawn_stops:
  "stops_as srv (\<lambda>v t. stopped_by_parent srv v t \<or> stopped_by_child E S srv k v t) (handle_spawn E S fd buffer k)"
    (is "stops_as _ ?Q _")
proof -
  have respond: "stops_as srv ?Q (and_then (unwrap fd) (\<lambda>fd. respond E S fd a (SpawnResponseFailure fd)))" for a
    unfolding respond_def
    by (intro stops_as_and_then stops_as_match stops_as_simple preserves_intros) (simp add: stopped_by_parent_def)
  have priority: "preserves (\<lambda>s. fst s = srv) (case p of Some priority \<Rightarrow>
      on_snd (logging_errors (sys_setpriority E PRIO_PROCESS 0 priority)) | None \<Rightarrow> ok ())" for p
    by (cases p) (auto intro: preserves_intros)
  have forked: "stops_as srv ?Q (if new_pid = 0 then
         and_then (case sp_priority_initial params of Some priority \<Rightarrow>
           on_snd (logging_errors (sys_setpriority E PRIO_PROCESS 0 priority)) | None \<Rightarrow> ok ())
           (\<lambda>_. and_then (capture (k params)) (\<lambda>result. ok (Break result)))
       else and_then (unwrap fd) (\<lambda>fd. respond E S fd (SpawnResponse new_pid) (SpawnResponseFailure fd)))"
    if fork: "fork_or_exec E S (srv, w) = (Ok new_pid, s)" for params new_pid w s
  proof -
    from preservesD [OF preserves_fork _ fork] obtain w1 where s: "s = (srv, w1)" by (cases s) simp
    have "stops_as srv ?Q (and_then (capture (k params)) (\<lambda>result. ok (Break result)))" if "new_pid = 0"
      using fork that by (intro capture_stops) (auto simp: stopped_by_child_def s)
    with respond show ?thesis by (auto intro: stops_as_and_then priority)
  qed
  have failed: "stops_as srv ?Q (case error of
      Libc errno \<Rightarrow> and_then (unwrap fd) (\<lambda>fd. ok (Break (Inl (ProcessCreationFailure fd (Libc errno)))))
    | _ \<Rightarrow> panic ''internal error: entered unreachable code'')" for error
    by (cases error) (auto intro!: stops_as_and_then stops_as_simple preserves_intros simp: stopped_by_parent_def)
  have params: "stops_as srv ?Q (case get_spawn_params message of
         None \<Rightarrow> ok (Break (Inl MissingSpawnParams)) | Some params \<Rightarrow> f params)"
    if "\<And>params. stops_as srv ?Q (f params)" for message f
    using that by (cases "get_spawn_params message") (simp_all add: stops_as_simple stopped_by_parent_def)
  show ?thesis
    unfolding handle_spawn_def
    by (intro stops_as_and_then params stops_as_match failed preserves_fork preserves_intros) (rule forked)
qed

lemma respond_not_Inr: "respond E S fd a f s \<noteq> (Ok (Break (Inr c)), t)"
  by (auto simp: respond_def match_result_eq_Ok_iff)

definition set_initial_priority :: "'w env \<Rightarrow> spawn_params \<Rightarrow> ('w, unit, 'e) prog" where
  "set_initial_priority E params = (case sp_priority_initial params of
     Some priority \<Rightarrow> logging_errors (sys_setpriority E PRIO_PROCESS 0 priority) | None \<Rightarrow> ok ())"

text \<open>
  What the child of a request has gone through when it stops the round with a control value: in
  debug builds the checks before the fork, then the fork that returned 0 (an exec-spawned process
  does not fork), the initial priority and the continuation \<open>k\<close>.
\<close>

lemma handle_spawn_child:
  assumes run: "handle_spawn E S fd buffer k (srv, w) = (Ok (Break (Inr c)), t)"
  shows "\<exists>message common params w1 w2 w3 w4.
      (debug_assert_single_threaded E :: ('w, unit, client_error) prog) w = (Ok (), w1)
    \<and> (if debug_assertions E then audit E (srv_registry srv) w1 = (Ok (), w2) else w2 = w1)
    \<and> try_from_parcel (fb_root S) (cap_all_flags S) buffer = Ok message
    \<and> get_spawn_params message = Some common
    \<and> params_or common (srv_spawn_params srv) = (Ok params :: (spawn_params, client_error) outcome)
    \<and> (if is_exec_spawning S then w3 = w2 else sys_fork E w2 = (Ok 0, w3))
    \<and> (set_initial_priority E params :: ('w, unit, client_error) prog) w3 = (Ok (), w4)
    \<and> k params (srv, w4) = (Ok c, t)"
proof -
  from run obtain message w1 w2 where before:
      "(debug_assert_single_threaded E :: ('w, unit, client_error) prog) w = (Ok (), w1)"
      "if debug_assertions E then audit E (srv_registry srv) w1 = (Ok (), w2) else w2 = w1"
      "try_from_parcel (fb_root S) (cap_all_flags S) buffer = Ok message"
    and rest: "(case get_spawn_params message of
         None \<Rightarrow> ok (Break (Inl MissingSpawnParams))
       | Some params \<Rightarrow>
           and_then (of_outcome (params_or params (srv_spawn_params srv))) (\<lambda>spawn_params.
           match_result (fork_or_exec E S)
             (\<lambda>new_pid.
                if new_pid = 0 then
                  and_then
                    (case sp_priority_initial spawn_params of
                       Some priority \<Rightarrow> on_snd (logging_errors (sys_setpriority E PRIO_PROCESS 0 priority))
                     | None \<Rightarrow> ok ()) (\<lambda>_.
                  and_then (capture (k spawn_params)) (\<lambda>result. ok (Break result)))
                else
                  and_then (unwrap fd) (\<lambda>fd. respond E S fd (SpawnResponse new_pid) (SpawnResponseFailure fd)))
             (\<lambda>error. case error of
                Libc errno \<Rightarrow>
                  and_then (unwrap fd) (\<lambda>fd. ok (Break (Inl (ProcessCreationFailure fd (Libc errno)))))
              | _ \<Rightarrow> panic ''internal error: entered unreachable code''))) (srv, w2) = (Ok (Break (Inr c)), t)"
    by (cases "debug_assertions E")
       (auto simp: handle_spawn_def and_then_eq_Ok_iff on_snd_eq_iff get_server_def when_do_def parse_again_def
         expect_def match_result_eq_Ok_iff of_outcome_def cong: option.case_cong)
  from rest obtain common where common: "get_spawn_params message = Some common"
    by (cases "get_spawn_params message") auto
  with rest obtain params where params: "params_or common (srv_spawn_params srv) = (Ok params :: (spawn_params, client_error) outcome)"
    and forked: "match_result (fork_or_exec E S)
       (\<lambda>new_pid.
          if new_pid = 0 then
            and_then
              (case sp_priority_initial params of
                 Some priority \<Rightarrow> on_snd (logging_errors (sys_setpriority E PRIO_PROCESS 0 priority))
               | None \<Rightarrow> ok ()) (\<lambda>_.
            and_then (capture (k params)) (\<lambda>result. ok (Break result)))
          else
            and_then (unwrap fd) (\<lambda>fd. respond E S fd (SpawnResponse new_pid) (SpawnResponseFailure fd)))
       (\<lambda>error. case error of
          Libc errno \<Rightarrow>
            and_then (unwrap fd) (\<lambda>fd. ok (Break (Inl (ProcessCreationFailure fd (Libc errno)))))
        | _ \<Rightarrow> panic ''internal error: entered unreachable code'') (srv, w2) = (Ok (Break (Inr c)), t)"
    by (auto simp: and_then_eq_Ok_iff dest!: sym [of "Ok _"])
  from forked obtain s where fork: "fork_or_exec E S (srv, w2) = (Ok 0, s)"
    and child: "and_then
        (case sp_priority_initial params of
           Some priority \<Rightarrow> on_snd (logging_errors (sys_setpriority E PRIO_PROCESS 0 priority))
         | None \<Rightarrow> ok ()) (\<lambda>_.
      and_then (capture (k params)) (\<lambda>result. ok (Break result))) s
      = ((Ok (Break (Inr c)) :: (_, client_error) outcome), t)"
    by (auto simp: match_result_eq_Ok_iff and_then_eq_Ok_iff respond_not_Inr split: if_splits sys_error.splits)
  from fork obtain w3 where w3: "s = (srv, w3)" "if is_exec_spawning S then w3 = w2 else sys_fork E w2 = (Ok 0, w3)"
    by (auto simp: fork_or_exec_def on_snd_eq_iff split: if_splits)
  from child w3(1) obtain w4 where
    "(set_initial_priority E params :: ('w, unit, client_error) prog) w3 = (Ok (), w4)" "k params (srv, w4) = (Ok c, t)"
    by (auto simp: set_initial_priority_def and_then_eq_Ok_iff on_snd_eq_iff capture_eq_Inr_iff split: option.splits)
  with before common params w3(2) show ?thesis by blast
qed

text \<open>Only a subspecies request of the species of the server goes on with the loop.\<close>

lemma poll_break_request:
  assumes run: "dispatch_message_handler E S fd buffer (srv, w) = (Ok (Break (Inr PollBreak)), t)"
  obtains common path payload where
    "try_from_parcel (fb_root S) (cap_all_flags S) buffer = Ok (SpawnSubspecies common path payload)"
    "is_spawn_payload_type (srv_species srv) payload"
    "handle_message_spawn_subspecies E S fd path buffer (srv, w) = (Ok (Break (Inr PollBreak)), t)"
proof -
  have spawn: "handle_message_spawn E S fd' buffer (srv, w) \<noteq> (Ok (Break (Inr PollBreak)), t)" for fd'
    by (auto simp: handle_message_spawn_def and_then_eq_Ok_iff on_snd_eq_iff get_server_def dest!: handle_spawn_child)
  have exit: "handle_message_exit E S fd (srv, w) \<noteq> (Ok (Break (Inr PollBreak)), t)"
    by (auto simp: handle_message_exit_def match_result_eq_Ok_iff)
  have identity: "handle_message_identity_query E S fd (srv, w) \<noteq> (Ok (Break (Inr PollBreak)), t)"
    by (auto simp: handle_message_identity_query_def and_then_eq_Ok_iff respond_not_Inr)
  have stat: "handle_message_stat E S fd (srv, w) \<noteq> (Ok (Break (Inr PollBreak)), t)"
    by (auto simp: handle_message_stat_def match_result_eq_Ok_iff respond_not_Inr)
  from run obtain message where message: "try_from_parcel (fb_root S) (cap_all_flags S) buffer = Ok message"
    by (cases "try_from_parcel (fb_root S) (cap_all_flags S) buffer")
       (auto simp: dispatch_message_handler_def match_result_eq_Ok_iff of_outcome_def)
  with run spawn exit identity stat that show thesis
    by (cases message) (auto simp: dispatch_message_handler_def and_then_eq_Ok_iff get_server_def match_result_def
        of_outcome_def split: if_splits)
qed

lemma subspecies_chain:
  assumes message: "try_from_parcel (fb_root S) (cap_all_flags S) buffer = Ok (SpawnSubspecies common path' payload)"
    and run: "handle_message_spawn_subspecies E S fd path buffer (srv, w) = (Ok (Break (Inr c)), (srv', w'))"
  shows "c = PollBreak \<and> (\<exists>params d w1 w2 w3 w4 w5 w6 w7.
      params_or common (srv_spawn_params srv) = (Ok params :: (spawn_params, client_error) outcome)
    \<and> gather_reinitialization_data E (srv_species srv) w = (Ok d :: (reinit_data, client_error) outcome, w1)
    \<and> (debug_assert_single_threaded E :: ('w, unit, client_error) prog) w1 = (Ok (), w2)
    \<and> (if debug_assertions E then audit E (srv_registry srv) w2 = (Ok (), w3) else w3 = w2)
    \<and> (if is_exec_spawning S then w4 = w3 else sys_fork E w3 = (Ok 0, w4))
    \<and> (set_initial_priority E params :: ('w, unit, client_error) prog) w4 = (Ok (), w5)
    \<and> (re_initialize E S (srv_species srv) d params payload :: ('w, unit, client_error) prog) w5 = (Ok (), w6)
    \<and> (speciate E (srv_species srv) payload :: ('w, unit, client_error) prog) w6 = (Ok (), w7)
    \<and> re_initialize_as_subspecies E path (srv, w7) = (Ok (), (srv', w')))"
proof -
  let ?k = "\<lambda>d spawn_params.
         and_then (parse_again S buffer) (\<lambda>message.
         and_then (case get_spawn_payload message of Some payload \<Rightarrow> ok payload | None \<Rightarrow> fail MissingSpawnPayload)
           (\<lambda>spawn_payload.
         and_then (on_snd (re_initialize E S (srv_species srv) d spawn_params spawn_payload)) (\<lambda>_.
         and_then (on_snd (speciate E (srv_species srv) spawn_payload)) (\<lambda>_.
         and_then (map_err (\<lambda>_. Reinitialization) (re_initialize_as_subspecies E path)) (\<lambda>_.
           ok PollBreak)))))"
  from run obtain d w1 where gather: "gather_reinitialization_data E (srv_species srv) w
        = (Ok d :: (reinit_data, client_error) outcome, w1)"
    and spawn: "handle_spawn E S (Some fd) buffer (?k d) (srv, w1) = (Ok (Break (Inr c)), (srv', w'))"
    by (auto simp: handle_message_spawn_subspecies_def and_then_eq_Ok_iff on_snd_eq_iff get_server_def)
  have child: "c = PollBreak \<and> (\<exists>w6 w7.
      (re_initialize E S (srv_species srv) d params payload :: ('w, unit, client_error) prog) w5 = (Ok (), w6)
      \<and> (speciate E (srv_species srv) payload :: ('w, unit, client_error) prog) w6 = (Ok (), w7)
      \<and> re_initialize_as_subspecies E path (srv, w7) = (Ok (), (srv', w')))"
    if "?k d params (srv, w5) = (Ok c, (srv', w'))" for params w5
    using that message
    by (auto simp: and_then_eq_Ok_iff on_snd_eq_iff parse_again_def expect_def match_result_eq_Ok_iff of_outcome_def)
  from handle_spawn_child [OF spawn] message child gather show ?thesis by fastforce
qed

text \<open>
  C11. A server that becomes the server of a subspecies starts clean. When the handler of a message
  asks to go on with the loop in a new process, the message was a subspecies request with a payload
  of the species of this server, and this run is that of the child: the data of the old server was
  gathered, \<^verbatim>\<open>fork\<close> returned 0, the initial priority was set, and then the child was
  re-initialized, its preloading returned, and the server record was re-initialized, each step in
  the world the one before left. The loop goes on with a well-formed server: no client is
  connected; the standard descriptors are still ignored; the new epoll handle and the new socket
  are registered to be closed in every child and the signal descriptor, kept from the old server,
  in every child but a subspecies; every other descriptor of the old server that was to be closed
  counts as closed, its connections included; name, species, preload ids and the defaults for
  spawn parameters are those of the old server; the process id is the child's, asked for last. (An
  exec-spawned process does not fork; it serves no messages.)
\<close>

theorem subspecies_starts_clean:
  assumes stable: "listing_stable E" and asc: "listing_ascending E"
    and inv: "server_inv srv" and stdio: "stdio_ignored (srv_registry srv)"
    and sig: "srv_signal_fd srv = Some sfd" "pending_entry (srv_registry srv) sfd CloseUnlessSpawnSubspecies"
    and run: "dispatch_message_handler E S fd buffer (srv, w) = (Ok (Break (Inr PollBreak)), (srv', w'))"
  shows "(\<exists>common path payload params d w1 w2 w3 w4 w5 w6 w7 w8.
      try_from_parcel (fb_root S) (cap_all_flags S) buffer = Ok (SpawnSubspecies common path payload)
    \<and> is_spawn_payload_type (srv_species srv) payload
    \<and> params_or common (srv_spawn_params srv) = (Ok params :: (spawn_params, client_error) outcome)
    \<and> gather_reinitialization_data E (srv_species srv) w = (Ok d :: (reinit_data, client_error) outcome, w1)
    \<and> (debug_assert_single_threaded E :: ('w, unit, client_error) prog) w1 = (Ok (), w2)
    \<and> (if debug_assertions E then audit E (srv_registry srv) w2 = (Ok (), w3) else w3 = w2)
    \<and> (if is_exec_spawning S then w4 = w3 else sys_fork E w3 = (Ok 0, w4))
    \<and> (set_initial_priority E params :: ('w, unit, client_error) prog) w4 = (Ok (), w5)
    \<and> (re_initialize E S (srv_species srv) d params payload :: ('w, unit, client_error) prog) w5 = (Ok (), w6)
    \<and> (speciate E (srv_species srv) payload :: ('w, unit, client_error) prog) w6 = (Ok (), w7)
    \<and> re_initialize_as_subspecies E path (srv, w7) = (Ok (), (srv', w'))
    \<and> (sys_getpid E :: ('w, int, server_error) prog) w8 = (Ok (srv_pid srv'), w'))
    \<and> server_inv srv' \<and> clients srv' = {} \<and> stdio_ignored (srv_registry srv')
    \<and> own_descriptors False (srv_registry srv') (srv_epoll_handle srv') (srv_server_socket srv') (Some sfd)
    \<and> given_up (srv_registry srv) (srv_registry srv') {fd. srv_epoll_handle srv' = Some fd \<or> srv_server_socket srv' = Some fd}
    \<and> srv_signal_fd srv' = Some sfd \<and> srv_name srv' = srv_name srv \<and> srv_species srv' = srv_species srv
    \<and> srv_preload_uid srv' = srv_preload_uid srv \<and> srv_preload_gid srv' = srv_preload_gid srv
    \<and> srv_spawn_params srv' = srv_spawn_params srv"
    (is "?chain \<and> ?clean")
proof -
  from poll_break_request [OF run] obtain common path payload where
    request: "try_from_parcel (fb_root S) (cap_all_flags S) buffer = Ok (SpawnSubspecies common path payload)"
      "is_spawn_payload_type (srv_species srv) payload"
    and "handle_message_spawn_subspecies E S fd path buffer (srv, w) = (Ok (Break (Inr PollBreak)), (srv', w'))" .
  from subspecies_chain [OF request(1) this(3)] obtain params d w1 w2 w3 w4 w5 w6 w7 where
    chain: "params_or common (srv_spawn_params srv) = (Ok params :: (spawn_params, client_error) outcome)"
      "gather_reinitialization_data E (srv_species srv) w = (Ok d :: (reinit_data, client_error) outcome, w1)"
      "(debug_assert_single_threaded E :: ('w, unit, client_error) prog) w1 = (Ok (), w2)"
      "if debug_assertions E then audit E (srv_registry srv) w2 = (Ok (), w3) else w3 = w2"
      "if is_exec_spawning S then w4 = w3 else sys_fork E w3 = (Ok 0, w4)"
      "(set_initial_priority E params :: ('w, unit, client_error) prog) w4 = (Ok (), w5)"
      "(re_initialize E S (srv_species srv) d params payload :: ('w, unit, client_error) prog) w5 = (Ok (), w6)"
      "(speciate E (srv_species srv) payload :: ('w, unit, client_error) prog) w6 = (Ok (), w7)"
      "re_initialize_as_subspecies E path (srv, w7) = (Ok (), (srv', w'))"
    by blast
  have new: "{fd. Some epfd = Some fd \<or> Some sock = Some fd} = {epfd, sock}" for epfd sock :: int by auto
  from re_initialized_server [OF stable asc inv stdio sig chain(9)] obtain epfd sock sockpath reg' pid w8 where
    srv': "srv' = srv\<lparr>srv_client_sockets := [], srv_server_socket := Some sock, srv_server_socket_path := sockpath,
        srv_epoll_handle := Some epfd, srv_registry := reg', srv_pid := pid\<rparr>"
    and reg': "reg_inv reg'" "stdio_ignored reg'" "own_descriptors False reg' (Some epfd) (Some sock) (Some sfd)"
      "given_up (srv_registry srv) reg' {epfd, sock}"
    and pid: "sys_getpid E w8 = ((Ok pid :: (int, server_error) outcome), w')" by blast
  have "(sys_getpid E :: ('w, int, server_error) prog) w8 = (Ok (srv_pid srv'), w')" using pid by (simp add: srv')
  with request chain have ?chain by blast
  moreover have "server_inv srv'" using reg'(1) by (simp add: srv' server_inv_def)
  moreover have "clients srv' = {}" by (simp add: srv' clients_def)
  moreover have "given_up (srv_registry srv) (srv_registry srv')
      {fd. srv_epoll_handle srv' = Some fd \<or> srv_server_socket srv' = Some fd}"
    using reg'(4) by (simp add: srv' new [simplified])
  ultimately show ?thesis using reg'(2,3) sig(1) by (auto simp: srv')
qed

theorem subspecies_starts_clean_witness:
  "server_inv subspecies_server \<and> clients busy_server = {5} \<and> clients subspecies_server = {}
    \<and> given_up (srv_registry busy_server) (srv_registry subspecies_server) {3, 5}
    \<and> (\<exists>w3 w4. sys_fork sub_env w3 = (Ok 0, w4))"
proof -
  have new: "{fd. srv_epoll_handle subspecies_server = Some fd \<or> srv_server_socket subspecies_server = Some fd} = {3, 5}"
    by (auto simp: subspecies_server_def)
  from subspecies_starts_clean [OF sub_env_stable sub_env_ascending busy_inv busy_stdio busy_fields(5)
      busy_pending [OF busy_entries(1)] sub_dispatch]
  show ?thesis unfolding new sub_host_simps by (simp add: clients_def busy_fields) blast
qed

end
