(* ===== verification/Subspecies_Failure.thy ===== *)
theory Subspecies_Failure
  imports Server_Subspecies
begin

unbundle bit_operations_syntax

text \<open>
  A child that fails to become the server of a subspecies. The error is returned from the handler
  like an error of a client, so the loop of the old server takes it in the child: it drops the
  client and waits for the next event.
\<close>

section \<open>No null device\<close>

text \<open>A fault of the child: \<^verbatim>\<open>open("/dev/null")\<close> fails, for example for want of descriptors.\<close>

definition no_null_device :: "'w env \<Rightarrow> bool" where
  "no_null_device E \<longleftrightarrow> (\<forall>v fd v'. sys_open E DEV_NULL_PATH (O_RDWR OR O_CLOEXEC) None v \<noteq> (Ok fd, v'))"

lemma reset_without_null_device:
  assumes "no_null_device E"
  shows "preserves (\<lambda>s. fst s = reg) (reset_for_subspecies E)"
    and "reset_for_subspecies E s \<noteq> (Ok (), t)"
proof -
  have null: "sys_open E DEV_NULL_PATH (O_RDWR OR O_CLOEXEC) None v \<noteq> (Ok fd, v')" for v fd v'
    using assms by (simp add: no_null_device_def)
  have actions: "execute_actions E ft s = (r, t) \<Longrightarrow> fst t = fst s \<and> r \<noteq> Ok ()" for ft s r t
    using null
    by (cases s) (auto simp: execute_actions_def and_then_def match_result_def on_snd_def map_err_def fail_def
        split: prod.splits outcome.splits)
  show "reset_for_subspecies E s \<noteq> (Ok (), t)"
    by (auto simp: reset_for_subspecies_def and_then_eq_Ok_iff dest: actions)
  have "fst t = fst s" if "reset_for_subspecies E s = (r, t)" for s r t
    using that
    by (auto simp: reset_for_subspecies_def and_then_def match_result_def fail_def split: prod.splits outcome.splits
        dest: actions)
  then show "preserves (\<lambda>s. fst s = reg) (reset_for_subspecies E)" by (metis preservesI)
qed

text \<open>Then no step from the request to the failure changes the server.\<close>

lemma unchanged_without_null_device:
  assumes "no_null_device E"
  shows "preserves (\<lambda>s. fst s = srv) (re_initialize_as_subspecies E path)"
    and "re_initialize_as_subspecies E path s \<noteq> (Ok (), t)"
proof -
  note reset = reset_without_null_device [OF assms]
  have reset_run: "on_registry (reset_for_subspecies E) s = (r, t) \<Longrightarrow> fst t = fst s \<and> r \<noteq> Ok ()" for s r t
    using preservesD [OF reset(1)] reset(2)
    by (cases s) (fastforce simp: on_registry_def split: prod.splits)
  show "re_initialize_as_subspecies E path s \<noteq> (Ok (), t)"
    by (auto simp: re_initialize_as_subspecies_def and_then_eq_Ok_iff dest: reset_run)
  have "fst t = fst s" if "re_initialize_as_subspecies E path s = (r, t)" for s r t
    using that unfolding re_initialize_as_subspecies_def and_then_def match_result_def map_err_def
    by (auto simp: fail_def split: prod.splits outcome.splits dest: reset_run)
  then show "preserves (\<lambda>s. fst s = srv) (re_initialize_as_subspecies E path)" by (metis preservesI)
qed

section \<open>The child serves on\<close>

lemma failed_child_unchanged:
  assumes no_null: "no_null_device E"
    and message: "try_from_parcel (fb_root S) (cap_all_flags S) buffer = Ok (SpawnSubspecies common path payload)"
    and run: "dispatch_message_handler E S fd buffer (srv, w) = (Ok (Break (Inl Reinitialization)), (srv', w'))"
  shows "srv' = srv \<and> (\<exists>w0 w1. fork_or_exec E S (srv, w0) = (Ok 0, (srv, w1)))"
proof -
  let ?child = "\<lambda>d spawn_params.
         and_then (parse_again S buffer) (\<lambda>message.
         and_then (case get_spawn_payload message of Some payload \<Rightarrow> ok payload | None \<Rightarrow> fail MissingSpawnPayload)
           (\<lambda>spawn_payload.
         and_then (on_snd (re_initialize E S (srv_species srv) d spawn_params spawn_payload)) (\<lambda>_.
         and_then (on_snd (speciate E (srv_species srv) spawn_payload)) (\<lambda>_.
         and_then (map_err (\<lambda>_. Reinitialization) (re_initialize_as_subspecies E path)) (\<lambda>_.
           ok PollBreak)))))"
  from run message have "handle_message_spawn_subspecies E S fd path buffer (srv, w)
      = (Ok (Break (Inl Reinitialization)), (srv', w'))"
    by (auto simp: dispatch_message_handler_def split: if_splits)
  then obtain d w0 where "handle_spawn E S (Some fd) buffer (?child d) (srv, w0)
      = (Ok (Break (Inl Reinitialization)), (srv', w'))"
    by (auto simp: handle_message_spawn_subspecies_def and_then_eq_Ok_iff on_snd_eq_iff)
  from stops_asD(1) [OF handle_spawn_stops fst_conv this refl]
  obtain params w2 where fork: "\<exists>w0 w1. fork_or_exec E S (srv, w0) = (Ok 0, (srv, w1))"
    and child: "?child d params (srv, w2) = (Err Reinitialization, (srv', w'))"
    by (auto simp: stopped_by_parent_def stopped_by_child_def capture_eq_Inl_iff)
  have "preserves (\<lambda>s. fst s = srv) (case get_spawn_payload m of
      Some payload \<Rightarrow> ok payload | None \<Rightarrow> fail MissingSpawnPayload)" for m
    by (cases "get_spawn_payload m") (auto intro: preserves_intros)
  then have "preserves (\<lambda>s. fst s = srv) (?child d params)"
    by (intro preserves_intros unchanged_without_null_device [OF no_null])
  from preservesD [OF this _ child] fork show ?thesis by simp
qed

lemma client_failure_event:
  assumes event: "fst event AND EPOLL_ERROR_MASK = 0" "epoll_data_try_from (snd event) = Ok d"
      "ed_class d = ClientTag" "epoll_has_event event EPOLLIN"
    and fuel: "0 < loop_fuel E"
    and recv: "sys_recvmsg E (ed_fd d) MESSAGE_BUFFER_SIZE w = (Ok (n, buffer), w1)" "n \<noteq> 0"
    and parse: "try_from_parcel (fb_root S) (cap_all_flags S) buffer = Ok m"
    and failed: "dispatch_message_handler E S (ed_fd d) buffer (srv, w1) = (Ok (Break (Inl e)), t)"
  shows "handle_event E S event (srv, w) = and_then (map_err ClientFailure (remove_client_socket E (ed_fd d))) (\<lambda>_. ok None) t"
proof -
  have "handle_client_message E S (ed_fd d) (n, buffer) (srv, w1) = (Err e, t)"
    using recv(2) failed by (simp add: handle_client_message_def parse match_result_Ok and_then_Ok fail_def)
  with recv fuel have "handle_client_events E S (ed_fd d) (srv, w) = (Err e, t)"
    by (cases "loop_fuel E") (simp_all add: handle_client_events_def and_then_def match_result_def on_snd_def fail_def)
  then have "handle_input E S d (srv, w) = (Err (ClientFailure e), t)"
    using event(3) by (simp add: handle_input_def map_err_def match_result_def fail_def)
  with event show ?thesis
    by (simp add: handle_event_eq epoll_event_check_eq match_result_def and_then_def of_outcome_def ok_def)
qed

text \<open>
  C13. A child that fails to become a subspecies goes on as a second server. When the child of a
  subspecies request cannot open the null device, so that nothing of the old server has been
  closed yet, its error is taken for a failure of the client: it removes the client, through the
  epoll handle that it shares with its parent, and the round goes on. What goes on in the forked
  process is the parent's server but for that client: its socket, its epoll and signal
  descriptors, all its other clients, and its process id.
\<close>

theorem failed_subspecies_serves_on:
  assumes inv: "server_inv srv" and no_null: "no_null_device E" and fuel: "0 < loop_fuel E"
    and event: "fst event AND EPOLL_ERROR_MASK = 0" "epoll_data_try_from (snd event) = Ok d"
      "ed_class d = ClientTag" "epoll_has_event event EPOLLIN"
    and recv: "sys_recvmsg E (ed_fd d) MESSAGE_BUFFER_SIZE w = (Ok (n, buffer), w1)" "n \<noteq> 0"
    and message: "try_from_parcel (fb_root S) (cap_all_flags S) buffer = Ok (SpawnSubspecies common path payload)"
    and failed: "dispatch_message_handler E S (ed_fd d) buffer (srv, w1) = (Ok (Break (Inl Reinitialization)), (srv1, w2))"
    and removed: "remove_client_socket E (ed_fd d) (srv1, w2) = (Ok (), (srv', w'))"
  shows "handle_event E S event (srv, w) = (Ok None, (srv', w'))
    \<and> (\<exists>v v'. fork_or_exec E S (srv, v) = (Ok 0, (srv, v')))
    \<and> server_inv srv' \<and> clients srv' = clients srv - {ed_fd d} \<and> same_service srv srv'"
proof -
  from failed_child_unchanged [OF no_null message failed] have srv1: "srv1 = srv"
    and fork: "\<exists>v v'. fork_or_exec E S (srv, v) = (Ok 0, (srv, v'))" by auto
  have "handle_event E S event (srv, w) = (Ok None, (srv', w'))"
    unfolding client_failure_event [OF event fuel recv message failed]
    using removed by (simp add: and_then_def match_result_def map_err_def ok_def)
  with fork remove_client_socket_effect [OF inv removed [unfolded srv1]] show ?thesis by auto
qed

text \<open>The world of a subspecies in which nothing can be opened, and a server with one client.\<close>

definition full_kernel :: "syscall \<Rightarrow> string list \<Rightarrow> sysret \<times> string list" where
  "full_kernel c w =
     (case c of
        FdCall (Libc_open _ _ _) \<Rightarrow> (\<lparr>retval = - 1, errno_after = 24, outval = NoOut\<rparr>, w)
      | _ \<Rightarrow> sub_kernel c w)"

definition full_env :: "string list env" where
  "full_env = sub_env\<lparr>kernel := full_kernel\<rparr>"

lemma full_env_simps [simp]: "kernel full_env = full_kernel" "loop_fuel full_env = loop_fuel sub_env"
  "debug_assertions full_env = False" "debug_assert_single_threaded full_env = ok ()"
  by (simp_all add: full_env_def debug_assert_single_threaded_def when_do_def)

lemmas full_run = full_kernel_def sub_run

lemma full_null: "sys_open full_env path flags None w = (Err (Libc 24), w)"
  by (simp add: sys_open_def full_run errno_is_def)

lemma full_re_initialize: "re_initialize full_env sub_host LibApp ReInitLibApp child_params payload w = (Ok (), w)"
  by (simp add: re_initialize_def set_new_process_name_def keep_capabilities_def child_params_def no_params_def
      cstring_new_def sys_prctl_set_name_def sys_prctl_set_securebits_def ext_def ext_expect_def expect_def
      when_do_def full_run)

lemma full_dispatch: "dispatch_message_handler full_env sub_host 5 buffer (busy_server, w) =
    (Ok (Break (Inl Reinitialization)), (busy_server, [''forked'']))"
proof -
  have srv: "srv_species busy_server = LibApp" "srv_spawn_params busy_server = no_params"
    by (simp_all add: busy_server_def start_server_record_def)
  have fork: "fork_or_exec full_env sub_host (srv, w) = (Ok 0, (srv, [''forked'']))" for srv :: server and w
    by (simp add: fork_or_exec_def on_snd_def sys_fork_def full_run)
  have priority: "sp_priority_initial child_params = None" by (simp add: child_params_def no_params_def)
  have again: "re_initialize_as_subspecies full_env path (srv, w)
      = (Err (FdRegistryFailure (DevNullFailure (Libc 24))), (srv, w))" for srv w path
    by (simp add: re_initialize_as_subspecies_def reset_for_subspecies_def execute_actions_def on_registry_def on_snd_def
        and_then_def match_result_def map_err_def full_null ok_def fail_def)
  show ?thesis
    by (simp add: dispatch_message_handler_def sub_parse srv handle_message_spawn_subspecies_def handle_spawn_def
        parse_again_def expect_def when_do_def child_params_or fork match_result_Ok and_then_Ok on_snd_def priority
        ok_def full_re_initialize)
      (simp add: capture_def again and_then_def match_result_def map_err_def fail_def ok_def)
qed

lemma full_remove: "remove_client_socket full_env 5 (busy_server, w) = (Ok (), (start_server_record, w))"
proof -
  have "find_fd busy_data 5 = Ok 5" "length busy_data = 7"
    by (simp_all add: find_fd_rank [OF busy_strict]) (auto simp: busy_data_def rank_def fd_entry_new_def)
  then have "registry_remove 5 (start_registry busy_data, w) = (Ok (), (start_registry full_data, w))"
    by (simp add: registry_remove_def get_data_run start_registry_def and_then_def match_result_def map_err_def
        of_outcome_def arrayvec_remove_def set_data_run ok_def) (simp add: remove_at_def busy_data_def full_data_def)
  then show ?thesis
    by (simp add: remove_client_socket_def busy_server_def start_server_record_def and_then_def
        match_result_def map_err_def on_registry_def on_snd_def get_server_def gets_def unwrap_def expect_some_def
        epoll_handle_remove_def sys_epoll_ctl_def sys_close_def arrayvec_remove_def remove_at_def of_outcome_def
        update_server_def modify_def ok_def full_run)
qed

theorem failed_subspecies_serves_on_witness:
  "handle_event full_env sub_host client_event (busy_server, []) = (Ok None, (start_server_record, [''forked'']))
    \<and> srv_pid busy_server = srv_pid start_server_record \<and> clients busy_server = {5} \<and> clients start_server_record = {}"
proof -
  have null: "no_null_device full_env" by (simp add: no_null_device_def full_null)
  have event_data: "epoll_data_try_from (snd client_event) = Ok (epoll_data_new 5 ClientTag)"
    by (simp add: client_event_def epoll_data_try_from_def epoll_data_to_u64_def epoll_data_new_def)
  have recv: "sys_recvmsg full_env (ed_fd (epoll_data_new 5 ClientTag)) MESSAGE_BUFFER_SIZE [] = (Ok (5, child_buffer), [])"
    by (simp add: sys_recvmsg_def full_run child_buffer_def out_bytes_def epoll_data_new_def)
  have event: "fst client_event AND EPOLL_ERROR_MASK = 0" "epoll_has_event client_event EPOLLIN"
    "ed_class (epoll_data_new 5 ClientTag) = ClientTag" "ed_fd (epoll_data_new 5 ClientTag) = 5"
    by (simp_all add: client_event_def EPOLL_ERROR_MASK_def epoll_has_event_def epoll_data_new_def)
  from failed_subspecies_serves_on [OF busy_inv null _ event(1) event_data event(3,2) recv _ sub_parse]
  show ?thesis
    by (simp add: event(4) full_dispatch full_remove del: sub_env_simps(1))
      (simp add: busy_server_def start_server_record_def clients_def)
qed

end
