(* ===== verification/Server_Generations.thy ===== *)
theory Server_Generations
  imports Server_Subspecies
begin

unbundle bit_operations_syntax

text \<open>
  The loop in every process it runs in. A server forks subspecies that go on with its loop as
  servers of their own, and these fork again: the states that the loop goes through form
  generations. All of them are steady, as long as no child fails half-way to becoming a server.
\<close>

section \<open>Steady servers\<close>

definition own_fds :: "server \<Rightarrow> int set" where
  "own_fds srv = {0, 1, 2} \<union> {fd. srv_epoll_handle srv = Some fd \<or> srv_server_socket srv = Some fd \<or> srv_signal_fd srv = Some fd}"

text \<open>
  A steady server is well-formed, ignores the standard descriptors in its children, has its three
  descriptors registered for what a child has to do with them, and every client registered to be
  closed, under a number that is none of these.
\<close>

definition steady :: "server \<Rightarrow> bool" where
  "steady srv \<longleftrightarrow> server_inv srv \<and> stdio_ignored (srv_registry srv)
     \<and> own_descriptors False (srv_registry srv) (srv_epoll_handle srv) (srv_server_socket srv) (srv_signal_fd srv)
     \<and> (\<forall>fd \<in> clients srv. pending_entry (srv_registry srv) fd Close \<and> fd \<notin> own_fds srv)"

lemma own_pending: "steady srv \<Longrightarrow> fd \<in> own_fds srv \<Longrightarrow> \<exists>a. pending_entry (srv_registry srv) fd a"
  by (auto simp: steady_def own_fds_def stdio_ignored_def own_descriptors_def)

lemma steady_transfer:
  assumes steady: "steady srv" and service: "same_service srv srv'" and inv: "server_inv srv'"
    and kept: "\<And>fd a. fd \<in> own_fds srv \<Longrightarrow> pending_entry (srv_registry srv) fd a \<Longrightarrow> pending_entry (srv_registry srv') fd a"
    and clients: "\<And>fd. fd \<in> clients srv' \<Longrightarrow> pending_entry (srv_registry srv') fd Close \<and> fd \<notin> own_fds srv"
  shows "steady srv'"
proof -
  have own: "srv_epoll_handle srv' = srv_epoll_handle srv" "srv_server_socket srv' = srv_server_socket srv"
    "srv_signal_fd srv' = srv_signal_fd srv"
    using service by (cases srv; cases srv'; simp add: same_service_def)+
  have "own_fds srv' = own_fds srv" by (simp add: own_fds_def own)
  with steady inv kept clients show ?thesis
    by (auto simp: steady_def stdio_ignored_def own_descriptors_def own own_fds_def)
qed

lemma new_server_steady:
  assumes stable: "listing_stable E" and asc: "listing_ascending E" and exec: "\<not> is_exec_spawning S"
    and run: "server_new E S config w = (Ok srv, w')"
  shows "steady srv"
  using server_new_effect [OF stable asc run] exec by (auto simp: steady_def)

lemma add_client_steady:
  assumes steady: "steady srv" and run: "add_client E fd (srv, w) = (Ok c, (srv', w'))"
  shows "steady srv'"
proof -
  from steady have inv: "server_inv srv" and reg_inv: "reg_inv (srv_registry srv)"
    by (simp_all add: steady_def server_inv_def)
  from add_client_Ok [OF run] obtain w1 reg' w2 where c: "c = Continue"
    and reg: "register E fd Close (srv_registry srv, w1) = (Ok (), (reg', w2))"
    and srv': "srv' = srv\<lparr>srv_client_sockets := srv_client_sockets srv @ [fd], srv_registry := reg'\<rparr>" .
  from add_client_effect [OF inv run] c have inv': "server_inv srv'" and service: "same_service srv srv'" by auto
  have "fd \<notin> own_fds srv"
  proof
    assume "fd \<in> own_fds srv"
    with own_pending [OF steady] obtain a where "pending_entry (srv_registry srv) fd a" by blast
    with register_effect [OF reg_inv reg] pending_entry_open show False by (fastforce simp: pending_entry_def)
  qed
  moreover have kept: "pending_entry (srv_registry srv') k a" if "pending_entry (srv_registry srv) k a" for k a
    using register_keeps(3) [OF reg_inv reg that] by (simp add: srv')
  moreover have "pending_entry (srv_registry srv') fd Close" using register_keeps(2) [OF reg_inv reg] by (simp add: srv')
  moreover have "clients srv' = insert fd (clients srv)" by (auto simp: clients_def srv')
  ultimately show ?thesis
    using steady by (intro steady_transfer [OF steady service inv']) (auto simp: steady_def)
qed

lemma remove_client_steady:
  assumes steady: "steady srv" and run: "remove_client_socket E fd (srv, w) = (Ok (), (srv', w'))"
  shows "steady srv'"
proof -
  from steady have inv: "server_inv srv" and reg_inv: "reg_inv (srv_registry srv)"
    by (simp_all add: steady_def server_inv_def)
  from remove_client_socket_Ok [OF run] obtain reg' w1 i where
    reg: "registry_remove fd (srv_registry srv, w) = (Ok (), (reg', w1))" and
    srv': "srv' = srv\<lparr>srv_registry := reg', srv_client_sockets := remove_at i (srv_client_sockets srv)\<rparr>" .
  from remove_client_socket_effect [OF inv run] have inv': "server_inv srv'" and service: "same_service srv srv'"
    and fd: "fd \<in> clients srv" and clients: "clients srv' = clients srv - {fd}" by auto
  from steady fd have own: "k \<noteq> fd" if "k \<in> own_fds srv" for k using that by (auto simp: steady_def)
  from registry_remove_effect [OF reg_inv, of fd w] reg
  have "pending_entry (srv_registry srv') k a" if "k \<noteq> fd" "pending_entry (srv_registry srv) k a" for k a
    using that by (auto simp: pending_entry_def srv' split: if_splits)
  with steady own show ?thesis
    by (intro steady_transfer [OF steady service inv']) (auto simp: steady_def clients)
qed

section \<open>What a message can do to the server\<close>

text \<open>Nothing, in this process; in a child, let it become a server of its own, or fail at that.\<close>

definition stays_or_becomes :: "'w env \<Rightarrow> server \<Rightarrow> client_error + server_control \<Rightarrow> server \<times> 'w \<Rightarrow> bool" where
  "stays_or_becomes E srv v t \<longleftrightarrow> fst t = srv \<or> v = Inl Reinitialization
     \<or> v = Inr PollBreak \<and> (\<exists>path w. re_initialize_as_subspecies E path (srv, w) = (Ok (), t))"

lemma stops_as_mono: "stops_as srv P m \<Longrightarrow> (\<And>v t. P v t \<Longrightarrow> Q v t) \<Longrightarrow> stops_as srv Q m"
  unfolding stops_as_def by (fastforce split: outcome.splits loop_control.splits)

definition child_stays_or_becomes :: "'w env \<Rightarrow> server \<Rightarrow> ('w, server_control, client_error) srv_prog \<Rightarrow> bool" where
  "child_stays_or_becomes E srv m \<longleftrightarrow> (\<forall>w t. (\<forall>c. m (srv, w) = (Ok c, t) \<longrightarrow> stays_or_becomes E srv (Inr c) t)
     \<and> (\<forall>e. m (srv, w) = (Err e, t) \<longrightarrow> stays_or_becomes E srv (Inl e) t))"

lemma stays_fst: "preserves (\<lambda>s. fst s = srv) m \<Longrightarrow> m (srv, w) = (r, t) \<Longrightarrow> fst t = srv"
  by (drule preservesD) simp_all

lemma child_staysD:
  assumes "child_stays_or_becomes E srv m"
  shows "m (srv, w) = (Ok c, t) \<Longrightarrow> stays_or_becomes E srv (Inr c) t"
    and "m (srv, w) = (Err e, t) \<Longrightarrow> stays_or_becomes E srv (Inl e) t"
  using assms unfolding child_stays_or_becomes_def by blast+

lemma child_first:
  assumes m: "preserves (\<lambda>s. fst s = srv) m" and f: "\<And>x. child_stays_or_becomes E srv (f x)"
  shows "child_stays_or_becomes E srv (and_then m f)"
  unfolding child_stays_or_becomes_def
proof (intro allI conjI impI)
  fix w t c assume "and_then m f (srv, w) = (Ok c, t)"
  then obtain x s1 where "m (srv, w) = (Ok x, s1)" "f x s1 = (Ok c, t)" by (auto simp: and_then_eq_Ok_iff)
  moreover from stays_fst [OF m this(1)] have "fst s1 = srv" .
  ultimately show "stays_or_becomes E srv (Inr c) t"
    using child_staysD [OF f] by (metis prod.collapse)
next
  fix w t e assume "and_then m f (srv, w) = (Err e, t)"
  then consider "m (srv, w) = (Err e, t)" | x s1 where "m (srv, w) = (Ok x, s1)" "f x s1 = (Err e, t)"
    by (auto simp: and_then_eq_Err_iff)
  then show "stays_or_becomes E srv (Inl e) t"
  proof cases
    case 1
    from stays_fst [OF m this] show ?thesis by (simp add: stays_or_becomes_def)
  next
    case (2 x s1)
    moreover from stays_fst [OF m this(1)] have "fst s1 = srv" .
    ultimately show ?thesis using child_staysD [OF f] by (metis prod.collapse)
  qed
qed

lemma child_last:
  "child_stays_or_becomes E srv (and_then (map_err (\<lambda>_. Reinitialization) (re_initialize_as_subspecies E path)) (\<lambda>_. ok PollBreak))"
  by (auto simp: child_stays_or_becomes_def stays_or_becomes_def and_then_eq_Ok_iff and_then_eq_Err_iff map_err_eq_Err_iff)

lemma spawn_stops_as_child:
  assumes "\<And>params. child_stays_or_becomes E srv (k params)"
  shows "stops_as srv (stays_or_becomes E srv) (handle_spawn E S fd buffer k)"
proof (rule stops_as_mono [OF handle_spawn_stops])
  fix v t assume "stopped_by_parent srv v t \<or> stopped_by_child E S srv k v t"
  then show "stays_or_becomes E srv v t"
  proof
    assume "stopped_by_child E S srv k v t"
    then obtain params w where "capture (k params) (srv, w) = ((Ok v :: (_, client_error) outcome), t)"
      by (auto simp: stopped_by_child_def)
    then show ?thesis
      by (cases v) (auto simp: capture_eq_Inl_iff capture_eq_Inr_iff intro: child_staysD [OF assms])
  qed (simp add: stopped_by_parent_def stays_or_becomes_def)
qed

lemma dispatch_stops: "stops_as srv (stays_or_becomes E srv) (dispatch_message_handler E S fd buffer)"
proof -
  let ?Q = "stays_or_becomes E srv"
  have simple: "stops_as srv ?Q (ok (Break v))" for v by (simp add: stops_as_def stays_or_becomes_def)
  have respond: "stops_as srv ?Q (respond E S fd a ce)" for a ce
    unfolding respond_def by (intro stops_as_match stops_as_simple(1) simple preserves_intros)
  have "preserves (\<lambda>s. fst s = srv) (case get_spawn_payload m of
      Some payload \<Rightarrow> ok payload | None \<Rightarrow> fail MissingSpawnPayload)" for m
    by (cases "get_spawn_payload m") (auto intro: preserves_intros)
  then have subspecies: "stops_as srv ?Q (handle_message_spawn_subspecies E S fd path buffer)" for path
    unfolding handle_message_spawn_subspecies_def
    by (intro stops_as_and_then spawn_stops_as_child child_first child_last preserves_intros)
  have "child_stays_or_becomes E srv (ok c)" for c by (simp add: child_stays_or_becomes_def stays_or_becomes_def)
  then have spawn: "stops_as srv ?Q (handle_message_spawn E S (Some fd) buffer)"
    unfolding handle_message_spawn_def by (intro stops_as_and_then spawn_stops_as_child preserves_intros)
  have "stops_as srv ?Q (handle_message_exit E S fd)" "stops_as srv ?Q (handle_message_identity_query E S fd)"
    "stops_as srv ?Q (handle_message_stat E S fd)"
    unfolding handle_message_exit_def handle_message_identity_query_def handle_message_stat_def
    by (intro stops_as_match stops_as_and_then simple respond preserves_intros)+
  with spawn subspecies show ?thesis
    unfolding dispatch_message_handler_def
    by (intro stops_as_match stops_as_and_then stops_as_simple(1) preserves_intros)
      (auto intro: stops_as_simple split: zygote_message.split)
qed

section \<open>Generations\<close>

text \<open>
  The specification of the loop in all its processes: clients come and go, or the server is
  succeeded by the server of a subspecies.
\<close>

inductive generation :: "server \<Rightarrow> server \<Rightarrow> bool" where
  serves: "client_step\<^sup>*\<^sup>* (clients srv) (clients srv') \<Longrightarrow> same_service srv srv' \<Longrightarrow> generation srv srv'"
| succeeds: "given_up (srv_registry srv) reg {epfd, sock} \<Longrightarrow>
    generation srv (srv\<lparr>srv_client_sockets := [], srv_server_socket := Some sock, srv_server_socket_path := path,
      srv_epoll_handle := Some epfd, srv_registry := reg, srv_pid := pid\<rparr>)"

text \<open>Every generation has the name, species, signal descriptor and settings of the first.\<close>

lemma generation_heritage:
  assumes "generation\<^sup>*\<^sup>* srv srv'"
  shows "srv_signal_fd srv' = srv_signal_fd srv \<and> (configured config srv' \<longleftrightarrow> configured config srv)"
  using assms
proof (induction rule: rtranclp_induct)
  case (step srv1 srv2)
  from step(2) have "srv_signal_fd srv2 = srv_signal_fd srv1 \<and> (configured config srv2 \<longleftrightarrow> configured config srv1)"
  proof cases
    case serves
    then show ?thesis by (cases srv1; cases srv2; simp add: same_service_def configured_def)
  qed (simp add: configured_def)
  with step(3) show ?case by simp
qed simp

definition stays_steady :: "'w env \<Rightarrow> server \<times> 'w \<Rightarrow> server \<times> 'w \<Rightarrow> bool" where
  "stays_steady E s t \<longleftrightarrow> listing_stable E \<and> listing_ascending E \<longrightarrow> steady (fst s) \<longrightarrow>
     steady (fst t) \<and> generation\<^sup>*\<^sup>* (fst s) (fst t)"

lemma stays_steady_service:
  assumes "keeps_service s t" and "steady (fst s) \<Longrightarrow> steady (fst t)"
  shows "stays_steady E s t"
  using assms generation.serves by (auto simp: stays_steady_def keeps_service_def steady_def)

lemma becomes_steady:
  assumes "re_initialize_as_subspecies E path s = (Ok (), t)"
  shows "stays_steady E s t"
  unfolding stays_steady_def
proof (intro impI)
  assume "listing_stable E \<and> listing_ascending E" and steady: "steady (fst s)"
  then have stable: "listing_stable E" and asc: "listing_ascending E" by simp_all
  obtain srv w srv' w' where st: "s = (srv, w)" "t = (srv', w')" by (metis prod.exhaust)
  from steady obtain sfd where inv: "server_inv srv" and stdio: "stdio_ignored (srv_registry srv)"
    and sig: "srv_signal_fd srv = Some sfd" "pending_entry (srv_registry srv) sfd CloseUnlessSpawnSubspecies"
    by (auto simp: st steady_def own_descriptors_def)
  from re_initialized_server [OF stable asc inv stdio sig assms [unfolded st]] obtain epfd sock sockpath reg' pid where
    srv': "srv' = srv\<lparr>srv_client_sockets := [], srv_server_socket := Some sock, srv_server_socket_path := sockpath,
        srv_epoll_handle := Some epfd, srv_registry := reg', srv_pid := pid\<rparr>"
    and reg': "reg_inv reg'" "stdio_ignored reg'" "own_descriptors False reg' (Some epfd) (Some sock) (Some sfd)"
      "given_up (srv_registry srv) reg' {epfd, sock}" by blast
  have "steady srv'" using reg'(1,2,3) sig(1) by (simp add: steady_def srv' server_inv_def clients_def)
  moreover have "generation srv srv'" unfolding srv' using reg'(4) by (rule generation.succeeds)
  ultimately show "steady (fst t) \<and> generation\<^sup>*\<^sup>* (fst s) (fst t)" by (simp add: st)
qed

lemma message_steady:
  assumes run: "handle_client_message E S fd x s = (q, t)" and result: "(\<exists>c. q = Ok c) \<or> (\<exists>e. q = Err e \<and> e \<noteq> Reinitialization)"
  shows "stays_steady E s t"
proof -
  have same: "stays_steady E s t" if "fst t = fst s" using that by (simp add: stays_steady_def)
  obtain readlen buffer where x: "x = (readlen, buffer)" by fastforce
  obtain r1 s1 where d: "dispatch_message_handler E S fd buffer s = (r1, s1)" by (metis prod.exhaust)
  note stops = stops_asD [OF dispatch_stops refl d]
  show ?thesis
  proof (cases "readlen \<noteq> 0 \<and> (\<exists>m. try_from_parcel (fb_root S) (cap_all_flags S) buffer = Ok m)")
    case True
    then have "(q, t) = and_then (dispatch_message_handler E S fd buffer) (\<lambda>control.
            case control of
              Continue \<Rightarrow> ok Continue
            | Break (Inr v) \<Rightarrow> ok (Break v)
            | Break (Inl e) \<Rightarrow> fail e) s"
      using run by (auto simp: x handle_client_message_def match_result_Ok)
    then have step: "(q, t) = (case r1 of
        Ok Continue \<Rightarrow> (Ok Continue, s1) | Ok (Break (Inr v)) \<Rightarrow> (Ok (Break v), s1) | Ok (Break (Inl e)) \<Rightarrow> (Err e, s1)
      | Err e \<Rightarrow> (Err e, s1) | Panic p \<Rightarrow> (Panic p, s1) | Diverges \<Rightarrow> (Diverges, s1))"
      by (simp add: and_then_def match_result_def d ok_def fail_def split: outcome.splits loop_control.splits sum.splits)
    show ?thesis
    proof (cases "fst s1 = fst s")
      case False
      with stops step result obtain v where r1: "r1 = Ok (Break v)" and Q: "stays_or_becomes E (fst s) v s1"
        by (cases r1) (auto split: loop_control.splits)
      with False step result have "\<exists>path w. re_initialize_as_subspecies E path (fst s, w) = (Ok (), s1)" "t = s1"
        by (auto simp: stays_or_becomes_def split: sum.splits)
      with becomes_steady have "\<exists>w. stays_steady E (fst s, w) t" by blast
      then show ?thesis by (simp add: stays_steady_def)
    qed (use same step in \<open>auto split: outcome.splits loop_control.splits sum.splits\<close>)
  next
    case False
    with run result have "fst t = fst s"
      by (cases "try_from_parcel (fb_root S) (cap_all_flags S) buffer")
        (auto simp: x handle_client_message_def match_result_def of_outcome_def ok_def split: if_splits)
    then show ?thesis by (rule same)
  qed
qed

interpretation generations: loop_relation E S "stays_steady E" "\<lambda>e. e \<noteq> Reinitialization" for E S
proof unfold_locales
  fix fd s r t
  assume run: "add_client E fd s = (r, t)" and r: "(\<exists>c. r = Ok c) \<or> (\<exists>creds. r = Err (TooManyClients creds))"
  have "steady (fst t)" if "steady (fst s)"
  proof (cases "\<exists>c. r = Ok c")
    case True
    with run add_client_steady that show ?thesis by (cases s; cases t) auto
  next
    case False
    with r obtain creds where "r = Err (TooManyClients creds)" by blast
    with run that add_client_effect [of "fst s" E fd "snd s" r "fst t" "snd t"] show ?thesis by (simp add: steady_def)
  qed
  with add_client_keeps [OF run r] show "stays_steady E s t" by (rule stays_steady_service)
next
  fix fd s t
  assume run: "remove_client_socket E fd s = (Ok (), t)"
  then have "steady (fst t)" if "steady (fst s)" using remove_client_steady that by (cases s; cases t) auto
  with remove_client_keeps [OF run] show "stays_steady E s t" by (rule stays_steady_service)
qed (auto simp: message_steady, auto simp: stays_steady_def)

section \<open>All the states of the loop\<close>

text \<open>
  An event in which a child fails to become a server; \<open>lineage\<close> is \<open>serving\<close> up to the first such
  event.
\<close>

definition failed_child :: "'w env \<Rightarrow> host \<Rightarrow> epoll_event \<Rightarrow> server \<times> 'w \<Rightarrow> bool" where
  "failed_child E S ev s \<longleftrightarrow> (\<exists>d t. epoll_data_try_from (snd ev) = Ok d \<and> ed_class d = ClientTag
     \<and> handle_client_events E S (ed_fd d) s = (Err Reinitialization, t))"

inductive lineage :: "'w env \<Rightarrow> host \<Rightarrow> server \<times> 'w \<Rightarrow> server \<times> 'w \<Rightarrow> bool" for E S s where
  first: "lineage E S s s"
| wait: "lineage E S s (srv, w) \<Longrightarrow> srv_epoll_handle srv = Some epfd \<Longrightarrow>
    epoll_handle_wait E epfd BUFFER_SIZE_EPOLL_EVENTS BLANK_EVENT (- 1) w = (Ok events, w') \<Longrightarrow>
    lineage E S s (srv, w')"
| event: "lineage E S s t \<Longrightarrow> handle_event E S ev t = (Ok c, u) \<Longrightarrow> \<not> failed_child E S ev t \<Longrightarrow> lineage E S s u"

lemma stays_steady_trans: "stays_steady E s t \<Longrightarrow> stays_steady E t u \<Longrightarrow> stays_steady E s u"
  by (rule generations.trans)

lemma lineage_steady: "lineage E S s t \<Longrightarrow> stays_steady E s t"
proof (induction rule: lineage.induct)
  case (event t ev c u)
  have "stays_steady E t u"
    by (rule generations.event [OF event.hyps(2)]) (use event.hyps(3) in \<open>auto simp: failed_child_def\<close>)
  with event.IH show ?case by (rule stays_steady_trans)
qed (simp_all add: stays_steady_def)

lemma serving_lineage: "serving E S s t \<Longrightarrow> lineage E S s t \<or> (\<exists>ev u. lineage E S s u \<and> failed_child E S ev u)"
  by (induction rule: serving.induct) (blast intro: lineage.intros)+

text \<open>
  C4. The loop in every process. A server that is steady when its loop begins (every server that
  \<^verbatim>\<open>Server::new\<close> hands out is) is steady in every state its loop goes through, in the process of
  the server, in that of a subspecies forked from it, in that of a subspecies of this one, and so
  on: well-formed, with its own descriptors registered for what a child has to do with them and no
  client under one of their numbers. From one such state to the next the clients change as the
  specification allows, or a subspecies succeeds its server. The one exception is a child that
  fails to become a server: what its loop does from then on is not covered. Name, species,
  settings and the signal descriptor are handed down.
\<close>

theorem generations_stay_steady:
  assumes stable: "listing_stable E" and asc: "listing_ascending E" and steady: "steady srv"
  shows "(lineage E S (srv, w) (srv', w') \<longrightarrow> steady srv' \<and> generation\<^sup>*\<^sup>* srv srv'
        \<and> srv_signal_fd srv' = srv_signal_fd srv \<and> (configured config srv' \<longleftrightarrow> configured config srv))
    \<and> (serve E S (srv, w) = (Ok r, (srv', w')) \<longrightarrow>
        (\<exists>v. lineage E S (srv, v) (srv', w')) \<or> (\<exists>v ev u. lineage E S (srv, v) u \<and> failed_child E S ev u))"
proof -
  have "steady srv' \<and> generation\<^sup>*\<^sup>* srv srv'" if "lineage E S (srv, w) (srv', w')"
    using lineage_steady [OF that] stable asc steady by (simp add: stays_steady_def)
  moreover have "(\<exists>v. lineage E S (srv, v) (srv', w')) \<or> (\<exists>v ev u. lineage E S (srv, v) u \<and> failed_child E S ev u)"
    if "serve E S (srv, w) = (Ok r, (srv', w'))"
  proof -
    from that obtain v where "serve_loop (loop_fuel E) E S (srv, v) = (Ok r, (srv', w'))"
      by (auto simp: serve_def and_then_eq_Ok_iff on_snd_eq_iff)
    from serving_lineage [OF serve_loop_serving [OF this]] show ?thesis by blast
  qed
  ultimately show ?thesis using generation_heritage by blast
qed

lemma busy_steady: "steady busy_server"
proof -
  have "pending_entry (srv_registry busy_server) fd Close" if "fd \<in> {3, 5, 6}" for fd
    using that busy_pending [OF busy_entries(2)] by auto
  with busy_inv busy_stdio busy_pending [OF busy_entries(1)] show ?thesis
    by (auto simp: steady_def own_descriptors_def clients_def own_fds_def busy_fields)
qed

theorem generations_stay_steady_witness:
  "steady subspecies_server \<and> generation\<^sup>*\<^sup>* busy_server subspecies_server
    \<and> clients busy_server = {5} \<and> own_fds subspecies_server = {0, 1, 2, 3, 4, 5}"
proof -
  have "\<not> failed_child sub_env sub_host client_event (busy_server, [])"
    by (auto simp: failed_child_def client_event_data sub_client_events)
  with sub_event have "lineage sub_env sub_host (busy_server, []) (subspecies_server, [])"
    by (auto intro: lineage.intros)
  with generations_stay_steady [OF sub_env_stable sub_env_ascending busy_steady]
  have "steady subspecies_server \<and> generation\<^sup>*\<^sup>* busy_server subspecies_server" by blast
  moreover have "own_fds subspecies_server = {0, 1, 2, 3, 4, 5}"
    by (auto simp: own_fds_def subspecies_server_def start_server_record_def)
  ultimately show ?thesis by (simp add: clients_def busy_fields)
qed

section \<open>What an application does not inherit\<close>

lemma drop_in_child_fd_calls:
  assumes "(drop_in_child (logged E) :: (_, unit, 'e) srv_prog) (srv, (w, log)) = (Ok (), (srv', (w', log')))"
  shows "\<exists>w1 log1. execute_actions (logged E) Application (srv_registry srv, (w, log)) = (Ok (), (srv_registry srv', (w1, log1)))
    \<and> fd_calls log' = fd_calls log1"
proof -
  from assms obtain w1 log1 sigset w2 log2 x where
    act: "execute_actions (logged E) Application (srv_registry srv, (w, log)) = (Ok (), (srv_registry srv', (w1, log1)))" and
    sig: "build_sigset (logged E) BLOCKED_SIGNALS (w1, log1) = (Ok sigset, (w2, log2))"
      "sys_sigprocmask (logged E) SIG_UNBLOCK sigset (w2, log2) = (Ok x, (w', log'))"
    by (fastforce simp: drop_in_child_def and_then_eq_Ok_iff on_registry_eq_iff on_snd_eq_iff)
  from sig have "fd_calls log' = fd_calls log1"
    by (auto simp: build_sigset_def BLOCKED_SIGNALS_def sys_sigemptyset_def sys_sigaddset_def sys_sigprocmask_def
        and_then_eq_Ok_iff checked_call_eq_iff kernel_logged fd_calls_def completed_def split: prod.splits)
  with act show ?thesis by blast
qed

lemma executed_entry_call:
  assumes "list_all2 (entry_calls Application dn) data css" and "e \<in> set data"
    and "fde_action e = Close \<or> fde_action e = CloseUnlessSpawnSubspecies" and "\<not> fde_executed e"
  shows "\<exists>r. (FdCall (Libc_close (fde_fd e)), r) \<in> set (concat css)"
  using assms
proof (induction rule: list_all2_induct)
  case (Cons x xs y ys)
  show ?case
  proof (cases "e = x")
    case True
    with Cons have "map fst y = [FdCall (Libc_close (fde_fd e))]"
      by (auto simp: entry_calls_def expected_calls_def acts_def)
    then show ?thesis by (cases y) auto
  next
    case False
    with Cons show ?thesis by auto
  qed
qed simp

text \<open>
  C5. An application inherits no connection. When the steady server of some generation is
  destroyed in a forked process without a panic, the process has closed, each with a call that
  succeeded, the socket of every client, the listening socket, the epoll handle and the signal
  descriptor, and their entries in its registry say so.
\<close>

theorem no_connection_inherited:
  assumes steady: "steady srv" and pid: "sys_getpid (logged E) (w, log) = ((Ok p :: (int, 'e) outcome), s)" "p \<noteq> srv_pid srv"
    and run: "(server_drop (logged E) S :: (_, unit, 'e) srv_prog) (srv, (w, log)) = (Ok (), (srv', (w', log')))"
    and fd: "fd \<in> clients srv \<or> srv_server_socket srv = Some fd \<or> srv_epoll_handle srv = Some fd \<or> srv_signal_fd srv = Some fd"
  shows "(\<exists>news r. fd_calls log' = fd_calls log @ news \<and> (FdCall (Libc_close fd), r) \<in> set news)
    \<and> (\<exists>e. table_find (reg_data (srv_registry srv')) fd = Some e \<and> fd_entry_closed e)"
proof -
  from pid(1) obtain v log0 where s: "s = (v, log0)" and log0: "fd_calls log0 = fd_calls log"
    by (auto simp: sys_getpid_def and_then_eq_Ok_iff checked_call_eq_iff kernel_logged fd_calls_def completed_def
        match_result_eq_Ok_iff split: prod.splits)
  from run pid have "(drop_in_child (logged E) :: (_, unit, 'e) srv_prog) (srv, (v, log0)) = (Ok (), (srv', (w', log')))"
    by (auto simp: server_drop_def and_then_eq_Ok_iff on_snd_eq_iff get_server_def s)
  from drop_in_child_fd_calls [OF this] obtain w1 log1 where
    act: "execute_actions (logged E) Application (srv_registry srv, (v, log0)) = (Ok (), (srv_registry srv', (w1, log1)))"
    and log1: "fd_calls log' = fd_calls log1" by blast
  from steady fd obtain a where pending: "pending_entry (srv_registry srv) fd a" and a: "a = Close \<or> a = CloseUnlessSpawnSubspecies"
    by (auto simp: steady_def own_descriptors_def)
  then obtain e where e: "table_find (reg_data (srv_registry srv)) fd = Some e" "fde_action e = a" "\<not> fde_executed e"
    by (auto simp: pending_entry_def)
  from steady have strict: "strict_by fde_fd (reg_data (srv_registry srv))" by (simp add: steady_def server_inv_def reg_inv_def)
  from e(1) have mem: "e \<in> set (reg_data (srv_registry srv))" "fde_fd e = fd" by (simp_all add: table_find_iff [OF strict])
  from execute_actions_effect_calls [OF act] obtain dn css where
    calls: "list_all2 (entry_calls Application dn) (reg_data (srv_registry srv)) css"
    "fd_calls log1 = fd_calls log0 @ (FdCall (Libc_open DEV_NULL_PATH (O_RDWR OR O_CLOEXEC) 0), dn) # concat css" by blast
  from executed_entry_call [OF calls(1) mem(1)] e a mem(2) obtain r where "(FdCall (Libc_close fd), r) \<in> set (concat css)" by auto
  with calls(2) log0 log1 have "\<exists>news r. fd_calls log' = fd_calls log @ news \<and> (FdCall (Libc_close fd), r) \<in> set news" by auto
  moreover have "\<exists>e. table_find (reg_data (srv_registry srv')) fd = Some e \<and> fd_entry_closed e"
  proof -
    have data: "reg_data (srv_registry srv') = map (executed_entry Application) (reg_data (srv_registry srv))"
      using execute_actions_Ok [OF act] by simp
    have "strict_by fde_fd (reg_data (srv_registry srv'))"
      using strict by (simp add: data strict_by_def sorted_wrt_map)
    moreover have "executed_entry Application e \<in> set (reg_data (srv_registry srv'))" using mem(1) by (simp add: data)
    moreover have "fd_entry_closed (executed_entry Application e)"
      using e a by (auto simp: fd_entry_closed_def executed_entry_def acts_def)
    ultimately show ?thesis using mem(2) by (auto simp: table_find_iff intro!: exI [of _ "executed_entry Application e"])
  qed
  ultimately show ?thesis ..
qed

text \<open>The destruction of the server with one client, in a process with another id.\<close>

lemma busy_execute:
  "execute_actions (logged sub_env) Application (start_registry busy_data, (w, log)) =
     (Ok (), (start_registry (map (executed_entry Application) busy_data),
       (w, log @ [(FdCall (Libc_open DEV_NULL_PATH (O_RDWR OR O_CLOEXEC) 0), 0), (FdCall (Libc_close 3), 0),
         (FdCall (Libc_close 4), 0), (FdCall (Libc_close 5), 0), (FdCall (Libc_close 6), 0)])))"
proof -
  have entry: "fd_entry_execute (logged sub_env) 0 Application (fd_entry_new fd Fifo a) (w, log)
      = (Ok (executed_entry Application (fd_entry_new fd Fifo a), a \<noteq> Ignore),
         (w, log @ (if a = Ignore then [] else [(FdCall (Libc_close fd), 0)])))"
    if "a \<in> {Ignore, Close, CloseUnlessSpawnSubspecies}" for fd a w log
    using that by (auto simp: fd_entry_execute_def fd_entry_new_def executed_entry_def acts_def sys_close_def kernel_logged sub_run)
  have null: "sys_open (logged sub_env) DEV_NULL_PATH flags None (w, log)
      = (Ok 0, (w, log @ [(FdCall (Libc_open DEV_NULL_PATH flags 0), 0)]))" for flags w log
    by (simp add: sys_open_def kernel_logged sub_run)
  have single: "debug_assert_single_threaded (logged sub_env) = ok ()"
    by (simp add: debug_assert_single_threaded_def when_do_def)
  have "[0..<length busy_data] = [0, 1, 2, 3, 4, 5, 6]" by (simp add: busy_data_def upt_rec)
  then show ?thesis
    by (simp add: execute_actions_def execute_entry_def on_snd_def and_then_def match_result_def map_err_def get_data_run
        gets_def null entry single set_entry_def modify_def ok_def start_registry_def empty_registry_def busy_data_def
        del: sub_env_simps)
qed

lemma busy_drop:
  "\<exists>srv' w' log'. (server_drop (logged sub_env) sub_host :: (_, unit, server_error) srv_prog) (busy_server, ([], []))
     = (Ok (), (srv', (w', log')))"
proof -
  have pid: "sys_getpid (logged sub_env) (w, log) = ((Ok 8 :: (int, server_error) outcome), (w, log @ [(ProcCall Libc_getpid, 8)]))" for w log
    by (simp add: sys_getpid_def kernel_logged sub_run)
  have sigs: "\<exists>x t. build_sigset (logged sub_env) BLOCKED_SIGNALS s = (Ok x, t)" for s
    by (cases s) (simp add: build_sigset_def BLOCKED_SIGNALS_def sys_sigemptyset_def sys_sigaddset_def kernel_logged sub_run)
  have mask: "\<exists>x t. sys_sigprocmask (logged sub_env) SIG_UNBLOCK sigset s = (Ok x, t)" for sigset s
    by (cases s) (simp add: sys_sigprocmask_def kernel_logged sub_run)
  have srv: "srv_pid busy_server = 7" "srv_registry busy_server = start_registry busy_data"
    by (simp_all add: busy_server_def start_server_record_def)
  obtain reg log1 where act: "execute_actions (logged sub_env) Application (start_registry busy_data, ([], [(ProcCall Libc_getpid, 8)]))
      = (Ok (), (reg, ([], log1)))"
    by (simp add: busy_execute)
  from sigs [of "([], log1)"] obtain sigset t1 where sig: "build_sigset (logged sub_env) BLOCKED_SIGNALS ([], log1) = (Ok sigset, t1)"
    by blast
  from mask [of sigset t1] obtain x w' log' where "sys_sigprocmask (logged sub_env) SIG_UNBLOCK sigset t1 = (Ok x, (w', log'))"
    by (metis prod.exhaust)
  then show ?thesis
    by (simp add: server_drop_def drop_in_child_def and_then_def match_result_def expect_def on_registry_def on_snd_def
        get_server_def gets_def pid [of "[]" "[]", simplified] srv act sig ok_def)
qed

theorem no_connection_inherited_witness:
  "5 \<in> clients busy_server \<and> (\<exists>news r. (FdCall (Libc_close 5), r) \<in> set news
     \<and> (\<exists>srv' w' log'. (server_drop (logged sub_env) sub_host :: (_, unit, server_error) srv_prog) (busy_server, ([], []))
         = (Ok (), (srv', (w', log'))) \<and> fd_calls log' = news))"
proof -
  from busy_drop obtain srv' w' log' where
    run: "(server_drop (logged sub_env) sub_host :: (_, unit, server_error) srv_prog) (busy_server, ([], [])) = (Ok (), (srv', (w', log')))"
    by blast
  have pid: "sys_getpid (logged sub_env) ([], []) = ((Ok 8 :: (int, server_error) outcome), ([], [(ProcCall Libc_getpid, 8)]))"
    by (simp add: sys_getpid_def kernel_logged sub_run)
  have "8 \<noteq> srv_pid busy_server" by (simp add: busy_server_def start_server_record_def)
  moreover have five: "5 \<in> clients busy_server" by (simp add: clients_def busy_fields)
  ultimately have "\<exists>news r. fd_calls log' = fd_calls [] @ news \<and> (FdCall (Libc_close 5), r) \<in> set news"
    using no_connection_inherited [OF busy_steady pid _ run] by blast
  with run five show ?thesis by (auto simp: fd_calls_def)
qed

end
