(* ===== verification/Spec2Isabelle.thy ===== *)
theory Spec2Isabelle
  imports Sys_Wait Proc_Fs Fd_Audit Fd_Actions Messages_Wire Child_Process Config Server_Signals Server_Requests
    Clone_Args Sys_Errno Derived_Properties Macro_Limits Client_Server Argument_Region
    Subspecies_Failure Server_Generations
begin

text \<open>
  A verification development for the Zygote: the process that loads code once and then forks
  application processes on request. The sources are the crates \<^verbatim>\<open>zygote-sys\<close> (system calls),
  \<^verbatim>\<open>zygote-messages\<close> and \<^verbatim>\<open>zygote-proc-macros\<close> (the protocol and the macros that derive its wire
  code), \<^verbatim>\<open>zygote-core\<close> (one-time initialization) and \<^verbatim>\<open>zygote\<close> (descriptor registry, species,
  child re-initialization, server, programs).

  \<^bold>\<open>How the program works, and where it is.\<close>
  The server owns a socket, an epoll handle, a signal descriptor and up to 16 clients. Its loop
  waits for epoll events and hands each to a handler: a connection is accepted, a client's
  parcel is read, checked and dispatched, a signal reaps children or stops the server. A request
  for a child forks. The child drops what it inherited (descriptors by the registry, then groups,
  seccomp filter, ids, SELinux context) and becomes an application or a server of its own
  (a subspecies). Every open descriptor must be known to the registry; an audit compares it with
  \<^verbatim>\<open>/proc/self/fd\<close> before and after a fork.

  \<^bold>\<open>How the model corresponds to the code.\<close>
  A function that may fail, panic or not return is a program over an explicit state
  (\<open>prog\<close> of \<^verbatim>\<open>Prelude\<close>): its outcome is \<open>Ok\<close>, \<open>Err\<close>, \<open>Panic\<close> or \<open>Diverges\<close>, with the next state.
  \<^verbatim>\<open>?\<close> is \<open>and_then\<close>, \<^verbatim>\<open>match\<close> on a result is \<open>match_result\<close>. The state of the registry operations
  is the pair of registry and world, that of the server operations the pair of server record and
  world. The world has any type: everything behind \<^verbatim>\<open>libc\<close>, \<^verbatim>\<open>std::fs\<close> and the Android libraries
  is one parameter, the record of \<^verbatim>\<open>Libc_Interface\<close> whose \<open>kernel\<close> answers each call; a theorem
  that relies on what a kernel promises says so in a hypothesis, and its witness runs a concrete
  kernel. What is fixed when the program is built or started (Android or not, the capabilities the
  headers know, exec spawning, the \<^verbatim>\<open>flatbuffers\<close> functions) is a field of \<open>host\<close>. Machine integers
  keep their width (\<open>word\<close>) where they wrap or are truncated. A value with a destructor that
  calls the kernel has its drop written out: the guard of the ids, the directory stream (which
  \<^verbatim>\<open>closedir\<close> closes twice, since it takes the stream by value), the server.

  \<^item> \<^verbatim>\<open>Prelude\<close>, \<^verbatim>\<open>Rust_Std\<close>, \<^verbatim>\<open>Slices\<close>: outcomes and their rules (\<open>preserves\<close>, \<open>returns_with\<close>),
    the string, path and parsing functions the sources call, \<^verbatim>\<open>ArrayVec\<close> and \<^verbatim>\<open>binary_search_by\<close>.
  \<^item> \<^verbatim>\<open>Sys_Core\<close>, \<^verbatim>\<open>Sys_Calls\<close>, \<^verbatim>\<open>Sys_Util\<close>, \<^verbatim>\<open>Sys_Wait\<close>, \<^verbatim>\<open>Sys_Errno\<close> (\<^verbatim>\<open>zygote-sys/src/lib.rs\<close>),
    \<^verbatim>\<open>Clone_Args\<close> (\<^verbatim>\<open>libc_fill.rs\<close>), \<^verbatim>\<open>Proc_Fs\<close> (\<^verbatim>\<open>procfs.rs\<close>): result checks, \<^verbatim>\<open>retry_eintr!\<close> and the
    would-block drivers, one definition per wrapper, socket addresses, poll and epoll checks, the
    effective-id guard, wait records. Shown: the drivers end and do every step, status words
    and \<^verbatim>\<open>/proc/self/stat\<close> decode to what was encoded, what address a name denotes, what the
    id guard restores and what it leaves behind when it fails half way.
  \<^item> \<^verbatim>\<open>Species_Policy\<close>, \<^verbatim>\<open>Species_Life\<close> (\<^verbatim>\<open>species.rs\<close>, \<^verbatim>\<open>species/android_native.rs\<close>,
    \<^verbatim>\<open>species/lib_app.rs\<close>, \<^verbatim>\<open>species/mock.rs\<close>): a species is its tag, a trait method a function of
    the tag. Locale \<open>allow_policy\<close>: allowed exactly when an action is attached.
  \<^item> \<^verbatim>\<open>Fd_Info\<close>, \<^verbatim>\<open>Fd_Entry\<close>, \<^verbatim>\<open>Fd_Registry\<close>, \<^verbatim>\<open>Fd_Safety\<close>, \<^verbatim>\<open>Fd_Audit\<close>, \<^verbatim>\<open>Fd_Actions\<close>
    (\<^verbatim>\<open>file_descriptors.rs\<close>): what is recorded of a descriptor, one entry and its action, the sorted
    registry (locale \<open>keyed_table\<close>, its operations refine those of a map), and what the registry
    guarantees: audits accept exactly the described tables, carrying out the actions completes
    exactly the expected calls, and \<^verbatim>\<open>register_new\<close> enters nothing that the policy \<open>allowed_as\<close> does
    not name. That policy is stated on its own, as a relation between what a descriptor is and the
    action it gets, and the functions of the code are proved to decide it (\<open>default_action_iff\<close>).
    The listings these theorems speak of are those of the run: \<open>listing_stable\<close> asks that reading a
    directory changes no answer about a descriptor, the position of the directory's own excepted.
  \<^item> \<^verbatim>\<open>Messages\<close>, \<^verbatim>\<open>Messages_Wire\<close> (\<^verbatim>\<open>zygote-messages/src/lib.rs\<close>, \<^verbatim>\<open>schemas/messages.fbs\<close>): messages, the
    tables of the schema, marshalling in both directions. Locale \<open>wire_field\<close> is the contract of
    one field. Shown: round trips, what a trip normalizes (\<open>wire_message\<close>, \<open>wire_params\<close>: the specification, no
    code), which parameters survive a trip, when unmarshalling panics, and what is left of the
    defaults of the server once \<^verbatim>\<open>SpawnParamsCommon::or\<close> has merged them with a request that arrived.
  \<^item> \<^verbatim>\<open>Macro_Syntax\<close>, \<^verbatim>\<open>Macro_Marshal\<close>, \<^verbatim>\<open>Macro_Unmarshal\<close> (\<^verbatim>\<open>zygote-proc-macros\<close>): the derive macros
    themselves, from declarations to generated code. \<^verbatim>\<open>Macro_Eval\<close> gives the generated code a
    meaning; \<^verbatim>\<open>Protocol_Decls\<close> and \<^verbatim>\<open>Protocol_Library\<close> hold the declarations of the protocol and
    what their code is linked with. \<^verbatim>\<open>Derived_Code\<close>, \<^verbatim>\<open>Derived_Marshal\<close>, \<^verbatim>\<open>Derived_Protocol\<close> and
    \<^verbatim>\<open>Derived_Properties\<close> show that the generated code agrees with \<^verbatim>\<open>Messages\<close> on every message
    and every buffer; \<^verbatim>\<open>Macro_Limits\<close> shows declarations the generators cannot be used for.
  \<^item> \<^verbatim>\<open>Call_Traces\<close>, \<^verbatim>\<open>Child_Process\<close> (\<^verbatim>\<open>child_process.rs\<close>): the calls of logged runs with their answers, and
    the order in which a child gives up its privileges: every call on its credentials, limits,
    capabilities, filters and security context, the bounding set included. \<^verbatim>\<open>Argument_Region\<close> (\<^verbatim>\<open>arguments.rs\<close>): the
    arguments in memory, and that renaming a process stays inside of them.
  \<^item> \<^verbatim>\<open>Config\<close> (\<^verbatim>\<open>config.rs\<close>, \<^verbatim>\<open>zygote-core/src/lib.rs\<close>, \<^verbatim>\<open>bin/zygote_cli.rs\<close>,
    \<^verbatim>\<open>bin/zygote_launch.rs\<close>): configurations, level parsers, the messages that the tools send.
  \<^item> \<^verbatim>\<open>Server_State\<close>, \<^verbatim>\<open>Server_Socket\<close>, \<^verbatim>\<open>Server_Handlers\<close>, \<^verbatim>\<open>Server_Events\<close>, \<^verbatim>\<open>Server_Loop\<close>
    (\<^verbatim>\<open>server.rs\<close>, \<^verbatim>\<open>bin/zygote.rs\<close>): the server record, the handlers, the loop, construction and
    destruction, the main program. \<^verbatim>\<open>Server_Invariant\<close>, \<^verbatim>\<open>Server_Steps\<close>, \<^verbatim>\<open>Server_Signals\<close>,
    \<^verbatim>\<open>Server_Requests\<close>, \<^verbatim>\<open>Server_Start\<close> and \<^verbatim>\<open>Server_Runs\<close> hold its theorems: the invariant and
    the refinement of the client sockets by a specification with two steps (a client joins, a
    client leaves), how the 17th client is refused, reaping (and, for the Android species,
    reporting) of children, which requests fork and with what outcome, whole runs from
    \<^verbatim>\<open>Server::new\<close> to \<^verbatim>\<open>Drop\<close>, each step in the world the one before left. \<^verbatim>\<open>Server_Subspecies\<close>: what
    the reset of the registry demands, and the server that a subspecies starts with together with
    the steps of the child that led to it, from \<^verbatim>\<open>fork\<close> on. \<^verbatim>\<open>Subspecies_Failure\<close>: the child that fails to become
    one. \<^verbatim>\<open>Server_Generations\<close>: the loop in every process it runs in, the server's and those of the
    subspecies forked from it and from them, and what an application does not inherit from any.
    \<^verbatim>\<open>Start_World\<close> and \<^verbatim>\<open>Subspecies_World\<close> are the concrete worlds of their witnesses.
  \<^item> \<^verbatim>\<open>Client_Server\<close>: the client of \<^verbatim>\<open>zygote_cli\<close> and the server together, from the request on
    one side to the answer on the other.

  \<^bold>\<open>Interfaces.\<close>
  The registry is written once against the contract of a species (\<open>allow_policy\<close>, interpreted for
  files and for peers at every species), its entries are a \<open>keyed_table\<close> (interpreted on the sorted
  vector with binary search), and the protocol is assembled from \<open>wire_field\<close>s (interpreted for
  each kind of field the declarations use). What the event loop keeps is proved once for every
  \<open>loop_relation\<close> between states; the client specification of the server process (\<open>service\<close>) and the
  steady servers of all processes (\<open>generations\<close>) are its interpretations.

  \<^bold>\<open>Fuel.\<close>
  Loops that repeat a call (\<^verbatim>\<open>EINTR\<close>, would-block drivers, directory iteration, reaping) take
  \<open>loop_fuel\<close> from the environment, the event loop its own fuel. A result that is not \<open>Diverges\<close> is the
  same with more fuel (\<open>retry_eintr_mono\<close>, \<open>serve_loop_mono\<close>; \<open>serves\<close> is the loop without fuel and
  agrees with \<open>serve_loop\<close> at every fuel that is enough). Termination is proved and not assumed:
  a driver whose task hands out a finite queue needs one step more than the queue is long, the
  signal handler the number of queued signals and terminated children. The event loop itself is
  meant to run until it is told to stop. Calls between generated functions take a fuel of at
  most four, the depth of the three declarations.

  \<^bold>\<open>Not modelled.\<close>
  The encoding of tables as bytes by the \<^verbatim>\<open>flatbuffers\<close> crate (a pair of parameters, with the round
  trip as hypothesis), \<^verbatim>\<open>syn\<close> parsing of attribute values and the case conversion of \<^verbatim>\<open>heck\<close> (data and
  a parameter), spans, generics and lifetimes of generated code, option parsing by \<^verbatim>\<open>clap\<close>, logging
  and tracing (except the message after which the log of a subspecies has its descriptor again), the FFI declarations of \<^verbatim>\<open>libc_fill.rs\<close> (calls of the environment), the
  bindings of \<^verbatim>\<open>statslog\<close>, build scripts, the test application \<^verbatim>\<open>memmark\<close> and the tests (the
  audit of the review dates of allow lists is one of them), \<^verbatim>\<open>Display\<close> texts of errors and
  accessors without a computation. Descriptors after a child has failed half-way to becoming the
  server of a subspecies: \<^verbatim>\<open>Subspecies_Failure\<close> shows what happens when nothing was closed before.
\<close>

end
